(* ===== verification/Prelude.thy ===== *)
theory Prelude
  imports Main "HOL-Library.Word" "HOL-Library.Monad_Syntax"
begin

text \<open>
  Shared vocabulary of the development.

  Bytes are 8-bit words. Memory that C code reads through a pointer is a list of bytes
  together with an index, and a read outside the list is the value \<open>None\<close> of an option:
  throughout the development an outer \<open>None\<close> stands for undefined behaviour of the C
  program (a read outside an object, or of an indeterminate value), never for an error the
  program reports. Errors the program reports are ordinary result values.

  The outcome of \<open>malloc\<close> is not determined by the program. A value of type \<open>mem\<close> lists
  the outcomes of the coming requests (\<open>True\<close> for success); when the list is used up every
  later request succeeds. Each modelled function that allocates takes such a list and
  returns what is left of it.
\<close>

unbundle bit_operations_syntax

type_synonym byte = "8 word"
type_synonym mem = "bool list"

named_theorems at_simps \<open>where a byte string lies in a buffer\<close>
named_theorems read_rules \<open>what the readers return on an encoded value\<close>

subsection \<open>Reading memory\<close>

definition nth_opt :: "'a list \<Rightarrow> nat \<Rightarrow> 'a option" where
  "nth_opt xs i = (if i < length xs then Some (xs ! i) else None)"

lemma nth_opt_Some_iff: "nth_opt xs i = Some x \<longleftrightarrow> i < length xs \<and> xs ! i = x"
  by (auto simp: nth_opt_def)

lemma nth_opt_Nil [simp]: "nth_opt [] i = None"
  by (simp add: nth_opt_def)

lemma nth_opt_Cons_0 [simp]: "nth_opt (x # xs) 0 = Some x"
  by (simp add: nth_opt_def)

lemma nth_opt_Cons_Suc [simp]: "nth_opt (x # xs) (Suc i) = nth_opt xs i"
  by (simp add: nth_opt_def)

lemma nth_opt_Cons_numeral [simp]:
  "nth_opt (x # xs) (numeral n) = nth_opt xs (pred_numeral n)"
  by (simp add: numeral_eq_Suc)

lemma nth_opt_in: "i < length xs \<Longrightarrow> nth_opt xs i = Some (xs ! i)"
  by (simp add: nth_opt_def)

lemma nth_opt_append: "nth_opt (xs @ ys) i
    = (if i < length xs then nth_opt xs i else nth_opt ys (i - length xs))"
  by (auto simp: nth_opt_def nth_append)

lemma nth_opt_drop: "nth_opt bs (p + j) = nth_opt (drop p bs) j"
  by (auto simp: nth_opt_def)

subsection \<open>A byte string at a position of a buffer\<close>

definition lies_at :: "'a list \<Rightarrow> nat \<Rightarrow> 'a list \<Rightarrow> bool" where
  "lies_at bs p ys \<longleftrightarrow> p + length ys \<le> length bs \<and> take (length ys) (drop p bs) = ys"

lemma lies_at_Nil [at_simps]: "lies_at bs p [] \<longleftrightarrow> p \<le> length bs"
  by (simp add: lies_at_def)

lemma lies_at_append [at_simps]:
  "lies_at bs p (xs @ ys) \<longleftrightarrow> lies_at bs p xs \<and> lies_at bs (p + length xs) ys"
  by (auto simp: lies_at_def take_add drop_drop add.commute append_eq_append_conv
      dest: arg_cong[of _ _ length])

lemma lies_at_Cons [at_simps]:
  "lies_at bs p (x # xs) \<longleftrightarrow> nth_opt bs p = Some x \<and> lies_at bs (Suc p) xs"
proof -
  have "lies_at bs p [x] \<longleftrightarrow> nth_opt bs p = Some x"
    by (auto simp: lies_at_def nth_opt_def take_Suc_conv_app_nth hd_drop_conv_nth
        simp flip: Cons_nth_drop_Suc)
  then show ?thesis
    using lies_at_append[of bs p "[x]" xs] by simp
qed

lemma lies_at_bound: "lies_at bs p ys \<Longrightarrow> p + length ys \<le> length bs"
  by (simp add: lies_at_def)

lemma lies_at_take: "lies_at bs p ys \<Longrightarrow> take (length ys) (drop p bs) = ys"
  by (simp add: lies_at_def)

lemma lies_at_prefix [simp]: "lies_at (xs @ ys @ zs) (length xs) ys"
  by (simp add: lies_at_def)

lemma lies_at_0 [simp]: "lies_at (ys @ zs) 0 ys"
  by (simp add: lies_at_def)

lemma lies_at_self [simp]: "lies_at ys 0 ys"
  by (simp add: lies_at_def)

subsection \<open>Allocation\<close>

fun malloc :: "mem \<Rightarrow> bool \<times> mem" where
  "malloc [] = (True, [])"
| "malloc (b # m) = (b, m)"

lemma malloc_all_ok: "list_all (\<lambda>b. b) m \<Longrightarrow> fst (malloc m) \<and> list_all (\<lambda>b. b) (snd (malloc m))"
  by (cases m) auto

subsection \<open>C integer conversions\<close>

text \<open>Conversion to a 32-bit two's complement \<open>int\<close>.\<close>

definition to_int32 :: "int \<Rightarrow> int" where
  "to_int32 i = signed_take_bit 31 i"

lemma to_int32_id: "- (2 ^ 31) \<le> i \<Longrightarrow> i < 2 ^ 31 \<Longrightarrow> to_int32 i = i"
  by (simp add: to_int32_def signed_take_bit_int_eq_self)

lemma to_int32_nat: "0 \<le> i \<Longrightarrow> i < 2147483648 \<Longrightarrow> to_int32 i = i"
  by (rule to_int32_id) simp_all

text \<open>Bytes as numbers.\<close>

lemma unat_byte_lt [simp]: "unat (b :: byte) < 256"
  using unsigned_less[of b] by simp

lemma unat_byte_of_nat: "n < 256 \<Longrightarrow> unat (of_nat n :: byte) = n"
  by (simp add: unat_of_nat)

lemma byte_eq_iff: "(a :: byte) = b \<longleftrightarrow> unat a = unat b"
  by (simp add: word_unat_eq_iff)

text \<open>
  A property of every byte, checked on the 256 bytes: apply the first rule, then rewrite
  with the second.
\<close>

lemma byte_exhaust:
  assumes "\<forall>h < 16. \<forall>l < 16. P (of_nat (16 * h + l) :: byte)"
  shows "P b"
proof -
  have "unat b div 16 < 16" "unat b mod 16 < 16"
    using unat_byte_lt[of b] by (simp_all add: less_mult_imp_div_less)
  with assms have "P (of_nat (16 * (unat b div 16) + unat b mod 16))" by blast
  then show ?thesis by simp
qed

lemma less_16: "(\<forall>i < 16 :: nat. P i) \<longleftrightarrow>
  P 0 \<and> P 1 \<and> P 2 \<and> P 3 \<and> P 4 \<and> P 5 \<and> P 6 \<and> P 7 \<and>
  P 8 \<and> P 9 \<and> P 10 \<and> P 11 \<and> P 12 \<and> P 13 \<and> P 14 \<and> P 15"
  by (simp only: numeral_eq_Suc pred_numeral_simps BitM.simps One_nat_def All_less_Suc) auto

lemma sint_byte: "sint (b :: byte) = (if unat b < 128 then int (unat b) else int (unat b) - 256)"
  by (rule byte_exhaust[of _ b]) (simp add: less_16)

end
