(* ===== verification/Utf8.thy ===== *)
theory Utf8
  imports Prelude
begin

text \<open>
  The UTF-8 checker of \<^verbatim>\<open>src/utf-8.c\<close>: the table of valid byte ranges, the validation of
  one character and the validation loop. The abstract specification is the Unicode encoding
  itself: a byte string is accepted exactly when it is the concatenation of the encodings of
  Unicode scalar values.
\<close>

record valid_range =
  vr_len :: nat
  vr_bytes :: "(byte \<times> byte) list"

definition valid_ranges :: "valid_range list" where
  "valid_ranges =
   [\<lparr>vr_len = 1, vr_bytes = [(0x00, 0x7F)]\<rparr>,
    \<lparr>vr_len = 2, vr_bytes = [(0xC2, 0xDF), (0x80, 0xBF)]\<rparr>,
    \<lparr>vr_len = 3, vr_bytes = [(0xE0, 0xE0), (0xA0, 0xBF), (0x80, 0xBF)]\<rparr>,
    \<lparr>vr_len = 3, vr_bytes = [(0xE1, 0xEC), (0x80, 0xBF), (0x80, 0xBF)]\<rparr>,
    \<lparr>vr_len = 3, vr_bytes = [(0xED, 0xED), (0x80, 0x9F), (0x80, 0xBF)]\<rparr>,
    \<lparr>vr_len = 3, vr_bytes = [(0xEE, 0xEF), (0x80, 0xBF), (0x80, 0xBF)]\<rparr>,
    \<lparr>vr_len = 4, vr_bytes = [(0xF0, 0xF0), (0x90, 0xBF), (0x80, 0xBF), (0x80, 0xBF)]\<rparr>,
    \<lparr>vr_len = 4, vr_bytes = [(0xF1, 0xF3), (0x80, 0xBF), (0x80, 0xBF), (0x80, 0xBF)]\<rparr>,
    \<lparr>vr_len = 4, vr_bytes = [(0xF4, 0xF4), (0x80, 0x8F), (0x80, 0xBF), (0x80, 0xBF)]\<rparr>]"

text \<open>
  The comparisons are between values of type \<open>char\<close>, whose signedness the C standard
  leaves to the platform: \<open>sc\<close> says whether it is signed.
\<close>

definition char_less :: "bool \<Rightarrow> byte \<Rightarrow> byte \<Rightarrow> bool" where
  "char_less sc a b = (if sc then sint a < sint b else uint a < uint b)"

text \<open>The loop over the bytes of one character against one row of the table.\<close>

function check_bytes :: "bool \<Rightarrow> (byte \<times> byte) list \<Rightarrow> nat \<Rightarrow> byte list \<Rightarrow> nat \<Rightarrow> nat \<Rightarrow> bool option"
where
  "check_bytes sc row charlen bs p j =
     (if j < charlen then do {
        b \<leftarrow> nth_opt bs (p + j);
        r \<leftarrow> nth_opt row j;
        if char_less sc b (fst r) \<or> char_less sc (snd r) b then Some False
        else check_bytes sc row charlen bs p (Suc j)
      } else Some True)"
  by pat_completeness auto
termination
  by (relation "measure (\<lambda>(sc, row, charlen, bs, p, j). charlen - j)") auto

declare check_bytes.simps [simp del]

text \<open>The loop over the rows: the first row of the right length that matches ends it.\<close>

fun scan_rows :: "bool \<Rightarrow> valid_range list \<Rightarrow> nat \<Rightarrow> byte list \<Rightarrow> nat \<Rightarrow> bool option" where
  "scan_rows sc [] charlen bs p = Some False"
| "scan_rows sc (r # rs) charlen bs p =
     (if vr_len r = charlen then do {
        good \<leftarrow> check_bytes sc (vr_bytes r) charlen bs p 0;
        if good then Some True else scan_rows sc rs charlen bs p
      } else scan_rows sc rs charlen bs p)"

definition UTF8_charlen :: "byte \<Rightarrow> nat" where
  "UTF8_charlen b =
     (if b AND 128 = 0 then 1
      else if b AND 0xF0 = 0xF0 then 4
      else if b AND 0xE0 = 0xE0 then 3
      else 2)"

text \<open>
  \<open>UTF8_char_validate\<close>: \<open>data\<close> is the memory the pointer belongs to (\<open>None\<close> for a null
  pointer) and \<open>p\<close> the position it points at. The result is the pointer to the next
  character, or \<open>None\<close> for null.
\<close>

definition UTF8_char_validate ::
  "bool \<Rightarrow> int \<Rightarrow> byte list option \<Rightarrow> nat \<Rightarrow> nat option option" where
  "UTF8_char_validate sc len data p =
     (case data of
        None \<Rightarrow> Some None
      | Some bs \<Rightarrow> do {
          b0 \<leftarrow> nth_opt bs p;
          let charlen = UTF8_charlen b0;
          if int charlen > len then Some None
          else do {
            good \<leftarrow> scan_rows sc valid_ranges charlen bs p;
            Some (if good then Some (p + charlen) else None)
          }
        })"

lemma UTF8_charlen_pos: "0 < UTF8_charlen b"
  by (simp add: UTF8_charlen_def)

lemma UTF8_char_validate_progress:
  "UTF8_char_validate sc len data p = Some (Some q) \<Longrightarrow> p < q"
  by (auto simp: UTF8_char_validate_def Let_def UTF8_charlen_pos
      split: option.splits if_splits bind_splits)

text \<open>The \<open>while\<close> loop of \<open>UTF8_validate\<close>, started at a non-null pointer.\<close>

function UTF8_loop :: "bool \<Rightarrow> int \<Rightarrow> byte list option \<Rightarrow> nat \<Rightarrow> nat option option" where
  "UTF8_loop sc len data cur =
     (if int cur < len then
        (case UTF8_char_validate sc (len - int cur) data cur of
           None \<Rightarrow> None
         | Some None \<Rightarrow> Some None
         | Some (Some q) \<Rightarrow> UTF8_loop sc len data q)
      else Some (Some cur))"
  by pat_completeness auto
termination
  by (relation "measure (\<lambda>(sc, len, data, cur). nat (len - int cur))")
    (auto dest: UTF8_char_validate_progress)

declare UTF8_loop.simps [simp del]

definition UTF8_validate :: "bool \<Rightarrow> int \<Rightarrow> byte list option \<Rightarrow> bool option" where
  "UTF8_validate sc len data =
     (if len = 0 \<or> data = None then Some True
      else do {
        first \<leftarrow> UTF8_char_validate sc len data 0;
        last \<leftarrow> (case first of None \<Rightarrow> Some None | Some q \<Rightarrow> UTF8_loop sc len data q);
        Some (last \<noteq> None)
      })"

text \<open>The length of the C string that starts a memory block, if the block has a terminator.\<close>

definition strlen_opt :: "byte list \<Rightarrow> nat option" where
  "strlen_opt bs = (if 0 \<in> set bs then Some (length (takeWhile (\<lambda>b. b \<noteq> 0) bs)) else None)"

definition UTF8_validateString :: "bool \<Rightarrow> byte list option \<Rightarrow> bool option" where
  "UTF8_validateString sc str =
     (case str of
        None \<Rightarrow> Some False
      | Some bs \<Rightarrow> do {
          n \<leftarrow> strlen_opt bs;
          UTF8_validate sc (to_int32 (int n)) (Some bs)
        })"

subsection \<open>The table and its rows\<close>

lemma charlen_cases:
  "UTF8_charlen b =
    (if unat b < 0x80 then 1 else if 0xF0 \<le> unat b then 4 else if 0xE0 \<le> unat b then 3 else 2)"
  by (rule byte_exhaust[of _ b]) (simp add: less_16 UTF8_charlen_def)

lemma char_less_unat:
  "char_less sc a b = (if sc \<and> (unat a < 128) \<noteq> (unat b < 128) then unat b < 128 else unat a < unat b)"
proof -
  have "uint a < 256" "uint b < 256"
    using unsigned_less[of a, where 'a = int] unsigned_less[of b, where 'a = int] by simp_all
  then show ?thesis
    by (auto simp: char_less_def sint_byte word_less_nat_alt[symmetric] word_less_def[symmetric])
      (use uint_ge_0[of a] uint_ge_0[of b] in linarith)+
qed

definition in_range :: "byte \<times> byte \<Rightarrow> byte \<Rightarrow> bool" where
  "in_range r b \<longleftrightarrow> unat (fst r) \<le> unat b \<and> unat b \<le> unat (snd r)"

lemma not_char_less_high:
  "128 \<le> unat (fst r) \<or> fst r = 0 \<and> unat (snd r) = 127 \<Longrightarrow> 128 \<le> unat (snd r) \<or> fst r = 0 \<and> unat (snd r) = 127 \<Longrightarrow>
   (\<not> char_less sc b (fst r) \<and> \<not> char_less sc (snd r) b) = in_range r b"
  by (auto simp: char_less_unat in_range_def split: if_splits)

definition row_wf :: "(byte \<times> byte) list \<Rightarrow> bool" where
  "row_wf row \<longleftrightarrow> (\<forall>r \<in> set row.
     (128 \<le> unat (fst r) \<and> 128 \<le> unat (snd r)) \<or> (fst r = 0 \<and> unat (snd r) = 127))"

lemma check_bytes_eq:
  "row_wf row \<Longrightarrow> charlen = length row \<Longrightarrow> p + charlen \<le> length bs \<Longrightarrow>
   check_bytes sc row charlen bs p j
   = Some (\<forall>i. j \<le> i \<and> i < charlen \<longrightarrow> in_range (row ! i) (bs ! (p + i)))"
proof (induction sc row charlen bs p j rule: check_bytes.induct)
  case (1 sc row charlen bs p j)
  show ?case
  proof (cases "j < charlen")
    case False
    then show ?thesis by (subst check_bytes.simps) auto
  next
    case True
    have n: "nth_opt bs (p + j) = Some (bs ! (p + j))" "nth_opt row j = Some (row ! j)"
      using True "1.prems" by (auto simp: nth_opt_def)
    have "row ! j \<in> set row" using True "1.prems" by simp
    then have r: "(\<not> char_less sc b (fst (row ! j)) \<and> \<not> char_less sc (snd (row ! j)) b)
        = in_range (row ! j) b" for b
      using "1.prems"(1) by (intro not_char_less_high) (auto simp: row_wf_def)
    have split: "(\<forall>i. j \<le> i \<and> i < charlen \<longrightarrow> Q i) = (Q j \<and> (\<forall>i. Suc j \<le> i \<and> i < charlen \<longrightarrow> Q i))" for Q
      using True by (metis Suc_leD Suc_leI le_neq_implies_less order_refl)
    show ?thesis
    proof (cases "in_range (row ! j) (bs ! (p + j))")
      case False
      then show ?thesis
        using True n r[of "bs ! (p + j)"] by (subst check_bytes.simps) (auto simp: split)
    next
      case in_r: True
      have "check_bytes sc row charlen bs p (Suc j)
        = Some (\<forall>i. Suc j \<le> i \<and> i < charlen \<longrightarrow> in_range (row ! i) (bs ! (p + i)))"
        using "1.IH"[OF True n(1) n(2)] r[of "bs ! (p + j)"] in_r "1.prems" by auto
      then show ?thesis
        using True n r[of "bs ! (p + j)"] in_r by (subst check_bytes.simps) (simp add: split)
    qed
  qed
qed

definition bytes_fit :: "byte list \<Rightarrow> nat \<Rightarrow> valid_range \<Rightarrow> bool" where
  "bytes_fit bs p r \<longleftrightarrow> list_all2 in_range (vr_bytes r) (take (vr_len r) (drop p bs))"

lemma bytes_fit_nth:
  "vr_len r = length (vr_bytes r) \<Longrightarrow> p + vr_len r \<le> length bs \<Longrightarrow>
   bytes_fit bs p r \<longleftrightarrow> (\<forall>i < vr_len r. in_range (vr_bytes r ! i) (bs ! (p + i)))"
  by (simp add: bytes_fit_def list_all2_conv_all_nth)

lemma scan_rows_eq:
  "\<forall>r \<in> set rs. row_wf (vr_bytes r) \<and> vr_len r = length (vr_bytes r) \<Longrightarrow> p + charlen \<le> length bs \<Longrightarrow>
   scan_rows sc rs charlen bs p
   = Some (\<exists>r \<in> set rs. vr_len r = charlen \<and> bytes_fit bs p r)"
proof (induction rs)
  case (Cons r rs)
  then show ?case
    by (auto simp: check_bytes_eq bytes_fit_nth)
qed simp

lemma valid_ranges_wf: "\<forall>r \<in> set valid_ranges. row_wf (vr_bytes r) \<and> vr_len r = length (vr_bytes r)"
  by (simp add: valid_ranges_def row_wf_def)

lemma UTF8_char_validate_in:
  assumes "p < n" "n \<le> length bs"
  shows "UTF8_char_validate sc (int n - int p) (Some bs) p =
    (let k = UTF8_charlen (bs ! p) in
     Some (if p + k \<le> n \<and> (\<exists>r \<in> set valid_ranges. vr_len r = k \<and> bytes_fit bs p r)
           then Some (p + k) else None))"
proof (cases "p + UTF8_charlen (bs ! p) \<le> n")
  case True
  with assms have "p + UTF8_charlen (bs ! p) \<le> length bs" by simp
  then have "scan_rows sc valid_ranges (UTF8_charlen (bs ! p)) bs p
    = Some (\<exists>r \<in> set valid_ranges. vr_len r = UTF8_charlen (bs ! p) \<and> bytes_fit bs p r)"
    by (rule scan_rows_eq[OF valid_ranges_wf])
  then show ?thesis
    using assms True by (simp add: UTF8_char_validate_def nth_opt_def Let_def)
next
  case False
  then show ?thesis
    using assms by (auto simp: UTF8_char_validate_def nth_opt_def Let_def)
qed

definition utf8_scalar :: "nat \<Rightarrow> bool" where
  "utf8_scalar c \<longleftrightarrow> c < 0xD800 \<or> (0xE000 \<le> c \<and> c < 0x110000)"

definition utf8_encode :: "nat \<Rightarrow> byte list" where
  "utf8_encode c =
     (if c < 0x80 then [of_nat c]
      else if c < 0x800 then [of_nat (0xC0 + c div 64), of_nat (0x80 + c mod 64)]
      else if c < 0x10000 then
        [of_nat (0xE0 + c div 4096), of_nat (0x80 + c div 64 mod 64), of_nat (0x80 + c mod 64)]
      else [of_nat (0xF0 + c div 262144), of_nat (0x80 + c div 4096 mod 64),
            of_nat (0x80 + c div 64 mod 64), of_nat (0x80 + c mod 64)])"

definition head_char :: "byte list \<Rightarrow> nat option" where
  "head_char xs =
    (let n = UTF8_charlen (xs ! 0) in
       if n \<le> length xs \<and> (\<exists>r \<in> set valid_ranges. vr_len r = n \<and> bytes_fit xs 0 r)
       then Some n else None)"


lemma split_base64:
  fixes c :: nat
  shows "c div 4096 * 4096 + c div 64 mod 64 * 64 + c mod 64 = c"
    and "c div 262144 * 262144 + c div 4096 mod 64 * 4096 + c div 64 mod 64 * 64 + c mod 64 = c"
proof -
  have *: "c div 4096 = c div 64 div 64" "c div 262144 = c div 64 div 64 div 64"
    by (simp_all flip: div_mult2_eq)
  have "c div 64 * 64 + c mod 64 = c" "c div 64 div 64 * 64 + c div 64 mod 64 = c div 64"
    "c div 64 div 64 div 64 * 64 + c div 64 div 64 mod 64 = c div 64 div 64"
    by simp_all
  then show "c div 4096 * 4096 + c div 64 mod 64 * 64 + c mod 64 = c"
    and "c div 262144 * 262144 + c div 4096 mod 64 * 4096 + c div 64 mod 64 * 64 + c mod 64 = c"
    unfolding * by linarith+
qed

lemmas head_char_simps = head_char_def Let_def charlen_cases valid_ranges_def bytes_fit_def
  in_range_def unat_byte_of_nat

lemma head_char_encode:
  assumes "utf8_scalar c"
  shows "head_char (utf8_encode c @ rest) = Some (length (utf8_encode c))"
proof -
  consider "c < 0x80" | "0x80 \<le> c" "c < 0x800" | "0x800 \<le> c" "c < 0x10000" | "0x10000 \<le> c" "c < 0x110000"
    using assms by (fastforce simp: utf8_scalar_def)
  then show ?thesis
  proof cases
    case 1
    then show ?thesis by (simp add: utf8_encode_def head_char_simps del: of_nat_add)
  next
    case 2
    have "c div 64 < 32" "2 \<le> c div 64" using 2 by simp_all
    with 2 show ?thesis by (simp add: utf8_encode_def head_char_simps del: of_nat_add)
  next
    case 3
    define d where "d = c div 4096"
    define e where "e = c div 64 mod 64"
    define f where "f = c mod 64"
    have enc: "utf8_encode c = [of_nat (0xE0 + d), of_nat (0x80 + e), of_nat (0x80 + f)]"
      using 3 by (simp add: utf8_encode_def d_def e_def f_def)
    have c: "d * 4096 + e * 64 + f = c"
      by (simp add: d_def e_def f_def split_base64)
    have b: "e < 64" "f < 64" "d < 16"
      using 3 by (simp_all add: d_def e_def f_def)
    have "d = 0 \<longrightarrow> 32 \<le> e" "d = 13 \<longrightarrow> e < 32"
      using 3 c b assms unfolding utf8_scalar_def by linarith+
    with b show ?thesis
      unfolding enc by (auto simp: head_char_simps simp del: of_nat_add)
  next
    case 4
    define g where "g = c div 262144"
    define d where "d = c div 4096 mod 64"
    define e where "e = c div 64 mod 64"
    define f where "f = c mod 64"
    have enc: "utf8_encode c =
        [of_nat (0xF0 + g), of_nat (0x80 + d), of_nat (0x80 + e), of_nat (0x80 + f)]"
      using 4 by (simp add: utf8_encode_def g_def d_def e_def f_def)
    have c: "g * 262144 + d * 4096 + e * 64 + f = c"
      by (simp add: g_def d_def e_def f_def split_base64)
    have b: "d < 64" "e < 64" "f < 64" "g < 5"
      using 4 by (simp_all add: g_def d_def e_def f_def)
    have "g = 0 \<longrightarrow> 16 \<le> d" "g = 4 \<longrightarrow> d < 16"
      using 4 c b by linarith+
    with b show ?thesis
      unfolding enc by (auto simp: head_char_simps simp del: of_nat_add)
  qed
qed

lemma encode_1: "c < 128 \<Longrightarrow> utf8_encode c = [of_nat c]"
  by (simp add: utf8_encode_def)

lemma encode_2:
  assumes "2 \<le> x" "x < 32" "y < 64"
  shows "utf8_encode (x * 64 + y) = [of_nat (0xC0 + x), of_nat (0x80 + y)]"
proof -
  have "(x * 64 + y) div 64 = x" "(x * 64 + y) mod 64 = y"
    using assms by simp_all
  with assms show ?thesis by (simp add: utf8_encode_def)
qed

lemma encode_3:
  assumes "d < 16" "e < 64" "f < 64" "2048 \<le> d * 4096 + e * 64 + f"
  shows "utf8_encode (d * 4096 + e * 64 + f) = [of_nat (0xE0 + d), of_nat (0x80 + e), of_nat (0x80 + f)]"
proof -
  let ?c = "d * 4096 + e * 64 + f"
  have "?c div 4096 = d" "?c div 64 = d * 64 + e" "?c mod 64 = f" "(d * 64 + e) mod 64 = e"
    using assms by (auto intro!: div_nat_eqI mod_nat_eqI)
  moreover have "\<not> ?c < 128" "\<not> ?c < 2048" "?c < 65536"
    using assms by auto
  ultimately show ?thesis unfolding utf8_encode_def by simp
qed

lemma encode_4:
  assumes "g < 5" "d < 64" "e < 64" "f < 64" "65536 \<le> g * 262144 + d * 4096 + e * 64 + f"
  shows "utf8_encode (g * 262144 + d * 4096 + e * 64 + f)
    = [of_nat (0xF0 + g), of_nat (0x80 + d), of_nat (0x80 + e), of_nat (0x80 + f)]"
proof -
  let ?c = "g * 262144 + d * 4096 + e * 64 + f"
  have "?c div 262144 = g" "?c div 4096 = g * 64 + d" "?c div 64 = g * 4096 + d * 64 + e" "?c mod 64 = f"
    "(g * 64 + d) mod 64 = d" "(g * 4096 + d * 64 + e) mod 64 = e"
    using assms by (auto intro!: div_nat_eqI mod_nat_eqI)
  moreover have "\<not> ?c < 128" "\<not> ?c < 2048" "\<not> ?c < 65536"
    using assms by auto
  ultimately show ?thesis unfolding utf8_encode_def by simp
qed

text \<open>The bytes of a well-formed sequence are an offset from the lower end of their range.\<close>

lemma byte_offset: "lo \<le> unat b \<Longrightarrow> of_nat (lo + (unat b - lo)) = (b :: byte)"
  by simp

lemma list_all2_take_Cons:
  "list_all2 P (r # rs) (take (numeral n) xs)
    \<longleftrightarrow> (\<exists>y ys. xs = y # ys \<and> P r y \<and> list_all2 P rs (take (pred_numeral n) ys))"
  "list_all2 P (r # rs) (take (Suc 0) xs)
    \<longleftrightarrow> (\<exists>y ys. xs = y # ys \<and> P r y \<and> rs = [])"
  by (cases xs; auto simp: numeral_eq_Suc)+

lemma decode_1:
  assumes "unat b < 128"
  shows "\<exists>c. utf8_scalar c \<and> [b] = utf8_encode c"
  using assms by (intro exI[of _ "unat b"]) (simp add: encode_1 utf8_scalar_def)

lemma decode_2:
  assumes "0xC2 \<le> unat b0" "unat b0 \<le> 0xDF" "0x80 \<le> unat b1" "unat b1 \<le> 0xBF"
  shows "\<exists>c. utf8_scalar c \<and> [b0, b1] = utf8_encode c"
proof -
  let ?x = "unat b0 - 0xC0" and ?y = "unat b1 - 0x80"
  have "utf8_encode (?x * 64 + ?y) = [b0, b1]"
    by (subst encode_2) (use assms in \<open>auto simp: byte_offset simp del: of_nat_add\<close>)
  moreover have "utf8_scalar (?x * 64 + ?y)"
    using assms unfolding utf8_scalar_def by auto
  ultimately show ?thesis by metis
qed

lemma decode_3:
  assumes "0xE0 \<le> unat b0" "unat b0 \<le> 0xEF" "0x80 \<le> unat b1" "unat b1 \<le> 0xBF"
    "0x80 \<le> unat b2" "unat b2 \<le> 0xBF"
    "unat b0 = 0xE0 \<longrightarrow> 0xA0 \<le> unat b1" "unat b0 = 0xED \<longrightarrow> unat b1 < 0xA0"
  shows "\<exists>c. utf8_scalar c \<and> [b0, b1, b2] = utf8_encode c"
proof -
  define d e f where "d = unat b0 - 0xE0" and "e = unat b1 - 0x80" and "f = unat b2 - 0x80"
  have *: "unat b0 = 0xE0 + d" "unat b1 = 0x80 + e" "unat b2 = 0x80 + f"
    using assms by (auto simp: d_def e_def f_def)
  have b: "d < 16" "e < 64" "f < 64" "d = 0 \<longrightarrow> 32 \<le> e" "d = 13 \<longrightarrow> e < 32"
    using assms unfolding * by auto
  then have "2048 \<le> d * 4096 + e * 64 + f" by (cases "d = 0") auto
  with b have "utf8_encode (d * 4096 + e * 64 + f) = [b0, b1, b2]"
    by (simp add: encode_3 byte_eq_iff * unat_byte_of_nat del: of_nat_add)
  moreover have "utf8_scalar (d * 4096 + e * 64 + f)"
    using b unfolding utf8_scalar_def by (cases "d < 13"; cases "d = 13") auto
  ultimately show ?thesis by metis
qed

lemma decode_4:
  assumes "0xF0 \<le> unat b0" "unat b0 \<le> 0xF4" "0x80 \<le> unat b1" "unat b1 \<le> 0xBF"
    "0x80 \<le> unat b2" "unat b2 \<le> 0xBF" "0x80 \<le> unat b3" "unat b3 \<le> 0xBF"
    "unat b0 = 0xF0 \<longrightarrow> 0x90 \<le> unat b1" "unat b0 = 0xF4 \<longrightarrow> unat b1 < 0x90"
  shows "\<exists>c. utf8_scalar c \<and> [b0, b1, b2, b3] = utf8_encode c"
proof -
  define g d e f where "g = unat b0 - 0xF0" and "d = unat b1 - 0x80"
    and "e = unat b2 - 0x80" and "f = unat b3 - 0x80"
  have *: "unat b0 = 0xF0 + g" "unat b1 = 0x80 + d" "unat b2 = 0x80 + e" "unat b3 = 0x80 + f"
    using assms by (auto simp: g_def d_def e_def f_def)
  have b: "g < 5" "d < 64" "e < 64" "f < 64" "g = 0 \<longrightarrow> 16 \<le> d" "g = 4 \<longrightarrow> d < 16"
    using assms unfolding * by auto
  then have "65536 \<le> g * 262144 + d * 4096 + e * 64 + f" by (cases "g = 0") auto
  with b have "utf8_encode (g * 262144 + d * 4096 + e * 64 + f) = [b0, b1, b2, b3]"
    by (simp add: encode_4 byte_eq_iff * unat_byte_of_nat del: of_nat_add)
  moreover have "utf8_scalar (g * 262144 + d * 4096 + e * 64 + f)"
    using b \<open>65536 \<le> _\<close> unfolding utf8_scalar_def by linarith
  ultimately show ?thesis by metis
qed

lemma head_char_decode:
  assumes "head_char xs = Some n"
  shows "\<exists>c. utf8_scalar c \<and> take n xs = utf8_encode c"
proof -
  obtain r where "r \<in> set valid_ranges" "vr_len r = n" "bytes_fit xs 0 r"
    using assms by (auto simp: head_char_def Let_def split: if_splits)
  then show ?thesis
    by (auto simp: valid_ranges_def bytes_fit_def list_all2_take_Cons in_range_def
        intro!: decode_1 decode_2 decode_3 decode_4)
qed

definition utf8_well_formed :: "byte list \<Rightarrow> bool" where
  "utf8_well_formed bs \<longleftrightarrow> (\<exists>cs. list_all utf8_scalar cs \<and> bs = concat (map utf8_encode cs))"

lemma utf8_encode_nonempty: "utf8_encode c \<noteq> []"
  by (simp add: utf8_encode_def)

lemma utf8_well_formed_Nil: "utf8_well_formed []"
  unfolding utf8_well_formed_def by (rule exI[of _ "[]"]) simp

lemma utf8_well_formed_step:
  assumes "xs \<noteq> []"
  shows "utf8_well_formed xs \<longleftrightarrow> (\<exists>n. head_char xs = Some n \<and> utf8_well_formed (drop n xs))"
proof
  assume "utf8_well_formed xs"
  then obtain cs where cs: "list_all utf8_scalar cs" "xs = concat (map utf8_encode cs)"
    by (auto simp: utf8_well_formed_def)
  with assms obtain c cs' where "cs = c # cs'" by (cases cs) auto
  with cs show "\<exists>n. head_char xs = Some n \<and> utf8_well_formed (drop n xs)"
    by (auto simp: head_char_encode utf8_well_formed_def)
next
  assume "\<exists>n. head_char xs = Some n \<and> utf8_well_formed (drop n xs)"
  then obtain n c cs where "utf8_scalar c" "take n xs = utf8_encode c"
    "list_all utf8_scalar cs" "drop n xs = concat (map utf8_encode cs)"
    using head_char_decode by (fastforce simp: utf8_well_formed_def)
  then have "list_all utf8_scalar (c # cs)" "xs = concat (map utf8_encode (c # cs))"
    using append_take_drop_id[of n xs] by simp_all
  then show "utf8_well_formed xs" unfolding utf8_well_formed_def by blast
qed

lemma UTF8_char_validate_head:
  assumes "p < n" "n \<le> length bs"
  shows "UTF8_char_validate sc (int n - int p) (Some bs) p
    = Some (map_option (\<lambda>k. p + k) (head_char (drop p (take n bs))))"
  using assms
  by (auto simp: UTF8_char_validate_in head_char_def Let_def bytes_fit_def drop_take min_def
      intro: bexI split: if_splits)

lemma head_char_bound: "head_char xs = Some n \<Longrightarrow> n \<le> length xs"
  by (auto simp: head_char_def Let_def split: if_splits)

lemma UTF8_loop_correct:
  "p \<le> n \<Longrightarrow> n \<le> length bs \<Longrightarrow>
   \<exists>r. UTF8_loop sc (int n) (Some bs) p = Some r
     \<and> (r \<noteq> None \<longleftrightarrow> utf8_well_formed (drop p (take n bs)))"
proof (induction "n - p" arbitrary: p rule: less_induct)
  case less
  show ?case
  proof (cases "p < n")
    case False
    with less.prems show ?thesis
      by (subst UTF8_loop.simps) (simp add: utf8_well_formed_Nil)
  next
    case True
    note head = UTF8_char_validate_head[OF True less.prems(2), of sc]
    have "drop p (take n bs) \<noteq> []" using True less.prems by simp
    note step = utf8_well_formed_step[OF this]
    show ?thesis
    proof (cases "head_char (drop p (take n bs))")
      case None
      with True step head show ?thesis
        by (subst UTF8_loop.simps) simp
    next
      case (Some k)
      have pos: "p < p + k"
        using head Some by (intro UTF8_char_validate_progress) simp
      have bound: "p + k \<le> n" using head_char_bound[OF Some] True less.prems by simp
      have "n - (p + k) < n - p" using pos bound by simp
      from less.hyps[OF this bound less.prems(2)] Some True step head show ?thesis
        by (subst UTF8_loop.simps) (simp add: add.commute)
    qed
  qed
qed

lemma UTF8_validate_take:
  assumes "n \<le> length bs"
  shows "UTF8_validate sc (int n) (Some bs) = Some (utf8_well_formed (take n bs))"
proof (cases "n = 0")
  case False
  then have n: "0 < n" by simp
  obtain r where r: "UTF8_loop sc (int n) (Some bs) 0 = Some r"
    "r \<noteq> None \<longleftrightarrow> utf8_well_formed (take n bs)"
    using UTF8_loop_correct[of 0 n bs sc] assms by auto
  have "UTF8_loop sc (int n) (Some bs) 0 = do {
      q \<leftarrow> UTF8_char_validate sc (int n) (Some bs) 0;
      (case q of None \<Rightarrow> Some None | Some q \<Rightarrow> UTF8_loop sc (int n) (Some bs) q)}"
    using n by (subst UTF8_loop.simps) (auto split: option.splits bind_splits)
  with r False show ?thesis
    by (auto simp: UTF8_validate_def split: bind_splits)
qed (simp add: UTF8_validate_def utf8_well_formed_Nil)

text \<open>
  C13: \<open>UTF8_validate\<close> never reads outside the given bytes and returns true exactly for the byte
  strings that are the concatenation of the UTF-8 encodings of Unicode scalar values, on
  platforms with signed and with unsigned \<open>char\<close> alike.
\<close>

theorem UTF8_validate_correct:
  "UTF8_validate sc (int (length bs)) (Some (bs @ rest)) = Some (utf8_well_formed bs)"
  using UTF8_validate_take[of "length bs" "bs @ rest"] by simp

text \<open>
  C31: \<open>UTF8_validateString\<close> judges exactly the characters before the terminator of a C string
  whose length is an \<open>int\<close>.
\<close>

theorem UTF8_validateString_correct:
  assumes "0 \<notin> set s" and "int (length s) < 2 ^ 31"
  shows "UTF8_validateString sc (Some (s @ 0 # rest)) = Some (utf8_well_formed s)"
proof -
  have "takeWhile (\<lambda>b. b \<noteq> 0) (s @ 0 # rest) = s"
    using assms(1) by (subst takeWhile_append2) auto
  then have "strlen_opt (s @ 0 # rest) = Some (length s)"
    by (simp add: strlen_opt_def)
  with assms(2) UTF8_validate_take[of "length s" "s @ 0 # rest" sc] show ?thesis
    by (simp add: UTF8_validateString_def to_int32_id)
qed

theorem UTF8_validateString_correct_witness:
  "UTF8_validateString True (Some [0xC3, 0xA9, 0, 0xFF]) = Some (utf8_well_formed [0xC3, 0xA9])"
  using UTF8_validateString_correct[of "[0xC3, 0xA9]" True "[0xFF]"] by simp

end
