(* ===== verification/Linked_List.thy ===== *)
theory Linked_List
  imports Prelude
begin

text \<open>
  The doubly linked lists of \<^verbatim>\<open>src/LinkedList.c\<close> on an explicit heap of list elements, and
  their refinement to HOL lists.

  A heap maps addresses to list elements; reading an address that holds no element (a null or
  a dangling pointer) is undefined behaviour, the outer \<open>None\<close>. A list element's content is a
  value of any type: the functions of this file only compare contents, through the callback
  or as pointers, so the comparison is a predicate on contents. Freeing the content is the
  caller's business here: the removed content is returned.
\<close>

subsection \<open>Data\<close>

type_synonym ptr = "nat option"

record 'c ListElement =
  el_prev :: ptr
  el_next :: ptr
  el_content :: 'c

record List =
  l_first :: ptr
  l_last :: ptr
  l_current :: ptr
  l_count :: int
  l_size :: nat

type_synonym 'c heap = "nat \<Rightarrow> 'c ListElement option"

text \<open>Access through a pointer.\<close>

definition deref :: "'c heap \<Rightarrow> ptr \<Rightarrow> 'c ListElement option" where
  "deref h p = do { a \<leftarrow> p; h a }"

definition set_next :: "'c heap \<Rightarrow> ptr \<Rightarrow> ptr \<Rightarrow> 'c heap option" where
  "set_next h p v = do { a \<leftarrow> p; e \<leftarrow> h a; Some (h(a \<mapsto> e\<lparr>el_next := v\<rparr>)) }"

definition set_prev :: "'c heap \<Rightarrow> ptr \<Rightarrow> ptr \<Rightarrow> 'c heap option" where
  "set_prev h p v = do { a \<leftarrow> p; e \<leftarrow> h a; Some (h(a \<mapsto> e\<lparr>el_prev := v\<rparr>)) }"

subsection \<open>Operations\<close>

definition ListZero :: List where
  "ListZero = \<lparr>l_first = None, l_last = None, l_current = None, l_count = 0, l_size = 0\<rparr>"

definition ListInitialize :: "mem \<Rightarrow> List option \<times> mem" where
  "ListInitialize m = (let (ok, m1) = malloc m in (if ok then Some ListZero else None, m1))"

definition ListAppendNoMalloc ::
  "'c heap \<Rightarrow> List \<Rightarrow> 'c \<Rightarrow> nat \<Rightarrow> nat \<Rightarrow> ('c heap \<times> List) option" where
  "ListAppendNoMalloc h l content newel sz = do {
     let h1 = h(newel \<mapsto> \<lparr>el_prev = l_last l, el_next = None, el_content = content\<rparr>);
     (h2, l1) \<leftarrow> (if l_first l = None then Some (h1, l\<lparr>l_first := Some newel\<rparr>)
                 else do { h2 \<leftarrow> set_next h1 (l_last l) (Some newel); Some (h2, l) });
     Some (h2, l1\<lparr>l_last := Some newel, l_count := l_count l1 + 1, l_size := l_size l1 + sz\<rparr>)
   }"

text \<open>
  The address \<open>malloc\<close> returns for the new element is an argument, \<open>None\<close> when it fails.
\<close>

definition ListAppend ::
  "'c heap \<Rightarrow> List \<Rightarrow> 'c \<Rightarrow> nat \<Rightarrow> ptr \<Rightarrow> (ptr \<times> 'c heap \<times> List) option" where
  "ListAppend h l content sz newel =
     (case newel of
        None \<Rightarrow> Some (None, h, l)
      | Some a \<Rightarrow> do { (h1, l1) \<leftarrow> ListAppendNoMalloc h l content a sz; Some (Some a, h1, l1) })"

definition ListInsert ::
  "'c heap \<Rightarrow> List \<Rightarrow> 'c \<Rightarrow> nat \<Rightarrow> ptr \<Rightarrow> ptr \<Rightarrow> (ptr \<times> 'c heap \<times> List) option" where
  "ListInsert h l content sz index newel =
     (case newel of
        None \<Rightarrow> Some (None, h, l)
      | Some a \<Rightarrow>
          if index = None then do {
            (h1, l1) \<leftarrow> ListAppendNoMalloc h l content a sz;
            Some (Some a, h1, l1)
          } else do {
            ie \<leftarrow> deref h index;
            let h1 = h(a \<mapsto> \<lparr>el_prev = el_prev ie, el_next = index, el_content = content\<rparr>);
            h2 \<leftarrow> set_prev h1 index (Some a);
            ne \<leftarrow> h2 a;
            (h3, l1) \<leftarrow> (if el_prev ne \<noteq> None then do {
                           h3 \<leftarrow> set_next h2 (el_prev ne) (Some a);
                           Some (h3, l)
                         } else Some (h2, l\<lparr>l_first := Some a\<rparr>));
            Some (Some a, h3, l1\<lparr>l_count := l_count l1 + 1, l_size := l_size l1 + sz\<rparr>)
          })"

definition ListNextElement :: "'c heap \<Rightarrow> List \<Rightarrow> ptr \<Rightarrow> ptr option" where
  "ListNextElement h l pos =
     (if pos = None then Some (l_first l) else do { e \<leftarrow> deref h pos; Some (el_next e) })"

definition ListPrevElement :: "'c heap \<Rightarrow> List \<Rightarrow> ptr \<Rightarrow> ptr option" where
  "ListPrevElement h l pos =
     (if pos = None then Some (l_last l) else do { e \<leftarrow> deref h pos; Some (el_prev e) })"

text \<open>
  The search loop: it may not return on a list with a cycle, which is the value \<open>None\<close> too.
\<close>

partial_function (option) match_loop ::
  "'c heap \<Rightarrow> List \<Rightarrow> ('c \<Rightarrow> bool) \<Rightarrow> ptr \<Rightarrow> ptr option" where
  "match_loop h l match pos = do {
     current \<leftarrow> ListNextElement h l pos;
     if current = None then Some None
     else do {
       e \<leftarrow> deref h current;
       if match (el_content e) then Some current else match_loop h l match current
     }
   }"

definition ListFindItem :: "'c heap \<Rightarrow> List \<Rightarrow> ('c \<Rightarrow> bool) \<Rightarrow> (ptr \<times> List) option" where
  "ListFindItem h l match = do {
     hit \<leftarrow> (if l_current l \<noteq> None then do { e \<leftarrow> deref h (l_current l); Some (match (el_content e)) }
            else Some False);
     if hit then Some (l_current l, l)
     else do {
       rc \<leftarrow> match_loop h l match None;
       Some (rc, if rc \<noteq> None then l\<lparr>l_current := rc\<rparr> else l)
     }
   }"

definition ListFind :: "'c heap \<Rightarrow> List \<Rightarrow> 'c \<Rightarrow> (ptr \<times> List) option" where
  "ListFind h l content = ListFindItem h l (\<lambda>c. c = content)"

text \<open>The result is the removed content, if any.\<close>

definition ListUnlink :: "'c heap \<Rightarrow> List \<Rightarrow> ('c \<Rightarrow> bool) \<Rightarrow> ('c option \<times> 'c heap \<times> List) option" where
  "ListUnlink h l match = do {
     let saved = l_current l;
     (found, l1) \<leftarrow> ListFindItem h l match;
     (case found of
        None \<Rightarrow> Some (None, h, l1)
      | Some c \<Rightarrow> do {
          e \<leftarrow> h c;
          (h1, l2) \<leftarrow> (if el_prev e = None then Some (h, l1\<lparr>l_first := el_next e\<rparr>)
                      else do { h1 \<leftarrow> set_next h (el_prev e) (el_next e); Some (h1, l1) });
          e1 \<leftarrow> h1 c;
          (h2, l3) \<leftarrow> (if el_next e1 = None then Some (h1, l2\<lparr>l_last := el_prev e1\<rparr>)
                      else do { h2 \<leftarrow> set_prev h1 (el_next e1) (el_prev e1); Some (h2, l2) });
          e2 \<leftarrow> h2 c;
          let nxt = el_next e2;
          Some (Some (el_content e2), h2(c := None),
                l3\<lparr>l_current := (if saved = Some c then nxt else saved), l_count := l_count l3 - 1\<rparr>)
        })
   }"

definition ListDetach :: "'c heap \<Rightarrow> List \<Rightarrow> 'c \<Rightarrow> ('c option \<times> 'c heap \<times> List) option" where
  "ListDetach h l content = ListUnlink h l (\<lambda>c. c = content)"

definition ListRemove :: "'c heap \<Rightarrow> List \<Rightarrow> 'c \<Rightarrow> ('c option \<times> 'c heap \<times> List) option" where
  "ListRemove h l content = ListUnlink h l (\<lambda>c. c = content)"

definition ListDetachItem :: "'c heap \<Rightarrow> List \<Rightarrow> ('c \<Rightarrow> bool) \<Rightarrow> ('c option \<times> 'c heap \<times> List) option" where
  "ListDetachItem h l match = ListUnlink h l match"

definition ListRemoveItem :: "'c heap \<Rightarrow> List \<Rightarrow> ('c \<Rightarrow> bool) \<Rightarrow> ('c option \<times> 'c heap \<times> List) option" where
  "ListRemoveItem h l match = ListUnlink h l match"

definition ListDetachHead :: "'c heap \<Rightarrow> List \<Rightarrow> ('c option \<times> 'c heap \<times> List) option" where
  "ListDetachHead h l =
     (if l_count l > 0 then do {
        first \<leftarrow> l_first l;
        e \<leftarrow> h first;
        let l1 = (if l_current l = Some first then l\<lparr>l_current := el_next e\<rparr> else l);
        let l2 = (if l_last l1 = Some first then l1\<lparr>l_last := None\<rparr> else l1);
        let l3 = l2\<lparr>l_first := el_next e\<rparr>;
        h1 \<leftarrow> (if l_first l3 \<noteq> None then set_prev h (l_first l3) None else Some h);
        Some (Some (el_content e), h1(first := None), l3\<lparr>l_count := l_count l3 - 1\<rparr>)
      } else Some (None, h, l))"

definition ListRemoveHead :: "'c heap \<Rightarrow> List \<Rightarrow> ('c heap \<times> List) option" where
  "ListRemoveHead h l = do { (c, h1, l1) \<leftarrow> ListDetachHead h l; Some (h1, l1) }"

definition ListPopTail :: "'c heap \<Rightarrow> List \<Rightarrow> ('c option \<times> 'c heap \<times> List) option" where
  "ListPopTail h l =
     (if l_count l > 0 then do {
        lst \<leftarrow> l_last l;
        e \<leftarrow> h lst;
        let l1 = (if l_current l = Some lst then l\<lparr>l_current := el_prev e\<rparr> else l);
        let l2 = (if l_first l1 = Some lst then l1\<lparr>l_first := None\<rparr> else l1);
        let l3 = l2\<lparr>l_last := el_prev e\<rparr>;
        h1 \<leftarrow> (if l_last l3 \<noteq> None then set_next h (l_last l3) None else Some h);
        Some (Some (el_content e), h1(lst := None), l3\<lparr>l_count := l_count l3 - 1\<rparr>)
      } else Some (None, h, l))"

text \<open>The loop that frees every element; the contents it frees are returned in order.\<close>

partial_function (option) empty_loop :: "'c heap \<Rightarrow> ptr \<Rightarrow> ('c list \<times> 'c heap) option" where
  "empty_loop h p =
     (case p of
        None \<Rightarrow> Some ([], h)
      | Some a \<Rightarrow> do {
          e \<leftarrow> h a;
          (cs, h1) \<leftarrow> empty_loop (h(a := None)) (el_next e);
          Some (el_content e # cs, h1)
        })"

definition ListEmpty :: "'c heap \<Rightarrow> List \<Rightarrow> ('c list \<times> 'c heap \<times> List) option" where
  "ListEmpty h l = do {
     (cs, h1) \<leftarrow> empty_loop h (l_first l);
     Some (cs, h1, l\<lparr>l_count := 0, l_size := 0, l_current := None, l_first := None, l_last := None\<rparr>)
   }"

definition ListFree :: "'c heap \<Rightarrow> List \<Rightarrow> ('c list \<times> 'c heap) option" where
  "ListFree h l = do { (cs, h1, l1) \<leftarrow> ListEmpty h l; Some (cs, h1) }"

definition ListFreeNoContent :: "'c heap \<Rightarrow> List \<Rightarrow> 'c heap option" where
  "ListFreeNoContent h l = do { (cs, h1) \<leftarrow> empty_loop h (l_first l); Some h1 }"

subsection \<open>The list a structure represents\<close>

text \<open>
  \<open>lseg h pr p as pr' q\<close>: starting at \<open>p\<close>, whose predecessor is \<open>pr\<close>, the elements at the
  addresses \<open>as\<close> follow each other, the last of them is \<open>pr'\<close> and its successor \<open>q\<close>.
\<close>

fun lseg :: "'c heap \<Rightarrow> ptr \<Rightarrow> ptr \<Rightarrow> nat list \<Rightarrow> ptr \<Rightarrow> ptr \<Rightarrow> bool" where
  "lseg h pr p [] pr' q \<longleftrightarrow> p = q \<and> pr = pr'"
| "lseg h pr p (a # as) pr' q \<longleftrightarrow> p = Some a \<and>
     (\<exists>e. h a = Some e \<and> el_prev e = pr \<and> lseg h (Some a) (el_next e) as pr' q)"

definition contents :: "'c heap \<Rightarrow> nat list \<Rightarrow> 'c list" where
  "contents h as = map (\<lambda>a. el_content (the (h a))) as"

definition list_at :: "'c heap \<Rightarrow> List \<Rightarrow> nat list \<Rightarrow> bool" where
  "list_at h l as \<longleftrightarrow> distinct as \<and> lseg h None (l_first l) as (l_last l) None
     \<and> l_count l = int (length as) \<and> (l_current l = None \<or> (\<exists>a \<in> set as. l_current l = Some a))"

lemma contents_simps [simp]:
  "contents h [] = []" "contents h (a # as) = el_content (the (h a)) # contents h as"
  "contents h (as @ bs) = contents h as @ contents h bs" "length (contents h as) = length as"
  by (simp_all add: contents_def)

lemma lseg_append: "lseg h pr p (as @ bs) pr' q \<longleftrightarrow> (\<exists>m n. lseg h pr p as m n \<and> lseg h m n bs pr' q)"
  by (induction as arbitrary: pr p) auto

lemma lseg_cong: "(\<And>a. a \<in> set as \<Longrightarrow> h' a = h a) \<Longrightarrow> lseg h' pr p as pr' q = lseg h pr p as pr' q"
  by (induction as arbitrary: pr p) auto

lemma contents_cong: "(\<And>a. a \<in> set as \<Longrightarrow> h' a = h a) \<Longrightarrow> contents h' as = contents h as"
  by (simp add: contents_def)

lemma lseg_fresh [simp]: "a \<notin> set as \<Longrightarrow> lseg (h(a := v)) pr p as pr' q = lseg h pr p as pr' q"
  by (rule lseg_cong) auto

lemma contents_fresh [simp]: "a \<notin> set as \<Longrightarrow> contents (h(a := v)) as = contents h as"
  by (rule contents_cong) auto

lemma lseg_alloc: "lseg h pr p as pr' q \<Longrightarrow> a \<in> set as \<Longrightarrow> h a \<noteq> None"
  by (induction as arbitrary: pr p) auto

lemma list_at_fresh: "list_at h l as \<Longrightarrow> h a = None \<Longrightarrow> a \<notin> set as"
  using lseg_alloc by (fastforce simp: list_at_def)

lemma lseg_ends: "lseg h pr p as pr' q \<Longrightarrow>
    p = (if as = [] then q else Some (hd as)) \<and> pr' = (if as = [] then pr else Some (last as))"
  by (induction as arbitrary: pr p) auto

text \<open>The two updates at the border of a segment.\<close>

lemma lseg_set_next:
  assumes "lseg h pr p as pr' q" "distinct as" "as \<noteq> []"
  shows "\<exists>h'. set_next h pr' v = Some h' \<and> lseg h' pr p as pr' v \<and> contents h' as = contents h as
    \<and> (\<forall>a. a \<notin> set as \<longrightarrow> h' a = h a)"
proof -
  obtain bs b where as: "as = bs @ [b]" using assms(3) by (metis append_butlast_last_id)
  with assms show ?thesis by (auto simp: lseg_append set_next_def)
qed

lemma lseg_set_prev:
  assumes "lseg h pr p as pr' q" "distinct as" "as \<noteq> []"
  shows "\<exists>h'. set_prev h p v = Some h' \<and> lseg h' v p as pr' q \<and> contents h' as = contents h as
    \<and> (\<forall>a. a \<notin> set as \<longrightarrow> h' a = h a)"
  using assms by (cases as) (auto simp: set_prev_def)

subsection \<open>What the operations do to it\<close>

lemma ListAppendNoMalloc_at:
  assumes "list_at h l as" "h a = None"
  shows "\<exists>h' l'. ListAppendNoMalloc h l c a sz = Some (h', l') \<and> list_at h' l' (as @ [a])
    \<and> contents h' (as @ [a]) = contents h as @ [c] \<and> l_current l' = l_current l
    \<and> (\<forall>b. b \<notin> set as \<longrightarrow> b \<noteq> a \<longrightarrow> h' b = h b)"
proof -
  have a: "a \<notin> set as" using assms by (rule list_at_fresh)
  define h1 where "h1 = h(a \<mapsto> \<lparr>el_prev = l_last l, el_next = None, el_content = c\<rparr>)"
  have l1: "lseg h1 None (l_first l) as (l_last l) None" and c1: "contents h1 as = contents h as"
    using assms(1) a by (simp_all add: h1_def list_at_def)
  show ?thesis
  proof (cases "as = []")
    case True
    with assms(1) show ?thesis by (auto simp: ListAppendNoMalloc_def list_at_def)
  next
    case False
    have "l_first l \<noteq> None" using l1 False lseg_ends by fastforce
    moreover obtain h2 where h2: "set_next h1 (l_last l) (Some a) = Some h2"
      "lseg h2 None (l_first l) as (l_last l) (Some a)" "contents h2 as = contents h1 as"
      "\<forall>b. b \<notin> set as \<longrightarrow> h2 b = h1 b"
      using lseg_set_next[OF l1 _ False, of "Some a"] assms(1) by (auto simp: list_at_def)
    moreover have "h2 a = Some \<lparr>el_prev = l_last l, el_next = None, el_content = c\<rparr>"
      using h2(4) a by (auto simp: h1_def)
    moreover have "\<forall>b. b \<notin> set as \<longrightarrow> b \<noteq> a \<longrightarrow> h2 b = h b"
      using h2(4) by (auto simp: h1_def)
    ultimately show ?thesis
      using assms(1) a c1 by (auto simp: ListAppendNoMalloc_def Let_def list_at_def lseg_append simp flip: h1_def)
  qed
qed

lemma ListInsert_at:
  assumes "list_at h l (xs @ i # ys)" "h a = None"
  shows "\<exists>h' l'. ListInsert h l c sz (Some i) (Some a) = Some (Some a, h', l')
    \<and> list_at h' l' (xs @ a # i # ys)
    \<and> contents h' (xs @ a # i # ys) = contents h xs @ c # contents h (i # ys)"
proof -
  have a: "a \<notin> set xs" "a \<noteq> i" "a \<notin> set ys"
    using list_at_fresh[OF assms] by auto
  have d: "distinct (xs @ i # ys)" using assms(1) by (simp add: list_at_def)
  obtain m ie where m: "lseg h None (l_first l) xs m (Some i)" "h i = Some ie" "el_prev ie = m"
    "lseg h (Some i) (el_next ie) ys (l_last l) None"
    using assms(1) by (auto simp: list_at_def lseg_append)
  define h2 where "h2 = h(a \<mapsto> \<lparr>el_prev = m, el_next = Some i, el_content = c\<rparr>, i \<mapsto> ie\<lparr>el_prev := Some a\<rparr>)"
  have s2: "set_prev (h(a \<mapsto> \<lparr>el_prev = m, el_next = Some i, el_content = c\<rparr>)) (Some i) (Some a) = Some h2"
    using m a by (simp add: set_prev_def h2_def)
  have l2: "lseg h2 None (l_first l) xs m (Some i)" and c2: "contents h2 xs = contents h xs"
    using m(1) a d by (simp_all add: h2_def)
  have r2: "lseg h2 (Some a) (Some i) (i # ys) (l_last l) None" "contents h2 (i # ys) = contents h (i # ys)"
    using m a d by (simp_all add: h2_def)
  have a2: "h2 a = Some \<lparr>el_prev = m, el_next = Some i, el_content = c\<rparr>" using a by (simp add: h2_def)
  show ?thesis
  proof (cases "xs = []")
    case True
    with m assms(1) a s2 r2 a2 show ?thesis
      by (auto simp: ListInsert_def Let_def deref_def list_at_def)
  next
    case False
    with m(1) have mm: "m \<noteq> None" using lseg_ends by fastforce
    obtain h3 where h3: "set_next h2 m (Some a) = Some h3" "lseg h3 None (l_first l) xs m (Some a)"
      "contents h3 xs = contents h2 xs" "\<forall>b. b \<notin> set xs \<longrightarrow> h3 b = h2 b"
      using lseg_set_next[OF l2 _ False, of "Some a"] d by auto
    have eq: "h3 b = h2 b" if "b \<in> set (i # ys)" for b using that h3(4) d by auto
    have "lseg h3 (Some a) (Some i) (i # ys) (l_last l) None"
      using r2(1) lseg_cong[of "i # ys" h3 h2, OF eq] by blast
    moreover have "contents h3 (i # ys) = contents h2 (i # ys)" 
      using contents_cong[of "i # ys" h3 h2, OF eq] by blast
    moreover have "h3 a = h2 a" using h3(4) a(1) by auto
    ultimately show ?thesis
      using m a assms(1) s2 a2 mm h3 r2(2) c2
      by (auto simp: ListInsert_def Let_def deref_def list_at_def lseg_append)
  qed
qed

lemma match_loop_seg:
  "ListNextElement h l pos = Some p \<Longrightarrow> lseg h pr p as pr' None \<Longrightarrow>
   match_loop h l match pos = Some (List.find (\<lambda>a. match (el_content (the (h a)))) as)"
proof (induction as arbitrary: pos p pr)
  case Nil
  then show ?case by (simp add: match_loop.simps)
next
  case (Cons a as)
  then obtain e where e: "p = Some a" "h a = Some e" "lseg h (Some a) (el_next e) as pr' None" by auto
  then have "ListNextElement h l (Some a) = Some (el_next e)" by (simp add: ListNextElement_def deref_def)
  with Cons e show ?case by (subst match_loop.simps) (simp add: deref_def)
qed

lemma ListFindItem_at:
  assumes "list_at h l as"
  shows "\<exists>r l'. ListFindItem h l match = Some (r, l') \<and> list_at h l' as
    \<and> (case r of None \<Rightarrow> l' = l \<and> (\<forall>c \<in> set (contents h as). \<not> match c)
       | Some a \<Rightarrow> l' = l\<lparr>l_current := Some a\<rparr> \<and> a \<in> set as \<and> match (el_content (the (h a))))"
proof -
  have loop: "match_loop h l match None = Some (List.find (\<lambda>a. match (el_content (the (h a)))) as)"
    using assms match_loop_seg[of h l None "l_first l" None as "l_last l" match]
    by (simp add: list_at_def ListNextElement_def)
  have cur: "l_current l = None \<or> (\<exists>a e. l_current l = Some a \<and> a \<in> set as \<and> h a = Some e)"
    using assms lseg_alloc by (fastforce simp: list_at_def)
  have id: "l = l\<lparr>l_current := l_current l\<rparr>" by simp
  show ?thesis
  proof (cases "\<exists>a e. l_current l = Some a \<and> a \<in> set as \<and> h a = Some e \<and> match (el_content e)")
    case True
    with assms id show ?thesis by (auto simp: ListFindItem_def deref_def)
  next
    case False
    with cur have "ListFindItem h l match = Some (List.find (\<lambda>a. match (el_content (the (h a)))) as,
        if List.find (\<lambda>a. match (el_content (the (h a)))) as \<noteq> None
        then l\<lparr>l_current := List.find (\<lambda>a. match (el_content (the (h a)))) as\<rparr> else l)"
      by (auto simp: ListFindItem_def deref_def loop)
    then show ?thesis
      using assms
      by (cases "List.find (\<lambda>a. match (el_content (the (h a)))) as")
        (auto simp: find_None_iff find_Some_iff contents_def list_at_def)
  qed
qed

text \<open>Taking the element at \<open>c\<close> out of the chain.\<close>

lemma lseg_remove:
  assumes "lseg h None f (xs @ c # ys) la None" "distinct (xs @ c # ys)" "h c = Some e"
  shows "\<exists>h1 h2. (if el_prev e = None then xs = [] \<and> h1 = h
      else xs \<noteq> [] \<and> set_next h (el_prev e) (el_next e) = Some h1)
    \<and> h1 c = Some e \<and> h2 c = Some e
    \<and> (if el_next e = None then ys = [] \<and> h2 = h1
       else ys \<noteq> [] \<and> set_prev h1 (el_next e) (el_prev e) = Some h2)
    \<and> lseg (h2(c := None)) None (if xs = [] then el_next e else f) (xs @ ys)
        (if ys = [] then el_prev e else la) None
    \<and> contents (h2(c := None)) (xs @ ys) = contents h xs @ contents h ys
    \<and> (\<forall>b. b \<notin> set (xs @ c # ys) \<longrightarrow> h2 b = h b)"
proof -
  obtain m where m: "lseg h None f xs m (Some c)" "el_prev e = m" "lseg h (Some c) (el_next e) ys la None"
    using assms(1,3) by (auto simp: lseg_append)
  define n where "n = el_next e"
  have mx: "xs = [] \<longleftrightarrow> m = None" and ny: "ys = [] \<longleftrightarrow> n = None"
    using lseg_ends[OF m(1)] lseg_ends[OF m(3)] by (auto simp: n_def)
  have d: "distinct xs" "distinct ys" "c \<notin> set xs" "c \<notin> set ys" "set xs \<inter> set ys = {}"
    using assms(2) by auto
  obtain h1 where h1: "if xs = [] then h1 = h else set_next h m n = Some h1"
    "lseg h1 None (if xs = [] then n else f) xs m n" "contents h1 xs = contents h xs"
    "\<forall>b. b \<notin> set xs \<longrightarrow> h1 b = h b"
  proof (cases "xs = []")
    case True
    with that[of h] m mx show ?thesis by simp
  next
    case False
    then show ?thesis using lseg_set_next[OF m(1) d(1) False, of n] that by auto
  qed
  have eq1: "h1 b = h b" if "b \<in> set ys" for b using that h1(4) d by auto
  have s1: "lseg h1 (Some c) n ys la None" "contents h1 ys = contents h ys"
    using m(3) lseg_cong[of ys h1 h, OF eq1] contents_cong[of ys h1 h, OF eq1] by (simp_all add: n_def)
  obtain h2 where h2: "if ys = [] then h2 = h1 else set_prev h1 n m = Some h2"
    "lseg h2 m n ys (if ys = [] then m else la) None" "contents h2 ys = contents h1 ys"
    "\<forall>b. b \<notin> set ys \<longrightarrow> h2 b = h1 b"
  proof (cases "ys = []")
    case True
    with that[of h1] ny show ?thesis by simp
  next
    case False
    then show ?thesis using lseg_set_prev[OF s1(1) d(2) False, of m] that by auto
  qed
  have eq2: "h2 b = h1 b" if "b \<in> set xs" for b using that h2(4) d by auto
  have s2: "lseg h2 None (if xs = [] then n else f) xs m n" "contents h2 xs = contents h1 xs"
    using h1(2) lseg_cong[of xs h2 h1, OF eq2] contents_cong[of xs h2 h1, OF eq2] by simp_all
  have "if m = None then xs = [] \<and> h1 = h else xs \<noteq> [] \<and> set_next h m n = Some h1"
    using h1(1) mx by (auto split: if_splits)
  moreover have "if n = None then ys = [] \<and> h2 = h1 else ys \<noteq> [] \<and> set_prev h1 n m = Some h2"
    using h2(1) ny by (auto split: if_splits)
  moreover have "lseg (h2(c := None)) None (if xs = [] then n else f) (xs @ ys) (if ys = [] then m else la) None"
    unfolding lseg_append using s2(1) h2(2) d(3,4) by (intro exI[of _ m] exI[of _ n]) simp
  moreover have "contents (h2(c := None)) (xs @ ys) = contents h xs @ contents h ys"
    using s1 s2 h1 h2 d by simp
  moreover have "h1 c = Some e" "h2 c = Some e" using assms(3) h1(4) h2(4) d by simp_all
  moreover have "\<forall>b. b \<notin> set (xs @ c # ys) \<longrightarrow> h2 b = h b" using h1(4) h2(4) by simp
  ultimately show ?thesis
    unfolding m(2) n_def[symmetric] by blast
qed

lemma ListUnlink_at:
  assumes "list_at h l as"
  shows "\<exists>r h' l'. ListUnlink h l match = Some (r, h', l')
    \<and> (case r of None \<Rightarrow> h' = h \<and> l' = l \<and> (\<forall>c \<in> set (contents h as). \<not> match c)
       | Some v \<Rightarrow> match v \<and> (\<exists>xs c ys. as = xs @ c # ys \<and> el_content (the (h c)) = v \<and> h' c = None
           \<and> list_at h' l' (xs @ ys) \<and> contents h' (xs @ ys) = contents h xs @ contents h ys
           \<and> (\<forall>b. b \<notin> set as \<longrightarrow> h' b = h b)))"
proof -
  obtain r l1 where f: "ListFindItem h l match = Some (r, l1)" "list_at h l1 as"
    "case r of None \<Rightarrow> l1 = l \<and> (\<forall>c \<in> set (contents h as). \<not> match c)
       | Some a \<Rightarrow> l1 = l\<lparr>l_current := Some a\<rparr> \<and> a \<in> set as \<and> match (el_content (the (h a)))"
    using ListFindItem_at[OF assms] by blast
  show ?thesis
  proof (cases r)
    case None
    with f show ?thesis by (simp add: ListUnlink_def)
  next
    case (Some c)
    then obtain xs ys where as: "as = xs @ c # ys" and l1: "l1 = l\<lparr>l_current := Some c\<rparr>"
      and mc: "match (el_content (the (h c)))"
      using f(3) by (auto simp: in_set_conv_decomp)
    obtain e where e: "h c = Some e"
      using assms lseg_alloc[of h None "l_first l" as "l_last l" None c] by (auto simp: list_at_def as)
    have "lseg h None (l_first l) (xs @ c # ys) (l_last l) None" "distinct (xs @ c # ys)"
      using assms by (simp_all add: list_at_def as)
    from lseg_remove[OF this e] obtain h1 h2 where
      p: "if el_prev e = None then xs = [] \<and> h1 = h else xs \<noteq> [] \<and> set_next h (el_prev e) (el_next e) = Some h1"
      and e1: "h1 c = Some e" and e2: "h2 c = Some e"
      and n: "if el_next e = None then ys = [] \<and> h2 = h1
        else ys \<noteq> [] \<and> set_prev h1 (el_next e) (el_prev e) = Some h2"
      and seg: "lseg (h2(c := None)) None (if xs = [] then el_next e else l_first l) (xs @ ys)
        (if ys = [] then el_prev e else l_last l) None"
      and cont: "contents (h2(c := None)) (xs @ ys) = contents h xs @ contents h ys"
      and frame: "\<forall>b. b \<notin> set (xs @ c # ys) \<longrightarrow> h2 b = h b" by blast
    define l' where "l' = l\<lparr>l_first := (if xs = [] then el_next e else l_first l),
      l_last := (if ys = [] then el_prev e else l_last l),
      l_current := (if l_current l = Some c then el_next e else l_current l), l_count := l_count l - 1\<rparr>"
    have "ListUnlink h l match = Some (Some (el_content e), h2(c := None), l')"
      using f(1) Some e e1 e2 p n l1 by (auto simp: ListUnlink_def l'_def Let_def)
    moreover have "el_next e = None \<or> (\<exists>a \<in> set (xs @ ys). el_next e = Some a)"
      using assms e lseg_ends[of h "Some c" "el_next e" ys "l_last l" None]
      by (cases ys) (auto simp: list_at_def as lseg_append)
    then have "list_at (h2(c := None)) l' (xs @ ys)"
      using seg assms by (auto simp: list_at_def l'_def as)
    ultimately show ?thesis
      using cont frame mc e by (auto simp: as)
  qed
qed

lemma ListDetachHead_at:
  assumes "list_at h l (a # as)"
  shows "\<exists>h' l'. ListDetachHead h l = Some (Some (el_content (the (h a))), h', l')
    \<and> list_at h' l' as \<and> contents h' as = contents h as"
proof -
  from assms obtain e where e: "l_first l = Some a" "h a = Some e" "el_prev e = None"
    "lseg h (Some a) (el_next e) as (l_last l) None" by (auto simp: list_at_def)
  have "lseg h None (l_first l) ([] @ a # as) (l_last l) None" "distinct ([] @ a # as)"
    using assms by (simp_all add: list_at_def)
  from lseg_remove[OF this e(2)] e(3) obtain h2 where h2:
    "if el_next e = None then as = [] \<and> h2 = h else as \<noteq> [] \<and> set_prev h (el_next e) None = Some h2"
    "lseg (h2(a := None)) None (el_next e) as (if as = [] then None else l_last l) None"
    "contents (h2(a := None)) as = contents h as"
    by (auto split: if_splits)
  have last: "l_last l = Some a \<longleftrightarrow> as = []"
    using lseg_ends[OF e(4)] assms by (auto simp: list_at_def)
  have next_in: "el_next e = None \<or> (\<exists>b \<in> set as. el_next e = Some b)"
    using lseg_ends[OF e(4)] by (cases as) auto
  show ?thesis
    using e(1,2) h2 last next_in assms
    by (auto simp: ListDetachHead_def Let_def list_at_def split: if_splits)
qed

lemma ListPopTail_at:
  assumes "list_at h l (as @ [a])"
  shows "\<exists>h' l'. ListPopTail h l = Some (Some (el_content (the (h a))), h', l')
    \<and> list_at h' l' as \<and> contents h' as = contents h as"
proof -
  from assms obtain e m where e: "l_last l = Some a" "h a = Some e" "el_next e = None" "el_prev e = m"
    "lseg h None (l_first l) as m (Some a)" by (auto simp: list_at_def lseg_append)
  have "lseg h None (l_first l) (as @ a # []) (l_last l) None" "distinct (as @ a # [])"
    using assms by (simp_all add: list_at_def)
  from lseg_remove[OF this e(2)] e(3,4) obtain h1 where h1:
    "if m = None then as = [] \<and> h1 = h else as \<noteq> [] \<and> set_next h m None = Some h1"
    "lseg (h1(a := None)) None (if as = [] then None else l_first l) as m None"
    "contents (h1(a := None)) as = contents h as"
    by (auto split: if_splits)
  have first: "l_first l = Some a \<longleftrightarrow> as = []"
    using lseg_ends[OF e(5)] assms by (auto simp: list_at_def)
  have prev_in: "m = None \<or> (\<exists>b \<in> set as. m = Some b)"
    using lseg_ends[OF e(5)] by (cases "as = []") auto
  show ?thesis
    using e h1 first prev_in assms
    by (auto simp: ListPopTail_def Let_def list_at_def split: if_splits)
qed

lemma empty_loop_seg:
  "lseg h pr p as pr' None \<Longrightarrow> distinct as \<Longrightarrow>
   \<exists>h'. empty_loop h p = Some (contents h as, h') \<and> (\<forall>a. h' a = (if a \<in> set as then None else h a))"
proof (induction as arbitrary: h pr p)
  case Nil
  then show ?case by (simp add: empty_loop.simps)
next
  case (Cons a as)
  then obtain e where e: "p = Some a" "h a = Some e" "lseg (h(a := None)) (Some a) (el_next e) as pr' None"
    by auto
  then obtain h' where h': "empty_loop (h(a := None)) (el_next e) = Some (contents (h(a := None)) as, h')"
    "\<forall>b. h' b = (if b \<in> set as then None else (h(a := None)) b)"
    using Cons.IH[OF e(3)] Cons.prems(2) by (metis distinct.simps(2))
  have "contents (h(a := None)) as = contents h as" using Cons.prems(2) by simp
  then have "empty_loop h p = Some (contents h (a # as), h')"
    using e h'(1) by (subst empty_loop.simps) simp
  with h'(2) show ?case by auto
qed

lemma ListEmpty_at:
  assumes "list_at h l as"
  shows "\<exists>h' l'. ListEmpty h l = Some (contents h as, h', l') \<and> list_at h' l' [] \<and> l' = ListZero
    \<and> (\<forall>a. h' a = (if a \<in> set as then None else h a))"
  using assms empty_loop_seg[of h None "l_first l" as "l_last l"]
  by (auto simp: ListEmpty_def list_at_def ListZero_def)

subsection \<open>The contract of a list\<close>

text \<open>
  What the other components rely on: a list represents a sequence of contents, appending adds
  at the end, and finding or removing by a predicate works on an element that satisfies it.
  Which one, when several do, is not promised: the element found last time is looked at first.
\<close>

locale collection =
  fixes represents :: "'s \<Rightarrow> 'c list \<Rightarrow> bool"
    and fresh :: "'s \<Rightarrow> nat \<Rightarrow> bool"
    and append :: "'c \<Rightarrow> nat \<Rightarrow> 's \<Rightarrow> 's option"
    and find :: "('c \<Rightarrow> bool) \<Rightarrow> 's \<Rightarrow> ('c option \<times> 's) option"
    and remove :: "('c \<Rightarrow> bool) \<Rightarrow> 's \<Rightarrow> ('c option \<times> 's) option"
  assumes append: "represents s xs \<Longrightarrow> fresh s a \<Longrightarrow> \<exists>s'. append c a s = Some s' \<and> represents s' (xs @ [c])"
    and find: "represents s xs \<Longrightarrow> \<exists>r s'. find P s = Some (r, s') \<and> represents s' xs
      \<and> (case r of None \<Rightarrow> \<forall>c \<in> set xs. \<not> P c | Some c \<Rightarrow> c \<in> set xs \<and> P c)"
    and remove: "represents s xs \<Longrightarrow> \<exists>r s'. remove P s = Some (r, s')
      \<and> (case r of None \<Rightarrow> represents s' xs \<and> (\<forall>c \<in> set xs. \<not> P c)
         | Some c \<Rightarrow> P c \<and> (\<exists>ys zs. xs = ys @ c # zs \<and> represents s' (ys @ zs)))"
begin

text \<open>Under a key that is unique in the list the promise determines the result.\<close>

lemma find_key:
  assumes "represents s xs" "distinct (map key xs)"
  shows "\<exists>s'. find (\<lambda>c. key c = k) s = Some (List.find (\<lambda>c. key c = k) xs, s') \<and> represents s' xs"
proof -
  obtain r s' where r: "find (\<lambda>c. key c = k) s = Some (r, s')" "represents s' xs"
    "case r of None \<Rightarrow> \<forall>c \<in> set xs. key c \<noteq> k | Some c \<Rightarrow> c \<in> set xs \<and> key c = k"
    using find[OF assms(1)] by blast
  have "r = List.find (\<lambda>c. key c = k) xs"
  proof (cases r)
    case None
    with r(3) show ?thesis by (auto simp: find_None_iff2)
  next
    case (Some c)
    with r(3) obtain i where i: "i < length xs" "xs ! i = c" "key c = k" by (auto simp: in_set_conv_nth)
    have "key (xs ! j) \<noteq> k" if "j < i" for j
      using that i assms(2) nth_eq_iff_index_eq[of "map key xs" i j] by auto
    with i Some show ?thesis by (auto simp: find_Some_iff2)
  qed
  with r show ?thesis by blast
qed

lemma remove_key:
  assumes "represents s xs" "distinct (map key xs)"
  shows "\<exists>s'. remove (\<lambda>c. key c = k) s = Some (List.find (\<lambda>c. key c = k) xs, s')
    \<and> represents s' (filter (\<lambda>c. key c \<noteq> k) xs)"
proof -
  obtain r s' where r: "remove (\<lambda>c. key c = k) s = Some (r, s')"
    "case r of None \<Rightarrow> represents s' xs \<and> (\<forall>c \<in> set xs. key c \<noteq> k)
       | Some c \<Rightarrow> key c = k \<and> (\<exists>ys zs. xs = ys @ c # zs \<and> represents s' (ys @ zs))"
    using remove[OF assms(1)] by blast
  show ?thesis
  proof (cases r)
    case None
    with r(2) have "filter (\<lambda>c. key c \<noteq> k) xs = xs" "List.find (\<lambda>c. key c = k) xs = None"
      by (auto simp: filter_id_conv find_None_iff)
    with r None show ?thesis by simp
  next
    case (Some c)
    with r(2) obtain ys zs where s: "xs = ys @ c # zs" "key c = k" "represents s' (ys @ zs)" by auto
    have "k \<notin> key ` set ys" "k \<notin> key ` set zs" using assms(2) unfolding s(1) by (auto simp: s(2))
    then have n: "\<forall>d \<in> set ys. key d \<noteq> k" "\<forall>d \<in> set zs. key d \<noteq> k" by auto
    then have "filter (\<lambda>c. key c \<noteq> k) xs = ys @ zs" using s by (simp add: filter_id_conv)
    moreover have "List.find (\<lambda>c. key c = k) xs = Some c"
      unfolding s(1) using n(1) s(2) by (induction ys) auto
    ultimately show ?thesis using r(1) Some s by simp
  qed
qed

end

text \<open>The lists of the program, with the state a pair of a heap and a list structure.\<close>

definition represents :: "'c heap \<times> List \<Rightarrow> 'c list \<Rightarrow> bool" where
  "represents s xs \<longleftrightarrow> (\<exists>as. list_at (fst s) (snd s) as \<and> contents (fst s) as = xs)"

definition list_append :: "nat \<Rightarrow> 'c \<Rightarrow> nat \<Rightarrow> 'c heap \<times> List \<Rightarrow> ('c heap \<times> List) option" where
  "list_append sz c a s = do { (p, h, l) \<leftarrow> ListAppend (fst s) (snd s) c sz (Some a); Some (h, l) }"

definition list_find :: "('c \<Rightarrow> bool) \<Rightarrow> 'c heap \<times> List \<Rightarrow> ('c option \<times> 'c heap \<times> List) option" where
  "list_find P s = do {
     (r, l) \<leftarrow> ListFindItem (fst s) (snd s) P;
     (case r of None \<Rightarrow> Some (None, fst s, l)
      | Some a \<Rightarrow> do { e \<leftarrow> fst s a; Some (Some (el_content e), fst s, l) })
   }"

definition list_remove :: "('c \<Rightarrow> bool) \<Rightarrow> 'c heap \<times> List \<Rightarrow> ('c option \<times> 'c heap \<times> List) option" where
  "list_remove P s = ListRemoveItem (fst s) (snd s) P"

interpretation ll: collection represents "\<lambda>s a. fst s a = None" "list_append sz" list_find list_remove
proof unfold_locales
  fix s :: "'a heap \<times> List" and xs a and c :: 'a
  assume "represents s xs" "fst s a = None"
  then show "\<exists>s'. list_append sz c a s = Some s' \<and> represents s' (xs @ [c])"
    using ListAppendNoMalloc_at[of "fst s" "snd s" _ a c sz]
    by (fastforce simp: represents_def list_append_def ListAppend_def)
next
  fix s :: "'a heap \<times> List" and xs and P :: "'a \<Rightarrow> bool"
  assume "represents s xs"
  then obtain as where as: "list_at (fst s) (snd s) as" "contents (fst s) as = xs"
    by (auto simp: represents_def)
  have alloc: "\<exists>e. fst s a = Some e" if "a \<in> set as" for a
    using that as(1) lseg_alloc by (fastforce simp: list_at_def)
  show "\<exists>r s'. list_find P s = Some (r, s') \<and> represents s' xs
      \<and> (case r of None \<Rightarrow> \<forall>c \<in> set xs. \<not> P c | Some c \<Rightarrow> c \<in> set xs \<and> P c)"
  proof -
    obtain r l' where f: "ListFindItem (fst s) (snd s) P = Some (r, l')" "list_at (fst s) l' as"
      "case r of None \<Rightarrow> l' = snd s \<and> (\<forall>c \<in> set (contents (fst s) as). \<not> P c)
       | Some a \<Rightarrow> l' = (snd s)\<lparr>l_current := Some a\<rparr> \<and> a \<in> set as \<and> P (el_content (the (fst s a)))"
      using ListFindItem_at[OF as(1), of P] by blast
    have rep: "represents (fst s, l') xs" using f(2) as(2) by (auto simp: represents_def)
    show ?thesis
    proof (cases r)
      case None
      with f(1,3) rep as(2) show ?thesis by (simp add: list_find_def)
    next
      case (Some a)
      with f(3) obtain e where "fst s a = Some e" "a \<in> set as" "P (el_content e)" using alloc by force
      moreover from this have "el_content e \<in> set xs" using as(2) by (force simp: contents_def)
      ultimately show ?thesis using f(1) Some rep by (simp add: list_find_def)
    qed
  qed
  show "\<exists>r s'. list_remove P s = Some (r, s')
      \<and> (case r of None \<Rightarrow> represents s' xs \<and> (\<forall>c \<in> set xs. \<not> P c)
         | Some c \<Rightarrow> P c \<and> (\<exists>ys zs. xs = ys @ c # zs \<and> represents s' (ys @ zs)))"
  proof -
    obtain r h' l' where u: "ListUnlink (fst s) (snd s) P = Some (r, h', l')"
      "case r of None \<Rightarrow> h' = fst s \<and> l' = snd s \<and> (\<forall>c \<in> set (contents (fst s) as). \<not> P c)
       | Some v \<Rightarrow> P v \<and> (\<exists>xs c ys. as = xs @ c # ys \<and> el_content (the (fst s c)) = v \<and> h' c = None
           \<and> list_at h' l' (xs @ ys) \<and> contents h' (xs @ ys) = contents (fst s) xs @ contents (fst s) ys
           \<and> (\<forall>b. b \<notin> set as \<longrightarrow> h' b = fst s b))"
      using ListUnlink_at[OF as(1), of P] by blast
    show ?thesis
    proof (cases r)
      case None
      with u as show ?thesis by (auto simp: list_remove_def ListRemoveItem_def represents_def)
    next
      case (Some v)
      with u(2) obtain bs c cs where "as = bs @ c # cs" "el_content (the (fst s c)) = v" "P v"
        "list_at h' l' (bs @ cs)" "contents h' (bs @ cs) = contents (fst s) bs @ contents (fst s) cs" by auto
      then have "xs = contents (fst s) bs @ v # contents (fst s) cs"
        "represents (h', l') (contents (fst s) bs @ contents (fst s) cs)" "P v"
        using as(2) by (auto simp: represents_def simp del: contents_simps(3) intro!: exI[of _ "bs @ cs"])
          (simp)
      with u(1) Some show ?thesis by (auto simp: list_remove_def ListRemoveItem_def)
    qed
  qed
qed

subsection \<open>Sequences of operations\<close>

datatype 'c list_op = OpAppend 'c | OpFind "'c \<Rightarrow> bool" | OpRemove "'c \<Rightarrow> bool" | OpDetachHead | OpPopTail

text \<open>
  One operation of a client, with its result. \<open>malloc\<close> returns an address that is not in use.
\<close>

inductive list_step :: "'c heap \<times> List \<Rightarrow> 'c list_op \<Rightarrow> 'c option \<Rightarrow> 'c heap \<times> List \<Rightarrow> bool" where
  step_append: "h a = None \<Longrightarrow> ListAppend h l c sz (Some a) = Some (p, h', l') \<Longrightarrow>
     list_step (h, l) (OpAppend c) None (h', l')"
| step_find: "list_find P s = Some (r, s') \<Longrightarrow> list_step s (OpFind P) r s'"
| step_remove: "ListRemoveItem h l P = Some (r, h', l') \<Longrightarrow> list_step (h, l) (OpRemove P) r (h', l')"
| step_detach: "ListDetachHead h l = Some (r, h', l') \<Longrightarrow> list_step (h, l) OpDetachHead r (h', l')"
| step_pop: "ListPopTail h l = Some (r, h', l') \<Longrightarrow> list_step (h, l) OpPopTail r (h', l')"

inductive_cases list_stepE: "list_step s opn r s'"

text \<open>The same operations on sequences.\<close>

inductive seq_step :: "'c list \<Rightarrow> 'c list_op \<Rightarrow> 'c option \<Rightarrow> 'c list \<Rightarrow> bool" where
  seq_append: "seq_step xs (OpAppend c) None (xs @ [c])"
| seq_find_none: "list_all (\<lambda>c. \<not> P c) xs \<Longrightarrow> seq_step xs (OpFind P) None xs"
| seq_find: "c \<in> set xs \<Longrightarrow> P c \<Longrightarrow> seq_step xs (OpFind P) (Some c) xs"
| seq_remove_none: "list_all (\<lambda>c. \<not> P c) xs \<Longrightarrow> seq_step xs (OpRemove P) None xs"
| seq_remove: "P c \<Longrightarrow> seq_step (ys @ c # zs) (OpRemove P) (Some c) (ys @ zs)"
| seq_detach_none: "seq_step [] OpDetachHead None []"
| seq_detach: "seq_step (c # xs) OpDetachHead (Some c) xs"
| seq_pop_none: "seq_step [] OpPopTail None []"
| seq_pop: "seq_step (xs @ [c]) OpPopTail (Some c) xs"

inductive list_run :: "'c heap \<times> List \<Rightarrow> ('c list_op \<times> 'c option) list \<Rightarrow> 'c heap \<times> List \<Rightarrow> bool" where
  run_nil: "list_run s [] s"
| run_step: "list_run s tr s1 \<Longrightarrow> list_step s1 opn r s2 \<Longrightarrow> list_run s (tr @ [(opn, r)]) s2"

inductive seq_run :: "'c list \<Rightarrow> ('c list_op \<times> 'c option) list \<Rightarrow> 'c list \<Rightarrow> bool" where
  seq_nil: "seq_run xs [] xs"
| seq_cons: "seq_run xs tr ys \<Longrightarrow> seq_step ys opn r zs \<Longrightarrow> seq_run xs (tr @ [(opn, r)]) zs"

lemma represents_Some:
  "represents (h, l) xs \<Longrightarrow> \<exists>as. list_at h l as \<and> contents h as = xs"
  by (simp add: represents_def)

lemma representsI: "list_at h l as \<Longrightarrow> contents h as = xs \<Longrightarrow> represents (h, l) xs"
  by (auto simp: represents_def)

lemma seq_find_result:
  "(case r of None \<Rightarrow> \<forall>c \<in> set xs. \<not> P c | Some c \<Rightarrow> c \<in> set xs \<and> P c) \<Longrightarrow> seq_step xs (OpFind P) r xs"
  by (auto simp: list_all_iff split: option.splits intro: seq_step.intros)

lemma seq_remove_result:
  "(case r of None \<Rightarrow> represents s xs \<and> (\<forall>c \<in> set xs. \<not> P c)
     | Some c \<Rightarrow> P c \<and> (\<exists>ys zs. xs = ys @ c # zs \<and> represents s (ys @ zs))) \<Longrightarrow>
   \<exists>xs'. seq_step xs (OpRemove P) r xs' \<and> represents s xs'"
  by (cases r) (auto simp: Ball_set intro: seq_remove_none seq_remove)

lemma ListDetachHead_defined: "list_at h l as \<Longrightarrow> ListDetachHead h l \<noteq> None"
  by (cases as, simp add: list_at_def ListDetachHead_def)
    (use ListDetachHead_at in fastforce)

lemma ListPopTail_defined: "list_at h l as \<Longrightarrow> ListPopTail h l \<noteq> None"
  by (cases as rule: rev_cases, simp add: list_at_def ListPopTail_def)
    (use ListPopTail_at in fastforce)

lemma list_step_simulates:
  assumes "represents s xs" "list_step s opn r s'"
  shows "\<exists>xs'. seq_step xs opn r xs' \<and> represents s' xs'"
  using assms(2)
proof (rule list_stepE)
  fix h a l c sz p h' l'
  assume *: "s = (h, l)" "opn = OpAppend c" "r = None" "s' = (h', l')" "h a = None"
    "ListAppend h l c sz (Some a) = Some (p, h', l')"
  have "list_append sz c a s = Some s'" using * by (simp add: list_append_def)
  with * ll.append[OF assms(1), of a sz c] have "represents s' (xs @ [c])" by simp
  with * show ?thesis by (auto intro: seq_append)
next
  fix P ra s'' assume *: "opn = OpFind P" "list_find P s = Some (r, s')"
  with ll.find[OF assms(1), of P] show ?thesis by (auto intro: seq_find_result)
next
  fix h l P h' l'
  assume *: "s = (h, l)" "opn = OpRemove P" "s' = (h', l')" "ListRemoveItem h l P = Some (r, h', l')"
  then have "list_remove P s = Some (r, s')" by (simp add: list_remove_def)
  with ll.remove[OF assms(1), of P] seq_remove_result[where r = r and s = s' and xs = xs and P = P] *(2) show ?thesis by auto
next
  fix h l h' l'
  assume *: "s = (h, l)" "opn = OpDetachHead" "s' = (h', l')" "ListDetachHead h l = Some (r, h', l')"
  obtain as where as: "list_at h l as" "contents h as = xs" using assms(1) * represents_Some by blast
  show ?thesis
  proof (cases as)
    case Nil
    then have "ListDetachHead h l = Some (None, h, l)" "xs = []"
      using as by (auto simp: ListDetachHead_def list_at_def)
    with * assms(1) show ?thesis by (auto intro: seq_detach_none)
  next
    case (Cons a bs)
    with ListDetachHead_at[of h l a bs] as * show ?thesis
      by (auto intro!: exI[of _ "contents h bs"] seq_detach representsI)
  qed
next
  fix h l h' l'
  assume *: "s = (h, l)" "opn = OpPopTail" "s' = (h', l')" "ListPopTail h l = Some (r, h', l')"
  obtain as where as: "list_at h l as" "contents h as = xs" using assms(1) * represents_Some by blast
  show ?thesis
  proof (cases as rule: rev_cases)
    case Nil
    then have "ListPopTail h l = Some (None, h, l)" "xs = []"
      using as by (auto simp: ListPopTail_def list_at_def)
    with * assms(1) show ?thesis by (auto intro: seq_pop_none)
  next
    case (snoc bs a)
    with ListPopTail_at[of h l bs a] as * show ?thesis
      by (auto intro!: exI[of _ "contents h bs"] seq_pop representsI)
  qed
qed

lemma ListZero_represents: "represents (h, ListZero) []"
  by (auto simp: represents_def list_at_def ListZero_def intro!: exI[of _ "[]"])

lemma list_run_simulates:
  "list_run s tr s' \<Longrightarrow> represents s xs \<Longrightarrow> \<exists>xs'. seq_run xs tr xs' \<and> represents s' xs'"
proof (induction rule: list_run.induct)
  case (run_nil s)
  then show ?case by (auto intro: seq_nil)
next
  case (run_step s tr s1 opn r s2)
  then show ?case using list_step_simulates by (blast intro: seq_cons)
qed

text \<open>
  C10: the lists of LinkedList.c refine sequences: whatever appends, searches, removals and
  takings from either end are made on a list that starts empty, the results are those of the
  same operations on a sequence, the structure represents that sequence, and the next
  operation is defined: it never follows a null or a dangling pointer, and the search ends.
\<close>

theorem list_refines_sequence:
  assumes "list_run (h, ListZero) tr s"
  shows "\<exists>xs. seq_run [] tr xs \<and> represents s xs \<and> list_find P s \<noteq> None
    \<and> ListRemoveItem (fst s) (snd s) P \<noteq> None \<and> ListDetachHead (fst s) (snd s) \<noteq> None
    \<and> ListPopTail (fst s) (snd s) \<noteq> None \<and> l_count (snd s) = int (length xs)
    \<and> (fst s a = None \<longrightarrow> ListAppend (fst s) (snd s) c sz (Some a) \<noteq> None)"
proof -
  obtain xs where xs: "seq_run [] tr xs" "represents s xs"
    using list_run_simulates[OF assms ListZero_represents] by blast
  obtain as where as: "list_at (fst s) (snd s) as" "contents (fst s) as = xs"
    using xs(2) by (auto simp: represents_def)
  have "list_find P s \<noteq> None" using ll.find[OF xs(2), of P] by auto
  moreover have "ListRemoveItem (fst s) (snd s) P \<noteq> None"
    using ListUnlink_at[OF as(1), of P] by (auto simp: ListRemoveItem_def)
  moreover have "ListDetachHead (fst s) (snd s) \<noteq> None"
    by (rule ListDetachHead_defined[OF as(1)])
  moreover have "ListPopTail (fst s) (snd s) \<noteq> None"
    by (rule ListPopTail_defined[OF as(1)])
  moreover have "l_count (snd s) = int (length xs)"
    using as by (auto simp: list_at_def)
  moreover have "fst s a = None \<longrightarrow> ListAppend (fst s) (snd s) c sz (Some a) \<noteq> None"
    using ListAppendNoMalloc_at[OF as(1), of a c sz] by (auto simp: ListAppend_def)
  ultimately show ?thesis using xs by (intro exI[of _ xs] conjI) assumption+
qed

theorem list_refines_sequence_witness:
  "\<exists>s. list_run (Map.empty, ListZero) [(OpAppend (5 :: nat), None), (OpAppend 6, None),
      (OpDetachHead, Some 5)] s \<and> (\<exists>xs. represents s xs \<and> l_count (snd s) = int (length xs))"
proof -
  define h1 l1 where "h1 = [1 :: nat \<mapsto> \<lparr>el_prev = None, el_next = None, el_content = 5 :: nat\<rparr>]"
    and "l1 = \<lparr>l_first = Some 1, l_last = Some 1, l_current = None, l_count = 1, l_size = 4\<rparr>"
  define h2 l2 where "h2 = h1(2 \<mapsto> \<lparr>el_prev = Some 1, el_next = None, el_content = 6\<rparr>,
      1 \<mapsto> \<lparr>el_prev = None, el_next = Some 2, el_content = 5\<rparr>)"
    and "l2 = l1\<lparr>l_last := Some 2, l_count := 2, l_size := 8\<rparr>"
  have "list_step (Map.empty, ListZero) (OpAppend 5) None (h1, l1)"
    by (rule step_append[where a = 1 and sz = 4])
      (simp_all add: ListAppend_def ListAppendNoMalloc_def ListZero_def h1_def l1_def)
  then have "list_run (Map.empty, ListZero) ([] @ [(OpAppend 5, None)]) (h1, l1)"
    by (rule run_step[OF run_nil])
  moreover have "list_step (h1, l1) (OpAppend 6) None (h2, l2)"
    by (rule step_append[where a = 2 and sz = 4])
      (simp_all add: ListAppend_def ListAppendNoMalloc_def set_next_def h1_def l1_def h2_def l2_def)
  moreover obtain h3 l3 where "ListDetachHead h2 l2 = Some (Some 5, h3, l3)"
    by (simp add: ListDetachHead_def set_prev_def Let_def h2_def l2_def h1_def l1_def)
  then have "list_step (h2, l2) OpDetachHead (Some 5) (h3, l3)" by (rule step_detach)
  ultimately have "list_run (Map.empty, ListZero)
      ((([] @ [(OpAppend 5, None)]) @ [(OpAppend 6, None)]) @ [(OpDetachHead, Some 5)]) (h3, l3)"
    using run_step by blast
  then show ?thesis
    using list_refines_sequence[of Map.empty _ "(h3, l3)" "\<lambda>_. True" 1 0 0] by fastforce
qed

text \<open>
  C36: \<open>ListInsert\<close> puts the new element in front of the given one, and nowhere else in the
  sequence, and links it in both directions: the structure represents the new sequence.
\<close>

theorem ListInsert_correct:
  assumes "list_at h l (xs @ i # ys)" and "h a = None"
  shows "\<exists>h' l'. ListInsert h l c sz (Some i) (Some a) = Some (Some a, h', l')
    \<and> list_at h' l' (xs @ a # i # ys)
    \<and> contents h' (xs @ a # i # ys) = contents h xs @ c # contents h (i # ys)"
  using ListInsert_at[OF assms] .

theorem ListInsert_correct_witness:
  "\<exists>h' l'. ListInsert [1 \<mapsto> \<lparr>el_prev = None, el_next = None, el_content = 7 :: nat\<rparr>]
      \<lparr>l_first = Some 1, l_last = Some 1, l_current = None, l_count = 1, l_size = 4\<rparr> 9 4 (Some 1) (Some 2)
      = Some (Some 2, h', l') \<and> list_at h' l' [2, 1] \<and> contents h' [2, 1] = [9, 7]"
  using ListInsert_correct[of "[1 \<mapsto> \<lparr>el_prev = None, el_next = None, el_content = 7 :: nat\<rparr>]"
      "\<lparr>l_first = Some 1, l_last = Some 1, l_current = None, l_count = 1, l_size = 4\<rparr>" "[]" 1 "[]" 2 9 4]
  by (simp add: list_at_def)

text \<open>
  C37: \<open>ListEmpty\<close> frees every content once, in order, and every element of the list and no
  other, and leaves the structure as \<open>ListZero\<close> does; its loop ends.
\<close>

theorem ListEmpty_correct:
  assumes "list_at h l as"
  shows "\<exists>h'. ListEmpty h l = Some (contents h as, h', ListZero)
    \<and> (\<forall>a. h' a = (if a \<in> set as then None else h a))"
  using ListEmpty_at[OF assms] by auto

theorem ListEmpty_correct_witness:
  "\<exists>h'. ListEmpty [1 \<mapsto> \<lparr>el_prev = None, el_next = None, el_content = 7 :: nat\<rparr>]
      \<lparr>l_first = Some 1, l_last = Some 1, l_current = None, l_count = 1, l_size = 4\<rparr> = Some ([7], h', ListZero)"
  using ListEmpty_correct[of "[1 \<mapsto> \<lparr>el_prev = None, el_next = None, el_content = 7 :: nat\<rparr>]"
      "\<lparr>l_first = Some 1, l_last = Some 1, l_current = None, l_count = 1, l_size = 4\<rparr>" "[1]"]
  by (auto simp: list_at_def)

end
