(* ===== verification/Packet_Coding.thy ===== *)
theory Packet_Coding
  imports Prelude "HOL-Library.Signed_Division"
begin

text \<open>
  The primitive encodings of \<^verbatim>\<open>src/MQTTPacket.c\<close>: fixed-width integers, characters,
  length-delimited strings, the variable byte integer of the MQTT remaining length and of
  version 5 properties, and the bit fields of the header byte.

  A writer returns the bytes it stores at the pointer it is given. A reader takes the memory
  and the position of the pointer and returns the value and the moved pointer, or \<open>None\<close>
  when it would read outside the memory. C values of type \<open>int\<close> are \<open>int\<close>, values of type
  \<open>size_t\<close> are \<open>nat\<close>, \<open>unsigned int\<close> is \<open>32 word\<close>.
\<close>

subsection \<open>Completion codes and versions\<close>

definition SOCKET_ERROR :: int where "SOCKET_ERROR = -1"
definition TCPSOCKET_COMPLETE :: int where "TCPSOCKET_COMPLETE = 0"
definition TCPSOCKET_INTERRUPTED :: int where "TCPSOCKET_INTERRUPTED = -22"
definition PAHO_MEMORY_ERROR :: int where "PAHO_MEMORY_ERROR = -99"

lemmas rc_defs = SOCKET_ERROR_def TCPSOCKET_COMPLETE_def TCPSOCKET_INTERRUPTED_def
  PAHO_MEMORY_ERROR_def

subsection \<open>The header byte\<close>

text \<open>
  The union \<open>Header\<close> overlays the byte with bit fields. Storing a field keeps its low bits
  only; on the little-endian layout the first field is the lowest bit.
\<close>

record Header =
  hd_type :: nat
  hd_dup :: nat
  hd_qos :: nat
  hd_retain :: nat

definition header_bits :: "byte \<Rightarrow> Header" where
  "header_bits b = \<lparr>hd_type = unat b div 16, hd_dup = unat b div 8 mod 2,
     hd_qos = unat b div 2 mod 4, hd_retain = unat b mod 2\<rparr>"

definition header_byte :: "Header \<Rightarrow> byte" where
  "header_byte h = of_nat (hd_type h mod 16 * 16 + hd_dup h mod 2 * 8
     + hd_qos h mod 4 * 2 + hd_retain h mod 2)"

definition Header_zero :: Header where
  "Header_zero = \<lparr>hd_type = 0, hd_dup = 0, hd_qos = 0, hd_retain = 0\<rparr>"

text \<open>The packet types of \<open>enum msgTypes\<close>.\<close>

abbreviation (input) CONNECT :: nat where "CONNECT \<equiv> 1"
abbreviation (input) CONNACK :: nat where "CONNACK \<equiv> 2"
abbreviation (input) PUBLISH :: nat where "PUBLISH \<equiv> 3"
abbreviation (input) PUBACK :: nat where "PUBACK \<equiv> 4"
abbreviation (input) PUBREC :: nat where "PUBREC \<equiv> 5"
abbreviation (input) PUBREL :: nat where "PUBREL \<equiv> 6"
abbreviation (input) PUBCOMP :: nat where "PUBCOMP \<equiv> 7"
abbreviation (input) SUBSCRIBE :: nat where "SUBSCRIBE \<equiv> 8"
abbreviation (input) SUBACK :: nat where "SUBACK \<equiv> 9"
abbreviation (input) UNSUBSCRIBE :: nat where "UNSUBSCRIBE \<equiv> 10"
abbreviation (input) UNSUBACK :: nat where "UNSUBACK \<equiv> 11"
abbreviation (input) PINGREQ :: nat where "PINGREQ \<equiv> 12"
abbreviation (input) PINGRESP :: nat where "PINGRESP \<equiv> 13"
abbreviation (input) DISCONNECT :: nat where "DISCONNECT \<equiv> 14"
abbreviation (input) AUTH :: nat where "AUTH \<equiv> 15"

definition packet_names :: "string list" where
  "packet_names =
     [''RESERVED'', ''CONNECT'', ''CONNACK'', ''PUBLISH'', ''PUBACK'', ''PUBREC'', ''PUBREL'',
      ''PUBCOMP'', ''SUBSCRIBE'', ''SUBACK'', ''UNSUBSCRIBE'', ''UNSUBACK'',
      ''PINGREQ'', ''PINGRESP'', ''DISCONNECT'', ''AUTH'']"

definition MQTTPacket_name :: "int \<Rightarrow> string" where
  "MQTTPacket_name ptype =
     (if 0 \<le> ptype \<and> ptype \<le> int AUTH then packet_names ! nat ptype else ''UNKNOWN'')"

subsection \<open>Fixed-width values\<close>

definition readChar :: "byte list \<Rightarrow> nat \<Rightarrow> (byte \<times> nat) option" where
  "readChar bs p = do { c \<leftarrow> nth_opt bs p; Some (c, p + 1) }"

definition writeChar :: "byte \<Rightarrow> byte list" where
  "writeChar c = [c]"

definition readInt :: "byte list \<Rightarrow> nat \<Rightarrow> (int \<times> nat) option" where
  "readInt bs p = do {
     b0 \<leftarrow> nth_opt bs p;
     b1 \<leftarrow> nth_opt bs (p + 1);
     Some (256 * int (unat b0) + int (unat b1), p + 2)
   }"

text \<open>\<open>anInt / 256\<close> and \<open>anInt % 256\<close> truncate towards zero, the cast to \<open>char\<close> keeps 8 bits.\<close>

definition writeInt :: "int \<Rightarrow> byte list" where
  "writeInt anInt = [word_of_int (anInt sdiv 256), word_of_int (anInt smod 256)]"

text \<open>
  In \<open>readInt4\<close> the product \<open>16777216 * byte\<close> is formed in \<open>int\<close>; for a first byte of 128 or
  more it exceeds the range of \<open>int\<close> and the wrap-around of the machine is taken.
\<close>

definition readInt4 :: "byte list \<Rightarrow> nat \<Rightarrow> (32 word \<times> nat) option" where
  "readInt4 bs p = do {
     b0 \<leftarrow> nth_opt bs p;
     b1 \<leftarrow> nth_opt bs (p + 1);
     b2 \<leftarrow> nth_opt bs (p + 2);
     b3 \<leftarrow> nth_opt bs (p + 3);
     Some (16777216 * ucast b0 + 65536 * ucast b1 + 256 * ucast b2 + ucast b3, p + 4)
   }"

definition writeInt4 :: "32 word \<Rightarrow> byte list" where
  "writeInt4 anInt =
     (let a1 = anInt mod 16777216; a2 = a1 mod 65536
      in [ucast (anInt div 16777216), ucast (a1 div 65536), ucast (a2 div 256), ucast (a2 mod 256)])"

subsection \<open>Length-delimited strings\<close>

text \<open>
  \<open>memcpy\<close> of \<open>n\<close> bytes from the start of a block. A C string is the list of the bytes
  before its terminator.
\<close>

definition memcpy :: "byte list \<Rightarrow> int \<Rightarrow> byte list option" where
  "memcpy src n = (if 0 \<le> n \<and> nat n \<le> length src then Some (take (nat n) src) else None)"

definition writeUTF :: "byte list \<Rightarrow> byte list" where
  "writeUTF str = writeInt (to_int32 (int (length str))) @ str"

definition writeData :: "byte list \<Rightarrow> int \<Rightarrow> byte list option" where
  "writeData data datalen = do { d \<leftarrow> memcpy data datalen; Some (writeInt datalen @ d) }"

record MQTTLenString =
  ls_len :: int
  ls_data :: "byte list option"

definition writeMQTTLenString :: "MQTTLenString \<Rightarrow> byte list option" where
  "writeMQTTLenString s = do {
     d \<leftarrow> ls_data s;
     c \<leftarrow> memcpy d (ls_len s);
     Some (writeInt (ls_len s) @ c)
   }"

text \<open>
  The readers of length-delimited data get the position \<open>enddata\<close> that must not be read
  beyond. \<open>readUTFlen\<close> returns the allocated string (\<open>None\<close> for null), the length read and the
  moved pointer; when the string would overrun, the pointer stays behind the length field.
\<close>

definition readUTFlen ::
  "mem \<Rightarrow> byte list \<Rightarrow> nat \<Rightarrow> nat \<Rightarrow> (byte list option \<times> int option \<times> nat \<times> mem) option" where
  "readUTFlen m bs p enddata =
     (if int enddata - int p > 1 then do {
        (len, p1) \<leftarrow> readInt bs p;
        if int p1 + len \<le> int enddata then
          (let (ok, m1) = malloc m in
           if ok then do {
             str \<leftarrow> memcpy (drop p1 bs) len;
             Some (Some str, Some len, p1 + nat len, m1)
           } else Some (None, Some len, p1, m1))
        else Some (None, Some len, p1, m)
      } else Some (None, None, p, m))"

definition readUTF ::
  "mem \<Rightarrow> byte list \<Rightarrow> nat \<Rightarrow> nat \<Rightarrow> (byte list option \<times> nat \<times> mem) option" where
  "readUTF m bs p enddata = do {
     (str, len, p1, m1) \<leftarrow> readUTFlen m bs p enddata;
     Some (str, p1, m1)
   }"

text \<open>
  \<open>MQTTLenStringRead\<close> leaves the string pointing into the buffer: \<open>ls_data\<close> is the buffer from
  there on. The first component is the number of bytes used, or -1.
\<close>

definition MQTTLenStringRead ::
  "byte list \<Rightarrow> nat \<Rightarrow> nat \<Rightarrow> (int \<times> MQTTLenString option \<times> nat) option" where
  "MQTTLenStringRead bs p enddata =
     (if int enddata - int p > 1 then do {
        (len, p1) \<leftarrow> readInt bs p;
        if int p1 + len \<le> int enddata
        then Some (2 + len, Some \<lparr>ls_len = len, ls_data = Some (drop p1 bs)\<rparr>, p1 + nat len)
        else Some (-1, None, p1)
      } else Some (-1, None, p))"

subsection \<open>The variable byte integer\<close>

text \<open>
  \<open>MQTTPacket_encode\<close> as its loop: \<open>buf\<close> says whether there is a buffer to store in, \<open>rc\<close>
  counts the digits, \<open>out\<close> collects what is stored.
\<close>

function MQTTPacket_encode_loop :: "bool \<Rightarrow> nat \<Rightarrow> nat \<Rightarrow> byte list \<Rightarrow> nat \<times> byte list" where
  "MQTTPacket_encode_loop buf len rc out =
     (let d = of_nat (len mod 128);
          len' = len div 128;
          d' = (if len' > 0 then d OR 0x80 else d);
          out' = (if buf then out @ [d'] else out)
      in if len' > 0 then MQTTPacket_encode_loop buf len' (rc + 1) out' else (rc + 1, out'))"
  by pat_completeness auto
termination
  by (relation "measure (\<lambda>(buf, len, rc, out). len)") auto

declare MQTTPacket_encode_loop.simps [simp del]

definition MQTTPacket_encode :: "bool \<Rightarrow> nat \<Rightarrow> nat \<times> byte list" where
  "MQTTPacket_encode buf len = MQTTPacket_encode_loop buf len 0 []"

definition MQTTPacket_VBIlen :: "int \<Rightarrow> int" where
  "MQTTPacket_VBIlen rem_len =
     (if rem_len < 128 then 1
      else if rem_len < 16384 then 2
      else if rem_len < 2097152 then 3
      else 4)"

definition MAX_NO_OF_REMAINING_LENGTH_BYTES :: nat where
  "MAX_NO_OF_REMAINING_LENGTH_BYTES = 4"

text \<open>
  \<open>MQTTPacket_VBIdecode\<close> reads with a callback that returns its completion code and a byte;
  the callback and the state it reads from are parameters.
\<close>

function MQTTPacket_VBIdecode_loop ::
  "('s \<Rightarrow> (int \<times> byte \<times> 's) option) \<Rightarrow> 's \<Rightarrow> nat \<Rightarrow> nat \<Rightarrow> 32 word
   \<Rightarrow> (nat \<times> 32 word \<times> 's) option" where
  "MQTTPacket_VBIdecode_loop getcharfn s len multiplier val =
     (let len' = len + 1 in
      if len' > MAX_NO_OF_REMAINING_LENGTH_BYTES then Some (len', val, s)
      else do {
        (rc, c, s') \<leftarrow> getcharfn s;
        if rc \<noteq> 1 then Some (len', val, s')
        else let val' = val + of_nat (unat (c AND 127) * multiplier) in
             if c AND 128 \<noteq> 0
             then MQTTPacket_VBIdecode_loop getcharfn s' len' (multiplier * 128) val'
             else Some (len', val', s')
      })"
  by pat_completeness auto
termination
  by (relation "measure (\<lambda>(g, s, len, m, v). 4 - len)")
    (auto simp: MAX_NO_OF_REMAINING_LENGTH_BYTES_def)

declare MQTTPacket_VBIdecode_loop.simps [simp del]

definition MQTTPacket_VBIdecode ::
  "('s \<Rightarrow> (int \<times> byte \<times> 's) option) \<Rightarrow> 's \<Rightarrow> (nat \<times> 32 word \<times> 's) option" where
  "MQTTPacket_VBIdecode getcharfn s = MQTTPacket_VBIdecode_loop getcharfn s 0 1 0"

text \<open>The callback that reads from a buffer, and the decoder on a buffer. The state of the
  callback is the static pointer \<open>bufptr\<close>.\<close>

definition bufchar :: "byte list \<Rightarrow> nat \<Rightarrow> (int \<times> byte \<times> nat) option" where
  "bufchar bs p = do { c \<leftarrow> nth_opt bs p; Some (1, c, p + 1) }"

definition MQTTPacket_decodeBuf :: "byte list \<Rightarrow> nat \<Rightarrow> (nat \<times> 32 word) option" where
  "MQTTPacket_decodeBuf bs p = do {
     (len, val, bufptr) \<leftarrow> MQTTPacket_VBIdecode (bufchar bs) p;
     Some (len, val)
   }"

text \<open>
  \<open>MQTTPacket_decode\<close> reads the remaining length from the network. \<open>getch\<close> stands for
  \<open>WebSocket_getch\<close> on the network state \<open>'s\<close>, with its completion code and the character it
  stored, if it stored one; the value is a \<open>size_t\<close>.
\<close>

function MQTTPacket_decode_loop ::
  "('s \<Rightarrow> (int \<times> byte option \<times> 's) option) \<Rightarrow> 's \<Rightarrow> nat \<Rightarrow> nat \<Rightarrow> nat \<Rightarrow> (int \<times> nat \<times> 's) option" where
  "MQTTPacket_decode_loop getch s len multiplier val =
     (let len' = len + 1 in
      if len' > MAX_NO_OF_REMAINING_LENGTH_BYTES then Some (SOCKET_ERROR, val, s)
      else do {
        (rc, stored, s') \<leftarrow> getch s;
        if rc \<noteq> TCPSOCKET_COMPLETE then Some (rc, val, s')
        else do {
          c \<leftarrow> stored;
          let val' = val + unat (c AND 127) * multiplier;
          if c AND 128 \<noteq> 0
          then MQTTPacket_decode_loop getch s' len' (multiplier * 128) val'
          else Some (rc, val', s')
        }
      })"
  by pat_completeness auto
termination
  by (relation "measure (\<lambda>(g, s, len, m, v). 4 - len)")
    (auto simp: MAX_NO_OF_REMAINING_LENGTH_BYTES_def)

declare MQTTPacket_decode_loop.simps [simp del]

definition MQTTPacket_decode ::
  "('s \<Rightarrow> (int \<times> byte option \<times> 's) option) \<Rightarrow> 's \<Rightarrow> (int \<times> nat \<times> 's) option" where
  "MQTTPacket_decode getch s = MQTTPacket_decode_loop getch s 0 1 0"

subsection \<open>The interface of an encoding\<close>

text \<open>
  What the packet code relies on for every kind of field: a reader that meets the encoding of
  a valid value, all of it before the end of the data, returns the value and the position
  behind it.
\<close>

locale codec =
  fixes enc :: "'a \<Rightarrow> byte list"
    and dec :: "nat \<Rightarrow> byte list \<Rightarrow> nat \<Rightarrow> ('a \<times> nat) option"
    and valid :: "'a \<Rightarrow> bool"
  assumes dec_enc: "valid x \<Longrightarrow> lies_at bs p (enc x) \<Longrightarrow> p + length (enc x) \<le> e \<Longrightarrow>
    dec e bs p = Some (x, p + length (enc x))"
begin

lemma enc_prefix_free:
  assumes "valid x" "valid y" "enc x @ r = enc y @ s"
  shows "x = y \<and> r = s"
proof -
  let ?bs = "enc x @ r"
  have "dec (length ?bs) ?bs 0 = Some (x, length (enc x))"
    using dec_enc[OF assms(1), of ?bs 0 "length ?bs"] by simp
  moreover have "dec (length ?bs) ?bs 0 = Some (y, length (enc y))"
    using dec_enc[OF assms(2), of ?bs 0 "length ?bs"] by (simp add: assms(3))
  ultimately show ?thesis using assms(3) by simp
qed

lemma enc_inj: "valid x \<Longrightarrow> valid y \<Longrightarrow> enc x = enc y \<longleftrightarrow> x = y"
  using enc_prefix_free[of x y "[]" "[]"] by auto

lemma dec_front: "valid x \<Longrightarrow> dec (length (enc x @ r)) (enc x @ r) 0 = Some (x, length (enc x))"
  using dec_enc[of x "enc x @ r" 0 "length (enc x @ r)"] by simp

lemma dec_two:
  assumes "valid x" "valid y" "lies_at bs q (enc x @ enc y)" "q + length (enc x) + length (enc y) \<le> e"
  shows "do { (a, p) \<leftarrow> dec e bs q; (b, p') \<leftarrow> dec e bs p; Some (a, b, p') }
    = Some (x, y, q + length (enc x) + length (enc y))"
  using assms by (simp add: lies_at_append dec_enc)

end

lemma int_unat_word_of_int_byte: "0 \<le> k \<Longrightarrow> k < 256 \<Longrightarrow> int (unat (word_of_int k :: byte)) = k"
  by (simp add: unsigned_of_int take_bit_int_eq_self)

lemma uint_word_of_int_byte: "0 \<le> k \<Longrightarrow> k < 256 \<Longrightarrow> uint (word_of_int k :: byte) = k"
  by (simp add: unsigned_of_int take_bit_int_eq_self)

lemma length_writeInt [simp]: "length (writeInt n) = 2"
  by (simp add: writeInt_def)

lemma length_writeInt4 [simp]: "length (writeInt4 n) = 4"
  by (simp add: writeInt4_def Let_def)

lemma writeInt_nonneg: "0 \<le> n \<Longrightarrow> writeInt n = [word_of_int (n div 256), word_of_int (n mod 256)]"
  by (cases "n = 0") (simp_all add: writeInt_def signed_divide_int_def signed_modulo_int_def sgn_if)

lemma add_small [at_simps]: "n + 2 = Suc (Suc n)" "n + 3 = Suc (Suc (Suc n))" "n + 4 = Suc (Suc (Suc (Suc n)))"
  by simp_all

interpretation char_codec: codec writeChar "\<lambda>e. readChar" "\<lambda>_. True"
  by unfold_locales (simp add: readChar_def writeChar_def lies_at_Cons)

interpretation int_codec: codec writeInt "\<lambda>e. readInt" "\<lambda>n. 0 \<le> n \<and> n < 65536"
  by unfold_locales
    (auto simp: readInt_def writeInt_nonneg at_simps uint_word_of_int_byte)

lemma int4_split:
  fixes x :: "32 word"
  shows "16777216 * ucast (ucast (x div 16777216) :: byte) + 65536 * ucast (ucast (x mod 16777216 div 65536) :: byte)
    + 256 * ucast (ucast (x mod 16777216 mod 65536 div 256) :: byte)
    + ucast (ucast (x mod 16777216 mod 65536 mod 256) :: byte) = x"
proof -
  define u v w where "u = unat x" and "v = u mod 16777216" and "w = v mod 65536"
  have lt: "u < 4294967296" using unsigned_less[of x] by (simp add: u_def)
  have "16777216 * (u div 16777216) + v = u" "65536 * (v div 65536) + w = v"
    "256 * (w div 256) + w mod 256 = w"
    by (simp_all add: v_def w_def)
  then have sum: "16777216 * (u div 16777216) + 65536 * (v div 65536) + 256 * (w div 256) + w mod 256 = u"
    by linarith
  have "u div 16777216 < 256" "v div 65536 < 256" "w div 256 < 256"
    using lt by (simp_all add: v_def w_def)
  then show ?thesis
    using sum lt
    by (simp add: word_unat_eq_iff unat_word_ariths unat_div unat_mod unsigned_ucast_eq take_bit_eq_mod
        flip: u_def v_def w_def)
qed

interpretation int4_codec: codec writeInt4 "\<lambda>e. readInt4" "\<lambda>_. True"
  by unfold_locales
    (simp add: readInt4_def writeInt4_def Let_def at_simps int4_split)

subsection \<open>The variable byte integer\<close>

text \<open>The encoding as a recursive function on the value, least significant digit first.\<close>

fun vbi :: "nat \<Rightarrow> byte list" where
  "vbi n = (if n < 128 then [of_nat n] else (of_nat (n mod 128) OR 0x80) # vbi (n div 128))"

declare vbi.simps [simp del]

lemma MQTTPacket_encode_loop_eq:
  "MQTTPacket_encode_loop buf n rc out = (rc + length (vbi n), if buf then out @ vbi n else out)"
proof (induction buf n rc out rule: MQTTPacket_encode_loop.induct)
  case (1 buf n rc out)
  show ?case
  proof (cases "n < 128")
    case True
    then have "n div 128 = 0" by simp
    with True show ?thesis
      by (subst MQTTPacket_encode_loop.simps) (simp add: vbi.simps[of n])
  next
    case False
    then have pos: "n div 128 > 0" by simp
    show ?thesis
      using "1.IH"[OF refl refl refl refl pos] pos False
      by (subst MQTTPacket_encode_loop.simps) (simp add: vbi.simps[of n] Let_def)
  qed
qed

lemma MQTTPacket_encode_eq: "MQTTPacket_encode buf n = (length (vbi n), if buf then vbi n else [])"
  by (simp add: MQTTPacket_encode_def MQTTPacket_encode_loop_eq)

lemma digit_bits:
  "unat b < 128 \<longrightarrow> unat ((b OR 0x80) AND 127) = unat b \<and> (b OR 0x80) AND 128 \<noteq> 0
     \<and> unat (b AND 127) = unat b \<and> b AND 128 = (0 :: byte)"
  by (rule byte_exhaust[of _ b]) (simp add: less_16)

lemma digit_of_nat:
  assumes "n < 128"
  shows "unat ((of_nat n OR 0x80) AND 127 :: byte) = n" "(of_nat n OR 0x80) AND 128 \<noteq> (0 :: byte)"
    "unat (of_nat n AND 127 :: byte) = n" "of_nat n AND 128 = (0 :: byte)"
  using digit_bits[of "of_nat n"] assms by (simp_all add: unat_byte_of_nat)

lemma VBIdecode_loop_vbi:
  "len < 4 \<Longrightarrow> n < 128 ^ (4 - len) \<Longrightarrow> lies_at bs p (vbi n) \<Longrightarrow>
   MQTTPacket_VBIdecode_loop (bufchar bs) p len mult v
   = Some (len + length (vbi n), v + of_nat (n * mult), p + length (vbi n))"
proof (induction n arbitrary: len p mult v rule: vbi.induct)
  case (1 n)
  note unfold = MQTTPacket_VBIdecode_loop.simps[of "bufchar bs" p len mult v]
  have len: "\<not> MAX_NO_OF_REMAINING_LENGTH_BYTES < Suc len"
    using "1.prems" by (simp add: MAX_NO_OF_REMAINING_LENGTH_BYTES_def)
  show ?case
  proof (cases "n < 128")
    case True
    with "1.prems" show ?thesis
      unfolding unfold by (simp add: vbi.simps[of n] at_simps bufchar_def[of bs p] len digit_of_nat
          del: of_nat_mult)
  next
    case False
    have l: "len + 1 < 4"
    proof (rule ccontr)
      assume "\<not> len + 1 < 4"
      with "1.prems"(1) have "len = 3" by simp
      with "1.prems"(2) False show False by simp
    qed
    have "n div 128 < 128 ^ (4 - (len + 1))"
    proof -
      have "128 ^ (4 - len) = 128 * (128 :: nat) ^ (4 - (len + 1))"
        using l by (simp flip: power_Suc)
      with "1.prems"(2) show ?thesis by (simp add: less_mult_imp_div_less mult.commute)
    qed
    moreover have "lies_at bs (p + 1) (vbi (n div 128))"
      using "1.prems"(3) False by (simp add: vbi.simps[of n] lies_at_Cons)
    moreover have "mult * (n mod 128) + mult * (128 * (n div 128)) = mult * n"
      by (simp flip: distrib_left)
    moreover obtain c where "nth_opt bs p = Some c" "unat (c AND 127) = n mod 128" "c AND 128 \<noteq> 0"
      using "1.prems"(3) False digit_of_nat(1,2)[of "n mod 128"]
      by (auto simp: vbi.simps[of n] lies_at_Cons simp del: word_of_nat_eq_0_iff)
    ultimately show ?thesis
      using "1.IH"[OF False l, of "p + 1" "mult * 128"] False
        mod_mult_div_eq[of n 128]
      unfolding unfold
      by (simp add: vbi.simps[of n] bufchar_def[of bs p] len algebra_simps
          del: of_nat_mult of_nat_add flip: of_nat_add)
  qed
qed

lemma decodeBuf_vbi:
  "n < 268435456 \<Longrightarrow> lies_at bs p (vbi n) \<Longrightarrow> MQTTPacket_decodeBuf bs p = Some (length (vbi n), of_nat n)"
  using VBIdecode_loop_vbi[of 0 n bs p 1 0]
  by (simp add: MQTTPacket_decodeBuf_def MQTTPacket_VBIdecode_def)

lemma length_vbi_step: "length (vbi n) = (if n < 128 then 1 else Suc (length (vbi (n div 128))))"
  by (simp add: vbi.simps[of n])

lemma length_vbi:
  "length (vbi n) = (if n < 128 then 1 else if n < 16384 then 2 else if n < 2097152 then 3
     else if n < 268435456 then 4 else 4 + length (vbi (n div 268435456)))"
proof -
  have d: "n div 128 < 128 \<longleftrightarrow> n < 16384" "n div 16384 < 128 \<longleftrightarrow> n < 2097152"
    "n div 2097152 < 128 \<longleftrightarrow> n < 268435456"
    by (simp_all add: div_less_iff_less_mult)
  have q: "n div 128 div 128 = n div 16384" "n div 16384 div 128 = n div 2097152"
    "n div 2097152 div 128 = n div 268435456"
    by (simp_all flip: div_mult2_eq)
  show ?thesis
    by (simp add: length_vbi_step[of n] length_vbi_step[of "n div 128"]
        length_vbi_step[of "n div 16384"] length_vbi_step[of "n div 2097152"] d q)
qed

lemma VBIlen_length_vbi:
  "0 \<le> i \<Longrightarrow> i < 268435456 \<Longrightarrow> MQTTPacket_VBIlen i = int (length (vbi (nat i)))"
  by (auto simp: MQTTPacket_VBIlen_def length_vbi nat_less_iff)

interpretation vbi_codec: codec vbi
  "\<lambda>e bs p. map_option (\<lambda>(len, val). (unat val, p + len)) (MQTTPacket_decodeBuf bs p)"
  "\<lambda>n. n < 268435456"
  by unfold_locales (simp add: decodeBuf_vbi unat_of_nat)

subsection \<open>Length-delimited strings\<close>

text \<open>The encoding of a string of at most 65535 bytes.\<close>

definition len_bytes :: "byte list \<Rightarrow> byte list" where
  "len_bytes s = writeInt (int (length s)) @ s"

lemma length_len_bytes [simp]: "length (len_bytes s) = 2 + length s"
  by (simp add: len_bytes_def)

lemma writeUTF_len_bytes: "int (length s) < 2 ^ 31 \<Longrightarrow> writeUTF s = len_bytes s"
  by (simp add: writeUTF_def len_bytes_def to_int32_id)

lemma writeData_len_bytes: "writeData s (int (length s)) = Some (len_bytes s)"
  by (simp add: writeData_def memcpy_def len_bytes_def)

lemma readInt_len_bytes:
  "length s < 65536 \<Longrightarrow> lies_at bs p (len_bytes s) \<Longrightarrow>
   readInt bs p = Some (int (length s), p + 2) \<and> lies_at bs (p + 2) s"
  using int_codec.dec_enc[of "int (length s)" bs p "p + 2"]
  by (simp add: len_bytes_def lies_at_append)

lemma lies_at_memcpy: "lies_at bs p s \<Longrightarrow> memcpy (drop p bs) (int (length s)) = Some s"
  by (auto simp: memcpy_def lies_at_def)

lemma readUTFlen_len_bytes [read_rules]:
  assumes "length s < 65536" "lies_at bs p (len_bytes s)" "p + length (len_bytes s) \<le> e"
  shows "readUTFlen m bs p e = (let (ok, m') = malloc m in
    Some (if ok then (Some s, Some (int (length s)), p + length (len_bytes s), m')
      else (None, Some (int (length s)), p + 2, m')))"
  using readInt_len_bytes[OF assms(1,2)] assms(3)
  by (auto simp: readUTFlen_def Let_def lies_at_memcpy split: prod.splits)

interpretation utf_codec: codec len_bytes
  "\<lambda>e bs p. (case readUTFlen [] bs p e of Some (Some s, _, q, _) \<Rightarrow> Some (s, q) | _ \<Rightarrow> None)"
  "\<lambda>s. length s < 65536"
  by unfold_locales (simp add: readUTFlen_len_bytes)

text \<open>A length-delimited string whose length field is the length of its data.\<close>

definition lenstring_ok :: "MQTTLenString \<Rightarrow> bool" where
  "lenstring_ok s \<longleftrightarrow> (case ls_data s of None \<Rightarrow> False
     | Some d \<Rightarrow> ls_len s = int (length d) \<and> length d < 65536)"

definition lenstring_data :: "MQTTLenString \<Rightarrow> byte list" where
  "lenstring_data s = the (ls_data s)"

lemma lenstring_ok_iff:
  "lenstring_ok s \<longleftrightarrow> (\<exists>d. s = \<lparr>ls_len = int (length d), ls_data = Some d\<rparr> \<and> length d < 65536)"
  by (cases s) (auto simp: lenstring_ok_def split: option.splits)

lemma writeMQTTLenString_ok:
  "lenstring_ok s \<Longrightarrow> writeMQTTLenString s = Some (len_bytes (lenstring_data s))"
  by (auto simp: lenstring_ok_iff writeMQTTLenString_def memcpy_def len_bytes_def lenstring_data_def)

lemma MQTTLenStringRead_len_bytes [read_rules]:
  assumes "length s < 65536" "lies_at bs p (len_bytes s)" "p + length (len_bytes s) \<le> e"
  shows "MQTTLenStringRead bs p e = Some (2 + int (length s),
    Some \<lparr>ls_len = int (length s), ls_data = Some (drop (p + 2) bs)\<rparr>, p + length (len_bytes s))"
  using readInt_len_bytes[OF assms(1,2)] assms(3)
  by (simp add: MQTTLenStringRead_def)

subsection \<open>The remaining length on the network\<close>

text \<open>
  What the packet reader relies on from a network that may block. \<open>src H s k\<close> says that \<open>k\<close> bytes
  of the header \<open>H\<close> have been read in this attempt and the rest of it will come. Reading a byte
  either completes with the next byte of the header, or is interrupted; then the next attempt
  starts at the first byte again, and there is less to wait for.
\<close>

locale byte_source =
  fixes getch :: "'s \<Rightarrow> (int \<times> byte option \<times> 's) option"
    and src :: "byte list \<Rightarrow> 's \<Rightarrow> nat \<Rightarrow> bool"
    and work :: "'s \<Rightarrow> nat"
  assumes getch_step: "src H s k \<Longrightarrow> k < length H \<Longrightarrow>
    \<exists>s'. (getch s = Some (TCPSOCKET_COMPLETE, Some (H ! k), s') \<and> src H s' (Suc k) \<and> work s' \<le> work s)
      \<or> (getch s = Some (TCPSOCKET_INTERRUPTED, None, s') \<and> src H s' 0 \<and> work s' < work s)"
begin

lemma decode_loop_vbi:
  "len < 4 \<Longrightarrow> n < 128 ^ (4 - len) \<Longrightarrow> src H s k \<Longrightarrow> lies_at H k (vbi n) \<Longrightarrow>
   \<exists>s'. (MQTTPacket_decode_loop getch s len mult v = Some (TCPSOCKET_COMPLETE, v + n * mult, s')
       \<and> src H s' (k + length (vbi n)) \<and> work s' \<le> work s)
     \<or> (\<exists>u. MQTTPacket_decode_loop getch s len mult v = Some (TCPSOCKET_INTERRUPTED, u, s')
       \<and> src H s' 0 \<and> work s' < work s)"
proof (induction n arbitrary: len s k mult v rule: vbi.induct)
  case (1 n)
  note unfold = MQTTPacket_decode_loop.simps[of getch s len mult v]
  have len: "\<not> MAX_NO_OF_REMAINING_LENGTH_BYTES < Suc len"
    using "1.prems" by (simp add: MAX_NO_OF_REMAINING_LENGTH_BYTES_def)
  have rc: "TCPSOCKET_INTERRUPTED \<noteq> TCPSOCKET_COMPLETE" by (simp add: rc_defs)
  have "0 < length (vbi n)" by (simp add: vbi.simps[of n])
  then have k: "k < length H" using lies_at_bound[OF "1.prems"(4)] by linarith
  from getch_step[OF "1.prems"(3) k] obtain s1 where
    "(getch s = Some (TCPSOCKET_COMPLETE, Some (H ! k), s1) \<and> src H s1 (Suc k) \<and> work s1 \<le> work s)
      \<or> (getch s = Some (TCPSOCKET_INTERRUPTED, None, s1) \<and> src H s1 0 \<and> work s1 < work s)" by blast
  then show ?case
  proof
    assume "getch s = Some (TCPSOCKET_INTERRUPTED, None, s1) \<and> src H s1 0 \<and> work s1 < work s"
    then show ?thesis unfolding unfold by (auto simp: len rc)
  next
    assume c: "getch s = Some (TCPSOCKET_COMPLETE, Some (H ! k), s1) \<and> src H s1 (Suc k) \<and> work s1 \<le> work s"
    show ?thesis
    proof (cases "n < 128")
      case True
      with "1.prems"(4) have "H ! k = of_nat n"
        by (simp add: vbi.simps[of n] lies_at_Cons nth_opt_Some_iff)
      with True c show ?thesis
        unfolding unfold
        by (intro exI[of _ s1]) (simp add: len digit_of_nat vbi.simps[of n] del: word_of_nat_eq_0_iff)
    next
      case False
      with "1.prems"(4) have h: "H ! k = of_nat (n mod 128) OR 0x80" "lies_at H (Suc k) (vbi (n div 128))"
        by (simp_all add: vbi.simps[of n] lies_at_Cons nth_opt_Some_iff)
      then have b: "unat (H ! k AND 127) = n mod 128" "H ! k AND 128 \<noteq> 0"
        using digit_of_nat(1,2)[of "n mod 128"] by (simp_all del: word_of_nat_eq_0_iff)
      have l: "len + 1 < 4"
      proof (rule ccontr)
        assume "\<not> len + 1 < 4"
        with "1.prems"(1) have "len = 3" by simp
        with "1.prems"(2) False show False by simp
      qed
      have d: "n div 128 < 128 ^ (4 - (len + 1))"
      proof -
        have "128 ^ (4 - len) = 128 * (128 :: nat) ^ (4 - (len + 1))"
          using l by (simp flip: power_Suc)
        with "1.prems"(2) show ?thesis by (simp add: less_mult_imp_div_less mult.commute)
      qed
      have m: "mult * (n mod 128) + mult * (128 * (n div 128)) = mult * n"
        by (simp flip: distrib_left)
      have next_step: "MQTTPacket_decode_loop getch s len mult v
          = MQTTPacket_decode_loop getch s1 (len + 1) (mult * 128) (v + n mod 128 * mult)"
        using c b unfolding unfold by (simp add: len)
      have "v + n mod 128 * mult + n div 128 * (mult * 128) = v + n * mult"
        using m by (simp add: algebra_simps)
      with "1.IH"[OF False l d, of s1 "Suc k" "mult * 128" "v + n mod 128 * mult"] c h(2) False
      show ?thesis
        unfolding next_step by (auto simp: vbi.simps[of n] dest: less_le_trans order_trans)
    qed
  qed
qed

lemma decode_vbi:
  "n < 268435456 \<Longrightarrow> src H s k \<Longrightarrow> lies_at H k (vbi n) \<Longrightarrow>
   \<exists>s'. (MQTTPacket_decode getch s = Some (TCPSOCKET_COMPLETE, n, s')
       \<and> src H s' (k + length (vbi n)) \<and> work s' \<le> work s)
     \<or> (\<exists>u. MQTTPacket_decode getch s = Some (TCPSOCKET_INTERRUPTED, u, s') \<and> src H s' 0 \<and> work s' < work s)"
  using decode_loop_vbi[of 0 n H s k 1 0] by (simp add: MQTTPacket_decode_def)

end

subsection \<open>Properties of the encodings\<close>

lemma header_byte_bits_unat: "unat (header_byte h) = hd_type h mod 16 * 16 + hd_dup h mod 2 * 8
     + hd_qos h mod 4 * 2 + hd_retain h mod 2"
proof -
  have "hd_type h mod 16 * 16 + hd_dup h mod 2 * 8 + hd_qos h mod 4 * 2 + hd_retain h mod 2 < 256"
  proof -
    have "hd_type h mod 16 < 16" "hd_dup h mod 2 < 2" "hd_qos h mod 4 < 4" "hd_retain h mod 2 < 2"
      by simp_all
    then show ?thesis by linarith
  qed
  then show ?thesis by (simp add: header_byte_def unat_byte_of_nat del: of_nat_add of_nat_mult)
qed

lemma fields_split:
  fixes t d q r :: nat
  assumes "d < 2" "q < 4" "r < 2"
  shows "(t * 16 + d * 8 + q * 2 + r) div 16 = t" "(t * 16 + d * 8 + q * 2 + r) div 8 mod 2 = d"
    "(t * 16 + d * 8 + q * 2 + r) div 2 mod 4 = q" "(t * 16 + d * 8 + q * 2 + r) mod 2 = r"
proof -
  let ?n = "t * 16 + d * 8 + q * 2 + r"
  show "?n div 16 = t" using assms by (intro div_nat_eqI) auto
  have "?n div 8 = t * 2 + d" using assms by (intro div_nat_eqI) auto
  with assms show "?n div 8 mod 2 = d" by simp
  have "?n div 2 = t * 8 + d * 4 + q" using assms by (intro div_nat_eqI) auto
  then have "?n div 2 = (t * 2 + d) * 4 + q" by simp
  with assms show "?n div 2 mod 4 = q" by (metis mod_less mod_mult_self3)
  have "?n = (t * 8 + d * 4 + q) * 2 + r" by simp
  with assms show "?n mod 2 = r" by (metis mod_less mod_mult_self3)
qed

lemma header_bits_byte: "header_bits (header_byte h) = \<lparr>hd_type = hd_type h mod 16,
   hd_dup = hd_dup h mod 2, hd_qos = hd_qos h mod 4, hd_retain = hd_retain h mod 2\<rparr>"
proof -
  have b: "hd_dup h mod 2 < 2" "hd_qos h mod 4 < 4" "hd_retain h mod 2 < 2" by simp_all
  show ?thesis
    unfolding header_bits_def header_byte_bits_unat fields_split[OF b] by simp
qed

text \<open>
  The bit fields of the header byte: the fields of a stored byte give the byte back, and a
  byte built from fields has those fields, cut to 4, 1, 2 and 1 bits.
\<close>

theorem header_byte_roundtrip:
  "header_byte (header_bits b) = b \<and>
   header_bits (header_byte h) = \<lparr>hd_type = hd_type h mod 16, hd_dup = hd_dup h mod 2,
     hd_qos = hd_qos h mod 4, hd_retain = hd_retain h mod 2\<rparr>"
proof
  show "header_byte (header_bits b) = b"
    by (rule byte_exhaust[of _ b]) (simp add: less_16 header_byte_def header_bits_def)
qed (rule header_bits_byte)

text \<open>
  C30: the variable byte integer round trip: wherever the bytes stored by \<open>MQTTPacket_encode\<close> for
  a length below 268435456 lie in a buffer, \<open>MQTTPacket_decodeBuf\<close> reads the length back and
  reports the number of bytes that \<open>MQTTPacket_encode\<close> reported, with and without a buffer;
  \<open>MQTTPacket_VBIlen\<close> predicts that number.
\<close>

theorem VBI_roundtrip:
  assumes "n < 268435456"
  shows "MQTTPacket_decodeBuf (xs @ snd (MQTTPacket_encode True n) @ ys) (length xs)
      = Some (fst (MQTTPacket_encode False n), of_nat n)
    \<and> fst (MQTTPacket_encode True n) = length (snd (MQTTPacket_encode True n))
    \<and> int (fst (MQTTPacket_encode True n)) = MQTTPacket_VBIlen (int n)"
  using assms decodeBuf_vbi[OF assms, of "xs @ vbi n @ ys" "length xs"] VBIlen_length_vbi[of "int n"]
  by (simp add: MQTTPacket_encode_eq)

theorem VBI_roundtrip_witness:
  "MQTTPacket_decodeBuf (snd (MQTTPacket_encode True 300)) 0 = Some (fst (MQTTPacket_encode False 300), 300)"
  using VBI_roundtrip[of 300 "[]" "[]"] by simp



text \<open>
  C33: a variable byte integer that does not end within four bytes is not rejected by
  \<open>MQTTPacket_decodeBuf\<close>: it reports five bytes used although it read four, with the value of
  the four bytes.
\<close>

theorem decodeBuf_overlong:
  assumes "\<forall>c \<in> {b0, b1, b2, b3}. c AND 128 \<noteq> 0"
  shows "\<exists>v. MQTTPacket_decodeBuf (xs @ [b0, b1, b2, b3] @ ys) (length xs) = Some (5, v)
    \<and> unat v < 268435456"
proof -
  define bs where "bs = xs @ [b0, b1, b2, b3] @ ys"
  let ?p = "length xs"
  have g: "bufchar bs ?p = Some (1, b0, Suc ?p)"
    "bufchar bs (Suc ?p) = Some (1, b1, Suc (Suc ?p))"
    "bufchar bs (Suc (Suc ?p)) = Some (1, b2, Suc (Suc (Suc ?p)))"
    "bufchar bs (Suc (Suc (Suc ?p))) = Some (1, b3, Suc (Suc (Suc (Suc ?p))))"
    by (simp_all add: bufchar_def nth_opt_append bs_def)
  define d where "d b = unat (b AND 127)" for b :: byte
  have d: "d b < 128" for b
  proof -
    have "\<forall>b :: byte. unat (b AND 127) < 128"
      using byte_exhaust[of "\<lambda>b. unat (b AND 127) < 128"] by (simp add: less_16)
    then show ?thesis by (simp add: d_def)
  qed
  have "MQTTPacket_decodeBuf bs ?p = Some (5, of_nat (d b0 + d b1 * 128 + d b2 * 16384 + d b3 * 2097152))"
    using assms g
    by (simp add: MQTTPacket_decodeBuf_def MQTTPacket_VBIdecode_def Let_def
        MQTTPacket_VBIdecode_loop.simps[of "bufchar bs"] MAX_NO_OF_REMAINING_LENGTH_BYTES_def
        flip: d_def)
  moreover have "d b0 + d b1 * 128 + d b2 * 16384 + d b3 * 2097152 < 268435456"
    using d[of b0] d[of b1] d[of b2] d[of b3] by linarith
  ultimately show ?thesis
    unfolding bs_def by (simp add: unat_of_nat del: of_nat_add of_nat_mult)
qed

theorem decodeBuf_overlong_witness:
  "\<exists>v. MQTTPacket_decodeBuf [0xFF, 0xFF, 0xFF, 0xFF, 0x01] 0 = Some (5, v) \<and> unat v < 268435456"
  using decodeBuf_overlong[of "0xFF" "0xFF" "0xFF" "0xFF" "[]" "[1]"] by simp

end
