(* ===== verification/Properties.thy ===== *)
theory Properties
  imports Packet_Coding
begin

text \<open>
  MQTT version 5 properties, \<^verbatim>\<open>src/MQTTProperties.c\<close> and \<^verbatim>\<open>src/MQTTProperties.h\<close>: the table
  of property types, property lists as growing arrays, their serialisation and parsing, and
  the queries on them.
\<close>

subsection \<open>Data\<close>

datatype MQTTPropertyTypes =
    TYPE_BYTE
  | TYPE_TWO_BYTE_INTEGER
  | TYPE_FOUR_BYTE_INTEGER
  | TYPE_VARIABLE_BYTE_INTEGER
  | TYPE_BINARY_DATA
  | TYPE_UTF_8_ENCODED_STRING
  | TYPE_UTF_8_STRING_PAIR

definition namesToTypes :: "(int \<times> MQTTPropertyTypes) list" where
  "namesToTypes =
    [(1, TYPE_BYTE), (2, TYPE_FOUR_BYTE_INTEGER), (3, TYPE_UTF_8_ENCODED_STRING),
     (8, TYPE_UTF_8_ENCODED_STRING), (9, TYPE_BINARY_DATA), (11, TYPE_VARIABLE_BYTE_INTEGER),
     (17, TYPE_FOUR_BYTE_INTEGER), (18, TYPE_UTF_8_ENCODED_STRING), (19, TYPE_TWO_BYTE_INTEGER),
     (21, TYPE_UTF_8_ENCODED_STRING), (22, TYPE_BINARY_DATA), (23, TYPE_BYTE),
     (24, TYPE_FOUR_BYTE_INTEGER), (25, TYPE_BYTE), (26, TYPE_UTF_8_ENCODED_STRING),
     (28, TYPE_UTF_8_ENCODED_STRING), (31, TYPE_UTF_8_ENCODED_STRING), (33, TYPE_TWO_BYTE_INTEGER),
     (34, TYPE_TWO_BYTE_INTEGER), (35, TYPE_TWO_BYTE_INTEGER), (36, TYPE_BYTE), (37, TYPE_BYTE),
     (38, TYPE_UTF_8_STRING_PAIR), (39, TYPE_FOUR_BYTE_INTEGER), (40, TYPE_BYTE), (41, TYPE_BYTE),
     (42, TYPE_BYTE)]"

text \<open>
  The union of a property's value: which member was stored last. Reading another member is
  not given a value here. The second string of the string pair is only stored for user
  properties.
\<close>

datatype prop_value =
    VByte byte
  | VInteger2 "16 word"
  | VInteger4 "32 word"
  | VStrings MQTTLenString "MQTTLenString option"

record MQTTProperty =
  pp_identifier :: int
  pp_value :: prop_value

text \<open>
  A property list. The array is a block of \<open>pl_max_count\<close> slots (\<open>None\<close> for a null pointer);
  the list holds the slots that have been stored.
\<close>

record MQTTProperties =
  pl_count :: nat
  pl_max_count :: nat
  pl_length :: int
  pl_array :: "MQTTProperty list option"

definition MQTTProperties_initializer :: MQTTProperties where
  "MQTTProperties_initializer =
     \<lparr>pl_count = 0, pl_max_count = 0, pl_length = 0, pl_array = None\<rparr>"

definition MQTT_INVALID_PROPERTY_ID :: int where
  "MQTT_INVALID_PROPERTY_ID = -2"

text \<open>The slots a loop \<open>for (i = 0; i < count; ++i)\<close> reads.\<close>

definition props_slots :: "MQTTProperties \<Rightarrow> MQTTProperty list option" where
  "props_slots props =
     (if pl_count props = 0 then Some []
      else do {
        arr \<leftarrow> pl_array props;
        if pl_count props \<le> length arr then Some (take (pl_count props) arr) else None
      })"

text \<open>Storing in the slot at index \<open>count\<close>: outside the block this is not defined.\<close>

definition store_slot :: "MQTTProperties \<Rightarrow> MQTTProperty list \<Rightarrow> MQTTProperty \<Rightarrow> MQTTProperty list option" where
  "store_slot props arr prop =
     (if pl_count props < pl_max_count props \<and> pl_count props \<le> length arr
      then Some (take (pl_count props) arr @ [prop]) else None)"

subsection \<open>Lengths and the type table\<close>

definition MQTTProperty_getType :: "int \<Rightarrow> MQTTPropertyTypes option" where
  "MQTTProperty_getType val = map_of namesToTypes val"

definition datadup :: "mem \<Rightarrow> MQTTLenString \<Rightarrow> (byte list option \<times> mem) option" where
  "datadup m str =
     (let (ok, m1) = malloc m in
      if ok then do {
        d \<leftarrow> ls_data str;
        c \<leftarrow> memcpy d (ls_len str);
        Some (Some c, m1)
      } else Some (None, m1))"

definition MQTTProperties_len :: "MQTTProperties option \<Rightarrow> int" where
  "MQTTProperties_len props =
     (case props of None \<Rightarrow> 1 | Some pr \<Rightarrow> pl_length pr + MQTTPacket_VBIlen (pl_length pr))"

subsection \<open>Adding a property\<close>

text \<open>The room made for one more property.\<close>

definition props_grow :: "mem \<Rightarrow> MQTTProperties \<Rightarrow> MQTTProperties \<times> mem" where
  "props_grow m props =
     (case pl_array props of
        None \<Rightarrow> (let (ok, m1) = malloc m in
          (props\<lparr>pl_max_count := 10, pl_array := (if ok then Some [] else None)\<rparr>, m1))
      | Some arr \<Rightarrow>
          if pl_count props = pl_max_count props then (let (ok, m1) = malloc m in
            (props\<lparr>pl_max_count := pl_max_count props + 10,
                   pl_array := (if ok then Some arr else None)\<rparr>, m1))
          else (props, m))"

text \<open>The switch on the type: the encoded length of the value and the copy that owns its data.\<close>

definition props_copy_value ::
  "mem \<Rightarrow> MQTTPropertyTypes \<Rightarrow> MQTTProperty \<Rightarrow> (int \<times> MQTTProperty \<times> mem) option" where
  "props_copy_value m type prop =
     (case type of
        TYPE_BYTE \<Rightarrow> Some (1, prop, m)
      | TYPE_TWO_BYTE_INTEGER \<Rightarrow> Some (2, prop, m)
      | TYPE_FOUR_BYTE_INTEGER \<Rightarrow> Some (4, prop, m)
      | TYPE_VARIABLE_BYTE_INTEGER \<Rightarrow>
          (case pp_value prop of
             VInteger4 w \<Rightarrow> Some (MQTTPacket_VBIlen (to_int32 (uint w)), prop, m)
           | _ \<Rightarrow> None)
      | TYPE_UTF_8_STRING_PAIR \<Rightarrow>
          (case pp_value prop of
             VStrings d (Some v) \<Rightarrow> do {
               (d', m1) \<leftarrow> datadup m d;
               (v', m2) \<leftarrow> datadup m1 v;
               Some (2 + ls_len d + (2 + ls_len v),
                     prop\<lparr>pp_value := VStrings (d\<lparr>ls_data := d'\<rparr>) (Some (v\<lparr>ls_data := v'\<rparr>))\<rparr>, m2)
             }
           | _ \<Rightarrow> None)
      | _ \<Rightarrow>
          (case pp_value prop of
             VStrings d v \<Rightarrow> do {
               (d', m1) \<leftarrow> datadup m d;
               Some (2 + ls_len d, prop\<lparr>pp_value := VStrings (d\<lparr>ls_data := d'\<rparr>) v\<rparr>, m1)
             }
           | _ \<Rightarrow> None))"

definition MQTTProperties_add ::
  "mem \<Rightarrow> MQTTProperties \<Rightarrow> MQTTProperty \<Rightarrow> (int \<times> MQTTProperties \<times> mem) option" where
  "MQTTProperties_add m props prop =
     (case MQTTProperty_getType (pp_identifier prop) of
        None \<Rightarrow> Some (MQTT_INVALID_PROPERTY_ID, props, m)
      | Some type \<Rightarrow>
          (let (props1, m1) = props_grow m props in
           case pl_array props1 of
             None \<Rightarrow> Some (PAHO_MEMORY_ERROR, props1, m1)
           | Some arr \<Rightarrow> do {
               (len, copy, m2) \<leftarrow> props_copy_value m1 type prop;
               arr' \<leftarrow> store_slot props1 arr copy;
               Some (0, props1\<lparr>pl_array := Some arr', pl_count := pl_count props1 + 1,
                               pl_length := pl_length props1 + (len + 1)\<rparr>, m2)
             }))"

subsection \<open>Writing\<close>

text \<open>The result code counts the value and the identifier byte: it is 0 for an unknown identifier.\<close>

definition MQTTProperty_write :: "MQTTProperty \<Rightarrow> (int \<times> byte list) option" where
  "MQTTProperty_write prop =
     (case MQTTProperty_getType (pp_identifier prop) of
        None \<Rightarrow> Some (-1 + 1, [])
      | Some type \<Rightarrow> do {
          (rc, out) \<leftarrow>
            (case type of
               TYPE_BYTE \<Rightarrow>
                 (case pp_value prop of VByte b \<Rightarrow> Some (1, writeChar b) | _ \<Rightarrow> None)
             | TYPE_TWO_BYTE_INTEGER \<Rightarrow>
                 (case pp_value prop of VInteger2 w \<Rightarrow> Some (2, writeInt (uint w)) | _ \<Rightarrow> None)
             | TYPE_FOUR_BYTE_INTEGER \<Rightarrow>
                 (case pp_value prop of VInteger4 w \<Rightarrow> Some (4, writeInt4 w) | _ \<Rightarrow> None)
             | TYPE_VARIABLE_BYTE_INTEGER \<Rightarrow>
                 (case pp_value prop of
                    VInteger4 w \<Rightarrow> (let (rc, out) = MQTTPacket_encode True (unat w) in Some (int rc, out))
                  | _ \<Rightarrow> None)
             | TYPE_UTF_8_STRING_PAIR \<Rightarrow>
                 (case pp_value prop of
                    VStrings d (Some v) \<Rightarrow> do {
                      o1 \<leftarrow> writeMQTTLenString d;
                      o2 \<leftarrow> writeMQTTLenString v;
                      Some (ls_len d + ls_len v + 4, o1 @ o2)
                    }
                  | _ \<Rightarrow> None)
             | _ \<Rightarrow>
                 (case pp_value prop of
                    VStrings d v \<Rightarrow> do {
                      o1 \<leftarrow> writeMQTTLenString d;
                      Some (ls_len d + 2, o1)
                    }
                  | _ \<Rightarrow> None));
          Some (rc + 1, writeChar (word_of_int (pp_identifier prop)) @ out)
        })"

fun MQTTProperties_write_loop ::
  "MQTTProperty list \<Rightarrow> int \<Rightarrow> int \<Rightarrow> byte list \<Rightarrow> (int \<times> int \<times> byte list) option" where
  "MQTTProperties_write_loop [] rc len out = Some (rc, len, out)"
| "MQTTProperties_write_loop (prop # props) rc len out = do {
     (rc', o1) \<leftarrow> MQTTProperty_write prop;
     if rc' < 0 then Some (rc', len, out @ o1)
     else MQTTProperties_write_loop props rc' (len + rc') (out @ o1)
   }"

definition MQTTProperties_write :: "MQTTProperties option \<Rightarrow> (int \<times> byte list) option" where
  "MQTTProperties_write properties =
     (case properties of
        None \<Rightarrow> Some (1, snd (MQTTPacket_encode True 0))
      | Some props \<Rightarrow> do {
          slots \<leftarrow> props_slots props;
          (rc, len, out) \<leftarrow> MQTTProperties_write_loop slots 1 1
              (snd (MQTTPacket_encode True (nat (pl_length props mod 2 ^ 64))));
          Some (if rc \<ge> 0 then len else rc, out)
        })"

subsection \<open>Reading\<close>

text \<open>
  \<open>MQTTProperty_read\<close> returns the number of bytes used (-1 for an error), the property, the
  moved pointer and the allocator. The fixed-width values are read without looking at
  \<open>enddata\<close>. On an error no property is returned: the caller does not use it.
\<close>

definition MQTTProperty_read ::
  "mem \<Rightarrow> byte list \<Rightarrow> nat \<Rightarrow> nat \<Rightarrow> (int \<times> MQTTProperty option \<times> nat \<times> mem) option" where
  "MQTTProperty_read m bs p enddata = do {
     (c, p1) \<leftarrow> readChar bs p;
     let identifier = int (unat c);
     (len, v, p2, m2) \<leftarrow>
       (case MQTTProperty_getType identifier of
          None \<Rightarrow> Some (-1, None, p1, m)
        | Some type \<Rightarrow>
            (case type of
               TYPE_BYTE \<Rightarrow> do { (b, p2) \<leftarrow> readChar bs p1; Some (1, Some (VByte b), p2, m) }
             | TYPE_TWO_BYTE_INTEGER \<Rightarrow>
                 do { (n, p2) \<leftarrow> readInt bs p1; Some (2, Some (VInteger2 (word_of_int n)), p2, m) }
             | TYPE_FOUR_BYTE_INTEGER \<Rightarrow>
                 do { (n, p2) \<leftarrow> readInt4 bs p1; Some (4, Some (VInteger4 n), p2, m) }
             | TYPE_VARIABLE_BYTE_INTEGER \<Rightarrow>
                 do { (n, val) \<leftarrow> MQTTPacket_decodeBuf bs p1;
                      Some (int n, Some (VInteger4 val), p1 + n, m) }
             | _ \<Rightarrow> do {
                 (len, str, p2) \<leftarrow> MQTTLenStringRead bs p1 enddata;
                 (case str of
                    None \<Rightarrow> Some (-1, None, p2, m)
                  | Some s \<Rightarrow> do {
                      (dup, m1) \<leftarrow> datadup m s;
                      if dup = None then Some (-1, None, p2, m1)
                      else if type = TYPE_UTF_8_STRING_PAIR then do {
                        (proplen, str2, p3) \<leftarrow> MQTTLenStringRead bs p2 enddata;
                        (case str2 of
                           None \<Rightarrow> Some (-1, None, p3, m1)
                         | Some s2 \<Rightarrow> do {
                             (dup2, m2) \<leftarrow> datadup m1 s2;
                             if dup2 = None then Some (-1, None, p3, m2)
                             else Some (len + proplen,
                               Some (VStrings (s\<lparr>ls_data := dup\<rparr>) (Some (s2\<lparr>ls_data := dup2\<rparr>))), p3, m2)
                           })
                      } else Some (len, Some (VStrings (s\<lparr>ls_data := dup\<rparr>) None), p2, m1)
                    })
               }));
     Some (if len = -1 then -1 else len + 1,
           map_option (\<lambda>v. \<lparr>pp_identifier = identifier, pp_value = v\<rparr>) v, p2, m2)
   }"

lemma read_moves:
  "readChar bs p = Some (c, p1) \<Longrightarrow> p1 = Suc p \<and> p < length bs"
  "readInt bs p = Some (i, p2) \<Longrightarrow> p < p2"
  "readInt4 bs p = Some (w, p3) \<Longrightarrow> p < p3"
  "MQTTLenStringRead bs p e = Some (len, str, p4) \<Longrightarrow> p \<le> p4"
  by (auto simp: readChar_def readInt_def readInt4_def nth_opt_Some_iff MQTTLenStringRead_def Let_def
      split: bind_splits if_splits)

lemma MQTTProperty_read_progress:
  "MQTTProperty_read m bs p e = Some (len, prop, p', m') \<Longrightarrow> p < p' \<and> p < length bs"
  by (auto simp: MQTTProperty_read_def Let_def dest!: read_moves
      split: option.splits MQTTPropertyTypes.splits bind_splits if_splits prod.splits)

text \<open>
  The room made for the next property: \<open>malloc\<close> the first time, \<open>realloc\<close> afterwards. The
  new block is at least 10 slots.
\<close>

definition props_read_grow :: "mem \<Rightarrow> MQTTProperties \<Rightarrow> MQTTProperties \<times> mem" where
  "props_read_grow m props =
     (if pl_count props = pl_max_count props then
        (let mc = pl_max_count props + 10; (ok, m1) = malloc m in
         (props\<lparr>pl_max_count := mc,
                pl_array := (if ok then (if mc = 10 then Some [] else pl_array props) else None)\<rparr>, m1))
      else (props, m))"

text \<open>
  The loop of \<open>MQTTProperties_read\<close>; \<open>remlength\<close> is unsigned and wraps around when a property
  is longer than what remains. The flag in the result is true when the loop was left because
  of an allocation failure.
\<close>

function MQTTProperties_read_loop ::
  "mem \<Rightarrow> MQTTProperties \<Rightarrow> 32 word \<Rightarrow> byte list \<Rightarrow> nat \<Rightarrow> nat
   \<Rightarrow> (MQTTProperties \<times> 32 word \<times> nat \<times> mem \<times> bool) option" where
  "MQTTProperties_read_loop m props remlength bs p enddata =
     (if remlength > 0 then
        (let (props1, m1) = props_read_grow m props in
         case pl_array props1 of
           None \<Rightarrow> Some (props1, remlength, p, m1, True)
         | Some arr \<Rightarrow> do {
             (proplen, prop, p', m2) \<leftarrow> MQTTProperty_read m1 bs p enddata;
             (case prop of
                Some pr \<Rightarrow>
                  if proplen > 0 then do {
                    arr' \<leftarrow> store_slot props1 arr pr;
                    MQTTProperties_read_loop m2
                      (props1\<lparr>pl_array := Some arr', pl_count := pl_count props1 + 1\<rparr>)
                      (remlength - word_of_int proplen) bs p' enddata
                  } else Some (props1, remlength, p', m2, False)
              | None \<Rightarrow> Some (props1, remlength, p', m2, False))
           })
      else Some (props, remlength, p, m, False))"
  by pat_completeness auto
termination
  by (relation "measure (\<lambda>(m, props, r, bs, p, e). length bs - p)")
    (auto dest!: MQTTProperty_read_progress)

declare MQTTProperties_read_loop.simps [simp del]

text \<open>\<open>MQTTProperties_free\<close> visits the entries, frees their data and zeroes the structure.\<close>

definition MQTTProperties_free :: "MQTTProperties \<Rightarrow> MQTTProperties option" where
  "MQTTProperties_free props = do {
     slots \<leftarrow> props_slots props;
     Some \<lparr>pl_count = 0, pl_max_count = 0, pl_length = 0, pl_array = None\<rparr>
   }"

definition MQTTProperties_read ::
  "mem \<Rightarrow> MQTTProperties \<Rightarrow> byte list \<Rightarrow> nat \<Rightarrow> nat \<Rightarrow> (int \<times> MQTTProperties \<times> nat \<times> mem) option" where
  "MQTTProperties_read m properties bs p enddata =
     (if int enddata - int p > 0 then do {
        (n, remlength) \<leftarrow> MQTTPacket_decodeBuf bs p;
        (props, rem', p', m', nomem) \<leftarrow> MQTTProperties_read_loop m
            (properties\<lparr>pl_length := to_int32 (uint remlength)\<rparr>) remlength bs (p + n) enddata;
        if nomem then Some (PAHO_MEMORY_ERROR, props, p', m')
        else if rem' = 0 then Some (1, props, p', m')
        else if pl_array props \<noteq> None then do {
          props' \<leftarrow> MQTTProperties_free props;
          Some (0, props', p', m')
        } else Some (0, props, p', m')
      } else if pl_array properties \<noteq> None then do {
        props' \<leftarrow> MQTTProperties_free properties;
        Some (0, props', p, m)
      } else Some (0, properties, p, m))"

subsection \<open>Copies and queries\<close>

text \<open>The loop of \<open>MQTTProperties_copy\<close>: an error of \<open>MQTTProperties_add\<close> is only logged.\<close>

fun MQTTProperties_copy_loop ::
  "mem \<Rightarrow> MQTTProperty list \<Rightarrow> MQTTProperties \<Rightarrow> (MQTTProperties \<times> mem) option" where
  "MQTTProperties_copy_loop m [] result = Some (result, m)"
| "MQTTProperties_copy_loop m (prop # props) result = do {
     (rc, result', m') \<leftarrow> MQTTProperties_add m result prop;
     MQTTProperties_copy_loop m' props result'
   }"

definition MQTTProperties_copy :: "mem \<Rightarrow> MQTTProperties \<Rightarrow> (MQTTProperties \<times> mem) option" where
  "MQTTProperties_copy m props = do {
     slots \<leftarrow> props_slots props;
     MQTTProperties_copy_loop m slots MQTTProperties_initializer
   }"

fun hasProperty_loop :: "MQTTProperty list \<Rightarrow> int \<Rightarrow> bool" where
  "hasProperty_loop [] propid = False"
| "hasProperty_loop (prop # props) propid =
     (if propid = pp_identifier prop then True else hasProperty_loop props propid)"

definition MQTTProperties_hasProperty :: "MQTTProperties \<Rightarrow> int \<Rightarrow> bool option" where
  "MQTTProperties_hasProperty props propid =
     do { slots \<leftarrow> props_slots props; Some (hasProperty_loop slots propid) }"

fun propertyCount_loop :: "MQTTProperty list \<Rightarrow> int \<Rightarrow> nat \<Rightarrow> nat" where
  "propertyCount_loop [] propid n = n"
| "propertyCount_loop (prop # props) propid n =
     propertyCount_loop props propid (if propid = pp_identifier prop then n + 1 else n)"

definition MQTTProperties_propertyCount :: "MQTTProperties \<Rightarrow> int \<Rightarrow> nat option" where
  "MQTTProperties_propertyCount props propid =
     do { slots \<leftarrow> props_slots props; Some (propertyCount_loop slots propid 0) }"

definition property_number :: "MQTTProperty \<Rightarrow> int option" where
  "property_number prop =
     (case MQTTProperty_getType (pp_identifier prop) of
        Some TYPE_BYTE \<Rightarrow> (case pp_value prop of VByte b \<Rightarrow> Some (uint b) | _ \<Rightarrow> None)
      | Some TYPE_TWO_BYTE_INTEGER \<Rightarrow> (case pp_value prop of VInteger2 w \<Rightarrow> Some (uint w) | _ \<Rightarrow> None)
      | Some TYPE_FOUR_BYTE_INTEGER \<Rightarrow>
          (case pp_value prop of VInteger4 w \<Rightarrow> Some (to_int32 (uint w)) | _ \<Rightarrow> None)
      | Some TYPE_VARIABLE_BYTE_INTEGER \<Rightarrow>
          (case pp_value prop of VInteger4 w \<Rightarrow> Some (to_int32 (uint w)) | _ \<Rightarrow> None)
      | _ \<Rightarrow> Some (-999999))"

fun getNumericValueAt_loop :: "MQTTProperty list \<Rightarrow> int \<Rightarrow> int \<Rightarrow> int \<Rightarrow> int option" where
  "getNumericValueAt_loop [] propid index cur_index = Some (-9999999)"
| "getNumericValueAt_loop (prop # props) propid index cur_index =
     (if pp_identifier prop = propid then
        if cur_index < index then getNumericValueAt_loop props propid index (cur_index + 1)
        else property_number prop
      else getNumericValueAt_loop props propid index cur_index)"

definition MQTTProperties_getNumericValueAt :: "MQTTProperties \<Rightarrow> int \<Rightarrow> int \<Rightarrow> int option" where
  "MQTTProperties_getNumericValueAt props propid index =
     do { slots \<leftarrow> props_slots props; getNumericValueAt_loop slots propid index 0 }"

definition MQTTProperties_getNumericValue :: "MQTTProperties \<Rightarrow> int \<Rightarrow> int option" where
  "MQTTProperties_getNumericValue props propid = MQTTProperties_getNumericValueAt props propid 0"

fun getPropertyAt_loop :: "MQTTProperty list \<Rightarrow> int \<Rightarrow> int \<Rightarrow> int \<Rightarrow> MQTTProperty option" where
  "getPropertyAt_loop [] propid index cur_index = None"
| "getPropertyAt_loop (prop # props) propid index cur_index =
     (if pp_identifier prop = propid then
        if cur_index = index then Some prop
        else getPropertyAt_loop props propid index (cur_index + 1)
      else getPropertyAt_loop props propid index cur_index)"

definition MQTTProperties_getPropertyAt ::
  "MQTTProperties \<Rightarrow> int \<Rightarrow> int \<Rightarrow> MQTTProperty option option" where
  "MQTTProperties_getPropertyAt props propid index =
     do { slots \<leftarrow> props_slots props; Some (getPropertyAt_loop slots propid index 0) }"

definition MQTTProperties_getProperty :: "MQTTProperties \<Rightarrow> int \<Rightarrow> MQTTProperty option option" where
  "MQTTProperties_getProperty props propid = MQTTProperties_getPropertyAt props propid 0"

definition nameToString :: "(int \<times> string) list" where
  "nameToString =
    [(1, ''PAYLOAD_FORMAT_INDICATOR''), (2, ''MESSAGE_EXPIRY_INTERVAL''), (3, ''CONTENT_TYPE''),
     (8, ''RESPONSE_TOPIC''), (9, ''CORRELATION_DATA''), (11, ''SUBSCRIPTION_IDENTIFIER''),
     (17, ''SESSION_EXPIRY_INTERVAL''), (18, ''ASSIGNED_CLIENT_IDENTIFER''),
     (19, ''SERVER_KEEP_ALIVE''), (21, ''AUTHENTICATION_METHOD''), (22, ''AUTHENTICATION_DATA''),
     (23, ''REQUEST_PROBLEM_INFORMATION''), (24, ''WILL_DELAY_INTERVAL''),
     (25, ''REQUEST_RESPONSE_INFORMATION''), (26, ''RESPONSE_INFORMATION''),
     (28, ''SERVER_REFERENCE''), (31, ''REASON_STRING''), (33, ''RECEIVE_MAXIMUM''),
     (34, ''TOPIC_ALIAS_MAXIMUM''), (35, ''TOPIC_ALIAS''), (36, ''MAXIMUM_QOS''),
     (37, ''RETAIN_AVAILABLE''), (38, ''USER_PROPERTY''), (39, ''MAXIMUM_PACKET_SIZE''),
     (40, ''WILDCARD_SUBSCRIPTION_AVAILABLE''), (41, ''SUBSCRIPTION_IDENTIFIERS_AVAILABLE''),
     (42, ''SHARED_SUBSCRIPTION_AVAILABLE'')]"

definition MQTTPropertyName :: "int \<Rightarrow> string option" where
  "MQTTPropertyName val = map_of nameToString val"

subsection \<open>Well-formed properties and their encoding\<close>

text \<open>
  The MQTT encoding of a property, and the property lists the functions of the library build:
  every value has the member its type asks for, and the length field is the length of the
  encoding.
\<close>

fun value_ok :: "MQTTPropertyTypes \<Rightarrow> prop_value \<Rightarrow> bool" where
  "value_ok TYPE_BYTE (VByte b) = True"
| "value_ok TYPE_TWO_BYTE_INTEGER (VInteger2 w) = True"
| "value_ok TYPE_FOUR_BYTE_INTEGER (VInteger4 w) = True"
| "value_ok TYPE_VARIABLE_BYTE_INTEGER (VInteger4 w) = (unat w < 268435456)"
| "value_ok TYPE_BINARY_DATA (VStrings d None) = lenstring_ok d"
| "value_ok TYPE_UTF_8_ENCODED_STRING (VStrings d None) = lenstring_ok d"
| "value_ok TYPE_UTF_8_STRING_PAIR (VStrings d (Some v)) = (lenstring_ok d \<and> lenstring_ok v)"
| "value_ok _ _ = False"

fun value_bytes :: "MQTTPropertyTypes \<Rightarrow> prop_value \<Rightarrow> byte list" where
  "value_bytes TYPE_VARIABLE_BYTE_INTEGER (VInteger4 w) = vbi (unat w)"
| "value_bytes _ (VInteger4 w) = writeInt4 w"
| "value_bytes _ (VByte b) = [b]"
| "value_bytes _ (VInteger2 w) = writeInt (uint w)"
| "value_bytes _ (VStrings d None) = len_bytes (lenstring_data d)"
| "value_bytes _ (VStrings d (Some v)) = len_bytes (lenstring_data d) @ len_bytes (lenstring_data v)"

fun_cases value_okE: "value_ok t v"

definition prop_ok :: "MQTTProperty \<Rightarrow> bool" where
  "prop_ok prop = (case MQTTProperty_getType (pp_identifier prop) of
     None \<Rightarrow> False | Some t \<Rightarrow> value_ok t (pp_value prop))"

definition prop_bytes :: "MQTTProperty \<Rightarrow> byte list" where
  "prop_bytes prop = word_of_int (pp_identifier prop) #
     (case MQTTProperty_getType (pp_identifier prop) of
        None \<Rightarrow> [] | Some t \<Rightarrow> value_bytes t (pp_value prop))"

definition props_bytes :: "MQTTProperty list \<Rightarrow> byte list" where
  "props_bytes ps = concat (map prop_bytes ps)"

lemma props_bytes_simps [simp]:
  "props_bytes [] = []" "props_bytes (p # ps) = prop_bytes p @ props_bytes ps"
  "props_bytes (ps @ qs) = props_bytes ps @ props_bytes qs"
  by (simp_all add: props_bytes_def)

definition props_list :: "MQTTProperties \<Rightarrow> MQTTProperty list" where
  "props_list props = (case pl_array props of None \<Rightarrow> [] | Some arr \<Rightarrow> take (pl_count props) arr)"

definition props_consistent :: "MQTTProperties \<Rightarrow> bool" where
  "props_consistent props = (case pl_array props of
     None \<Rightarrow> pl_count props = 0 \<and> pl_max_count props = 0
   | Some arr \<Rightarrow> pl_count props = length arr \<and> length arr \<le> pl_max_count props \<and> 10 \<le> pl_max_count props)"

definition props_ok :: "MQTTProperties \<Rightarrow> bool" where
  "props_ok props \<longleftrightarrow> props_consistent props \<and> list_all prop_ok (props_list props)
     \<and> pl_length props = int (length (props_bytes (props_list props))) \<and> pl_length props < 268435456"

lemma props_consistent_slots: "props_consistent props \<Longrightarrow> props_slots props = Some (props_list props)"
  by (auto simp: props_consistent_def props_slots_def props_list_def split: option.splits)

lemma props_list_initializer [simp]: "props_list (MQTTProperties_initializer\<lparr>pl_length := l\<rparr>) = []"
  "props_list MQTTProperties_initializer = []"
  by (simp_all add: props_list_def MQTTProperties_initializer_def)

lemma props_consistent_initializer [simp]:
  "props_consistent (MQTTProperties_initializer\<lparr>pl_length := l\<rparr>)" "props_consistent MQTTProperties_initializer"
  by (simp_all add: props_consistent_def MQTTProperties_initializer_def)

lemma props_ok_initializer: "props_ok MQTTProperties_initializer"
  by (simp add: props_ok_def) (simp add: MQTTProperties_initializer_def)

lemma getType_range: "MQTTProperty_getType i = Some t \<Longrightarrow> 0 < i \<and> i < 128"
  by (auto simp: MQTTProperty_getType_def namesToTypes_def split: if_splits)

lemma getType_identifier:
  "MQTTProperty_getType i = Some t \<Longrightarrow> int (unat (word_of_int i :: byte)) = i"
  by (drule getType_range) (simp add: uint_word_of_int_byte)

lemma prop_okE:
  assumes "prop_ok prop"
  obtains t where "MQTTProperty_getType (pp_identifier prop) = Some t" "value_ok t (pp_value prop)"
    "prop_bytes prop = word_of_int (pp_identifier prop) # value_bytes t (pp_value prop)"
  using assms by (auto simp: prop_ok_def prop_bytes_def split: option.splits)

lemma lenstring_len: "lenstring_ok s \<Longrightarrow> ls_len s = int (length (lenstring_data s))"
  by (auto simp: lenstring_ok_iff lenstring_data_def)

lemma datadup_ok: "lenstring_ok s \<Longrightarrow> datadup m s = (let (ok, m1) = malloc m in
    Some (if ok then ls_data s else None, m1))"
  by (auto simp: datadup_def lenstring_ok_iff memcpy_def split: prod.splits)

subsection \<open>Writing\<close>

lemma MQTTProperty_write_ok:
  "prop_ok prop \<Longrightarrow> MQTTProperty_write prop = Some (int (length (prop_bytes prop)), prop_bytes prop)"
  by (erule prop_okE, erule value_okE)
    (auto simp: MQTTProperty_write_def writeChar_def MQTTPacket_encode_eq writeMQTTLenString_ok lenstring_len)

lemma write_loop_ok:
  "list_all prop_ok ps \<Longrightarrow> 0 \<le> rc \<Longrightarrow> \<exists>rc' \<ge> 0. MQTTProperties_write_loop ps rc len out
     = Some (rc', len + int (length (props_bytes ps)), out @ props_bytes ps)"
proof (induction ps arbitrary: rc len out)
  case (Cons a ps)
  then show ?case
    using Cons.IH[of "int (length (prop_bytes a))" "len + int (length (prop_bytes a))" "out @ prop_bytes a"]
    by (auto simp: MQTTProperty_write_ok add.assoc)
qed simp

lemma MQTTProperties_write_ok:
  assumes "props_ok props"
  shows "MQTTProperties_write (Some props) = Some (1 + pl_length props,
    vbi (nat (pl_length props)) @ props_bytes (props_list props))"
proof -
  have "pl_length props mod 2 ^ 64 = pl_length props"
    using assms by (simp add: props_ok_def)
  then show ?thesis
    using assms write_loop_ok[of "props_list props" 1 1 "vbi (nat (pl_length props))"]
    by (auto simp: MQTTProperties_write_def props_ok_def props_consistent_slots MQTTPacket_encode_eq)
qed

subsection \<open>Adding\<close>

lemma props_grow_consistent:
  assumes "props_consistent props" "props_grow m props = (props1, m1)" "pl_array props1 = Some arr"
  shows "arr = props_list props \<and> pl_count props1 = length arr \<and> length arr < pl_max_count props1
    \<and> 10 \<le> pl_max_count props1 \<and> pl_length props1 = pl_length props"
  using assms
  by (cases "pl_array props")
    (auto simp: props_grow_def props_consistent_def props_list_def split: prod.splits if_splits)

lemma props_copy_value_ok:
  assumes "value_ok t (pp_value prop)" "list_all (\<lambda>b. b) m"
  shows "\<exists>m'. props_copy_value m t prop = Some (int (length (value_bytes t (pp_value prop))), prop, m')
    \<and> list_all (\<lambda>b. b) m'"
proof -
  have m: "\<exists>m'. malloc m = (True, m') \<and> list_all (\<lambda>b. b) m'" if "list_all (\<lambda>b. b) m" for m
    using malloc_all_ok[OF that] by (cases "malloc m") auto
  obtain m1 where m1: "malloc m = (True, m1)" "list_all (\<lambda>b. b) m1" using m assms(2) by blast
  obtain m2 where m2: "malloc m1 = (True, m2)" "list_all (\<lambda>b. b) m2" using m m1(2) by blast
  have v: "MQTTPacket_VBIlen (to_int32 (uint w)) = int (length (vbi (unat w)))"
    if "unat w < 268435456" for w :: "32 word"
  proof -
    have "uint w < 268435456" using that by (simp only: uint_nat of_nat_less_numeral_iff)
    then show ?thesis using VBIlen_length_vbi[of "uint w"] by (simp add: to_int32_nat)
  qed
  show ?thesis
    by (rule value_okE[OF assms(1)]; cases "prop")
      (simp_all add: props_copy_value_def assms(2) m1 m2 v datadup_ok lenstring_len)
qed

lemma MQTTProperties_add_ok:
  assumes "props_consistent props" "prop_ok prop" "list_all (\<lambda>b. b) m"
  shows "\<exists>props' m'. MQTTProperties_add m props prop = Some (0, props', m') \<and> list_all (\<lambda>b. b) m'
    \<and> props_consistent props' \<and> props_list props' = props_list props @ [prop]
    \<and> pl_length props' = pl_length props + int (length (prop_bytes prop))"
proof -
  obtain t where t: "MQTTProperty_getType (pp_identifier prop) = Some t" "value_ok t (pp_value prop)"
    "prop_bytes prop = word_of_int (pp_identifier prop) # value_bytes t (pp_value prop)"
    using assms(2) by (rule prop_okE)
  obtain props1 m1 where g: "props_grow m props = (props1, m1)" by (cases "props_grow m props")
  obtain arr where arr: "pl_array props1 = Some arr" and m1: "list_all (\<lambda>b. b) m1"
    using g assms(3) malloc_all_ok[OF assms(3)]
    by (auto simp: props_grow_def split: option.splits if_splits prod.splits)
  note c = props_grow_consistent[OF assms(1) g arr]
  obtain m2 where "props_copy_value m1 t prop
      = Some (int (length (value_bytes t (pp_value prop))), prop, m2)" "list_all (\<lambda>b. b) m2"
    using props_copy_value_ok[OF t(2) m1] by blast
  then show ?thesis
    using t g arr c
    by (auto simp: MQTTProperties_add_def store_slot_def props_consistent_def props_list_def)
qed

lemma copy_loop_ok:
  assumes "list_all prop_ok ps" "list_all (\<lambda>b. b) m" "props_consistent result"
  shows "\<exists>result' m'. MQTTProperties_copy_loop m ps result = Some (result', m') \<and> props_consistent result'
    \<and> list_all (\<lambda>b. b) m' \<and> props_list result' = props_list result @ ps
    \<and> pl_length result' = pl_length result + int (length (props_bytes ps))"
  using assms
proof (induction ps arbitrary: m result)
  case (Cons p ps)
  then obtain r1 m1 where "MQTTProperties_add m result p = Some (0, r1, m1)" "list_all (\<lambda>b. b) m1"
    "props_consistent r1" "props_list r1 = props_list result @ [p]"
    "pl_length r1 = pl_length result + int (length (prop_bytes p))"
    using MQTTProperties_add_ok[of result p m] by auto
  with Cons.IH[of m1 r1] Cons.prems(1) show ?case by (auto simp: add.assoc)
qed simp

subsection \<open>Reading\<close>

lemma read_dup:
  assumes "length s < 65536" "lies_at bs p (len_bytes s)" "p + length (len_bytes s) \<le> e"
    "list_all (\<lambda>b. b) m"
  shows "\<exists>str m'. MQTTLenStringRead bs p e = Some (2 + int (length s), Some str, p + 2 + length s)
    \<and> datadup m str = Some (Some s, m') \<and> list_all (\<lambda>b. b) m' \<and> ls_len str = int (length s)"
  using readInt_len_bytes[OF assms(1,2)] MQTTLenStringRead_len_bytes[OF assms(1-3)] malloc_all_ok[OF assms(4)]
  by (auto simp: datadup_def lies_at_memcpy split: prod.splits)

lemma MQTTProperty_read_ok:
  assumes "prop_ok prop" "lies_at bs p (prop_bytes prop)" "p + length (prop_bytes prop) \<le> e"
    "list_all (\<lambda>b. b) m"
  shows "\<exists>m'. MQTTProperty_read m bs p e
      = Some (int (length (prop_bytes prop)), Some prop, p + length (prop_bytes prop), m')
    \<and> list_all (\<lambda>b. b) m'"
proof -
  obtain t where t: "MQTTProperty_getType (pp_identifier prop) = Some t" "value_ok t (pp_value prop)"
    "prop_bytes prop = word_of_int (pp_identifier prop) # value_bytes t (pp_value prop)"
    using assms(1) by (rule prop_okE)
  define i v where "i = pp_identifier prop" and "v = pp_value prop"
  have c: "readChar bs p = Some (word_of_int i, Suc p)" and l: "lies_at bs (Suc p) (value_bytes t v)"
    using assms(2) t(3) by (simp_all add: lies_at_Cons readChar_def i_def v_def)
  have id: "uint (word_of_int i :: byte) = i"
    using getType_identifier[OF t(1)] by (simp add: i_def)
  have e: "Suc p + length (value_bytes t v) \<le> e"
    using assms(3) t(3) by (simp add: v_def)
  have "\<exists>m'. MQTTProperty_read m bs p e
      = Some (1 + int (length (value_bytes t v)), Some \<lparr>pp_identifier = i, pp_value = v\<rparr>,
          Suc p + length (value_bytes t v), m') \<and> list_all (\<lambda>b. b) m'"
    using t(2)[folded v_def]
  proof (rule value_okE)
    fix b assume "t = TYPE_BYTE" "v = VByte b"
    then show ?thesis
      using t(1)[folded i_def] c l assms(4)
      by (simp add: MQTTProperty_read_def id readChar_def[of bs "Suc p"] lies_at_Cons)
  next
    fix w assume *: "t = TYPE_TWO_BYTE_INTEGER" "v = VInteger2 w"
    have "uint w < 65536" using unsigned_less[of w, where 'a = int] by simp
    then have "readInt bs (Suc p) = Some (uint w, Suc p + 2)"
      using * l int_codec.dec_enc[of "uint w" bs "Suc p" "Suc p + 2"] by simp
    with * show ?thesis
      using t(1)[folded i_def] c assms(4) by (simp add: MQTTProperty_read_def id)
  next
    fix w assume *: "t = TYPE_FOUR_BYTE_INTEGER" "v = VInteger4 w"
    then have "readInt4 bs (Suc p) = Some (w, Suc p + 4)"
      using l int4_codec.dec_enc[where x = w and bs = bs and p = "Suc p" and e = "Suc p + 4"] by simp
    with * show ?thesis
      using t(1)[folded i_def] c assms(4) by (simp add: MQTTProperty_read_def id)
  next
    fix w assume *: "t = TYPE_VARIABLE_BYTE_INTEGER" "v = VInteger4 w" "unat w < 268435456"
    then have "MQTTPacket_decodeBuf bs (Suc p) = Some (length (vbi (unat w)), w)"
      using l decodeBuf_vbi[of "unat w" bs "Suc p"] by simp
    with * show ?thesis
      using t(1)[folded i_def] c assms(4) by (simp add: MQTTProperty_read_def id)
  next
    fix d assume *: "t = TYPE_BINARY_DATA" "v = VStrings d None" "lenstring_ok d"
    then show ?thesis
      using t(1)[folded i_def] c l e assms(4) read_dup[of "lenstring_data d" bs "Suc p" e m]
      by (auto simp: MQTTProperty_read_def id lenstring_ok_iff lenstring_data_def)
  next
    fix d assume *: "t = TYPE_UTF_8_ENCODED_STRING" "v = VStrings d None" "lenstring_ok d"
    then show ?thesis
      using t(1)[folded i_def] c l e assms(4) read_dup[of "lenstring_data d" bs "Suc p" e m]
      by (auto simp: MQTTProperty_read_def id lenstring_ok_iff lenstring_data_def)
  next
    fix d u assume *: "t = TYPE_UTF_8_STRING_PAIR" "v = VStrings d (Some u)" "lenstring_ok d" "lenstring_ok u"
    then obtain s r where s: "d = \<lparr>ls_len = int (length s), ls_data = Some s\<rparr>" "length s < 65536"
      "u = \<lparr>ls_len = int (length r), ls_data = Some r\<rparr>" "length r < 65536"
      by (auto simp: lenstring_ok_iff)
    with * l have ls: "lies_at bs (Suc p) (len_bytes s)" "lies_at bs (Suc p + 2 + length s) (len_bytes r)"
      by (simp_all add: lies_at_append lenstring_data_def)
    from * s e have le: "Suc p + length (len_bytes s) \<le> e" "Suc p + 2 + length s + length (len_bytes r) \<le> e"
      by (simp_all add: lenstring_data_def)
    from read_dup[OF s(2) ls(1) le(1) assms(4)] obtain str m1 where
      1: "MQTTLenStringRead bs (Suc p) e = Some (2 + int (length s), Some str, Suc p + 2 + length s)"
        "datadup m str = Some (Some s, m1)" "list_all (\<lambda>b. b) m1" "ls_len str = int (length s)"
      by blast
    from read_dup[OF s(4) ls(2) le(2) 1(3)] obtain str2 m2 where
      2: "MQTTLenStringRead bs (Suc p + 2 + length s) e
          = Some (2 + int (length r), Some str2, Suc p + 2 + length s + 2 + length r)"
        "datadup m1 str2 = Some (Some r, m2)" "list_all (\<lambda>b. b) m2" "ls_len str2 = int (length r)"
      by blast
    show ?thesis
      using t(1)[folded i_def] c * s 1 2
      by (cases str; cases str2) (simp add: MQTTProperty_read_def id lenstring_data_def)
  qed
  then show ?thesis
    using t(3) by (cases "prop") (simp add: i_def v_def)
qed

lemma props_read_grow_consistent:
  assumes "props_consistent props" "props_read_grow m props = (props1, m1)" "pl_array props1 = Some arr"
  shows "arr = props_list props \<and> pl_count props1 = length arr \<and> length arr < pl_max_count props1
    \<and> 10 \<le> pl_max_count props1 \<and> pl_length props1 = pl_length props"
  using assms
  by (cases "pl_array props")
    (auto simp: props_read_grow_def props_consistent_def props_list_def Let_def split: prod.splits if_splits)

lemma props_read_grow_ok:
  assumes "props_consistent props" "list_all (\<lambda>b. b) m"
  shows "\<exists>props1 m1. props_read_grow m props = (props1, m1) \<and> list_all (\<lambda>b. b) m1
    \<and> pl_array props1 = Some (props_list props) \<and> pl_count props1 = length (props_list props)
    \<and> length (props_list props) < pl_max_count props1
    \<and> 10 \<le> pl_max_count props1 \<and> pl_length props1 = pl_length props"
  using assms malloc_all_ok[OF assms(2)]
  by (cases "pl_array props")
    (auto simp: props_read_grow_def props_consistent_def props_list_def Let_def split: prod.splits if_splits)

lemma prop_bytes_pos: "0 < length (prop_bytes p)"
  by (simp add: prop_bytes_def)

lemma of_nat_pos_word: "0 < n \<Longrightarrow> n < 268435456 \<Longrightarrow> (of_nat n :: 32 word) > 0"
  by (simp add: word_less_nat_alt unat_of_nat)

lemma read_loop_ok:
  assumes "list_all prop_ok ps" "lies_at bs p (props_bytes ps)" "p + length (props_bytes ps) \<le> e"
    "length (props_bytes ps) < 268435456" "list_all (\<lambda>b. b) m" "props_consistent props"
  shows "\<exists>props' m'. MQTTProperties_read_loop m props (of_nat (length (props_bytes ps))) bs p e
      = Some (props', 0, p + length (props_bytes ps), m', False) \<and> props_consistent props'
    \<and> list_all (\<lambda>b. b) m' \<and> props_list props' = props_list props @ ps \<and> pl_length props' = pl_length props"
  using assms
proof (induction ps arbitrary: p m props)
  case Nil
  then show ?case by (simp add: MQTTProperties_read_loop.simps[of m props 0])
next
  case (Cons q ps)
  define L where "L = length (props_bytes ps)"
  define n where "n = length (prop_bytes q)"
  have len: "length (props_bytes (q # ps)) = n + L" "0 < n" "n + L < 268435456"
    using Cons.prems(4) prop_bytes_pos[of q] by (simp_all add: L_def n_def)
  obtain props1 m1 where g: "props_read_grow m props = (props1, m1)" "list_all (\<lambda>b. b) m1"
    "pl_array props1 = Some (props_list props)" "pl_count props1 = length (props_list props)"
    "length (props_list props) < pl_max_count props1" "10 \<le> pl_max_count props1"
    "pl_length props1 = pl_length props"
    using props_read_grow_ok[OF Cons.prems(6,5)] by blast
  obtain m2 where r: "MQTTProperty_read m1 bs p e = Some (int n, Some q, p + n, m2)"
    "list_all (\<lambda>b. b) m2"
    using Cons.prems g(2) MQTTProperty_read_ok[of q bs p e m1] by (auto simp: at_simps n_def)
  define props2 where "props2 = props1\<lparr>pl_array := Some (props_list props @ [q]),
    pl_count := pl_count props1 + 1\<rparr>"
  have p2: "props_consistent props2" "props_list props2 = props_list props @ [q]"
    "pl_length props2 = pl_length props"
    using g by (simp_all add: props2_def props_consistent_def props_list_def)
  have "store_slot props1 (props_list props) q = Some (props_list props @ [q])"
    using g by (simp add: store_slot_def)
  moreover have "(of_nat (n + L) :: 32 word) - of_nat n = of_nat L" by simp
  moreover have "(of_nat (n + L) :: 32 word) > 0" using len by (intro of_nat_pos_word) auto
  ultimately have "MQTTProperties_read_loop m props (of_nat (n + L)) bs p e
      = MQTTProperties_read_loop m2 props2 (of_nat L) bs (p + n) e"
    using g(1,3) r(1) len
    by (subst MQTTProperties_read_loop.simps) (simp add: props2_def del: of_nat_add)
  moreover have "\<exists>props' m'. MQTTProperties_read_loop m2 props2 (of_nat L) bs (p + n) e
      = Some (props', 0, p + n + L, m', False) \<and> props_consistent props'
    \<and> list_all (\<lambda>b. b) m' \<and> props_list props' = props_list props2 @ ps \<and> pl_length props' = pl_length props2"
    unfolding L_def using Cons.prems r(2) p2(1) len
    by (intro Cons.IH) (simp_all add: at_simps n_def L_def)
  ultimately show ?case
    using p2 len(1) by (simp add: add.assoc)
qed

lemma MQTTProperties_read_ok:
  assumes "list_all prop_ok ps" "length (props_bytes ps) < 268435456" "list_all (\<lambda>b. b) m"
    "lies_at bs p (vbi (length (props_bytes ps)) @ props_bytes ps)"
    "e = p + length (vbi (length (props_bytes ps))) + length (props_bytes ps) + k"
  shows "\<exists>props' m'. MQTTProperties_read m MQTTProperties_initializer bs p e
      = Some (1, props', p + length (vbi (length (props_bytes ps))) + length (props_bytes ps), m')
    \<and> list_all (\<lambda>b. b) m' \<and> props_ok props' \<and> props_list props' = ps
    \<and> pl_length props' = int (length (props_bytes ps))"
proof -
  define n where "n = length (props_bytes ps)"
  have l: "lies_at bs p (vbi n)" "lies_at bs (p + length (vbi n)) (props_bytes ps)"
    using assms(4) by (simp_all add: n_def lies_at_append)
  have n: "n < 268435456" using assms(2) by (simp add: n_def)
  have d: "MQTTPacket_decodeBuf bs p = Some (length (vbi n), of_nat n)"
    using decodeBuf_vbi[OF n l(1)] .
  have len: "to_int32 (uint (of_nat n :: 32 word)) = int n"
    using n by (simp add: unsigned_of_nat take_bit_nat_eq_self to_int32_nat flip: uint_nat)
  have b: "p + length (vbi n) + length (props_bytes ps) \<le> e" using assms(5) by (simp add: n_def)
  from read_loop_ok[OF assms(1) l(2) b assms(2,3),
      of "MQTTProperties_initializer\<lparr>pl_length := int n\<rparr>", folded n_def]
  obtain props' m' where r: "MQTTProperties_read_loop m (MQTTProperties_initializer\<lparr>pl_length := int n\<rparr>)
      (of_nat n) bs (p + length (vbi n)) e
      = Some (props', 0, p + length (vbi n) + n, m', False)" "list_all (\<lambda>b. b) m'"
    "props_consistent props'" "props_list props' = ps" "pl_length props' = int n"
    by auto
  have "p < e" using b by (simp add: vbi.simps[of n] split: if_splits)
  then have "MQTTProperties_read m MQTTProperties_initializer bs p e
      = Some (1, props', p + length (vbi n) + n, m')"
    using d r(1) by (simp add: MQTTProperties_read_def len)
  moreover have "props_ok props'" using r n assms(1) by (simp add: props_ok_def n_def)
  ultimately show ?thesis using r unfolding n_def by blast
qed

lemma read_loop_consistent:
  assumes "props_consistent props"
    and "MQTTProperties_read_loop m props r bs p e = Some (props', r', p', m', nomem)" "\<not> nomem"
  shows "props_consistent props'"
  using assms
proof (induction m props r bs p e rule: MQTTProperties_read_loop.induct)
  case (1 m props r bs p e)
  obtain props1 m1 where g: "props_read_grow m props = (props1, m1)" by (cases "props_read_grow m props")
  note unfold = MQTTProperties_read_loop.simps[of m props r bs p e]
  show ?case
  proof (cases "r > 0 \<and> pl_array props1 \<noteq> None")
    case False
    with 1(2-) g show ?thesis by (auto simp: unfold split: if_splits option.splits)
  next
    case True
    then obtain arr where arr: "pl_array props1 = Some arr" by auto
    have c: "pl_count props1 = length arr" "length arr < pl_max_count props1" "10 \<le> pl_max_count props1"
      using props_read_grow_consistent[OF "1.prems"(1) g arr] by auto
    from "1.prems"(2) True g arr obtain proplen q p2 m2 where
      q: "MQTTProperty_read m1 bs p e = Some (proplen, q, p2, m2)"
      by (auto simp: unfold split: bind_splits)
    have c1: "props_consistent props1" using c arr by (auto simp: props_consistent_def)
    show ?thesis
    proof (cases "q \<noteq> None \<and> proplen > 0")
      case False
      with "1.prems"(2) True g arr q c1 show ?thesis by (auto simp: unfold split: option.splits)
    next
      case t: True
      then obtain pr where pr: "q = Some pr" by auto
      have s: "store_slot props1 arr pr = Some (arr @ [pr])" using c by (simp add: store_slot_def)
      have c2: "props_consistent (props1\<lparr>pl_array := Some (arr @ [pr]), pl_count := pl_count props1 + 1\<rparr>)"
        using c by (auto simp: props_consistent_def)
      show ?thesis
        using "1.IH"[OF _ refl g[symmetric] arr q refl refl refl pr _ s c2] True t "1.prems"(2,3) g arr q pr s
        by (simp add: unfold)
    qed
  qed
qed

subsection \<open>Queries\<close>

lemma hasProperty_loop_eq:
  "hasProperty_loop ps i \<longleftrightarrow> 0 < length (filter (\<lambda>q. pp_identifier q = i) ps)"
  by (induction ps) auto

lemma propertyCount_loop_eq:
  "propertyCount_loop ps i n = n + length (filter (\<lambda>q. pp_identifier q = i) ps)"
  by (induction ps arbitrary: n) auto

lemma getPropertyAt_loop_eq:
  "cur \<le> index \<Longrightarrow> getPropertyAt_loop ps i index cur
    = nth_opt (filter (\<lambda>q. pp_identifier q = i) ps) (nat (index - cur))"
proof (induction ps arbitrary: cur)
  case (Cons q ps)
  have "nat (index - cur) = Suc (nat (index - (cur + 1)))" if "cur \<noteq> index"
    using that Cons.prems by simp
  with Cons show ?case by (cases "cur = index") auto
qed simp

lemma getNumericValueAt_loop_eq:
  "cur \<le> index \<Longrightarrow> getNumericValueAt_loop ps i index cur
    = (case nth_opt (filter (\<lambda>q. pp_identifier q = i) ps) (nat (index - cur)) of
         None \<Rightarrow> Some (-9999999) | Some q \<Rightarrow> property_number q)"
proof (induction ps arbitrary: cur)
  case (Cons q ps)
  have "nat (index - cur) = Suc (nat (index - (cur + 1)))" if "cur \<noteq> index"
    using that Cons.prems by simp
  with Cons show ?case by (cases "cur = index") auto
qed simp

subsection \<open>Properties\<close>

text \<open>A property list for the examples: a byte, a user property and a variable byte integer.\<close>

definition example_props :: MQTTProperties where
  "example_props = \<lparr>pl_count = 3, pl_max_count = 10, pl_length = 13, pl_array = Some
     [\<lparr>pp_identifier = 1, pp_value = VByte 1\<rparr>,
      \<lparr>pp_identifier = 38, pp_value = VStrings \<lparr>ls_len = 2, ls_data = Some [97, 98]\<rparr>
         (Some \<lparr>ls_len = 1, ls_data = Some [99]\<rparr>)\<rparr>,
      \<lparr>pp_identifier = 11, pp_value = VInteger4 200\<rparr>]\<rparr>"

lemma getType_example [simp]:
  "MQTTProperty_getType 1 = Some TYPE_BYTE" "MQTTProperty_getType 38 = Some TYPE_UTF_8_STRING_PAIR"
  "MQTTProperty_getType 11 = Some TYPE_VARIABLE_BYTE_INTEGER"
  by (simp_all add: MQTTProperty_getType_def namesToTypes_def)

lemma example_props_ok: "props_ok example_props"
proof -
  have v: "length (vbi 200) = 2" by (simp add: length_vbi)
  show ?thesis
    by (simp add: example_props_def props_ok_def props_list_def props_consistent_def prop_ok_def
        lenstring_ok_def prop_bytes_def lenstring_data_def v)
qed

text \<open>
  C29: what \<open>MQTTProperties_write\<close> stores for a list built by the library is exactly as long as
  \<open>MQTTProperties_len\<close> announced, the size the callers allocate. Its result is one plus the
  length field, which is that number only while the length field takes one byte.
\<close>

theorem MQTTProperties_write_length:
  assumes "props_ok props"
  shows "\<exists>out. MQTTProperties_write (Some props) = Some (1 + pl_length props, out)
    \<and> int (length out) = MQTTProperties_len (Some props)"
  using assms VBIlen_length_vbi[of "pl_length props"]
  by (simp add: MQTTProperties_write_ok MQTTProperties_len_def) (simp add: props_ok_def)

theorem MQTTProperties_write_length_witness:
  "\<exists>out. MQTTProperties_write (Some example_props) = Some (1 + pl_length example_props, out)
    \<and> int (length out) = MQTTProperties_len (Some example_props)"
  by (rule MQTTProperties_write_length[OF example_props_ok])

text \<open>
  C27: adding a property whose value has the member its type asks for, when every allocation
  succeeds: the list stays one the library builds, the property is appended, and the length
  field grows by the length of its encoding. An unknown identifier is refused and changes
  nothing.
\<close>

theorem MQTTProperties_add_correct:
  assumes "props_ok props" and "list_all (\<lambda>b. b) m" and "prop_ok q"
    and "pl_length props + int (length (prop_bytes q)) < 268435456"
    and "MQTTProperty_getType (pp_identifier r) = None"
  shows "\<exists>props' m'. MQTTProperties_add m props q = Some (0, props', m')
    \<and> props_ok props' \<and> props_list props' = props_list props @ [q]
    \<and> pl_length props' = pl_length props + int (length (prop_bytes q))
    \<and> MQTTProperties_add m props r = Some (MQTT_INVALID_PROPERTY_ID, props, m)"
  using assms MQTTProperties_add_ok[of props q m]
  by (auto simp: props_ok_def) (simp add: MQTTProperties_add_def)

theorem MQTTProperties_add_correct_witness:
  "\<exists>props' m'. MQTTProperties_add [True] example_props \<lparr>pp_identifier = 1, pp_value = VByte 0\<rparr>
      = Some (0, props', m') \<and> props_ok props'
    \<and> MQTTProperties_add [True] example_props \<lparr>pp_identifier = 4, pp_value = VByte 0\<rparr>
      = Some (MQTT_INVALID_PROPERTY_ID, example_props, [True])"
proof -
  have "pl_length example_props = 13" by (simp add: example_props_def)
  moreover have "MQTTProperty_getType 4 = None" by (simp add: MQTTProperty_getType_def namesToTypes_def)
  ultimately show ?thesis
    using MQTTProperties_add_correct[OF example_props_ok, of "[True]"
        "\<lparr>pp_identifier = 1, pp_value = VByte 0\<rparr>" "\<lparr>pp_identifier = 4, pp_value = VByte 0\<rparr>"]
    by (auto simp: prop_ok_def prop_bytes_def)
qed

text \<open>
  C12: the property list round trip: wherever the bytes stored by \<open>MQTTProperties_write\<close> lie in
  a buffer and every allocation succeeds, \<open>MQTTProperties_read\<close> succeeds, reads the same
  properties in the same order, sets the same length field and moves the pointer to the end
  of the list.
\<close>

theorem MQTTProperties_roundtrip:
  assumes "props_ok props" and "list_all (\<lambda>b. b) m"
  shows "\<exists>rc out props' m'. MQTTProperties_write (Some props) = Some (rc, out)
    \<and> MQTTProperties_read m MQTTProperties_initializer (xs @ out @ ys) (length xs) (length (xs @ out))
      = Some (1, props', length (xs @ out), m')
    \<and> props_ok props' \<and> props_list props' = props_list props \<and> pl_length props' = pl_length props"
proof -
  define ps where "ps = props_list props"
  define n where "n = length (props_bytes ps)"
  define out where "out = vbi n @ props_bytes ps"
  have ok: "pl_length props = int n" "n < 268435456" "list_all prop_ok ps"
    using assms(1) by (simp_all add: props_ok_def n_def ps_def)
  have "lies_at (xs @ out @ ys) (length xs) (vbi n @ props_bytes ps)"
    unfolding out_def by (rule lies_at_prefix)
  from MQTTProperties_read_ok[OF ok(3) _ assms(2), folded n_def, OF ok(2) this, of "length (xs @ out)" 0]
  obtain props' m' where "MQTTProperties_read m MQTTProperties_initializer (xs @ out @ ys) (length xs) (length (xs @ out))
      = Some (1, props', length (xs @ out), m')" "props_ok props'" "props_list props' = ps" "pl_length props' = int n"
    by (auto simp: out_def n_def add.assoc)
  moreover have "MQTTProperties_write (Some props) = Some (1 + pl_length props, out)"
    using MQTTProperties_write_ok[OF assms(1)] ok(1) by (simp add: out_def ps_def)
  ultimately show ?thesis using ok(1) unfolding ps_def by auto
qed

theorem MQTTProperties_roundtrip_witness:
  "\<exists>rc out props' m'. MQTTProperties_write (Some example_props) = Some (rc, out)
    \<and> MQTTProperties_read [] MQTTProperties_initializer out 0 (length out) = Some (1, props', length out, m')
    \<and> props_list props' = props_list example_props"
  using MQTTProperties_roundtrip[OF example_props_ok, of "[]" "[]" "[]"] by auto

text \<open>
  C28: when every allocation succeeds, \<open>MQTTProperties_copy\<close> returns a list with the same
  properties and the same length field, whatever slack the arrays have.
\<close>

theorem MQTTProperties_copy_correct:
  assumes "props_ok props" and "list_all (\<lambda>b. b) m"
  shows "\<exists>props' m'. MQTTProperties_copy m props = Some (props', m') \<and> props_ok props'
    \<and> props_list props' = props_list props \<and> pl_length props' = pl_length props"
proof -
  have "pl_length MQTTProperties_initializer = 0" by (simp add: MQTTProperties_initializer_def)
  then show ?thesis
    using assms copy_loop_ok[of "props_list props" m MQTTProperties_initializer]
    by (auto simp: MQTTProperties_copy_def props_ok_def props_consistent_slots)
qed

theorem MQTTProperties_copy_correct_witness:
  "\<exists>props' m'. MQTTProperties_copy [True, True] example_props = Some (props', m')
    \<and> props_list props' = props_list example_props"
  using MQTTProperties_copy_correct[OF example_props_ok, of "[True, True]"] by auto

text \<open>
  C26: whatever bytes are read into an empty property list, and however allocation turns out:
  when \<open>MQTTProperties_read\<close> reports success, the array has exactly the counted entries, so that
  the queries never read outside it, and they agree with each other: a property is present
  when its count is positive, and its instances are those at the indices below the count.
\<close>

theorem MQTTProperties_read_safe:
  assumes "MQTTProperties_read m MQTTProperties_initializer bs p e = Some (1, props, p', m')"
  shows "\<exists>n. MQTTProperties_propertyCount props propid = Some n
    \<and> MQTTProperties_hasProperty props propid = Some (0 < n)
    \<and> (0 \<le> index \<longrightarrow> (\<exists>r. MQTTProperties_getPropertyAt props propid index = Some r
          \<and> (r \<noteq> None \<longleftrightarrow> nat index < n)
          \<and> MQTTProperties_getNumericValueAt props propid index
              = (case r of None \<Rightarrow> Some (-9999999) | Some prop \<Rightarrow> property_number prop)))"
proof -
  have "props_consistent props"
  proof -
    have rl: "props_consistent props"
      if "MQTTProperties_read_loop m (MQTTProperties_initializer\<lparr>pl_length := l\<rparr>) r bs q e
        = Some (props, r', p', m', False)" for l r q r'
      using read_loop_consistent[OF props_consistent_initializer(1) that] by simp
    from assms obtain a b where "MQTTProperties_read_loop m
        (MQTTProperties_initializer\<lparr>pl_length := to_int32 (uint b)\<rparr>) b bs (p + a) e
        = Some (props, 0, p', m', False)"
      by (auto simp: MQTTProperties_read_def PAHO_MEMORY_ERROR_def split: bind_splits if_splits)
    then show ?thesis by (rule rl)
  qed
  then have "props_slots props = Some (props_list props)"
    by (rule props_consistent_slots)
  then show ?thesis
    by (simp add: MQTTProperties_propertyCount_def MQTTProperties_hasProperty_def
        MQTTProperties_getPropertyAt_def MQTTProperties_getNumericValueAt_def hasProperty_loop_eq
        propertyCount_loop_eq getPropertyAt_loop_eq getNumericValueAt_loop_eq nth_opt_def)
qed

theorem MQTTProperties_read_safe_witness:
  "\<exists>props n. MQTTProperties_read [] MQTTProperties_initializer [2, 1, 7] 0 3 = Some (1, props, 3, [])
    \<and> MQTTProperties_propertyCount props 1 = Some n \<and> MQTTProperties_hasProperty props 1 = Some (0 < n)"
proof -
  have "map_option (\<lambda>(rc, _, p, m). (rc, p, m))
      (MQTTProperties_read [] MQTTProperties_initializer [2, 1, 7] 0 3) = Some (1, 3, [])"
    by code_simp
  then have "\<exists>props. MQTTProperties_read [] MQTTProperties_initializer [2, 1, 7] 0 3 = Some (1, props, 3, [])"
    by auto
  then show ?thesis using MQTTProperties_read_safe by blast
qed

text \<open>
  C34: \<open>MQTTProperties_read\<close> does not hold fixed-width values against the end of the data: when
  the declared length is positive and the data ends right behind the identifier of a
  four-byte property, the read goes outside the memory that holds the packet.
\<close>

theorem MQTTProperties_read_overrun:
  assumes "MQTTProperty_getType (int (unat c)) = Some TYPE_FOUR_BYTE_INTEGER"
    and "0 < unat l" and "unat l < 128" and "length tail < 4"
  shows "MQTTProperties_read [] MQTTProperties_initializer ([l, c] @ tail) 0 (length ([l, c] @ tail)) = None"
proof -
  have l: "MQTTPacket_decodeBuf (l # c # tail) 0 = Some (1, of_nat (unat l))"
    using decodeBuf_vbi[of "unat l" "l # c # tail" 0] assms
    by (simp add: vbi.simps[of "unat l"] lies_at_Cons at_simps)
  have "readInt4 (l # c # tail) (Suc (Suc 0)) = None"
  proof -
    have "nth_opt (l # c # tail) (Suc (Suc 0) + 3) = None" using assms(4) by (simp add: nth_opt_def)
    then show ?thesis by (auto simp: readInt4_def split: bind_splits)
  qed
  then have "MQTTProperty_read [] (l # c # tail) 1 e = None" for e
    using assms(1) by (simp add: MQTTProperty_read_def readChar_def)
  moreover have "(of_nat (unat l) :: 32 word) > 0"
    using assms(2,3) by (intro of_nat_pos_word) auto
  ultimately show ?thesis
    using l by (simp add: MQTTProperties_read_def
        MQTTProperties_read_loop.simps[of "[]" _ "of_nat (unat l)"] props_read_grow_def
        MQTTProperties_initializer_def del: of_nat_unat)
qed

theorem MQTTProperties_read_overrun_witness:
  "MQTTProperties_read [] MQTTProperties_initializer [5, 17, 1, 2] 0 4 = None"
proof -
  have "length ([5, 17] @ [1, 2 :: byte]) = 4" by simp
  then show ?thesis
    using MQTTProperties_read_overrun[of 17 5 "[1, 2]"]
    by (simp only: append_Cons append_Nil) (simp add: MQTTProperty_getType_def namesToTypes_def)
qed

text \<open>
  C35: a variable byte integer of 268435456 or more, which MQTT cannot encode, is accepted by
  \<open>MQTTProperties_add\<close> with a length that is smaller than what \<open>MQTTProperty_write\<close> then stores:
  a buffer allocated by \<open>MQTTProperties_len\<close> is overrun.
\<close>

theorem MQTTProperties_add_vbi_too_big:
  assumes "268435456 \<le> unat w" and "props_ok props"
  shows "\<exists>props' out. MQTTProperties_add [] props \<lparr>pp_identifier = 11, pp_value = VInteger4 w\<rparr>
        = Some (0, props', [])
    \<and> MQTTProperty_write \<lparr>pp_identifier = 11, pp_value = VInteger4 w\<rparr> = Some (6, out)
    \<and> length out = 6 \<and> pl_length props' \<le> pl_length props + 5"
proof -
  have "unat w div 268435456 < 128"
    using unsigned_less[of w, where 'a = nat] by (simp add: div_less_iff_less_mult)
  then have "length (vbi (unat w)) = 5"
    using assms(1) by (simp add: length_vbi[of "unat w"] length_vbi_step[of "unat w div 268435456"])
  moreover have "MQTTPacket_VBIlen i \<le> 4" for i
    by (simp add: MQTTPacket_VBIlen_def)
  ultimately show ?thesis
    using assms(2)
    by (auto simp: MQTTProperties_add_def props_grow_def store_slot_def props_ok_def props_consistent_def
        props_copy_value_def MQTTProperty_write_def MQTTPacket_encode_eq writeChar_def split: option.splits)
qed

theorem MQTTProperties_add_vbi_too_big_witness:
  "\<exists>props' out. MQTTProperties_add [] MQTTProperties_initializer
        \<lparr>pp_identifier = 11, pp_value = VInteger4 268435456\<rparr> = Some (0, props', [])
    \<and> MQTTProperty_write \<lparr>pp_identifier = 11, pp_value = VInteger4 268435456\<rparr> = Some (6, out)
    \<and> length out = 6 \<and> pl_length props' \<le> pl_length MQTTProperties_initializer + 5"
  using MQTTProperties_add_vbi_too_big[of 268435456 MQTTProperties_initializer]
  by (simp add: props_ok_initializer)

end
