(* ===== verification/Clients.thy ===== *)
theory Clients
  imports Properties
begin

text \<open>
  The data the library keeps for each client, \<^verbatim>\<open>src/Clients.h\<close> and \<^verbatim>\<open>src/Clients.c\<close>:
  stored publications, in-flight messages, the will message, the network data and the client.

  A publication is stored once and shared by the messages that refer to it; \<open>Publications\<close> are
  therefore kept in a store and named by their address there. Times are in milliseconds.

  A message has a null pointer for its publication when that has been handed on. Its properties
  are set from MQTT 5 on, and the packet it waits for next with QoS 2 only; they are \<open>None\<close> while they
  have not been set. Its length, which only the accounting of the heap uses, is left out.
\<close>

record Publications =
  pn_topic :: "byte list"
  pn_topiclen :: int
  pn_payload :: "byte list"
  pn_payloadlen :: int
  pn_refcount :: int

record Messages =
  ms_qos :: nat
  ms_retain :: nat
  ms_msgid :: int
  ms_MQTTVersion :: int
  ms_properties :: "MQTTProperties option"
  ms_publish :: "nat option"
  ms_lastTouch :: nat
  ms_nextMessageType :: "nat option"

record willMessages =
  wm_topic :: "byte list"
  wm_payloadlen :: int
  wm_payload :: "byte list"
  wm_retained :: nat
  wm_qos :: nat

record networkHandles =
  nt_socket :: int
  nt_lastSent :: nat
  nt_lastReceived :: nat
  nt_lastPing :: nat

abbreviation (input) NOT_IN_PROGRESS :: int where "NOT_IN_PROGRESS \<equiv> 0"
abbreviation (input) TCP_IN_PROGRESS :: int where "TCP_IN_PROGRESS \<equiv> 1"
abbreviation (input) SSL_IN_PROGRESS :: int where "SSL_IN_PROGRESS \<equiv> 2"
abbreviation (input) WEBSOCKET_IN_PROGRESS :: int where "WEBSOCKET_IN_PROGRESS \<equiv> 3"
abbreviation (input) WAIT_FOR_CONNACK :: int where "WAIT_FOR_CONNACK \<equiv> 4"
abbreviation (input) PROXY_CONNECT_IN_PROGRESS :: int where "PROXY_CONNECT_IN_PROGRESS \<equiv> 5"
abbreviation (input) DISCONNECTING :: int where "DISCONNECTING \<equiv> -2"

text \<open>
  A message for the application in the queue of the synchronous client (\<^verbatim>\<open>MQTTClient.h\<close>,
  \<^verbatim>\<open>MQTTClient.c\<close>), without the fields that identify the version of the structure, and an
  acknowledgement that could not be sent yet (\<^verbatim>\<open>MQTTProtocolClient.c\<close>).
\<close>

record MQTTClient_message =
  mm_payloadlen :: int
  mm_payload :: "byte list"
  mm_qos :: nat
  mm_retained :: nat
  mm_dup :: nat
  mm_msgid :: int
  mm_properties :: MQTTProperties

record qEntry =
  qe_msg :: MQTTClient_message
  qe_topicName :: "byte list"
  qe_topicLen :: int

record AckRequest =
  ar_messageId :: int
  ar_ackType :: nat

text \<open>
  A client, without its persistence handles, proxies and TLS options.
\<close>

record Clients =
  cl_clientID :: "byte list"
  cl_username :: "byte list option"
  cl_passwordlen :: int
  cl_password :: "byte list option"
  cl_cleansession :: bool
  cl_cleanstart :: bool
  cl_connected :: bool
  cl_good :: bool
  cl_ping_outstanding :: bool
  cl_ping_due :: bool
  cl_connect_state :: int
  cl_ping_due_time :: nat
  cl_net :: networkHandles
  cl_msgID :: int
  cl_keepAliveInterval :: int
  cl_retryInterval :: int
  cl_maxInflightMessages :: int
  cl_will :: "willMessages option"
  cl_inboundMsgs :: "Messages list"
  cl_outboundMsgs :: "Messages list"
  cl_connect_count :: int
  cl_connect_sent :: int
  cl_messageQueue :: "qEntry list"
  cl_outboundQueue :: "AckRequest list"
  cl_MQTTVersion :: int

text \<open>The callbacks with which the list of clients is searched.\<close>

definition clientIDCompare :: "byte list \<Rightarrow> Clients \<Rightarrow> bool" where
  "clientIDCompare clientID client \<longleftrightarrow> cl_clientID client = clientID"

definition clientSocketCompare :: "int \<Rightarrow> Clients \<Rightarrow> bool" where
  "clientSocketCompare socket client \<longleftrightarrow> nt_socket (cl_net client) = socket"

end
