(* ===== verification/Socket_Buffer.thy ===== *)
theory Socket_Buffer
  imports Packet_Coding
begin

text \<open>
  The buffers of \<^verbatim>\<open>src/SocketBuffer.c\<close>: partly read packets and partly written packets of
  each socket, and the state of the socket layer they are part of.

  The lists of this layer are sequences here (see \<^verbatim>\<open>Linked_List\<close>); a socket has at most one
  entry in each. A queue's \<open>fixed_header\<close> and \<open>buf\<close> hold the bytes that have been stored:
  reading another place of them is not defined. Buffers to write are held by value.

  The kernel is part of the state: for each socket the events to come on its receiving and on
  its sending side, and the bytes accepted for sending.
\<close>

subsection \<open>State\<close>

record socket_queue =
  sq_socket :: int
  sq_index :: nat
  sq_headerlen :: nat
  sq_fixed_header :: "byte list"
  sq_buflen :: nat
  sq_datalen :: nat
  sq_buf :: "byte list option"

record pending_writes =
  pw_socket :: int
  pw_total :: nat
  pw_bytes :: nat
  pw_iovecs :: "byte list list"
  pw_frees :: "bool list"

text \<open>
  What happens at the calls of \<open>recv\<close>: data that has arrived, no data (\<open>EAGAIN\<close>), the end of
  the stream, another error. With no event left there is no data. At the calls of \<open>writev\<close>:
  room for so many bytes, no room (\<open>EAGAIN\<close>), an error; with no event left there is room for all.
\<close>

datatype rx_event = Arrive "byte list" | RxBlock | RxEof | RxFail int
datatype tx_event = TxAccept nat | TxBlock | TxFail

record sock_state =
  s_mem :: mem
  def_queue :: "socket_queue option"
  queues :: "socket_queue list"
  writes :: "pending_writes list"
  write_pending :: "int list"
  k_rx :: "int \<Rightarrow> rx_event list"
  k_tx :: "int \<Rightarrow> tx_event list"
  k_sent :: "int \<Rightarrow> byte list"

text \<open>An allocation.\<close>

definition s_malloc :: "sock_state \<Rightarrow> bool \<times> sock_state" where
  "s_malloc s = (let (ok, m) = malloc (s_mem s) in (ok, s\<lparr>s_mem := m\<rparr>))"

text \<open>Changing the first entry of a list that satisfies a predicate.\<close>

fun update_first :: "('a \<Rightarrow> bool) \<Rightarrow> ('a \<Rightarrow> 'a) \<Rightarrow> 'a list \<Rightarrow> 'a list" where
  "update_first P f [] = []"
| "update_first P f (x # xs) = (if P x then f x # xs else x # update_first P f xs)"

fun remove_first :: "('a \<Rightarrow> bool) \<Rightarrow> 'a list \<Rightarrow> 'a list" where
  "remove_first P [] = []"
| "remove_first P (x # xs) = (if P x then xs else x # remove_first P xs)"

subsection \<open>Input buffers\<close>

definition socketcompare :: "int \<Rightarrow> socket_queue \<Rightarrow> bool" where
  "socketcompare socket q \<longleftrightarrow> sq_socket q = socket"

text \<open>
  A default queue without its buffer has fields that are not set; it counts as none. The
  length of the new buffer is set to 1000 first and to 0 at the end.
\<close>

definition SocketBuffer_newDefQ :: "sock_state \<Rightarrow> int \<times> sock_state" where
  "SocketBuffer_newDefQ s =
     (let (ok, s1) = s_malloc s in
      if ok then
        (let (ok2, s2) = s_malloc s1 in
         if ok2 then
           (0, s2\<lparr>def_queue := Some \<lparr>sq_socket = 0, sq_index = 0, sq_headerlen = 0, sq_fixed_header = [],
                  sq_buflen = 0, sq_datalen = 0, sq_buf = Some []\<rparr>\<rparr>)
         else (PAHO_MEMORY_ERROR, s2\<lparr>def_queue := None\<rparr>))
      else (PAHO_MEMORY_ERROR, s1\<lparr>def_queue := None\<rparr>))"

definition SocketBuffer_initialize :: "sock_state \<Rightarrow> int \<times> sock_state" where
  "SocketBuffer_initialize s =
     (let (rc, s1) = SocketBuffer_newDefQ s;
          (rc', s2) = (if rc = 0 then (let (ok, s2) = s_malloc s1 in
              (if ok then 0 else PAHO_MEMORY_ERROR, s2\<lparr>queues := []\<rparr>)) else (rc, s1))
      in (rc', s2\<lparr>writes := []\<rparr>))"

text \<open>The queue of a socket, and a change of it.\<close>

definition find_queue :: "sock_state \<Rightarrow> int \<Rightarrow> socket_queue option" where
  "find_queue s socket = List.find (socketcompare socket) (queues s)"

definition update_queue :: "sock_state \<Rightarrow> int \<Rightarrow> (socket_queue \<Rightarrow> socket_queue) \<Rightarrow> sock_state" where
  "update_queue s socket f =
     (if find_queue s socket \<noteq> None then s\<lparr>queues := update_first (socketcompare socket) f (queues s)\<rparr>
      else s\<lparr>def_queue := map_option f (def_queue s)\<rparr>)"

definition SocketBuffer_getQueuedData ::
  "sock_state \<Rightarrow> int \<Rightarrow> nat \<Rightarrow> (byte list option \<times> nat \<times> sock_state) option" where
  "SocketBuffer_getQueuedData s socket bytes = do {
     (queue, actual_len) \<leftarrow> (case find_queue s socket of
         Some q \<Rightarrow> Some (q, sq_datalen q)
       | None \<Rightarrow> do { q \<leftarrow> def_queue s; Some (q, 0) });
     if bytes > sq_buflen queue then
       (let (ok, s1) = s_malloc s in
        if sq_datalen queue > 0 then
          if ok then do {
            old \<leftarrow> sq_buf queue;
            if sq_datalen queue \<le> length old then
              let new = Some (take (sq_datalen queue) old) in
              Some (new, actual_len, update_queue s1 socket (\<lambda>q. q\<lparr>sq_buf := new, sq_buflen := bytes\<rparr>))
            else None
          } else Some (None, actual_len, update_queue s1 socket (\<lambda>q. q\<lparr>sq_buf := None\<rparr>))
        else
          let new = (if ok then (case sq_buf queue of None \<Rightarrow> Some [] | Some b \<Rightarrow> Some b) else None) in
          Some (new, actual_len, update_queue s1 socket (\<lambda>q. q\<lparr>sq_buf := new, sq_buflen := bytes\<rparr>)))
     else Some (sq_buf queue, actual_len, s)
   }"

definition SocketBuffer_getQueuedChar ::
  "sock_state \<Rightarrow> int \<Rightarrow> (int \<times> byte option \<times> sock_state) option" where
  "SocketBuffer_getQueuedChar s socket =
     (case find_queue s socket of
        None \<Rightarrow> Some (TCPSOCKET_INTERRUPTED, None, s)
      | Some queue \<Rightarrow>
          if sq_index queue < sq_headerlen queue then do {
            c \<leftarrow> nth_opt (sq_fixed_header queue) (sq_index queue);
            Some (TCPSOCKET_COMPLETE, Some c,
                  update_queue s socket (\<lambda>q. q\<lparr>sq_index := sq_index q + 1\<rparr>))
          }
          else if sq_index queue > 4 then Some (SOCKET_ERROR, None, s)
          else Some (TCPSOCKET_INTERRUPTED, None, s))"

definition SocketBuffer_interrupted :: "sock_state \<Rightarrow> int \<Rightarrow> nat \<Rightarrow> sock_state option" where
  "SocketBuffer_interrupted s socket actual_len =
     (case find_queue s socket of
        Some q \<Rightarrow> Some (update_queue s socket (\<lambda>q. q\<lparr>sq_index := 0, sq_datalen := actual_len\<rparr>))
      | None \<Rightarrow> do {
          queue \<leftarrow> def_queue s;
          let (ok, s1) = s_malloc s;
          let entry = queue\<lparr>sq_socket := socket, sq_index := 0, sq_datalen := actual_len\<rparr>;
          let s2 = (if ok then s1\<lparr>queues := queues s1 @ [entry]\<rparr> else s1);
          Some (snd (SocketBuffer_newDefQ s2))
        })"

definition SocketBuffer_complete :: "sock_state \<Rightarrow> int \<Rightarrow> (byte list option \<times> sock_state) option" where
  "SocketBuffer_complete s socket = do {
     let s1 = (case find_queue s socket of
         Some q \<Rightarrow> s\<lparr>def_queue := Some q, queues := remove_first (socketcompare socket) (queues s)\<rparr>
       | None \<Rightarrow> s);
     q \<leftarrow> def_queue s1;
     Some (sq_buf q, s1\<lparr>def_queue := Some (q\<lparr>sq_socket := 0, sq_index := 0, sq_headerlen := 0,
                                             sq_datalen := 0\<rparr>)\<rparr>)
   }"

definition SocketBuffer_queueChar :: "sock_state \<Rightarrow> int \<Rightarrow> byte \<Rightarrow> sock_state option" where
  "SocketBuffer_queueChar s socket c = do {
     (s1, curq, error) \<leftarrow>
       (case find_queue s socket of
          Some q \<Rightarrow> Some (s, q, False)
        | None \<Rightarrow> do {
            d \<leftarrow> def_queue s;
            if sq_socket d = 0 then
              let d' = d\<lparr>sq_socket := socket, sq_index := 0, sq_datalen := 0\<rparr> in
              Some (s\<lparr>def_queue := Some d'\<rparr>, d', False)
            else Some (s, d, sq_socket d \<noteq> socket)
          });
     if error \<or> sq_index curq > 4 then Some s1
     else if sq_index curq \<le> length (sq_fixed_header curq) then
       Some (update_queue s1 socket (\<lambda>q. q\<lparr>
         sq_fixed_header := take (sq_index q) (sq_fixed_header q) @ [c] @ drop (sq_index q + 1) (sq_fixed_header q),
         sq_index := sq_index q + 1, sq_headerlen := sq_index q + 1\<rparr>))
     else None
   }"

subsection \<open>Output buffers\<close>

definition pending_socketcompare :: "int \<Rightarrow> pending_writes \<Rightarrow> bool" where
  "pending_socketcompare socket pw \<longleftrightarrow> pw_socket pw = socket"

text \<open>
  The entry goes to the end of the list \<open>writes\<close>; the result of the append is not looked at.
\<close>

definition SocketBuffer_pendingWrite ::
  "sock_state \<Rightarrow> int \<Rightarrow> byte list list \<Rightarrow> bool list \<Rightarrow> nat \<Rightarrow> nat \<Rightarrow> int \<times> sock_state" where
  "SocketBuffer_pendingWrite s socket iovecs frees total_len bytes =
     (let (ok, s1) = s_malloc s in
      if \<not> ok then (PAHO_MEMORY_ERROR, s1)
      else
        (let pw = \<lparr>pw_socket = socket, pw_total = total_len, pw_bytes = bytes, pw_iovecs = iovecs, pw_frees = frees\<rparr>;
             (ok2, s2) = s_malloc s1
         in (0, if ok2 then s2\<lparr>writes := writes s2 @ [pw]\<rparr> else s2)))"

definition SocketBuffer_getWrite :: "sock_state \<Rightarrow> int \<Rightarrow> pending_writes option" where
  "SocketBuffer_getWrite s socket = List.find (pending_socketcompare socket) (writes s)"

definition SocketBuffer_writeComplete :: "sock_state \<Rightarrow> int \<Rightarrow> int \<times> sock_state" where
  "SocketBuffer_writeComplete s socket =
     (if SocketBuffer_getWrite s socket \<noteq> None
      then (1, s\<lparr>writes := remove_first (pending_socketcompare socket) (writes s)\<rparr>) else (0, s))"

text \<open>Only the addresses of two buffers change, not their lengths.\<close>

definition SocketBuffer_updateWrite ::
  "sock_state \<Rightarrow> int \<Rightarrow> byte list \<Rightarrow> byte list \<Rightarrow> (pending_writes option \<times> sock_state) option" where
  "SocketBuffer_updateWrite s socket topic payload =
     (case SocketBuffer_getWrite s socket of
        None \<Rightarrow> Some (None, s)
      | Some pw \<Rightarrow>
          if length (pw_iovecs pw) = 4 then do {
            t \<leftarrow> memcpy topic (int (length (pw_iovecs pw ! 2)));
            p \<leftarrow> memcpy payload (int (length (pw_iovecs pw ! 3)));
            let pw' = pw\<lparr>pw_iovecs := (pw_iovecs pw)[2 := t, 3 := p]\<rparr>;
            Some (Some pw', s\<lparr>writes := update_first (pending_socketcompare socket) (\<lambda>_. pw') (writes s)\<rparr>)
          } else Some (Some pw, s))"

definition SocketBuffer_cleanup :: "sock_state \<Rightarrow> int \<Rightarrow> sock_state option" where
  "SocketBuffer_cleanup s socket = do {
     let s1 = snd (SocketBuffer_writeComplete s socket);
     let s2 = s1\<lparr>queues := remove_first (socketcompare socket) (queues s1)\<rparr>;
     d \<leftarrow> def_queue s2;
     Some (if sq_socket d = socket
           then s2\<lparr>def_queue := Some (d\<lparr>sq_socket := 0, sq_index := 0, sq_headerlen := 0, sq_datalen := 0\<rparr>)\<rparr>
           else s2)
   }"

definition SocketBuffer_terminate :: "sock_state \<Rightarrow> sock_state option" where
  "SocketBuffer_terminate s = do {
     d \<leftarrow> def_queue s;
     Some (s\<lparr>writes := [], queues := [], def_queue := None\<rparr>)
   }"

end
