(* ===== verification/Socket_IO.thy ===== *)
theory Socket_IO
  imports Socket_Buffer
begin

text \<open>
  Non-blocking reading and writing on sockets, \<^verbatim>\<open>src/Socket.c\<close>, for the build without
  OpenSSL and Windows: bytes and blocks of bytes are read through the socket buffers, packets
  are written in one call and what is left of them is kept.
\<close>

subsection \<open>The kernel\<close>

text \<open>\<open>recv\<close> of at most \<open>n\<close> bytes: no bytes are received at the end of the stream.\<close>

datatype recv_result = Received "byte list" | RecvError int

definition EAGAIN :: int where "EAGAIN = 11"

definition recv :: "sock_state \<Rightarrow> int \<Rightarrow> nat \<Rightarrow> recv_result \<times> sock_state" where
  "recv s socket n =
     (case k_rx s socket of
        [] \<Rightarrow> (RecvError EAGAIN, s)
      | RxEof # evs \<Rightarrow> (Received [], s)
      | RxFail err # evs \<Rightarrow> (RecvError err, s)
      | RxBlock # evs \<Rightarrow> (RecvError EAGAIN, s\<lparr>k_rx := (k_rx s)(socket := evs)\<rparr>)
      | Arrive bs # evs \<Rightarrow>
          (let evs' = (if length bs \<le> n then evs else Arrive (drop n bs) # evs);
               s' = s\<lparr>k_rx := (k_rx s)(socket := evs')\<rparr>
           in (if bs = [] then RecvError EAGAIN else Received (take n bs), s')))"

text \<open>\<open>writev\<close>: the result is the number of bytes accepted, -1 for an error, with \<open>errno\<close>.\<close>

definition writev :: "sock_state \<Rightarrow> int \<Rightarrow> byte list list \<Rightarrow> (int \<times> bool) \<times> sock_state" where
  "writev s socket iovecs =
     (let data = concat iovecs;
          accept = (\<lambda>k evs. ((int (min k (length data)), False),
            s\<lparr>k_tx := (k_tx s)(socket := evs), k_sent := (k_sent s)(socket := k_sent s socket @ take k data)\<rparr>))
      in case k_tx s socket of
           [] \<Rightarrow> accept (length data) []
         | TxAccept k # evs \<Rightarrow> accept k evs
         | TxBlock # evs \<Rightarrow> ((SOCKET_ERROR, True), s\<lparr>k_tx := (k_tx s)(socket := evs)\<rparr>)
         | TxFail # evs \<Rightarrow> ((SOCKET_ERROR, False), s\<lparr>k_tx := (k_tx s)(socket := evs)\<rparr>))"

subsection \<open>Reading\<close>

definition Socket_getch :: "sock_state \<Rightarrow> int \<Rightarrow> (int \<times> byte option \<times> sock_state) option" where
  "Socket_getch s socket = do {
     (rc, c, s1) \<leftarrow> SocketBuffer_getQueuedChar s socket;
     if rc \<noteq> TCPSOCKET_INTERRUPTED then Some (rc, c, s1)
     else (case recv s1 socket 1 of
         (RecvError err, s2) \<Rightarrow>
           if err = EAGAIN then do {
             s3 \<leftarrow> SocketBuffer_interrupted s2 socket 0;
             Some (TCPSOCKET_INTERRUPTED, None, s3)
           } else Some (SOCKET_ERROR, None, s2)
       | (Received [], s2) \<Rightarrow> Some (SOCKET_ERROR, None, s2)
       | (Received (c # _), s2) \<Rightarrow> do {
           s3 \<leftarrow> SocketBuffer_queueChar s2 socket c;
           Some (TCPSOCKET_COMPLETE, Some c, s3)
         })
   }"

text \<open>
  The result is the buffer, the number of bytes in it and the code; \<open>actual_len\<close> is only set
  when bytes are asked for. Receiving into a buffer that could not be allocated is not defined.
\<close>

definition Socket_getdata ::
  "sock_state \<Rightarrow> int \<Rightarrow> nat \<Rightarrow> nat \<Rightarrow> (byte list option \<times> nat \<times> sock_state) option" where
  "Socket_getdata s socket bytes actual_len0 =
     (if bytes = 0 then do {
        (buf, s1) \<leftarrow> SocketBuffer_complete s socket;
        Some (buf, actual_len0, s1)
      } else do {
        (qbuf, actual_len, s1) \<leftarrow> SocketBuffer_getQueuedData s socket bytes;
        buf \<leftarrow> qbuf;
        if length buf < actual_len \<or> bytes < actual_len then None
        else
        (let finish = (\<lambda>buf' alen s2.
               let s3 = update_queue s2 socket (\<lambda>q. q\<lparr>sq_buf := Some buf'\<rparr>) in
               if alen = bytes then do {
                 (_, s4) \<leftarrow> SocketBuffer_complete s3 socket;
                 Some (Some buf', alen, s4)
               } else do {
                 s4 \<leftarrow> SocketBuffer_interrupted s3 socket alen;
                 Some (Some buf', alen, s4)
               })
         in case recv s1 socket (bytes - actual_len) of
              (RecvError err, s2) \<Rightarrow>
                if err = EAGAIN then finish buf actual_len s2 else Some (None, actual_len, s2)
            | (Received [], s2) \<Rightarrow> Some (None, actual_len, s2)
            | (Received bs, s2) \<Rightarrow> finish (take actual_len buf @ bs) (actual_len + length bs) s2)
      })"

subsection \<open>Writing\<close>

definition Socket_noPendingWrites :: "sock_state \<Rightarrow> int \<Rightarrow> bool" where
  "Socket_noPendingWrites s socket = (List.find (\<lambda>x. x = socket) (write_pending s) = None)"

definition Socket_writev :: "sock_state \<Rightarrow> int \<Rightarrow> byte list list \<Rightarrow> int \<times> nat \<times> sock_state" where
  "Socket_writev s socket iovecs =
     (case writev s socket iovecs of
        ((rc, blocked), s1) \<Rightarrow>
          if rc = SOCKET_ERROR then (if blocked then TCPSOCKET_INTERRUPTED else rc, 0, s1)
          else (rc, nat rc, s1))"

definition Socket_putdatas ::
  "sock_state \<Rightarrow> int \<Rightarrow> byte list \<Rightarrow> byte list list \<Rightarrow> bool list \<Rightarrow> int \<times> sock_state" where
  "Socket_putdatas s socket buf0 bufs frees =
     (if \<not> Socket_noPendingWrites s socket then (SOCKET_ERROR, s)
      else
        (let total_len = length buf0 + sum_list (map length bufs);
             iovecs = buf0 # bufs;
             frees1 = True # frees;
             (rc, bytes, s1) = Socket_writev s socket iovecs in
         if rc \<noteq> SOCKET_ERROR then
           if bytes = total_len then (TCPSOCKET_COMPLETE, s1)
           else
             (let (ok, s2) = s_malloc s1 in
              if \<not> ok then (PAHO_MEMORY_ERROR, s2)
              else
                (let (_, s3) = SocketBuffer_pendingWrite s2 socket iovecs frees1 total_len bytes;
                     (ok2, s4) = s_malloc s3 in
                 if \<not> ok2 then (PAHO_MEMORY_ERROR, s4)
                 else (TCPSOCKET_INTERRUPTED, s4\<lparr>write_pending := write_pending s4 @ [socket]\<rparr>)))
         else (rc, s1)))"

text \<open>The buffers left to write, from the buffer that was written in part.\<close>

fun remaining_iovecs :: "nat \<Rightarrow> nat \<Rightarrow> byte list list \<Rightarrow> byte list list" where
  "remaining_iovecs bytes curbuflen [] = []"
| "remaining_iovecs bytes curbuflen (v # vs) =
     (if bytes \<le> curbuflen then [v]
      else if bytes < curbuflen + length v then [drop (bytes - curbuflen) v]
      else []) @ remaining_iovecs bytes (curbuflen + length v) vs"

text \<open>The codes: 0 incomplete, 1 complete, -1 socket error.\<close>

definition Socket_continueWrite :: "sock_state \<Rightarrow> int \<Rightarrow> (int \<times> sock_state) option" where
  "Socket_continueWrite s socket = do {
     pw \<leftarrow> SocketBuffer_getWrite s socket;
     let (rc, bytes, s1) = Socket_writev s socket (remaining_iovecs (pw_bytes pw) 0 (pw_iovecs pw));
     if rc \<noteq> SOCKET_ERROR then
       (let s2 = s1\<lparr>writes := update_first (pending_socketcompare socket)
                       (\<lambda>p. p\<lparr>pw_bytes := pw_bytes p + bytes\<rparr>) (writes s1)\<rparr>
        in Some (if pw_bytes pw + bytes = pw_total pw then 1 else 0, s2))
     else Some (rc, s1)
   }"

text \<open>
  The body of the loop of \<open>Socket_continueWrites\<close> for one socket of \<open>write_pending\<close> that poll
  reported as writable: a write that is complete or has failed is taken off both lists.
\<close>

definition continueWrites_one :: "sock_state \<Rightarrow> int \<Rightarrow> (int \<times> sock_state) option" where
  "continueWrites_one s socket = do {
     (rc, s1) \<leftarrow> Socket_continueWrite s socket;
     if rc \<noteq> 0 then
       Some (rc, (snd (SocketBuffer_writeComplete s1 socket))
                   \<lparr>write_pending := remove_first (\<lambda>x. x = socket) (write_pending s1)\<rparr>)
     else Some (rc, s1)
   }"

subsection \<open>Lists with one entry for each key\<close>

lemma find_update_first:
  assumes "\<And>x. key (f x) = key x" "distinct (map key xs)"
  shows "List.find (\<lambda>x. key x = k') (update_first (\<lambda>x. key x = k) f xs)
    = (if k' = k then map_option f (List.find (\<lambda>x. key x = k') xs) else List.find (\<lambda>x. key x = k') xs)"
  using assms(2) by (induction xs) (auto simp: assms(1))

lemma map_update_first: "(\<And>x. key (f x) = key x) \<Longrightarrow> map key (update_first P f xs) = map key xs"
  by (induction xs) auto

lemma map_remove_first:
  "map key (remove_first (\<lambda>x. key x = k) xs) = remove_first (\<lambda>x. x = k) (map key xs)"
  by (induction xs) auto

lemma remove_first_filter: "distinct xs \<Longrightarrow> remove_first (\<lambda>x. x = k) xs = filter (\<lambda>x. x \<noteq> k) xs"
proof (induction xs)
  case (Cons a xs)
  then show ?case by (cases "a = k") (auto intro!: filter_True[symmetric])
qed simp

lemma find_remove_first:
  assumes "distinct (map key xs)"
  shows "List.find (\<lambda>x. key x = k') (remove_first (\<lambda>x. key x = k) xs)
    = (if k' = k then None else List.find (\<lambda>x. key x = k') xs)"
  using assms by (induction xs) (auto simp: find_None_iff image_iff)

lemma find_append_new:
  "List.find P (xs @ [x]) = (case List.find P xs of None \<Rightarrow> if P x then Some x else None | Some y \<Rightarrow> Some y)"
  by (induction xs) auto

lemma find_key_None: "List.find (\<lambda>x. key x = k) xs = None \<longleftrightarrow> k \<notin> set (map key xs)"
  by (auto simp: find_None_iff)

lemma list_all_update_first: "list_all P xs \<Longrightarrow> (\<And>x. P x \<Longrightarrow> Q x \<Longrightarrow> P (f x)) \<Longrightarrow>
    (\<And>x. List.find R xs = Some x \<Longrightarrow> Q x) \<Longrightarrow> list_all P (update_first R f xs)"
  by (induction xs) auto

lemma list_all_remove_first: "list_all P xs \<Longrightarrow> list_all P (remove_first Q xs)"
  by (induction xs) auto

lemma list_all_find: "list_all P xs \<Longrightarrow> List.find Q xs = Some x \<Longrightarrow> P x"
  by (auto simp: list_all_iff find_Some_iff)

subsection \<open>What is left to write\<close>

lemma concat_remaining_iovecs:
  "concat (remaining_iovecs bytes cur vs) = drop (bytes - cur) (concat vs)"
  by (induction vs arbitrary: cur) (auto simp: not_less)

definition tx_rest :: "sock_state \<Rightarrow> int \<Rightarrow> byte list" where
  "tx_rest s socket = (case SocketBuffer_getWrite s socket of None \<Rightarrow> []
     | Some pw \<Rightarrow> drop (pw_bytes pw) (concat (pw_iovecs pw)))"

definition pw_ok :: "pending_writes \<Rightarrow> bool" where
  "pw_ok pw \<longleftrightarrow> pw_total pw = length (concat (pw_iovecs pw)) \<and> pw_bytes pw < pw_total pw"

definition tx_ok :: "sock_state \<Rightarrow> (int \<Rightarrow> byte list list) \<Rightarrow> bool" where
  "tx_ok s log \<longleftrightarrow> list_all (\<lambda>b. b) (s_mem s) \<and> map pw_socket (writes s) = write_pending s
     \<and> distinct (write_pending s) \<and> list_all pw_ok (writes s)
     \<and> (\<forall>socket. k_sent s socket @ tx_rest s socket = concat (log socket))"

lemma s_malloc_ok: "list_all (\<lambda>b. b) (s_mem s) \<Longrightarrow>
    \<exists>m. s_malloc s = (True, s\<lparr>s_mem := m\<rparr>) \<and> list_all (\<lambda>b. b) m"
  using malloc_all_ok[of "s_mem s"] by (cases "malloc (s_mem s)") (auto simp: s_malloc_def)

lemma Socket_writev_cases:
  assumes "Socket_writev s socket iovecs = (rc, bytes, s')"
  shows "bytes \<le> length (concat iovecs)
    \<and> (\<exists>evs. s' = s\<lparr>k_tx := evs, k_sent := (k_sent s)(socket := k_sent s socket @ take bytes (concat iovecs))\<rparr>)
    \<and> (rc = SOCKET_ERROR \<or> rc = TCPSOCKET_INTERRUPTED \<longrightarrow> bytes = 0)"
proof -
  have same: "s\<lparr>k_tx := evs\<rparr> = s\<lparr>k_tx := evs, k_sent := (k_sent s)(socket := k_sent s socket @ [])\<rparr>" for evs
    by simp
  have t: "take (min k (length xs)) xs = take k xs" for k and xs :: "byte list" by (simp add: min_def)
  show ?thesis
    using assms same
    by (auto simp: t Socket_writev_def writev_def Let_def rc_defs split: list.splits tx_event.splits if_splits)
qed

lemma getWrite_eq: "SocketBuffer_getWrite s socket = List.find (\<lambda>p. pw_socket p = socket) (writes s)"
  by (simp add: SocketBuffer_getWrite_def pending_socketcompare_def[abs_def])

lemma pending_keys: "map pw_socket (writes s) = write_pending s \<Longrightarrow>
    set (write_pending s) = pw_socket ` set (writes s)"
  by (metis set_map)

lemma noPendingWrites_iff: "tx_ok s log \<Longrightarrow>
    Socket_noPendingWrites s socket \<longleftrightarrow> SocketBuffer_getWrite s socket = None"
proof -
  assume "tx_ok s log"
  then have "set (write_pending s) = pw_socket ` set (writes s)" by (simp add: tx_ok_def pending_keys)
  then show ?thesis by (auto simp: Socket_noPendingWrites_def getWrite_eq find_None_iff)
qed

lemma tx_ok_sent:
  "tx_ok s log \<Longrightarrow> k_sent s socket @ tx_rest s socket = concat (log socket)"
  by (simp add: tx_ok_def)

lemma put_ok:
  assumes "tx_ok s log" "Socket_putdatas s socket b0 bufs frees = (rc, s')"
  shows "rc \<in> {TCPSOCKET_COMPLETE, TCPSOCKET_INTERRUPTED, SOCKET_ERROR}
    \<and> tx_ok s' (log(socket := log socket @ (if rc = SOCKET_ERROR then [] else [concat (b0 # bufs)])))
    \<and> (rc = TCPSOCKET_COMPLETE \<longrightarrow> tx_rest s' socket = [])
    \<and> (\<not> Socket_noPendingWrites s socket \<longrightarrow> rc = SOCKET_ERROR \<and> s' = s)"
proof (cases "Socket_noPendingWrites s socket")
  case False
  with assms show ?thesis by (simp add: Socket_putdatas_def) (auto simp: rc_defs)
next
  case True
  then have none: "SocketBuffer_getWrite s socket = None" using noPendingWrites_iff[OF assms(1)] by simp
  then have rest: "tx_rest s socket = []" by (simp add: tx_rest_def)
  define data where "data = concat (b0 # bufs)"
  have len: "length b0 + sum_list (map length bufs) = length data" by (simp add: data_def length_concat)
  obtain rc1 bytes s1 where w: "Socket_writev s socket (b0 # bufs) = (rc1, bytes, s1)"
    by (cases "Socket_writev s socket (b0 # bufs)")
  from Socket_writev_cases[OF w] obtain evs where
    s1: "s1 = s\<lparr>k_tx := evs, k_sent := (k_sent s)(socket := k_sent s socket @ take bytes data)\<rparr>"
    and bytes: "bytes \<le> length data" "rc1 = SOCKET_ERROR \<longrightarrow> bytes = 0" by (auto simp: data_def)
  have other: "tx_rest s1 x = tx_rest s x" for x by (simp add: s1 tx_rest_def getWrite_eq)
  have ok1: "map pw_socket (writes s) = write_pending s" "distinct (write_pending s)"
    "list_all pw_ok (writes s)" "list_all (\<lambda>b. b) (s_mem s)"
    using assms(1) by (auto simp: tx_ok_def)
  note sent = tx_ok_sent[OF assms(1)]
  show ?thesis
  proof (cases "rc1 = SOCKET_ERROR")
    case err: True
    then have "(rc, s') = (SOCKET_ERROR, s1)" using assms(2) True w by (simp add: Socket_putdatas_def Let_def)
    moreover have "tx_ok s1 log"
      using assms(1) bytes err other by (auto simp: tx_ok_def s1)
    ultimately show ?thesis using True by (simp add: rc_defs)
  next
    case noerr: False
    show ?thesis
    proof (cases "bytes = length data")
      case complete: True
      then have r: "(rc, s') = (TCPSOCKET_COMPLETE, s1)"
        using assms(2) True w noerr len by (simp add: Socket_putdatas_def Let_def)
      have "tx_ok s1 (log(socket := log socket @ [data]))"
        using ok1 sent sent[of socket] other rest complete by (auto simp: tx_ok_def s1)
      then show ?thesis using r True other rest by (simp add: rc_defs data_def)
    next
      case partial: False
      define pw where "pw = \<lparr>pw_socket = socket, pw_total = length data, pw_bytes = bytes,
        pw_iovecs = b0 # bufs, pw_frees = True # frees\<rparr>"
      obtain m2 where m2: "s_malloc s1 = (True, s1\<lparr>s_mem := m2\<rparr>)" "list_all (\<lambda>b. b) m2"
        using s_malloc_ok[of s1] ok1(4) by (auto simp: s1)
      obtain m3 where m3: "s_malloc (s1\<lparr>s_mem := m2\<rparr>) = (True, s1\<lparr>s_mem := m3\<rparr>)" "list_all (\<lambda>b. b) m3"
        using s_malloc_ok[of "s1\<lparr>s_mem := m2\<rparr>"] m2(2) by auto
      obtain m4 where m4: "s_malloc (s1\<lparr>s_mem := m3\<rparr>) = (True, s1\<lparr>s_mem := m4\<rparr>)" "list_all (\<lambda>b. b) m4"
        using s_malloc_ok[of "s1\<lparr>s_mem := m3\<rparr>"] m3(2) by auto
      define s4 where "s4 = s1\<lparr>s_mem := m4, writes := writes s1 @ [pw]\<rparr>"
      obtain m5 where m5: "s_malloc s4 = (True, s4\<lparr>s_mem := m5\<rparr>)" "list_all (\<lambda>b. b) m5"
        using s_malloc_ok[of s4] m4(2) by (auto simp: s4_def)
      have pend: "SocketBuffer_pendingWrite (s1\<lparr>s_mem := m2\<rparr>) socket (b0 # bufs) (True # frees) (length data) bytes
          = (0, s4)"
        using m3(1) m4(1) by (simp add: SocketBuffer_pendingWrite_def Let_def s4_def pw_def)
      have r: "(rc, s') = (TCPSOCKET_INTERRUPTED, s4\<lparr>s_mem := m5, write_pending := write_pending s4 @ [socket]\<rparr>)"
        using assms(2) True w noerr partial m2(1) pend m5(1) len
        by (simp add: Socket_putdatas_def Let_def)
      have new: "socket \<notin> set (write_pending s)"
        using none pending_keys[OF ok1(1)] by (auto simp: getWrite_eq find_None_iff)
      have rest': "tx_rest s' x = (if x = socket then drop bytes data else tx_rest s x)" for x
        using r none by (simp add: tx_rest_def getWrite_eq s4_def s1 find_append_new pw_def data_def)
          (auto split: option.splits)
      have sent': "k_sent s' x = (if x = socket then k_sent s socket @ take bytes data else k_sent s x)" for x
        using r by (simp add: s4_def s1)
      have "k_sent s' x @ tx_rest s' x = concat ((log(socket := log socket @ [data])) x)" for x
        using sent[of x] rest by (cases "x = socket") (simp_all add: sent' rest')
      moreover have "pw_ok pw" using bytes(1) partial by (simp add: pw_ok_def pw_def data_def)
      moreover have "pw_socket pw = socket" by (simp add: pw_def)
      ultimately have "tx_ok s' (log(socket := log socket @ [data]))"
        using ok1 r m5(2) new by (simp add: tx_ok_def s4_def s1)
      then show ?thesis using r True by (simp add: rc_defs data_def)
    qed
  qed
qed

lemma continue_ok:
  assumes "tx_ok s log" "socket \<in> set (write_pending s)"
  shows "\<exists>rc s'. continueWrites_one s socket = Some (rc, s') \<and> rc \<in> {0, 1, SOCKET_ERROR}
    \<and> (rc \<noteq> SOCKET_ERROR \<longrightarrow> tx_ok s' log \<and> (rc = 1 \<longleftrightarrow> tx_rest s' socket = []))
    \<and> Socket_noPendingWrites s' socket = (rc \<noteq> 0)
    \<and> (k_tx s socket = [] \<longrightarrow> rc = 1)"
proof -
  have ok: "map pw_socket (writes s) = write_pending s" "distinct (write_pending s)"
    "list_all pw_ok (writes s)" "list_all (\<lambda>b. b) (s_mem s)"
    using assms(1) by (auto simp: tx_ok_def)
  have dist: "distinct (map pw_socket (writes s))" using ok by simp
  obtain pw where pw: "SocketBuffer_getWrite s socket = Some pw"
    using assms ok(1) noPendingWrites_iff[OF assms(1), of socket]
    by (cases "SocketBuffer_getWrite s socket") (auto simp: Socket_noPendingWrites_def find_None_iff)
  have pw_ok: "pw_ok pw" using list_all_find[OF ok(3)] pw by (auto simp: getWrite_eq)
  define data where "data = concat (pw_iovecs pw)"
  define left where "left = drop (pw_bytes pw) data"
  have rest: "tx_rest s socket = left" by (simp add: tx_rest_def pw left_def data_def)
  define iov where "iov = remaining_iovecs (pw_bytes pw) 0 (pw_iovecs pw)"
  have iov: "concat iov = left" by (simp add: iov_def concat_remaining_iovecs left_def data_def)
  have left: "length left = pw_total pw - pw_bytes pw" "pw_bytes pw < pw_total pw" "length data = pw_total pw"
    using pw_ok by (simp_all add: left_def data_def pw_ok_def)
  obtain rc1 bytes s1 where w: "Socket_writev s socket iov = (rc1, bytes, s1)"
    by (cases "Socket_writev s socket iov")
  from Socket_writev_cases[OF w] obtain evs where
    s1: "s1 = s\<lparr>k_tx := evs, k_sent := (k_sent s)(socket := k_sent s socket @ take bytes left)\<rparr>"
    and bytes: "bytes \<le> length left" "rc1 = SOCKET_ERROR \<longrightarrow> bytes = 0" by (auto simp: iov)
  have no_events: "rc1 \<noteq> SOCKET_ERROR \<and> bytes = length left" if "k_tx s socket = []"
    using w that by (auto simp: Socket_writev_def writev_def Let_def iov rc_defs)
  note sent = tx_ok_sent[OF assms(1)]
  define s2 where "s2 = s1\<lparr>writes := update_first (pending_socketcompare socket)
      (\<lambda>p. p\<lparr>pw_bytes := pw_bytes p + bytes\<rparr>) (writes s1)\<rparr>"
  have upd: "update_first (pending_socketcompare socket) (\<lambda>p. p\<lparr>pw_bytes := pw_bytes p + bytes\<rparr>) (writes s)
      = update_first (\<lambda>p. pw_socket p = socket) (\<lambda>p. p\<lparr>pw_bytes := pw_bytes p + bytes\<rparr>) (writes s)"
    by (simp add: pending_socketcompare_def[abs_def])
  have keys2: "map pw_socket (writes s2) = write_pending s"
    by (simp add: s2_def s1 map_update_first ok(1))
  have find2: "SocketBuffer_getWrite s2 x = (if x = socket then Some (pw\<lparr>pw_bytes := pw_bytes pw + bytes\<rparr>)
      else SocketBuffer_getWrite s x)" for x
    using pw find_update_first[OF _ dist, of "\<lambda>p. p\<lparr>pw_bytes := pw_bytes p + bytes\<rparr>" x socket]
    by (simp add: getWrite_eq s2_def s1 upd)
  define rm where "rm s = (snd (SocketBuffer_writeComplete s socket))
      \<lparr>write_pending := remove_first (\<lambda>x. x = socket) (write_pending s)\<rparr>" for s
  have rm: "writes (rm t) = remove_first (\<lambda>p. pw_socket p = socket) (writes t)"
    "write_pending (rm t) = remove_first (\<lambda>x. x = socket) (write_pending t)"
    "k_sent (rm t) = k_sent t" "s_mem (rm t) = s_mem t"
    if "SocketBuffer_getWrite t socket \<noteq> None" for t
    using that by (simp_all add: rm_def SocketBuffer_writeComplete_def pending_socketcompare_def[abs_def])
  show ?thesis
  proof (cases "rc1 = SOCKET_ERROR")
    case True
    then have "continueWrites_one s socket = Some (SOCKET_ERROR, rm s1)"
      using pw w by (simp add: continueWrites_one_def Socket_continueWrite_def iov_def rm_def rc_defs)
    moreover have "Socket_noPendingWrites (rm s1) socket"
      using ok pw by (auto simp: Socket_noPendingWrites_def rm s1 getWrite_eq remove_first_filter find_None_iff)
    ultimately show ?thesis using no_events True by (auto simp: rc_defs)
  next
    case noerr: False
    show ?thesis
    proof (cases "bytes = length left")
      case full: True
      then have c: "continueWrites_one s socket = Some (1, rm s2)"
        using pw w noerr left
        by (simp add: continueWrites_one_def Socket_continueWrite_def iov_def[symmetric] rm_def s2_def)
      have get2: "SocketBuffer_getWrite s2 socket \<noteq> None" by (simp add: find2)
      have find3: "SocketBuffer_getWrite (rm s2) x = (if x = socket then None else SocketBuffer_getWrite s x)" for x
        using find2[of x] find_remove_first[of pw_socket "writes s2" x socket] keys2 ok(2)
        by (simp add: getWrite_eq rm[OF get2])
      have rest3: "tx_rest (rm s2) x = (if x = socket then [] else tx_rest s x)" for x
        by (simp add: tx_rest_def find3)
      have "list_all pw_ok (writes (rm s2))"
      proof -
        have "writes (rm s2) = remove_first (\<lambda>p. pw_socket p = socket) (writes s)"
        proof -
          have "remove_first (\<lambda>p. pw_socket p = socket) (update_first (\<lambda>p. pw_socket p = socket) f xs)
              = remove_first (\<lambda>p. pw_socket p = socket) xs"
            if "\<And>p. pw_socket (f p) = pw_socket p" for f and xs :: "pending_writes list"
            using that by (induction xs) auto
          then show ?thesis by (simp add: rm[OF get2]) (simp add: s2_def s1 upd)
        qed
        then show ?thesis using ok(3) by (simp add: list_all_remove_first)
      qed
      moreover have "map pw_socket (writes (rm s2)) = write_pending (rm s2)"
        using keys2 map_remove_first[of pw_socket socket "writes s2"] by (simp add: rm[OF get2]) (simp add: s2_def s1)
      moreover have "distinct (write_pending (rm s2))"
        using ok(2) by (simp add: rm[OF get2]) (simp add: s2_def s1 remove_first_filter)
      moreover have "k_sent (rm s2) x @ tx_rest (rm s2) x = concat (log x)" for x
        using sent[of x] rest full by (cases "x = socket") (simp_all add: rm[OF get2] rest3, simp_all add: s2_def s1)
      moreover have "list_all (\<lambda>b. b) (s_mem (rm s2))"
        using ok(4) by (simp add: rm[OF get2]) (simp add: s2_def s1)
      ultimately have tx: "tx_ok (rm s2) log" by (simp add: tx_ok_def)
      moreover have "Socket_noPendingWrites (rm s2) socket"
        using noPendingWrites_iff[OF tx] find3 by simp
      ultimately show ?thesis using c rest3 by (auto simp: rc_defs)
    next
      case more: False
      with bytes left have lt: "pw_bytes pw + bytes < pw_total pw" by simp
      then have c: "continueWrites_one s socket = Some (0, s2)"
        using pw w noerr
        by (simp add: continueWrites_one_def Socket_continueWrite_def iov_def[symmetric] s2_def)
      have rest2: "tx_rest s2 x = (if x = socket then drop bytes left else tx_rest s x)" for x
        by (simp add: tx_rest_def find2) (simp add: left_def data_def add.commute)
      have "list_all pw_ok (writes s2)"
        unfolding s2_def s1 using ok(3) pw lt
        by (simp add: upd) (rule list_all_update_first[where Q = "\<lambda>p. p = pw"], auto simp: pw_ok_def getWrite_eq)
      moreover have "k_sent s2 x @ tx_rest s2 x = concat (log x)" for x
        using sent[of x] rest by (cases "x = socket") (simp_all add: rest2, simp_all add: s2_def s1)
      ultimately have tx: "tx_ok s2 log"
        using ok keys2 by (simp add: tx_ok_def) (simp add: s2_def s1)
      moreover have "drop bytes left \<noteq> []" using more bytes by simp
      ultimately show ?thesis
        using c rest2 no_events more noPendingWrites_iff[OF tx, of socket] find2 by auto
    qed
  qed
qed

subsection \<open>What is left to read\<close>

definition rx_bytes :: "rx_event list \<Rightarrow> byte list" where
  "rx_bytes evs = concat (map (\<lambda>e. case e of Arrive bs \<Rightarrow> bs | _ \<Rightarrow> []) evs)"

definition rx_good :: "rx_event \<Rightarrow> bool" where
  "rx_good e = (case e of Arrive bs \<Rightarrow> True | RxBlock \<Rightarrow> True | _ \<Rightarrow> False)"

lemma rx_bytes_simps [simp]:
  "rx_bytes [] = []" "rx_bytes (Arrive bs # evs) = bs @ rx_bytes evs" "rx_bytes (RxBlock # evs) = rx_bytes evs"
  by (simp_all add: rx_bytes_def)

text \<open>The queue the functions work on.\<close>

definition the_queue :: "sock_state \<Rightarrow> int \<Rightarrow> socket_queue option" where
  "the_queue s socket = (case find_queue s socket of Some q \<Rightarrow> Some q | None \<Rightarrow> def_queue s)"

definition rd_base :: "int \<Rightarrow> sock_state \<Rightarrow> bool" where
  "rd_base socket s \<longleftrightarrow> list_all (\<lambda>b. b) (s_mem s) \<and> socket \<noteq> 0 \<and> distinct (map sq_socket (queues s))
     \<and> list_all rx_good (k_rx s socket) \<and> def_queue s \<noteq> None"

text \<open>
  In the middle of a packet with the header \<open>H\<close> and the data \<open>D\<close>, followed by \<open>T\<close>: \<open>j\<close> bytes of
  the header and the first bytes of the data are in the queue, \<open>k\<close> of the header have been read
  in this attempt.
\<close>

definition queue_ok :: "byte list \<Rightarrow> byte list \<Rightarrow> socket_queue \<Rightarrow> nat \<Rightarrow> byte list \<Rightarrow> bool" where
  "queue_ok H D q j dat \<longleftrightarrow> j \<le> length H \<and> sq_headerlen q = j \<and> j \<le> length (sq_fixed_header q)
     \<and> take j (sq_fixed_header q) = take j H \<and> sq_datalen q = length dat
     \<and> (dat \<noteq> [] \<longrightarrow> j = length H \<and> length dat < length D)
     \<and> (\<exists>b. sq_buf q = Some b \<and> length dat \<le> length b \<and> take (length dat) b = dat)"

definition rd_inv :: "int \<Rightarrow> byte list \<Rightarrow> byte list \<Rightarrow> byte list \<Rightarrow> sock_state \<Rightarrow> nat \<Rightarrow> bool" where
  "rd_inv socket D T H s k \<longleftrightarrow> rd_base socket s \<and> length H \<le> 5 \<and> (\<exists>q j dat.
     the_queue s socket = Some q \<and> queue_ok H D q j dat \<and> k \<le> j \<and> sq_index q = k
     \<and> dat @ rx_bytes (k_rx s socket) = drop j H @ D @ T
     \<and> (find_queue s socket = None \<longrightarrow> dat = [] \<and> j = k \<and> sq_socket q = (if k = 0 then 0 else socket)))"

definition rd_ready :: "int \<Rightarrow> byte list \<Rightarrow> sock_state \<Rightarrow> bool" where
  "rd_ready socket bs s \<longleftrightarrow> rd_base socket s \<and> find_queue s socket = None
     \<and> rx_bytes (k_rx s socket) = bs
     \<and> (\<exists>q b. def_queue s = Some q \<and> sq_socket q = 0 \<and> sq_index q = 0 \<and> sq_headerlen q = 0
          \<and> sq_datalen q = 0 \<and> sq_buf q = Some b)"

lemma rd_ready_inv: "rd_ready socket (H @ D @ T) s \<Longrightarrow> length H \<le> 5 \<Longrightarrow> rd_inv socket D T H s 0"
  by (auto simp: rd_ready_def rd_inv_def the_queue_def queue_ok_def)

lemma find_queue_eq: "find_queue s socket = List.find (\<lambda>q. sq_socket q = socket) (queues s)"
  by (simp add: find_queue_def socketcompare_def[abs_def])

lemma find_update_queue:
  assumes "rd_base socket s" "\<And>q. sq_socket (f q) = sq_socket q"
  shows "find_queue (update_queue s socket f) socket = map_option f (find_queue s socket)"
  using assms find_update_first[of sq_socket f "queues s" socket socket]
  by (auto simp: update_queue_def find_queue_eq rd_base_def socketcompare_def[abs_def])

lemma the_update_queue:
  assumes "rd_base socket s" "\<And>q. sq_socket (f q) = sq_socket q"
  shows "the_queue (update_queue s socket f) socket = map_option f (the_queue s socket)"
  using find_update_queue[OF assms]
  by (cases "find_queue s socket") (auto simp: the_queue_def update_queue_def)

lemma update_queue_fields [simp]:
  "s_mem (update_queue s socket f) = s_mem s" "k_rx (update_queue s socket f) = k_rx s"
  by (simp_all add: update_queue_def)

lemma rd_base_update_queue:
  "rd_base socket s \<Longrightarrow> (\<And>q. sq_socket (f q) = sq_socket q) \<Longrightarrow> rd_base socket (update_queue s socket f)"
  by (auto simp: rd_base_def update_queue_def map_update_first)

text \<open>Receiving changes the events only.\<close>

lemma queue_of_rx [simp]:
  "find_queue (s\<lparr>k_rx := e\<rparr>) socket = find_queue s socket" "the_queue (s\<lparr>k_rx := e\<rparr>) socket = the_queue s socket"
  by (simp_all add: find_queue_def the_queue_def split: option.splits)

lemma recv_some:
  assumes "rd_base socket s" "rx_bytes (k_rx s socket) \<noteq> []" "0 < n"
  shows "\<exists>evs. rd_base socket (s\<lparr>k_rx := (k_rx s)(socket := evs)\<rparr>) \<and>
    ((recv s socket n = (RecvError EAGAIN, s\<lparr>k_rx := (k_rx s)(socket := evs)\<rparr>)
        \<and> rx_bytes evs = rx_bytes (k_rx s socket) \<and> length evs < length (k_rx s socket))
     \<or> (\<exists>bs. bs \<noteq> [] \<and> length bs \<le> n \<and> recv s socket n = (Received bs, s\<lparr>k_rx := (k_rx s)(socket := evs)\<rparr>)
        \<and> bs @ rx_bytes evs = rx_bytes (k_rx s socket) \<and> length evs \<le> length (k_rx s socket)
        \<and> (length bs < n \<longrightarrow> length evs < length (k_rx s socket))))"
proof (cases "k_rx s socket")
  case Nil
  with assms(2) show ?thesis by simp
next
  case (Cons e es)
  have good: "rx_good e" "list_all rx_good es" using assms(1) Cons by (simp_all add: rd_base_def)
  show ?thesis
  proof (cases e)
    case (Arrive bs)
    define evs where "evs = (if length bs \<le> n then es else Arrive (drop n bs) # es)"
    have "rd_base socket (s\<lparr>k_rx := (k_rx s)(socket := evs)\<rparr>)"
      using assms(1) good by (simp add: rd_base_def evs_def rx_good_def)
    moreover have "take n bs @ rx_bytes evs = rx_bytes (k_rx s socket)"
      by (simp add: Cons Arrive evs_def)
    moreover have "recv s socket n = (if bs = [] then RecvError EAGAIN else Received (take n bs),
        s\<lparr>k_rx := (k_rx s)(socket := evs)\<rparr>)"
      by (simp add: recv_def Cons Arrive evs_def)
    ultimately show ?thesis
      using assms(3) by (intro exI[of _ evs]) (auto simp: evs_def Cons)
  next
    case RxBlock
    have "rd_base socket (s\<lparr>k_rx := (k_rx s)(socket := es)\<rparr>)"
      using assms(1) good by (simp add: rd_base_def)
    then show ?thesis by (intro exI[of _ es]) (simp add: recv_def Cons RxBlock)
  qed (use good in \<open>simp_all add: rx_good_def\<close>)
qed

lemma newDefQ_ok:
  assumes "list_all (\<lambda>b. b) (s_mem s)"
  shows "\<exists>m. list_all (\<lambda>b. b) m \<and> SocketBuffer_newDefQ s = (0, s\<lparr>s_mem := m, def_queue :=
    Some \<lparr>sq_socket = 0, sq_index = 0, sq_headerlen = 0, sq_fixed_header = [], sq_buflen = 0,
      sq_datalen = 0, sq_buf = Some []\<rparr>\<rparr>)"
proof -
  obtain m1 where m1: "s_malloc s = (True, s\<lparr>s_mem := m1\<rparr>)" "list_all (\<lambda>b. b) m1"
    using s_malloc_ok[OF assms] by blast
  obtain m2 where "s_malloc (s\<lparr>s_mem := m1\<rparr>) = (True, s\<lparr>s_mem := m2\<rparr>)" "list_all (\<lambda>b. b) m2"
    using s_malloc_ok[of "s\<lparr>s_mem := m1\<rparr>"] m1(2) by auto
  with m1 show ?thesis by (auto simp: SocketBuffer_newDefQ_def Let_def)
qed

text \<open>An interruption keeps what has been read and starts the header again.\<close>

lemma interrupted_inv:
  assumes base: "rd_base socket s" and q: "the_queue s socket = Some q" "queue_ok H D (q\<lparr>sq_datalen := n\<rparr>) j dat"
    and len: "length H \<le> 5" "dat @ rx_bytes (k_rx s socket) = drop j H @ D @ T" "n = length dat"
  shows "\<exists>s'. SocketBuffer_interrupted s socket n = Some s' \<and> rd_inv socket D T H s' 0 \<and> k_rx s' = k_rx s"
proof (cases "find_queue s socket")
  case None
  obtain m1 where m1: "s_malloc s = (True, s\<lparr>s_mem := m1\<rparr>)" "list_all (\<lambda>b. b) m1"
    using s_malloc_ok base by (auto simp: rd_base_def)
  define e where "e = q\<lparr>sq_socket := socket, sq_index := 0, sq_datalen := n\<rparr>"
  define s2 where "s2 = s\<lparr>s_mem := m1, queues := queues s @ [e]\<rparr>"
  have "list_all (\<lambda>b. b) (s_mem s2)" using m1 by (simp add: s2_def)
  from newDefQ_ok[OF this] obtain m2 d where m2: "list_all (\<lambda>b. b) m2"
    "SocketBuffer_newDefQ s2 = (0, s2\<lparr>s_mem := m2, def_queue := Some d\<rparr>)" by blast
  define s' where "s' = s2\<lparr>s_mem := m2, def_queue := Some d\<rparr>"
  have int: "SocketBuffer_interrupted s socket n = Some s'"
    using None q(1) m1 m2 by (simp add: SocketBuffer_interrupted_def the_queue_def s2_def[symmetric] e_def[symmetric] s'_def)
  have "socket \<notin> set (map sq_socket (queues s))"
    using None by (auto simp: find_queue_eq find_None_iff)
  then have "distinct (map sq_socket (queues s'))"
    using base by (auto simp: s'_def s2_def e_def rd_base_def)
  moreover have find: "find_queue s' socket = Some e"
    using None by (simp add: find_queue_eq s'_def s2_def find_append_new e_def)
  ultimately have "rd_inv socket D T H s' 0"
    using base q(2) len m2(1) unfolding rd_inv_def
    by (intro conjI exI[of _ e] exI[of _ j] exI[of _ dat])
      (simp_all add: rd_base_def the_queue_def s'_def s2_def queue_ok_def e_def)
  with int show ?thesis by (simp add: s'_def s2_def)
next
  case (Some q')
  then have qq: "q' = q" using q(1) by (simp add: the_queue_def)
  define f :: "socket_queue \<Rightarrow> socket_queue" where "f = (\<lambda>q. q\<lparr>sq_index := 0, sq_datalen := n\<rparr>)"
  have f: "sq_socket (f q) = sq_socket q" for q by (simp add: f_def)
  have "the_queue (update_queue s socket f) socket = Some (f q)"
    using the_update_queue[OF base f] q(1) by simp
  moreover have "find_queue (update_queue s socket f) socket = Some (f q)"
    using find_update_queue[OF base f] Some qq by simp
  moreover have "queue_ok H D (f q) j dat" using q(2) by (simp add: queue_ok_def f_def)
  ultimately have "rd_inv socket D T H (update_queue s socket f) 0"
    using rd_base_update_queue[OF base f] len unfolding rd_inv_def
    by (intro conjI exI[of _ "f q"] exI[of _ j] exI[of _ dat]) (simp_all add: f_def)
  then show ?thesis
    using Some by (simp add: SocketBuffer_interrupted_def f_def)
qed

text \<open>One byte of the header.\<close>

lemma queueChar_inv:
  assumes base: "rd_base socket s" and q: "the_queue s socket = Some q" "queue_ok H D q k []" "sq_index q = k"
    and k: "k < length H" "length H \<le> 5" and rx: "rx_bytes (k_rx s socket) = drop (Suc k) H @ D @ T"
    and def: "find_queue s socket = None \<longrightarrow> sq_socket q = (if k = 0 then 0 else socket)"
  shows "\<exists>s'. SocketBuffer_queueChar s socket (H ! k) = Some s' \<and> rd_inv socket D T H s' (Suc k)
    \<and> k_rx s' = k_rx s"
proof -
  define f :: "socket_queue \<Rightarrow> socket_queue"
    where "f = (\<lambda>q. q\<lparr>sq_fixed_header := take (sq_index q) (sq_fixed_header q) @ [H ! k]
      @ drop (sq_index q + 1) (sq_fixed_header q), sq_index := sq_index q + 1, sq_headerlen := sq_index q + 1\<rparr>)"
  have f: "sq_socket (f q) = sq_socket q" for q by (simp add: f_def)
  have hdr: "take (Suc k) (sq_fixed_header (f q)) = take (Suc k) H" "Suc k \<le> length (sq_fixed_header (f q))"
    using q(2,3) k by (auto simp: f_def queue_ok_def take_Suc_conv_app_nth)
  have ok: "queue_ok H D (f q) (Suc k) []" "sq_index (f q) = Suc k"
    using q(2,3) k hdr by (auto simp: queue_ok_def f_def)
  show ?thesis
  proof (cases "find_queue s socket")
    case (Some q')
    then have qq: "q' = q" using q(1) by (simp add: the_queue_def)
    have "SocketBuffer_queueChar s socket (H ! k) = Some (update_queue s socket f)"
      using Some qq q k by (simp add: SocketBuffer_queueChar_def f_def queue_ok_def)
    moreover have "the_queue (update_queue s socket f) socket = Some (f q)"
      "find_queue (update_queue s socket f) socket = Some (f q)"
      using the_update_queue[OF base f] find_update_queue[OF base f] q(1) Some qq by simp_all
    then have "rd_inv socket D T H (update_queue s socket f) (Suc k)"
      using rd_base_update_queue[OF base f] ok k rx unfolding rd_inv_def
      by (intro conjI exI[of _ "f q"] exI[of _ "Suc k"] exI[of _ "[]"]) simp_all
    ultimately show ?thesis by simp
  next
    case None
    define d where "d = q\<lparr>sq_socket := socket, sq_index := k, sq_datalen := 0\<rparr>"
    define s' where "s' = s\<lparr>def_queue := Some (f d)\<rparr>"
    have dq: "def_queue s = Some q" using q(1) None by (simp add: the_queue_def)
    have soc: "sq_socket q = (if k = 0 then 0 else socket)" using def None by simp
    have "q = d" if "k \<noteq> 0" using that soc q(2,3) by (simp add: d_def queue_ok_def)
    then have "SocketBuffer_queueChar s socket (H ! k) = Some s'"
      using None dq soc q k base
      by (cases "k = 0") (auto simp: SocketBuffer_queueChar_def s'_def f_def queue_ok_def update_queue_def
          d_def find_queue_def rd_base_def Let_def)
    moreover have "queue_ok H D (f d) (Suc k) []" "sq_index (f d) = Suc k"
      using ok q(3) by (simp_all add: queue_ok_def f_def d_def)
    then have "rd_inv socket D T H s' (Suc k)"
      using base k rx None unfolding rd_inv_def
      by (intro conjI exI[of _ "f d"] exI[of _ "Suc k"] exI[of _ "[]"])
        (simp_all add: s'_def the_queue_def find_queue_def rd_base_def f d_def)
    ultimately show ?thesis by (simp add: s'_def)
  qed
qed

lemma rd_invE:
  assumes "rd_inv socket D T H s k"
  obtains q j dat where "rd_base socket s" "length H \<le> 5" "the_queue s socket = Some q" "queue_ok H D q j dat"
    "k \<le> j" "sq_index q = k" "dat @ rx_bytes (k_rx s socket) = drop j H @ D @ T"
    "find_queue s socket = None \<longrightarrow> dat = [] \<and> j = k \<and> sq_socket q = (if k = 0 then 0 else socket)"
  using assms unfolding rd_inv_def by (elim conjE exE) (rule that)

lemma getch_inv:
  assumes "rd_inv socket D T H s k" "k < length H"
  shows "\<exists>s'. (Socket_getch s socket = Some (TCPSOCKET_COMPLETE, Some (H ! k), s') \<and> rd_inv socket D T H s' (Suc k)
        \<and> length (k_rx s' socket) \<le> length (k_rx s socket))
    \<or> (Socket_getch s socket = Some (TCPSOCKET_INTERRUPTED, None, s') \<and> rd_inv socket D T H s' 0
        \<and> length (k_rx s' socket) < length (k_rx s socket))"
proof -
  obtain q j dat where base: "rd_base socket s" and len: "length H \<le> 5"
    and q: "the_queue s socket = Some q" "queue_ok H D q j dat" "k \<le> j" "sq_index q = k"
    and rx: "dat @ rx_bytes (k_rx s socket) = drop j H @ D @ T"
    and def: "find_queue s socket = None \<longrightarrow> dat = [] \<and> j = k \<and> sq_socket q = (if k = 0 then 0 else socket)"
    by (rule rd_invE[OF assms(1)])
  show ?thesis
  proof (cases "k < j")
    case True
    then obtain q' where q': "find_queue s socket = Some q'" using def by (cases "find_queue s socket") auto
    then have qq: "q' = q" using q(1) by (simp add: the_queue_def)
    define f :: "socket_queue \<Rightarrow> socket_queue" where "f = (\<lambda>q. q\<lparr>sq_index := sq_index q + 1\<rparr>)"
    have f: "sq_socket (f q) = sq_socket q" for q by (simp add: f_def)
    have "take j (sq_fixed_header q) ! k = take j H ! k" using q(2) by (simp add: queue_ok_def)
    then have "nth_opt (sq_fixed_header q) k = Some (H ! k)"
      using True q(2) by (simp add: queue_ok_def nth_opt_def)
    then have "Socket_getch s socket = Some (TCPSOCKET_COMPLETE, Some (H ! k), update_queue s socket f)"
      using True q' qq q by (simp add: Socket_getch_def SocketBuffer_getQueuedChar_def queue_ok_def rc_defs f_def)
    moreover have "the_queue (update_queue s socket f) socket = Some (f q)"
      "find_queue (update_queue s socket f) socket = Some (f q)"
      using the_update_queue[OF base f] find_update_queue[OF base f] q(1) q' qq by simp_all
    moreover have "queue_ok H D (f q) j dat" "sq_index (f q) = Suc k" using q(2,4) by (simp_all add: queue_ok_def f_def)
    ultimately show ?thesis
      using rd_base_update_queue[OF base f] True len rx unfolding rd_inv_def
      by (intro exI[of _ "update_queue s socket f"] disjI1 conjI exI[of _ "f q"] exI[of _ j] exI[of _ dat]) simp_all
  next
    case False
    then have jk: "j = k" using q(3) by simp
    then have dat: "dat = []" using q(2) assms(2) by (auto simp: queue_ok_def)
    have rx0: "rx_bytes (k_rx s socket) = H ! k # drop (Suc k) H @ D @ T"
      using rx dat jk Cons_nth_drop_Suc[OF assms(2)] by (metis append_Cons append_Nil)
    have qc: "SocketBuffer_getQueuedChar s socket = Some (TCPSOCKET_INTERRUPTED, None, s)"
      using q jk assms(2) len
      by (auto simp: SocketBuffer_getQueuedChar_def the_queue_def queue_ok_def split: option.splits)
    have ok: "queue_ok H D q k []" using q(2) jk dat by simp
    from recv_some[OF base, of 1] rx0 obtain evs where base': "rd_base socket (s\<lparr>k_rx := (k_rx s)(socket := evs)\<rparr>)"
      and r: "(recv s socket 1 = (RecvError EAGAIN, s\<lparr>k_rx := (k_rx s)(socket := evs)\<rparr>)
        \<and> rx_bytes evs = rx_bytes (k_rx s socket) \<and> length evs < length (k_rx s socket))
      \<or> (\<exists>bs. bs \<noteq> [] \<and> length bs \<le> 1 \<and> recv s socket 1 = (Received bs, s\<lparr>k_rx := (k_rx s)(socket := evs)\<rparr>)
        \<and> bs @ rx_bytes evs = rx_bytes (k_rx s socket) \<and> length evs \<le> length (k_rx s socket))" by auto
    define s1 where "s1 = s\<lparr>k_rx := (k_rx s)(socket := evs)\<rparr>"
    have q1: "the_queue s1 socket = Some q" "find_queue s1 socket = find_queue s socket"
      using q(1) by (simp_all add: s1_def)
    from r show ?thesis
    proof
      assume a: "recv s socket 1 = (RecvError EAGAIN, s\<lparr>k_rx := (k_rx s)(socket := evs)\<rparr>)
        \<and> rx_bytes evs = rx_bytes (k_rx s socket) \<and> length evs < length (k_rx s socket)"
      have "sq_datalen q = 0" using ok by (simp add: queue_ok_def)
      then have ok0: "queue_ok H D (q\<lparr>sq_datalen := 0\<rparr>) k []" using ok by (simp add: queue_ok_def)
      have "[] @ rx_bytes (k_rx s1 socket) = drop k H @ D @ T"
        using a rx dat jk by (simp add: s1_def)
      from interrupted_inv[OF base'[folded s1_def] q1(1) ok0 len this]
      obtain s' where "SocketBuffer_interrupted s1 socket 0 = Some s'" "rd_inv socket D T H s' 0"
        "k_rx s' = k_rx s1" by auto
      then show ?thesis
        using a qc by (intro exI[of _ s'] disjI2) (simp add: Socket_getch_def s1_def EAGAIN_def rc_defs)
    next
      assume "\<exists>bs. bs \<noteq> [] \<and> length bs \<le> 1 \<and> recv s socket 1 = (Received bs, s\<lparr>k_rx := (k_rx s)(socket := evs)\<rparr>)
        \<and> bs @ rx_bytes evs = rx_bytes (k_rx s socket) \<and> length evs \<le> length (k_rx s socket)"
      then obtain c where a: "recv s socket 1 = (Received [c], s1)" "[c] @ rx_bytes evs = rx_bytes (k_rx s socket)"
        "length evs \<le> length (k_rx s socket)"
        by (auto simp: s1_def length_Suc_conv le_Suc_eq)
      then have c: "c = H ! k" "rx_bytes (k_rx s1 socket) = drop (Suc k) H @ D @ T"
        using rx0 by (simp_all add: s1_def)
      have def1: "find_queue s1 socket = None \<longrightarrow> sq_socket q = (if k = 0 then 0 else socket)"
        using def q1(2) by simp
      from queueChar_inv[OF base'[folded s1_def] q1(1) ok q(4) assms(2) len c(2) def1]
      obtain s' where "SocketBuffer_queueChar s1 socket (H ! k) = Some s'" "rd_inv socket D T H s' (Suc k)"
        "k_rx s' = k_rx s1" by blast
      then show ?thesis
        using a c qc by (intro exI[of _ s'] disjI1) (simp add: Socket_getch_def s1_def rc_defs)
    qed
  qed
qed

interpretation sock: byte_source "\<lambda>s. Socket_getch s socket" "rd_inv socket D T" "\<lambda>s. length (k_rx s socket)"
  by unfold_locales (rule getch_inv)

text \<open>The end of a packet: its queue becomes the default queue again.\<close>

lemma complete_ready:
  assumes base: "rd_base socket s" and q: "the_queue s socket = Some q" "sq_buf q = Some b"
  shows "\<exists>s'. SocketBuffer_complete s socket = Some (Some b, s') \<and> rd_ready socket (rx_bytes (k_rx s socket)) s'
    \<and> k_rx s' = k_rx s"
proof -
  define q' where "q' = q\<lparr>sq_socket := 0, sq_index := 0, sq_headerlen := 0, sq_datalen := 0\<rparr>"
  define qs where "qs = (if find_queue s socket = None then queues s
    else remove_first (\<lambda>q. sq_socket q = socket) (queues s))"
  have "SocketBuffer_complete s socket = Some (Some b, s\<lparr>queues := qs, def_queue := Some q'\<rparr>)"
    using q by (cases "find_queue s socket")
      (simp_all add: SocketBuffer_complete_def the_queue_def qs_def q'_def socketcompare_def[abs_def])
  moreover have "distinct (map sq_socket qs)"
    using base map_remove_first[of sq_socket socket "queues s"] remove_first_filter[of "map sq_socket (queues s)" socket]
    by (auto simp: rd_base_def qs_def)
  moreover have "List.find (\<lambda>q. sq_socket q = socket) qs = None"
    using base find_remove_first[of sq_socket "queues s" socket socket]
    by (auto simp: rd_base_def qs_def find_queue_eq)
  ultimately show ?thesis
    using base q(2) by (simp add: rd_ready_def rd_base_def find_queue_eq q'_def)
qed

lemma getQueuedData_ok:
  assumes base: "rd_base socket s" and q: "the_queue s socket = Some q" "queue_ok H D q j dat"
    and dat0: "find_queue s socket = None \<longrightarrow> dat = []"
  shows "\<exists>b q' s'. SocketBuffer_getQueuedData s socket bytes = Some (Some b, length dat, s') \<and> rd_base socket s'
    \<and> the_queue s' socket = Some q' \<and> queue_ok H D q' j dat \<and> sq_socket q' = sq_socket q
    \<and> (find_queue s' socket = None \<longleftrightarrow> find_queue s socket = None) \<and> k_rx s' = k_rx s
    \<and> sq_buf q' = Some b \<and> sq_index q' = sq_index q"
proof -
  obtain b where b: "sq_buf q = Some b" "length dat \<le> length b" "take (length dat) b = dat"
    and n: "sq_datalen q = length dat" using q(2) by (auto simp: queue_ok_def)
  obtain m where m: "s_malloc s = (True, s\<lparr>s_mem := m\<rparr>)" "list_all (\<lambda>b. b) m"
    using s_malloc_ok base by (auto simp: rd_base_def)
  define b' where "b' = (if dat = [] then b else dat)"
  define f :: "socket_queue \<Rightarrow> socket_queue" where "f = (\<lambda>q. q\<lparr>sq_buf := Some b', sq_buflen := bytes\<rparr>)"
  have f: "sq_socket (f q) = sq_socket q" for q by (simp add: f_def)
  have base1: "rd_base socket (s\<lparr>s_mem := m\<rparr>)" using base m(2) by (simp add: rd_base_def)
  have fq: "find_queue (s\<lparr>s_mem := m\<rparr>) socket = find_queue s socket"
    "the_queue (s\<lparr>s_mem := m\<rparr>) socket = the_queue s socket"
    by (simp_all add: find_queue_def the_queue_def split: option.splits)
  have okf: "queue_ok H D (f q) j dat" using q(2) b by (auto simp: queue_ok_def f_def b'_def)
  have sel: "(case find_queue s socket of Some q \<Rightarrow> Some (q, sq_datalen q)
      | None \<Rightarrow> do { q \<leftarrow> def_queue s; Some (q, 0) }) = Some (q, length dat)"
    using q(1) n dat0 by (auto simp: the_queue_def split: option.splits)
  show ?thesis
  proof (cases "bytes > sq_buflen q")
    case True
    have "SocketBuffer_getQueuedData s socket bytes
        = Some (Some b', length dat, update_queue (s\<lparr>s_mem := m\<rparr>) socket f)"
      unfolding SocketBuffer_getQueuedData_def sel
      using True m(1) b n by (auto simp: f_def b'_def Let_def)
    then show ?thesis
      using rd_base_update_queue[OF base1 f] the_update_queue[OF base1 f] find_update_queue[OF base1 f] fq q(1) okf
      by (intro exI[of _ b'] exI[of _ "f q"] exI[of _ "update_queue (s\<lparr>s_mem := m\<rparr>) socket f"])
        (simp add: f_def)
  next
    case False
    then have "SocketBuffer_getQueuedData s socket bytes = Some (Some b, length dat, s)"
      unfolding SocketBuffer_getQueuedData_def sel using b by simp
    then show ?thesis using base q b by blast
  qed
qed

lemma getdata_inv:
  assumes inv: "rd_inv socket D T H s (length H)" and H: "H \<noteq> []"
  shows "\<exists>b alen s'. Socket_getdata s socket (length D) 0 = Some (Some b, alen, s')
    \<and> ((alen = length D \<and> (D = [] \<or> b = D) \<and> rd_ready socket T s' \<and> length (k_rx s' socket) \<le> length (k_rx s socket))
      \<or> (alen < length D \<and> rd_inv socket D T H s' 0 \<and> length (k_rx s' socket) < length (k_rx s socket)))"
proof -
  obtain q j dat where base: "rd_base socket s" and len: "length H \<le> 5"
    and q: "the_queue s socket = Some q" "queue_ok H D q j dat" "length H \<le> j" "sq_index q = length H"
    and rx: "dat @ rx_bytes (k_rx s socket) = drop j H @ D @ T"
    and def: "find_queue s socket = None \<longrightarrow> dat = [] \<and> j = length H \<and> sq_socket q = (if length H = 0 then 0 else socket)"
    by (rule rd_invE[OF inv])
  have j: "j = length H" using q(2,3) by (simp add: queue_ok_def)
  have rx0: "dat @ rx_bytes (k_rx s socket) = D @ T" using rx j by simp
  show ?thesis
  proof (cases "D = []")
    case True
    then have dat: "dat = []" using q(2) by (auto simp: queue_ok_def)
    obtain b where b: "sq_buf q = Some b" using q(2) by (auto simp: queue_ok_def)
    from complete_ready[OF base q(1) b] rx0 dat True show ?thesis
      by (auto simp: Socket_getdata_def)
  next
    case False
    define n where "n = length D"
    have lt: "length dat < n" using q(2) False by (cases "dat = []") (auto simp: queue_ok_def n_def)
    from getQueuedData_ok[OF base q(1,2), of n] def obtain b q1 s1 where
      g: "SocketBuffer_getQueuedData s socket n = Some (Some b, length dat, s1)" and base1: "rd_base socket s1"
      and q1: "the_queue s1 socket = Some q1" "queue_ok H D q1 j dat" "sq_buf q1 = Some b"
      and k1: "k_rx s1 = k_rx s" by blast
    have b: "length dat \<le> length b" "take (length dat) b = dat" using q1(2,3) by (auto simp: queue_ok_def)
    define finish where "finish = (\<lambda>buf' alen s2.
               let s3 = update_queue s2 socket (\<lambda>q. q\<lparr>sq_buf := Some buf'\<rparr>) in
               if alen = n then do {
                 (_, s4) \<leftarrow> SocketBuffer_complete s3 socket;
                 Some (Some buf', alen, s4)
               } else do {
                 s4 \<leftarrow> SocketBuffer_interrupted s3 socket alen;
                 Some (Some buf', alen, s4)
               })"
    have gd: "Socket_getdata s socket n 0 = (case recv s1 socket (n - length dat) of
              (RecvError err, s2) \<Rightarrow>
                if err = EAGAIN then finish b (length dat) s2 else Some (None, length dat, s2)
            | (Received [], s2) \<Rightarrow> Some (None, length dat, s2)
            | (Received bs, s2) \<Rightarrow> finish (take (length dat) b @ bs) (length dat + length bs) s2)"
      using g lt b(1) unfolding Socket_getdata_def finish_def Let_def by simp
    have "rx_bytes (k_rx s1 socket) \<noteq> []" "0 < n - length dat"
      using rx0 lt k1 n_def by (auto dest!: arg_cong[of _ _ length])
    from recv_some[OF base1 this] obtain evs where
      base2: "rd_base socket (s1\<lparr>k_rx := (k_rx s1)(socket := evs)\<rparr>)"
      and r: "(recv s1 socket (n - length dat) = (RecvError EAGAIN, s1\<lparr>k_rx := (k_rx s1)(socket := evs)\<rparr>)
          \<and> rx_bytes evs = rx_bytes (k_rx s1 socket) \<and> length evs < length (k_rx s1 socket))
       \<or> (\<exists>bs. bs \<noteq> [] \<and> length bs \<le> n - length dat \<and> recv s1 socket (n - length dat) = (Received bs, s1\<lparr>k_rx := (k_rx s1)(socket := evs)\<rparr>)
          \<and> bs @ rx_bytes evs = rx_bytes (k_rx s1 socket) \<and> length evs \<le> length (k_rx s1 socket)
          \<and> (length bs < n - length dat \<longrightarrow> length evs < length (k_rx s1 socket)))" by blast
    define s2 where "s2 = s1\<lparr>k_rx := (k_rx s1)(socket := evs)\<rparr>"
    have q2: "the_queue s2 socket = Some q1" using q1 by (simp add: s2_def)
    have k2: "k_rx s2 socket = evs" by (simp add: s2_def)
    define g3 :: "byte list \<Rightarrow> socket_queue \<Rightarrow> socket_queue" where "g3 = (\<lambda>buf' q. q\<lparr>sq_buf := Some buf'\<rparr>)"
    have sk: "sq_socket (g3 buf' q) = sq_socket q" for buf' q by (simp add: g3_def)
    have part: "\<exists>s'. finish buf' (length dat') s2 = Some (Some buf', length dat', s') \<and> rd_inv socket D T H s' 0
        \<and> k_rx s' socket = evs"
      if "length dat' < n" "take (length dat') buf' = dat'" "length dat' \<le> length buf'"
        "dat' @ rx_bytes evs = D @ T" for buf' dat'
    proof -
      let ?s3 = "update_queue s2 socket (g3 buf')"
      have base3: "rd_base socket ?s3" by (rule rd_base_update_queue[OF base2[folded s2_def] sk])
      have q3: "the_queue ?s3 socket = Some (g3 buf' q1)"
        using the_update_queue[OF base2[folded s2_def] sk] q2 by simp
      have "queue_ok H D ((g3 buf' q1)\<lparr>sq_datalen := length dat'\<rparr>) j dat'"
        using q1(2) that j by (simp add: queue_ok_def g3_def n_def)
      from interrupted_inv[OF base3 q3 this len] that(4) j k2 obtain s' where
        "SocketBuffer_interrupted ?s3 socket (length dat') = Some s'" "rd_inv socket D T H s' 0" "k_rx s' = k_rx ?s3"
        by auto
      then show ?thesis using that(1) k2 by (simp add: finish_def g3_def)
    qed
    have full: "\<exists>s'. finish D n s2 = Some (Some D, n, s') \<and> rd_ready socket T s' \<and> k_rx s' socket = evs"
      if "rx_bytes evs = T"
    proof -
      let ?s3 = "update_queue s2 socket (g3 D)"
      have base3: "rd_base socket ?s3" by (rule rd_base_update_queue[OF base2[folded s2_def] sk])
      have q3: "the_queue ?s3 socket = Some (g3 D q1)"
        using the_update_queue[OF base2[folded s2_def] sk] q2 by simp
      have "sq_buf (g3 D q1) = Some D" by (simp add: g3_def)
      from complete_ready[OF base3 q3 this] that k2 show ?thesis by (auto simp: finish_def g3_def)
    qed
    from r[folded s2_def] show ?thesis
    proof
      assume a: "recv s1 socket (n - length dat) = (RecvError EAGAIN, s2)
          \<and> rx_bytes evs = rx_bytes (k_rx s1 socket) \<and> length evs < length (k_rx s1 socket)"
      then have "dat @ rx_bytes evs = D @ T" using rx0 k1 by simp
      from part[OF lt b(2,1) this] a k1 gd lt show ?thesis by (auto simp: n_def)
    next
      assume "\<exists>bs. bs \<noteq> [] \<and> length bs \<le> n - length dat \<and> recv s1 socket (n - length dat) = (Received bs, s2)
          \<and> bs @ rx_bytes evs = rx_bytes (k_rx s1 socket) \<and> length evs \<le> length (k_rx s1 socket)
          \<and> (length bs < n - length dat \<longrightarrow> length evs < length (k_rx s1 socket))"
      then obtain bs where a: "bs \<noteq> []" "length bs \<le> n - length dat" "recv s1 socket (n - length dat) = (Received bs, s2)"
        "bs @ rx_bytes evs = rx_bytes (k_rx s1 socket)" "length evs \<le> length (k_rx s1 socket)"
        "length bs < n - length dat \<longrightarrow> length evs < length (k_rx s1 socket)" by blast
      have gd': "Socket_getdata s socket n 0 = finish (dat @ bs) (length (dat @ bs)) s2"
        using gd a(1,3) b by (cases bs) simp_all
      have all: "(dat @ bs) @ rx_bytes evs = D @ T" using a(4) rx0 k1 by simp
      show ?thesis
      proof (cases "length (dat @ bs) = n")
        case True
        then have "dat @ bs = D" "rx_bytes evs = T"
          using all append_eq_append_conv[of "dat @ bs" D "rx_bytes evs" T]
          by (simp_all add: n_def del: append_assoc)
        with full gd' True a(5) k1 show ?thesis by (auto simp: n_def)
      next
        case less: False
        then have l: "length (dat @ bs) < n" using a(2) lt by simp
        from part[OF l _ _ all, of "dat @ bs"] gd' a(6) l k1 show ?thesis by (auto simp: n_def)
      qed
    qed
  qed
qed

subsection \<open>Properties\<close>

text \<open>
  Runs of the writing side: packets handed over for sockets, and pending writes continued. The
  log collects, for each socket, the packets that were taken.
\<close>

inductive tx_run :: "sock_state \<Rightarrow> (int \<Rightarrow> byte list list) \<Rightarrow> sock_state \<Rightarrow> bool" where
  tx_start: "tx_run s (\<lambda>_. []) s"
| tx_put: "tx_run s log s1 \<Longrightarrow> Socket_putdatas s1 socket b0 bufs frees = (rc, s2) \<Longrightarrow>
    tx_run s (log(socket := log socket @ (if rc = SOCKET_ERROR then [] else [concat (b0 # bufs)]))) s2"
| tx_continue: "tx_run s log s1 \<Longrightarrow> socket \<in> set (write_pending s1) \<Longrightarrow>
    continueWrites_one s1 socket = Some (rc, s2) \<Longrightarrow> rc \<noteq> SOCKET_ERROR \<Longrightarrow> tx_run s log s2"

lemma tx_run_ok: "tx_run s log s' \<Longrightarrow> tx_ok s (\<lambda>_. []) \<Longrightarrow> tx_ok s' log"
proof (induction rule: tx_run.induct)
  case (tx_put s log s1 socket b0 bufs frees rc s2)
  from put_ok[OF tx_put.IH[OF tx_put.prems] tx_put.hyps(2)] show ?case by blast
next
  case (tx_continue s log s1 socket rc s2)
  then show ?case using continue_ok[of s1 log socket] by auto
qed

text \<open>
  C11: no byte of a packet is lost, repeated or put out of order on its way to the kernel: in
  every run without a socket error in which allocation succeeds, what the kernel has taken on
  a socket is, together with what is still kept for it, the packets taken by
  \<open>Socket_putdatas\<close> one after the other, and nothing is kept when no write is pending. While
  a write is pending a packet is refused and changes nothing; continuing the write once the
  kernel takes everything sends the rest.
\<close>

theorem writes_in_order:
  assumes "tx_run s0 log s" and "list_all (\<lambda>b. b) (s_mem s0)" and "writes s0 = []" and "write_pending s0 = []"
    and "k_sent s0 = (\<lambda>_. [])"
  shows "\<exists>rest. k_sent s socket @ rest = concat (log socket)
    \<and> (if Socket_noPendingWrites s socket then rest = []
       else Socket_putdatas s socket b0 bufs frees = (SOCKET_ERROR, s)
         \<and> (k_tx s socket = [] \<longrightarrow> (\<exists>s'. continueWrites_one s socket = Some (1, s')
              \<and> Socket_noPendingWrites s' socket \<and> k_sent s' socket = concat (log socket))))"
proof -
  have "tx_ok s0 (\<lambda>_. [])"
    using assms by (simp add: tx_ok_def tx_rest_def getWrite_eq)
  with assms(1) have ok: "tx_ok s log" by (rule tx_run_ok)
  show ?thesis
  proof (cases "Socket_noPendingWrites s socket")
    case True
    then have "tx_rest s socket = []" using noPendingWrites_iff[OF ok] by (simp add: tx_rest_def)
    with True tx_ok_sent[OF ok, of socket] show ?thesis by auto
  next
    case False
    then have "socket \<in> set (write_pending s)" by (auto simp: Socket_noPendingWrites_def find_None_iff)
    from continue_ok[OF ok this] obtain rc s' where c: "continueWrites_one s socket = Some (rc, s')"
      "rc \<noteq> SOCKET_ERROR \<longrightarrow> tx_ok s' log \<and> (rc = 1 \<longleftrightarrow> tx_rest s' socket = [])"
      "Socket_noPendingWrites s' socket = (rc \<noteq> 0)" "k_tx s socket = [] \<longrightarrow> rc = 1" by blast
    have "k_sent s' socket = concat (log socket)" if "k_tx s socket = []"
      using c that tx_ok_sent[of s' log socket] by (auto simp: rc_defs)
    then show ?thesis
      using False c tx_ok_sent[OF ok, of socket]
      by (intro exI[of _ "tx_rest s socket"]) (auto simp: Socket_putdatas_def)
  qed
qed

text \<open>A state of the socket layer after its initialisation, for the examples.\<close>

definition fresh_state :: sock_state where
  "fresh_state = \<lparr>s_mem = [], def_queue = Some \<lparr>sq_socket = 0, sq_index = 0, sq_headerlen = 0,
     sq_fixed_header = [], sq_buflen = 0, sq_datalen = 0, sq_buf = Some []\<rparr>, queues = [], writes = [],
     write_pending = [], k_rx = (\<lambda>_. []), k_tx = (\<lambda>_. []), k_sent = (\<lambda>_. [])\<rparr>"

lemma fresh_state_initialize:
  "SocketBuffer_initialize (fresh_state\<lparr>def_queue := None\<rparr>) = (0, fresh_state)"
  by (simp add: SocketBuffer_initialize_def SocketBuffer_newDefQ_def s_malloc_def fresh_state_def Let_def)

theorem writes_in_order_witness:
  "\<exists>s s'. Socket_putdatas (fresh_state\<lparr>k_tx := (\<lambda>_. [])(4 := [TxAccept 2])\<rparr>) 4 [192, 0] [[7]] [False]
      = (TCPSOCKET_INTERRUPTED, s) \<and> continueWrites_one s 4 = Some (1, s') \<and> k_sent s' 4 = [192, 0, 7]"
proof -
  define s0 where "s0 = fresh_state\<lparr>k_tx := (\<lambda>_. [])(4 := [TxAccept 2])\<rparr>"
  have "fst (Socket_putdatas s0 4 [192, 0] [[7]] [False]) = TCPSOCKET_INTERRUPTED
    \<and> k_tx (snd (Socket_putdatas s0 4 [192, 0] [[7]] [False])) 4 = []
    \<and> \<not> Socket_noPendingWrites (snd (Socket_putdatas s0 4 [192, 0] [[7]] [False])) 4"
    by (simp add: Socket_putdatas_def Socket_noPendingWrites_def Socket_writev_def writev_def Let_def s_malloc_def
        SocketBuffer_pendingWrite_def s0_def fresh_state_def rc_defs)
  then obtain s where s: "Socket_putdatas s0 4 [192, 0] [[7]] [False] = (TCPSOCKET_INTERRUPTED, s)"
    "k_tx s 4 = []" "\<not> Socket_noPendingWrites s 4"
    by (cases "Socket_putdatas s0 4 [192, 0] [[7]] [False]") auto
  have "tx_run s0 ((\<lambda>_. [])(4 := (\<lambda>_. []) 4 @ (if TCPSOCKET_INTERRUPTED = SOCKET_ERROR then []
      else [concat ([192, 0] # [[7]])]))) s"
    by (rule tx_put[OF tx_start s(1)])
  from writes_in_order[OF this, where socket = 4 and ?b0.0 = "[]" and bufs = "[]" and frees = "[]"] s(2,3) obtain s' where
    "continueWrites_one s 4 = Some (1, s')" "k_sent s' 4 = [192, 0, 7]"
    by (auto simp: s0_def fresh_state_def rc_defs)
  with s(1) show ?thesis unfolding s0_def by blast
qed

end
