(* ===== verification/Packets.thy ===== *)
theory Packets
  imports Clients Socket_IO
begin

text \<open>
  MQTT packets, \<^verbatim>\<open>src/MQTTPacket.c\<close>, \<^verbatim>\<open>src/MQTTPacketOut.c\<close> and their headers: the structures
  of received packets, the functions that build them from the bytes of a packet, the reader
  \<open>MQTTPacket_Factory\<close>, and the functions that send packets.

  The fields of a structure that is allocated without being cleared are options: \<open>None\<close> while
  they have not been set, and reading such a field is undefined behaviour.
\<close>

subsection \<open>Received packets\<close>

abbreviation (input) MQTTVERSION_3_1 :: int where "MQTTVERSION_3_1 \<equiv> 3"
abbreviation (input) MQTTVERSION_3_1_1 :: int where "MQTTVERSION_3_1_1 \<equiv> 4"
abbreviation (input) MQTTVERSION_5 :: int where "MQTTVERSION_5 \<equiv> 5"

record Connack =
  ck_header :: Header
  ck_flags :: byte
  ck_rc :: byte
  ck_MQTTVersion :: int
  ck_properties :: "MQTTProperties option"

record Suback =
  sb_header :: Header
  sb_msgId :: int
  sb_MQTTVersion :: int
  sb_properties :: "MQTTProperties option"
  sb_qoss :: "nat list"

record Unsuback =
  ub_header :: Header
  ub_msgId :: int
  ub_MQTTVersion :: int
  ub_properties :: "MQTTProperties option"
  ub_reasonCodes :: "nat list option"

text \<open>The structure of a publication is cleared before it is filled.\<close>

record Publish =
  pb_header :: Header
  pb_topic :: "byte list option"
  pb_topiclen :: int
  pb_msgId :: int
  pb_payload :: "byte list"
  pb_payloadlen :: int
  pb_MQTTVersion :: int
  pb_properties :: MQTTProperties

record Ack =
  ak_header :: Header
  ak_msgId :: "int option"
  ak_rc :: "byte option"
  ak_MQTTVersion :: int
  ak_properties :: "MQTTProperties option"

datatype packet = PConnack Connack | PPublish Publish | PAck Ack | PSuback Suback
  | PUnsuback Unsuback | PHeaderOnly Header

text \<open>The header is the first member of every structure.\<close>

fun packet_header :: "packet \<Rightarrow> Header" where
  "packet_header (PConnack p) = ck_header p"
| "packet_header (PPublish p) = pb_header p"
| "packet_header (PAck p) = ak_header p"
| "packet_header (PSuback p) = sb_header p"
| "packet_header (PUnsuback p) = ub_header p"
| "packet_header (PHeaderOnly h) = h"

subsection \<open>Building packets from bytes\<close>

text \<open>
  \<open>data\<close> is the memory that holds the rest of the packet, of \<open>datalen\<close> bytes. The result is
  the packet, or \<open>None\<close> for the null pointer.
\<close>

definition MQTTPacket_header_only ::
  "mem \<Rightarrow> int \<Rightarrow> byte \<Rightarrow> byte list \<Rightarrow> nat \<Rightarrow> (packet option \<times> mem) option" where
  "MQTTPacket_header_only m MQTTVersion aHeader data datalen =
     Some (Some (PHeaderOnly (header_bits aHeader)), m)"

definition MQTTPacket_publish ::
  "mem \<Rightarrow> int \<Rightarrow> byte \<Rightarrow> byte list \<Rightarrow> nat \<Rightarrow> (packet option \<times> mem) option" where
  "MQTTPacket_publish m MQTTVersion aHeader data datalen =
     (let (ok, m1) = malloc m in
      if \<not> ok then Some (None, m1)
      else do {
        (topic, topiclen, p1, m2) \<leftarrow> readUTFlen m1 data 0 datalen;
        if topic = None then Some (None, m2)
        else do {
          len \<leftarrow> topiclen;
          let header = header_bits aHeader;
          (short, msgId, p2) \<leftarrow>
            (if hd_qos header > 0 then
               if int datalen - int p1 < 2 then Some (True, 0, p1)
               else do { (i, p2) \<leftarrow> readInt data p1; Some (False, i, p2) }
             else Some (False, 0, p1));
          if short then Some (None, m2)
          else do {
            (bad, props, p3, m3) \<leftarrow>
              (if MQTTVersion \<ge> MQTTVERSION_5 then do {
                 (rc, props, p3, m3) \<leftarrow> MQTTProperties_read m2 MQTTProperties_initializer data p2 datalen;
                 Some (rc \<noteq> 1, props, p3, m3)
               } else Some (False, MQTTProperties_initializer, p2, m2));
            if bad then Some (None, m3)
            else
              let payloadlen = to_int32 (int datalen - int p3) in
              Some (Some (PPublish \<lparr>pb_header = header, pb_topic = topic, pb_topiclen = len, pb_msgId = msgId,
                pb_payload = take (nat payloadlen) (drop p3 data), pb_payloadlen = payloadlen,
                pb_MQTTVersion = MQTTVersion, pb_properties = props\<rparr>), m3)
          }
        }
      })"

definition MQTTPacket_ack ::
  "mem \<Rightarrow> int \<Rightarrow> byte \<Rightarrow> byte list \<Rightarrow> nat \<Rightarrow> (packet option \<times> mem) option" where
  "MQTTPacket_ack m MQTTVersion aHeader data datalen =
     (let (ok, m1) = malloc m; header = header_bits aHeader; disc = (hd_type header = DISCONNECT) in
      if \<not> ok then Some (None, m1)
      else do {
        (short, msgId, p1) \<leftarrow>
          (if \<not> disc then
             if datalen < 2 then Some (True, None, 0)
             else do { (i, p1) \<leftarrow> readInt data 0; Some (False, Some i, p1) }
           else Some (False, None, 0));
        if short then Some (None, m1)
        else if MQTTVersion \<ge> MQTTVERSION_5 then do {
          (rc, p2) \<leftarrow> (if datalen > 2 \<or> (disc \<and> datalen > 0) then readChar data p1 else Some (0, p1));
          if datalen > 3 \<or> (disc \<and> datalen > 1) then do {
            (prc, props, p3, m3) \<leftarrow> MQTTProperties_read m1 MQTTProperties_initializer data p2 datalen;
            if prc \<noteq> 1 then Some (None, m3)
            else Some (Some (PAck \<lparr>ak_header = header, ak_msgId = msgId, ak_rc = Some rc,
              ak_MQTTVersion = MQTTVersion, ak_properties = Some props\<rparr>), m3)
          } else Some (Some (PAck \<lparr>ak_header = header, ak_msgId = msgId, ak_rc = Some rc,
              ak_MQTTVersion = MQTTVersion, ak_properties = Some MQTTProperties_initializer\<rparr>), m1)
        } else Some (Some (PAck \<lparr>ak_header = header, ak_msgId = msgId, ak_rc = None,
              ak_MQTTVersion = MQTTVersion, ak_properties = None\<rparr>), m1)
      })"

definition MQTTPacket_connack ::
  "mem \<Rightarrow> int \<Rightarrow> byte \<Rightarrow> byte list \<Rightarrow> nat \<Rightarrow> (packet option \<times> mem) option" where
  "MQTTPacket_connack m MQTTVersion aHeader data datalen =
     (let (ok, m1) = malloc m in
      if \<not> ok then Some (None, m1)
      else if datalen < 2 then Some (None, m1)
      else do {
        (flags, p1) \<leftarrow> readChar data 0;
        (rc, p2) \<leftarrow> readChar data p1;
        let pack = \<lparr>ck_header = header_bits aHeader, ck_flags = flags, ck_rc = rc,
          ck_MQTTVersion = MQTTVersion, ck_properties = None\<rparr>;
        if MQTTVersion \<ge> MQTTVERSION_5 \<and> datalen > 2 then do {
          (prc, props, p3, m3) \<leftarrow> MQTTProperties_read m1 MQTTProperties_initializer data p2 datalen;
          if prc \<noteq> 1 then Some (None, m3)
          else Some (Some (PConnack (pack\<lparr>ck_properties := Some props\<rparr>)), m3)
        } else Some (Some (PConnack pack), m1)
      })"

text \<open>
  The loop that reads one byte after the other into a list: \<open>None\<close> in the result when an
  element could not be allocated. A list element that could not be allocated is left out.
\<close>

function codes_loop :: "mem \<Rightarrow> byte list \<Rightarrow> nat \<Rightarrow> nat \<Rightarrow> nat list \<Rightarrow> (nat list option \<times> mem) option" where
  "codes_loop m data p datalen acc =
     (if p < datalen then
        (let (ok, m1) = malloc m in
         if \<not> ok then Some (None, m1)
         else do {
           (c, p1) \<leftarrow> readChar data p;
           let (ok2, m2) = malloc m1;
           codes_loop m2 data p1 datalen (if ok2 then acc @ [unat c] else acc)
         })
      else Some (Some acc, m))"
  by pat_completeness auto
termination
  by (relation "measure (\<lambda>(m, data, p, datalen, acc). datalen - p)") (auto simp: readChar_def split: bind_splits)

declare codes_loop.simps [simp del]

definition MQTTPacket_suback ::
  "mem \<Rightarrow> int \<Rightarrow> byte \<Rightarrow> byte list \<Rightarrow> nat \<Rightarrow> (packet option \<times> mem) option" where
  "MQTTPacket_suback m MQTTVersion aHeader data datalen =
     (let (ok, m1) = malloc m in
      if \<not> ok then Some (None, m1)
      else if datalen < 2 then Some (None, m1)
      else do {
        (msgId, p1) \<leftarrow> readInt data 0;
        (bad, props, p2, m2) \<leftarrow>
          (if MQTTVersion \<ge> MQTTVERSION_5 then do {
             (rc, props, p2, m2) \<leftarrow> MQTTProperties_read m1 MQTTProperties_initializer data p1 datalen;
             Some (rc \<noteq> 1, Some props, p2, m2)
           } else Some (False, None, p1, m1));
        if bad then Some (None, m2)
        else do {
          let (lok, m3) = malloc m2;
          _ \<leftarrow> (if lok then Some () else None);
          (codes, m4) \<leftarrow> codes_loop m3 data p2 datalen [];
          (case codes of
             None \<Rightarrow> do { _ \<leftarrow> props; Some (None, m4) }
           | Some qoss \<Rightarrow>
               if qoss = [] then do { _ \<leftarrow> props; Some (None, m4) }
               else Some (Some (PSuback \<lparr>sb_header = header_bits aHeader, sb_msgId = msgId,
                 sb_MQTTVersion = MQTTVersion, sb_properties = props, sb_qoss = qoss\<rparr>), m4))
        }
      })"

definition MQTTPacket_unsuback ::
  "mem \<Rightarrow> int \<Rightarrow> byte \<Rightarrow> byte list \<Rightarrow> nat \<Rightarrow> (packet option \<times> mem) option" where
  "MQTTPacket_unsuback m MQTTVersion aHeader data datalen =
     (let (ok, m1) = malloc m in
      if \<not> ok then Some (None, m1)
      else if datalen < 2 then Some (None, m1)
      else do {
        (msgId, p1) \<leftarrow> readInt data 0;
        let pack = \<lparr>ub_header = header_bits aHeader, ub_msgId = msgId, ub_MQTTVersion = MQTTVersion,
          ub_properties = None, ub_reasonCodes = None\<rparr>;
        if MQTTVersion \<ge> MQTTVERSION_5 then do {
          (rc, props, p2, m2) \<leftarrow> MQTTProperties_read m1 MQTTProperties_initializer data p1 datalen;
          if rc \<noteq> 1 then Some (None, m2)
          else do {
            let (lok, m3) = malloc m2;
            _ \<leftarrow> (if lok then Some () else None);
            (codes, m4) \<leftarrow> codes_loop m3 data p2 datalen [];
            (case codes of
               None \<Rightarrow> Some (None, m4)
             | Some rcs \<Rightarrow>
                 if rcs = [] then Some (None, m4)
                 else Some (Some (PUnsuback (pack\<lparr>ub_properties := Some props, ub_reasonCodes := Some rcs\<rparr>)), m4))
          }
        } else Some (Some (PUnsuback pack), m1)
      })"

definition new_packets ::
  "(mem \<Rightarrow> int \<Rightarrow> byte \<Rightarrow> byte list \<Rightarrow> nat \<Rightarrow> (packet option \<times> mem) option) option list" where
  "new_packets =
    [None, None, Some MQTTPacket_connack, Some MQTTPacket_publish, Some MQTTPacket_ack, Some MQTTPacket_ack,
     Some MQTTPacket_ack, Some MQTTPacket_ack, None, Some MQTTPacket_suback, None, Some MQTTPacket_unsuback,
     Some MQTTPacket_header_only, Some MQTTPacket_header_only, Some MQTTPacket_ack, Some MQTTPacket_ack]"

subsection \<open>Freeing packets\<close>

text \<open>Freeing the properties of a structure in which they have not been set is not defined.\<close>

definition MQTTPacket_freePublish :: "Publish \<Rightarrow> unit option" where
  "MQTTPacket_freePublish pack =
     (if pb_MQTTVersion pack \<ge> MQTTVERSION_5 then do { _ \<leftarrow> MQTTProperties_free (pb_properties pack); Some () }
      else Some ())"

definition MQTTPacket_freeAck :: "Ack \<Rightarrow> unit option" where
  "MQTTPacket_freeAck pack =
     (if ak_MQTTVersion pack \<ge> MQTTVERSION_5
      then do { props \<leftarrow> ak_properties pack; _ \<leftarrow> MQTTProperties_free props; Some () } else Some ())"

definition MQTTPacket_freeSuback :: "Suback \<Rightarrow> unit option" where
  "MQTTPacket_freeSuback pack =
     (if sb_MQTTVersion pack \<ge> MQTTVERSION_5
      then do { props \<leftarrow> sb_properties pack; _ \<leftarrow> MQTTProperties_free props; Some () } else Some ())"

definition MQTTPacket_freeUnsuback :: "Unsuback \<Rightarrow> unit option" where
  "MQTTPacket_freeUnsuback pack =
     (if ub_MQTTVersion pack \<ge> MQTTVERSION_5
      then do { props \<leftarrow> ub_properties pack; _ \<leftarrow> MQTTProperties_free props; Some () } else Some ())"

definition MQTTPacket_freeConnack :: "Connack \<Rightarrow> unit option" where
  "MQTTPacket_freeConnack pack =
     (if ck_MQTTVersion pack \<ge> MQTTVERSION_5
      then do { props \<leftarrow> ck_properties pack; _ \<leftarrow> MQTTProperties_free props; Some () } else Some ())"

text \<open>The header of a packet that is only a header is a static variable: it cannot be freed.\<close>

definition MQTTPacket_free_packet :: "packet \<Rightarrow> unit option" where
  "MQTTPacket_free_packet pack =
     (if hd_type (packet_header pack) = PUBLISH
      then (case pack of PPublish p \<Rightarrow> MQTTPacket_freePublish p | _ \<Rightarrow> None)
      else (case pack of PHeaderOnly h \<Rightarrow> None | _ \<Rightarrow> Some ()))"

subsection \<open>The network\<close>

text \<open>
  What is below the packets: operations on a state \<open>'w\<close> with which a packet is read, written
  and stored (those of \<^verbatim>\<open>src/WebSocket.c\<close> and \<open>MQTTPersistence_putPacket\<close>), the current
  time, and the outcomes of the coming allocations.
\<close>

record 'w transport =
  tp_getch :: "int \<Rightarrow> 'w \<Rightarrow> (int \<times> byte option \<times> 'w) option"
  tp_getdata :: "int \<Rightarrow> nat \<Rightarrow> 'w \<Rightarrow> (byte list option \<times> nat \<times> 'w) option"
  tp_framePos :: "'w \<Rightarrow> nat"
  tp_framePosSeekTo :: "nat \<Rightarrow> 'w \<Rightarrow> 'w"
  tp_putdatas :: "int \<Rightarrow> byte list \<Rightarrow> byte list list \<Rightarrow> bool list \<Rightarrow> 'w \<Rightarrow> int \<times> 'w"
  tp_putPacket :: "int \<Rightarrow> byte list \<Rightarrow> byte list list \<Rightarrow> nat \<Rightarrow> int \<Rightarrow> bool \<Rightarrow> int \<Rightarrow> 'w \<Rightarrow> int \<times> 'w"
  tp_now :: "'w \<Rightarrow> nat"
  tp_mem :: "'w \<Rightarrow> mem"
  tp_set_mem :: "mem \<Rightarrow> 'w \<Rightarrow> 'w"

definition tp_malloc :: "'w transport \<Rightarrow> 'w \<Rightarrow> bool \<times> 'w" where
  "tp_malloc tp w = (let (ok, m) = malloc (tp_mem tp w) in (ok, tp_set_mem tp m w))"

subsection \<open>Reading a packet\<close>

text \<open>
  The first part of \<open>MQTTPacket_Factory\<close>: the header byte, the remaining length and the rest of
  the packet, with its length, when they could be read.
\<close>

definition packet_read ::
  "'w transport \<Rightarrow> int \<Rightarrow> 'w \<Rightarrow> (int \<times> (byte \<times> nat \<times> byte list \<times> nat) option \<times> 'w) option" where
  "packet_read tp socket w = do {
     (error, c, w1) \<leftarrow> tp_getch tp socket w;
     if error \<noteq> TCPSOCKET_COMPLETE then Some (error, None, w1)
     else do {
       header \<leftarrow> c;
       (error, remaining_length, w2) \<leftarrow> MQTTPacket_decode (tp_getch tp socket) w1;
       if error \<noteq> TCPSOCKET_COMPLETE then Some (error, None, w2)
       else do {
         (data, actual_len, w3) \<leftarrow> tp_getdata tp socket remaining_length w2;
         if remaining_length \<noteq> 0 \<and> data = None then Some (SOCKET_ERROR, None, w3)
         else Some (error, Some (header, remaining_length, (case data of None \<Rightarrow> [] | Some d \<Rightarrow> d), actual_len), w3)
       }
     }
   }"

definition MQTTPacket_Factory ::
  "'w transport \<Rightarrow> int \<Rightarrow> networkHandles \<Rightarrow> 'w \<Rightarrow> (packet option \<times> int \<times> networkHandles \<times> 'w) option" where
  "MQTTPacket_Factory tp MQTTVersion net w = do {
     let socket = nt_socket net;
     let headerWsFramePos = tp_framePos tp w;
     let finish = (\<lambda>pack error net' w'. Some (pack, error, net',
           if error = TCPSOCKET_INTERRUPTED then tp_framePosSeekTo tp headerWsFramePos w' else w'));
     (error, read, w1) \<leftarrow> packet_read tp socket w;
     (case read of
        None \<Rightarrow> finish None error net w1
      | Some (aHeader, remaining_length, data, actual_len) \<Rightarrow>
          if actual_len < remaining_length
          then finish None TCPSOCKET_INTERRUPTED (net\<lparr>nt_lastReceived := tp_now tp w1\<rparr>) w1
          else do {
            let ptype = hd_type (header_bits aHeader);
            entry \<leftarrow> nth_opt new_packets ptype;
            if ptype < CONNECT \<or> (MQTTVersion < MQTTVERSION_5 \<and> ptype \<ge> DISCONNECT)
               \<or> (MQTTVersion \<ge> MQTTVERSION_5 \<and> ptype > AUTH)
            then finish None error net w1
            else (case entry of
                None \<Rightarrow> finish None error net w1
              | Some build \<Rightarrow> do {
                  (pack, m2) \<leftarrow> build (tp_mem tp w1) MQTTVersion aHeader data remaining_length;
                  let w2 = tp_set_mem tp m2 w1;
                  (case pack of
                     None \<Rightarrow> finish None SOCKET_ERROR net w2
                   | Some p \<Rightarrow>
                       if ptype = PUBLISH \<and> hd_qos (header_bits aHeader) = 2 then
                         (let (ok, w3) = tp_malloc tp w2 in
                          if \<not> ok then finish (Some p) SOCKET_ERROR net w3
                          else
                            (let buf = aHeader # snd (MQTTPacket_encode True remaining_length);
                                 msgId = (case p of PPublish pb \<Rightarrow> pb_msgId pb | _ \<Rightarrow> 0);
                                 (perr, w4) = tp_putPacket tp socket buf [data] ptype msgId True MQTTVersion w3
                             in finish (Some p) perr (net\<lparr>nt_lastReceived := tp_now tp w4\<rparr>) w4))
                       else finish (Some p) error (net\<lparr>nt_lastReceived := tp_now tp w2\<rparr>) w2)
                })
          })
   }"

subsection \<open>Sending a packet\<close>

text \<open>
  The length of the buffer is the length of its contents: a caller that fills a block of another
  length does not get here. A null buffer is an empty one.
\<close>

definition MQTTPacket_send ::
  "'w transport \<Rightarrow> networkHandles \<Rightarrow> 'w \<Rightarrow> Header \<Rightarrow> byte list \<Rightarrow> bool \<Rightarrow> int
   \<Rightarrow> (int \<times> networkHandles \<times> 'w) option" where
  "MQTTPacket_send tp net w header buffer freeData MQTTVersion = do {
     let (ok, w1) = tp_malloc tp w;
     if \<not> ok then Some (SOCKET_ERROR, net, w1)
     else do {
       let buf = header_byte header # snd (MQTTPacket_encode True (length buffer));
       w2 \<leftarrow> (if hd_type header = PUBREL then do {
                (msgId, _) \<leftarrow> readInt buffer 0;
                Some (snd (tp_putPacket tp (nt_socket net) buf [buffer] (hd_type header) msgId False MQTTVersion w1))
              } else Some w1);
       let (rc, w3) = tp_putdatas tp (nt_socket net) buf [buffer] [freeData] w2;
       Some (rc, if rc = TCPSOCKET_COMPLETE then net\<lparr>nt_lastSent := tp_now tp w3\<rparr> else net, w3)
     }
   }"

definition MQTTPacket_sends ::
  "'w transport \<Rightarrow> networkHandles \<Rightarrow> 'w \<Rightarrow> Header \<Rightarrow> byte list list \<Rightarrow> bool list \<Rightarrow> int
   \<Rightarrow> (int \<times> networkHandles \<times> 'w) option" where
  "MQTTPacket_sends tp net w header buffers frees MQTTVersion = do {
     let total_len = sum_list (map length buffers);
     let (ok, w1) = tp_malloc tp w;
     if \<not> ok then Some (SOCKET_ERROR, net, w1)
     else do {
       let buf = header_byte header # snd (MQTTPacket_encode True total_len);
       w2 \<leftarrow> (if hd_type header = PUBLISH \<and> hd_qos header \<noteq> 0 then do {
                b \<leftarrow> nth_opt buffers 2;
                (msgId, _) \<leftarrow> readInt b 0;
                Some (snd (tp_putPacket tp (nt_socket net) buf buffers (hd_type header) msgId False MQTTVersion w1))
              } else Some w1);
       let (rc, w3) = tp_putdatas tp (nt_socket net) buf buffers frees w2;
       Some (rc, if rc = TCPSOCKET_COMPLETE then net\<lparr>nt_lastSent := tp_now tp w3\<rparr> else net, w3)
     }
   }"

text \<open>
  A block of \<open>len\<close> bytes that has been filled with \<open>bytes\<close>: storing beyond its end is not
  defined, and neither is sending bytes that have not been stored.
\<close>

definition filled :: "int \<Rightarrow> byte list \<Rightarrow> byte list option" where
  "filled len bytes = (if int (length bytes) = len then Some bytes else None)"

definition MQTTPacket_send_ack ::
  "'w transport \<Rightarrow> int \<Rightarrow> nat \<Rightarrow> int \<Rightarrow> nat \<Rightarrow> networkHandles \<Rightarrow> 'w \<Rightarrow> (int \<times> networkHandles \<times> 'w) option" where
  "MQTTPacket_send_ack tp MQTTVersion type msgid dup net w = do {
     let (ok, w1) = tp_malloc tp w;
     if \<not> ok then Some (SOCKET_ERROR, net, w1)
     else do {
       buf \<leftarrow> filled 2 (writeInt msgid);
       let header = Header_zero\<lparr>hd_type := type, hd_dup := dup mod 2\<rparr>;
       MQTTPacket_send tp net w1 (if type = PUBREL then header\<lparr>hd_qos := 1\<rparr> else header) buf True MQTTVersion
     }
   }"

definition MQTTPacket_send_puback ::
  "'w transport \<Rightarrow> int \<Rightarrow> int \<Rightarrow> networkHandles \<Rightarrow> 'w \<Rightarrow> (int \<times> networkHandles \<times> 'w) option" where
  "MQTTPacket_send_puback tp MQTTVersion msgid net w = MQTTPacket_send_ack tp MQTTVersion PUBACK msgid 0 net w"

definition MQTTPacket_send_pubrec ::
  "'w transport \<Rightarrow> int \<Rightarrow> int \<Rightarrow> networkHandles \<Rightarrow> 'w \<Rightarrow> (int \<times> networkHandles \<times> 'w) option" where
  "MQTTPacket_send_pubrec tp MQTTVersion msgid net w = MQTTPacket_send_ack tp MQTTVersion PUBREC msgid 0 net w"

definition MQTTPacket_send_pubrel ::
  "'w transport \<Rightarrow> int \<Rightarrow> int \<Rightarrow> nat \<Rightarrow> networkHandles \<Rightarrow> 'w \<Rightarrow> (int \<times> networkHandles \<times> 'w) option" where
  "MQTTPacket_send_pubrel tp MQTTVersion msgid dup net w = MQTTPacket_send_ack tp MQTTVersion PUBREL msgid dup net w"

definition MQTTPacket_send_pubcomp ::
  "'w transport \<Rightarrow> int \<Rightarrow> int \<Rightarrow> networkHandles \<Rightarrow> 'w \<Rightarrow> (int \<times> networkHandles \<times> 'w) option" where
  "MQTTPacket_send_pubcomp tp MQTTVersion msgid net w = MQTTPacket_send_ack tp MQTTVersion PUBCOMP msgid 0 net w"

definition MQTTPacket_send_pingreq ::
  "'w transport \<Rightarrow> networkHandles \<Rightarrow> 'w \<Rightarrow> (int \<times> networkHandles \<times> 'w) option" where
  "MQTTPacket_send_pingreq tp net w =
     MQTTPacket_send tp net w (Header_zero\<lparr>hd_type := PINGREQ\<rparr>) [] False MQTTVERSION_3_1_1"

text \<open>The properties of a disconnect packet may be missing, and so may the reason code.\<close>

definition MQTTPacket_send_disconnect ::
  "'w transport \<Rightarrow> Clients \<Rightarrow> 'w \<Rightarrow> nat \<Rightarrow> MQTTProperties option \<Rightarrow> (int \<times> networkHandles \<times> 'w) option" where
  "MQTTPacket_send_disconnect tp client w reason props = do {
     let header = Header_zero\<lparr>hd_type := DISCONNECT\<rparr>;
     if cl_MQTTVersion client \<ge> 5 \<and> (props \<noteq> None \<or> reason \<noteq> 0) then do {
       let buflen = 1 + (if props = None then 0 else MQTTProperties_len props);
       let (ok, w1) = tp_malloc tp w;
       if \<not> ok then Some (SOCKET_ERROR, cl_net client, w1)
       else do {
         ps \<leftarrow> (if props = None then Some [] else do { (rc, ps) \<leftarrow> MQTTProperties_write props; Some ps });
         buf \<leftarrow> filled buflen (writeChar (of_nat reason) @ ps);
         MQTTPacket_send tp (cl_net client) w1 header buf True (cl_MQTTVersion client)
       }
     } else MQTTPacket_send tp (cl_net client) w header [] False (cl_MQTTVersion client)
   }"

text \<open>A publication: three buffers, or four with a message id or properties.\<close>

definition MQTTPacket_send_publish ::
  "'w transport \<Rightarrow> Publish \<Rightarrow> nat \<Rightarrow> nat \<Rightarrow> nat \<Rightarrow> networkHandles \<Rightarrow> 'w
   \<Rightarrow> (int \<times> networkHandles \<times> 'w) option" where
  "MQTTPacket_send_publish tp pack dup qos retained net w = do {
     let (ok, w1) = tp_malloc tp w;
     if \<not> ok then Some (SOCKET_ERROR, net, w1)
     else do {
       let header = \<lparr>hd_type = PUBLISH, hd_dup = dup mod 2, hd_qos = qos mod 4, hd_retain = retained mod 2\<rparr>;
       topic \<leftarrow> pb_topic pack;
       payload \<leftarrow> memcpy (pb_payload pack) (pb_payloadlen pack);
       topiclen \<leftarrow> filled 2 (writeInt (to_int32 (int (length topic))));
       if qos > 0 \<or> pb_MQTTVersion pack \<ge> 5 then do {
         let buflen = (if qos > 0 then 2 else 0)
           + (if pb_MQTTVersion pack \<ge> 5 then MQTTProperties_len (Some (pb_properties pack)) else 0);
         let (ok2, w2) = tp_malloc tp w1;
         if \<not> ok2 then Some (SOCKET_ERROR, net, w2)
         else do {
           ps \<leftarrow> (if pb_MQTTVersion pack \<ge> 5
                 then do { (rc, ps) \<leftarrow> MQTTProperties_write (Some (pb_properties pack)); Some ps } else Some []);
           buf \<leftarrow> filled buflen ((if qos > 0 then writeInt (pb_msgId pack) else []) @ ps);
           MQTTPacket_sends tp net w2 header [topiclen, topic, buf, payload] [True, False, True, False]
             (pb_MQTTVersion pack)
         }
       } else MQTTPacket_sends tp net w1 header [topiclen, topic, payload] [True, False, False] (pb_MQTTVersion pack)
     }
   }"

text \<open>The connect flags, from the least significant bit: unused, clean start, will, will QoS (two
  bits), will retain, password, user name.\<close>

definition connect_flags :: "Clients \<Rightarrow> int \<Rightarrow> byte" where
  "connect_flags client MQTTVersion =
     of_nat ((if (if MQTTVersion \<ge> MQTTVERSION_5 then cl_cleanstart client else cl_cleansession client) then 2 else 0)
       + (case cl_will client of None \<Rightarrow> 0
          | Some will \<Rightarrow> 4 + 8 * (wm_qos will mod 4) + 32 * (wm_retained will mod 2))
       + (if cl_password client \<noteq> None then 64 else 0) + (if cl_username client \<noteq> None then 128 else 0))"

definition protocol_name :: "int \<Rightarrow> byte list option" where
  "protocol_name MQTTVersion =
     (if MQTTVersion = MQTTVERSION_3_1 then Some (writeUTF [77, 81, 73, 115, 100, 112] @ writeChar 3)
      else if MQTTVersion = MQTTVERSION_3_1_1 \<or> MQTTVersion = MQTTVERSION_5
        then Some (writeUTF [77, 81, 84, 84] @ writeChar (word_of_int MQTTVersion))
      else None)"

definition connect_len ::
  "Clients \<Rightarrow> int \<Rightarrow> MQTTProperties option \<Rightarrow> MQTTProperties option \<Rightarrow> int" where
  "connect_len client MQTTVersion connectProperties willProperties =
     (if MQTTVersion = MQTTVERSION_3_1 then 12 else 10) + int (length (cl_clientID client)) + 2
     + (case cl_will client of None \<Rightarrow> 0
        | Some will \<Rightarrow> int (length (wm_topic will)) + 2 + wm_payloadlen will + 2)
     + (case cl_username client of None \<Rightarrow> 0 | Some u \<Rightarrow> int (length u) + 2)
     + (case cl_password client of None \<Rightarrow> 0 | Some p \<Rightarrow> cl_passwordlen client + 2)
     + (if MQTTVersion \<ge> MQTTVERSION_5
        then MQTTProperties_len connectProperties
          + (if cl_will client \<noteq> None then MQTTProperties_len willProperties else 0) else 0)"

definition MQTTPacket_send_connect ::
  "'w transport \<Rightarrow> Clients \<Rightarrow> 'w \<Rightarrow> int \<Rightarrow> MQTTProperties option \<Rightarrow> MQTTProperties option
   \<Rightarrow> (int \<times> networkHandles \<times> 'w) option" where
  "MQTTPacket_send_connect tp client w MQTTVersion connectProperties willProperties = do {
     let (ok, w1) = tp_malloc tp w;
     if \<not> ok then Some (SOCKET_ERROR, cl_net client, w1)
     else (case protocol_name MQTTVersion of
         None \<Rightarrow> Some (SOCKET_ERROR, cl_net client, w1)
       | Some name \<Rightarrow> do {
           cps \<leftarrow> (if MQTTVersion \<ge> MQTTVERSION_5
                  then do { (rc, ps) \<leftarrow> MQTTProperties_write connectProperties; Some ps } else Some []);
           will \<leftarrow> (case cl_will client of None \<Rightarrow> Some []
             | Some will \<Rightarrow> do {
                 wps \<leftarrow> (if MQTTVersion \<ge> MQTTVERSION_5
                        then do { (rc, ps) \<leftarrow> MQTTProperties_write willProperties; Some ps } else Some []);
                 d \<leftarrow> writeData (wm_payload will) (wm_payloadlen will);
                 Some (wps @ writeUTF (wm_topic will) @ d)
               });
           pw \<leftarrow> (case cl_password client of None \<Rightarrow> Some [] | Some p \<Rightarrow> writeData p (cl_passwordlen client));
           buf \<leftarrow> filled (connect_len client MQTTVersion connectProperties willProperties)
             (name @ writeChar (connect_flags client MQTTVersion) @ writeInt (cl_keepAliveInterval client) @ cps
              @ writeUTF (cl_clientID client) @ will
              @ (case cl_username client of None \<Rightarrow> [] | Some u \<Rightarrow> writeUTF u) @ pw);
           MQTTPacket_send tp (cl_net client) w1 (Header_zero\<lparr>hd_type := CONNECT\<rparr>) buf True MQTTVersion
         })
   }"

record MQTTSubscribe_options =
  so_noLocal :: byte
  so_retainAsPublished :: byte
  so_retainHandling :: byte

text \<open>The loop over the topics; \<open>i\<close> counts them, and each topic has its QoS and its options.\<close>

fun subscribe_payload ::
  "int \<Rightarrow> MQTTSubscribe_options list option \<Rightarrow> int list \<Rightarrow> nat \<Rightarrow> byte list list \<Rightarrow> byte list option" where
  "subscribe_payload MQTTVersion opts qoss i [] = Some []"
| "subscribe_payload MQTTVersion opts qoss i (topic # topics) = do {
     qos \<leftarrow> nth_opt qoss i;
     let subopts = (word_of_int qos :: byte);
     subopts \<leftarrow> (if MQTTVersion \<ge> MQTTVERSION_5 \<and> opts \<noteq> None then do {
         arr \<leftarrow> opts;
         opt \<leftarrow> nth_opt arr i;
         Some (subopts OR push_bit 2 (so_noLocal opt) OR push_bit 3 (so_retainAsPublished opt)
               OR push_bit 4 (so_retainHandling opt))
       } else Some subopts);
     rest \<leftarrow> subscribe_payload MQTTVersion opts qoss (i + 1) topics;
     Some (writeUTF topic @ writeChar subopts @ rest)
   }"

definition MQTTPacket_send_subscribe ::
  "'w transport \<Rightarrow> byte list list \<Rightarrow> int list \<Rightarrow> MQTTSubscribe_options list option \<Rightarrow> MQTTProperties option
   \<Rightarrow> int \<Rightarrow> nat \<Rightarrow> Clients \<Rightarrow> 'w \<Rightarrow> (int \<times> networkHandles \<times> 'w) option" where
  "MQTTPacket_send_subscribe tp topics qoss opts props msgid dup client w = do {
     let header = \<lparr>hd_type = SUBSCRIBE, hd_dup = dup mod 2, hd_qos = 1, hd_retain = 0\<rparr>;
     let datalen = 2 + int (length topics) * 3 + int (sum_list (map length topics))
       + (if cl_MQTTVersion client \<ge> MQTTVERSION_5 then MQTTProperties_len props else 0);
     let (ok, w1) = tp_malloc tp w;
     if \<not> ok then Some (-1, cl_net client, w1)
     else do {
       ps \<leftarrow> (if cl_MQTTVersion client \<ge> MQTTVERSION_5
             then do { (rc, ps) \<leftarrow> MQTTProperties_write props; Some ps } else Some []);
       payload \<leftarrow> subscribe_payload (cl_MQTTVersion client) opts qoss 0 topics;
       data \<leftarrow> filled datalen (writeInt msgid @ ps @ payload);
       MQTTPacket_send tp (cl_net client) w1 header data True (cl_MQTTVersion client)
     }
   }"

definition MQTTPacket_send_unsubscribe ::
  "'w transport \<Rightarrow> byte list list \<Rightarrow> MQTTProperties option \<Rightarrow> int \<Rightarrow> nat \<Rightarrow> Clients \<Rightarrow> 'w
   \<Rightarrow> (int \<times> networkHandles \<times> 'w) option" where
  "MQTTPacket_send_unsubscribe tp topics props msgid dup client w = do {
     let header = \<lparr>hd_type = UNSUBSCRIBE, hd_dup = dup mod 2, hd_qos = 1, hd_retain = 0\<rparr>;
     let datalen = 2 + int (length topics) * 2 + int (sum_list (map length topics))
       + (if cl_MQTTVersion client \<ge> MQTTVERSION_5 then MQTTProperties_len props else 0);
     let (ok, w1) = tp_malloc tp w;
     if \<not> ok then Some (SOCKET_ERROR, cl_net client, w1)
     else do {
       ps \<leftarrow> (if cl_MQTTVersion client \<ge> MQTTVERSION_5
             then do { (rc, ps) \<leftarrow> MQTTProperties_write props; Some ps } else Some []);
       data \<leftarrow> filled datalen (writeInt msgid @ ps @ concat (map writeUTF topics));
       MQTTPacket_send tp (cl_net client) w1 header data True (cl_MQTTVersion client)
     }
   }"

end
