(* ===== verification/Packet_IO.thy ===== *)
theory Packet_IO
  imports Packets
begin

text \<open>
  Packets on a socket: the transport of \<^verbatim>\<open>src/WebSocket.c\<close> for a connection without TLS and
  without websockets, and what the reader and the senders of packets do on it.
\<close>

subsection \<open>The plain transport\<close>

text \<open>
  For such a connection the functions of \<^verbatim>\<open>src/WebSocket.c\<close> call those of \<^verbatim>\<open>src/Socket.c\<close>, and
  there is no frame whose position could be saved. The persistence and the clock stay
  parameters.
\<close>

definition socket_transport ::
  "(int \<Rightarrow> byte list \<Rightarrow> byte list list \<Rightarrow> nat \<Rightarrow> int \<Rightarrow> bool \<Rightarrow> int \<Rightarrow> sock_state \<Rightarrow> int \<times> sock_state)
   \<Rightarrow> (sock_state \<Rightarrow> nat) \<Rightarrow> sock_state transport" where
  "socket_transport put now = \<lparr>
     tp_getch = \<lambda>socket s. Socket_getch s socket,
     tp_getdata = \<lambda>socket bytes s. Socket_getdata s socket bytes 0,
     tp_framePos = \<lambda>s. 0,
     tp_framePosSeekTo = \<lambda>pos s. s,
     tp_putdatas = \<lambda>socket buf0 bufs frees s. Socket_putdatas s socket buf0 bufs frees,
     tp_putPacket = put,
     tp_now = now,
     tp_mem = s_mem,
     tp_set_mem = \<lambda>m s. s\<lparr>s_mem := m\<rparr>\<rparr>"

lemma socket_transport_simps [simp]:
  "tp_getch (socket_transport put now) socket = (\<lambda>s. Socket_getch s socket)"
  "tp_getdata (socket_transport put now) socket n s = Socket_getdata s socket n 0"
  "tp_framePos (socket_transport put now) s = 0"
  "tp_framePosSeekTo (socket_transport put now) pos s = s"
  "tp_putdatas (socket_transport put now) socket b0 bufs frees s = Socket_putdatas s socket b0 bufs frees"
  "tp_putPacket (socket_transport put now) = put" "tp_now (socket_transport put now) = now"
  "tp_mem (socket_transport put now) s = s_mem s"
  "tp_set_mem (socket_transport put now) m s = s\<lparr>s_mem := m\<rparr>"
  by (simp_all add: socket_transport_def)

subsection \<open>Reading\<close>

definition packet_bytes :: "byte \<Rightarrow> byte list \<Rightarrow> byte list" where
  "packet_bytes h body = h # vbi (length body) @ body"

lemma packet_read_step:
  assumes inv: "rd_inv socket D T (h # vbi (length D)) s 0" and D: "length D < 268435456"
  shows "\<exists>s'. (\<exists>d. packet_read (socket_transport put now) socket s
        = Some (TCPSOCKET_COMPLETE, Some (h, length D, d, length D), s') \<and> (D = [] \<or> d = D)
      \<and> rd_ready socket T s' \<and> length (k_rx s' socket) \<le> length (k_rx s socket))
    \<or> (\<exists>error r. packet_read (socket_transport put now) socket s = Some (error, r, s')
      \<and> (r = None \<and> error = TCPSOCKET_INTERRUPTED
         \<or> error = TCPSOCKET_COMPLETE \<and> (\<exists>d alen. r = Some (h, length D, d, alen) \<and> alen < length D))
      \<and> rd_inv socket D T (h # vbi (length D)) s' 0 \<and> length (k_rx s' socket) < length (k_rx s socket))"
    (is "\<exists>s'. ?done s' \<or> ?more s'")
proof -
  let ?H = "h # vbi (length D)" and ?tp = "socket_transport put now"
  have ci: "TCPSOCKET_INTERRUPTED \<noteq> TCPSOCKET_COMPLETE" by (simp add: rc_defs)
  from sock.getch_step[OF inv] obtain s1 where
    "(Socket_getch s socket = Some (TCPSOCKET_COMPLETE, Some h, s1) \<and> rd_inv socket D T ?H s1 1
        \<and> length (k_rx s1 socket) \<le> length (k_rx s socket))
     \<or> (Socket_getch s socket = Some (TCPSOCKET_INTERRUPTED, None, s1) \<and> rd_inv socket D T ?H s1 0
        \<and> length (k_rx s1 socket) < length (k_rx s socket))" by auto
  then show ?thesis
  proof
    assume "Socket_getch s socket = Some (TCPSOCKET_INTERRUPTED, None, s1) \<and> rd_inv socket D T ?H s1 0
        \<and> length (k_rx s1 socket) < length (k_rx s socket)"
    then have "?more s1" using ci by (simp add: packet_read_def)
    then show ?thesis by blast
  next
    assume a: "Socket_getch s socket = Some (TCPSOCKET_COMPLETE, Some h, s1) \<and> rd_inv socket D T ?H s1 1
        \<and> length (k_rx s1 socket) \<le> length (k_rx s socket)"
    then have inv1: "rd_inv socket D T ?H s1 1" by blast
    have "lies_at ?H 1 (vbi (length D))" by (simp add: lies_at_def)
    from sock.decode_vbi[OF D inv1 this] obtain s2 where
      "(MQTTPacket_decode (\<lambda>s. Socket_getch s socket) s1 = Some (TCPSOCKET_COMPLETE, length D, s2)
         \<and> rd_inv socket D T ?H s2 (length ?H) \<and> length (k_rx s2 socket) \<le> length (k_rx s1 socket))
       \<or> (\<exists>u. MQTTPacket_decode (\<lambda>s. Socket_getch s socket) s1 = Some (TCPSOCKET_INTERRUPTED, u, s2)
         \<and> rd_inv socket D T ?H s2 0 \<and> length (k_rx s2 socket) < length (k_rx s1 socket))" by auto
    then show ?thesis
    proof
      assume "\<exists>u. MQTTPacket_decode (\<lambda>s. Socket_getch s socket) s1 = Some (TCPSOCKET_INTERRUPTED, u, s2)
         \<and> rd_inv socket D T ?H s2 0 \<and> length (k_rx s2 socket) < length (k_rx s1 socket)"
      then have "?more s2" using a ci by (auto simp: packet_read_def)
      then show ?thesis by blast
    next
      assume b: "MQTTPacket_decode (\<lambda>s. Socket_getch s socket) s1 = Some (TCPSOCKET_COMPLETE, length D, s2)
         \<and> rd_inv socket D T ?H s2 (length ?H) \<and> length (k_rx s2 socket) \<le> length (k_rx s1 socket)"
      then have inv2: "rd_inv socket D T ?H s2 (length ?H)" by blast
      from getdata_inv[OF inv2] obtain d alen s3 where g: "Socket_getdata s2 socket (length D) 0 = Some (Some d, alen, s3)"
        "(alen = length D \<and> (D = [] \<or> d = D) \<and> rd_ready socket T s3 \<and> length (k_rx s3 socket) \<le> length (k_rx s2 socket))
         \<or> (alen < length D \<and> rd_inv socket D T ?H s3 0 \<and> length (k_rx s3 socket) < length (k_rx s2 socket))" by auto
      have r: "packet_read ?tp socket s = Some (TCPSOCKET_COMPLETE, Some (h, length D, d, alen), s3)"
        using a b g(1) by (simp add: packet_read_def)
      from g(2) show ?thesis
      proof
        assume "alen = length D \<and> (D = [] \<or> d = D) \<and> rd_ready socket T s3
          \<and> length (k_rx s3 socket) \<le> length (k_rx s2 socket)"
        then have "?done s3" using r a b by auto
        then show ?thesis by blast
      next
        assume "alen < length D \<and> rd_inv socket D T ?H s3 0 \<and> length (k_rx s3 socket) < length (k_rx s2 socket)"
        then have "?more s3" using r a b by auto
        then show ?thesis by blast
      qed
    qed
  qed
qed

text \<open>
  Reading over and over, as the client does whenever the socket is ready: at most \<open>n\<close> calls,
  the packets that were complete, in the order in which they came.
\<close>

fun read_packets :: "'w transport \<Rightarrow> int \<Rightarrow> nat \<Rightarrow> 'w \<Rightarrow> ((byte \<times> byte list) list \<times> 'w) option" where
  "read_packets tp socket 0 w = Some ([], w)"
| "read_packets tp socket (Suc n) w = do {
     (error, r, w1) \<leftarrow> packet_read tp socket w;
     (case r of
        None \<Rightarrow> if error = TCPSOCKET_INTERRUPTED then read_packets tp socket n w1 else Some ([], w1)
      | Some (h, len, d, alen) \<Rightarrow>
          if alen < len then read_packets tp socket n w1
          else do {
            (ps, w2) \<leftarrow> read_packets tp socket n w1;
            Some ((h, take len d) # ps, w2)
          })
   }"

lemma length_packet_header: "length D < 268435456 \<Longrightarrow> length (h # vbi (length D)) \<le> 5"
  using length_vbi[of "length D"] by simp

text \<open>All of \<open>ps\<close> is read, in at most \<open>N\<close> calls, and nothing is left.\<close>

definition reads :: "'w transport \<Rightarrow> ('w \<Rightarrow> bool) \<Rightarrow> int \<Rightarrow> nat \<Rightarrow> (byte \<times> byte list) list \<Rightarrow> 'w \<Rightarrow> bool" where
  "reads tp fin socket N ps w \<longleftrightarrow> (\<exists>n w'. n \<le> N \<and> read_packets tp socket n w = Some (ps, w') \<and> fin w')"

lemma reads_Nil: "fin w \<Longrightarrow> reads tp fin socket N [] w"
  unfolding reads_def by (intro exI[of _ 0] exI[of _ w]) simp

lemma reads_again:
  assumes "packet_read tp socket w = Some (error, r, w1)" "reads tp fin socket N ps w1"
    "r = None \<and> error = TCPSOCKET_INTERRUPTED \<or> (\<exists>h len d alen. r = Some (h, len, d, alen) \<and> alen < len)"
  shows "reads tp fin socket (Suc N) ps w"
proof -
  from assms(2) obtain n w' where "n \<le> N" "read_packets tp socket n w1 = Some (ps, w')" "fin w'"
    unfolding reads_def by blast
  then show ?thesis unfolding reads_def using assms(1,3) by (intro exI[of _ "Suc n"] exI[of _ w']) auto
qed

lemma reads_packet:
  assumes "packet_read tp socket w = Some (TCPSOCKET_COMPLETE, Some (h, length D, d, length D), w1)"
    "D = [] \<or> d = D" "reads tp fin socket N ps w1"
  shows "reads tp fin socket (Suc N) ((h, D) # ps) w"
proof -
  from assms(3) obtain n w' where "n \<le> N" "read_packets tp socket n w1 = Some (ps, w')" "fin w'"
    unfolding reads_def by blast
  then show ?thesis unfolding reads_def using assms(1,2) by (intro exI[of _ "Suc n"] exI[of _ w']) auto
qed

lemma reads_mono: "reads tp fin socket N ps w \<Longrightarrow> N \<le> N' \<Longrightarrow> reads tp fin socket N' ps w"
  unfolding reads_def by (meson order_trans)

lemma read_one:
  assumes "rd_inv socket D T (h # vbi (length D)) s 0" "length D < 268435456"
    "\<And>s'. rd_ready socket T s' \<Longrightarrow> reads (socket_transport put now) fin socket (M + length (k_rx s' socket)) ps s'"
  shows "reads (socket_transport put now) fin socket (Suc M + length (k_rx s socket)) ((h, D) # ps) s"
  using assms(1)
proof (induction "length (k_rx s socket)" arbitrary: s rule: less_induct)
  case less
  from packet_read_step[OF less.prems assms(2), of put now]
  consider (whole) s1 d where "packet_read (socket_transport put now) socket s
        = Some (TCPSOCKET_COMPLETE, Some (h, length D, d, length D), s1)" "D = [] \<or> d = D"
      "rd_ready socket T s1" "length (k_rx s1 socket) \<le> length (k_rx s socket)"
    | (none) s1 where "packet_read (socket_transport put now) socket s = Some (TCPSOCKET_INTERRUPTED, None, s1)"
      "rd_inv socket D T (h # vbi (length D)) s1 0" "length (k_rx s1 socket) < length (k_rx s socket)"
    | (part) s1 error d alen where "packet_read (socket_transport put now) socket s
        = Some (error, Some (h, length D, d, alen), s1)" "alen < length D"
      "rd_inv socket D T (h # vbi (length D)) s1 0" "length (k_rx s1 socket) < length (k_rx s socket)"
    by blast
  then show ?case
  proof cases
    case whole
    from reads_packet[OF whole(1,2) assms(3)[OF whole(3)]] show ?thesis
      by (rule reads_mono) (use whole(4) in simp)
  next
    case none
    have "reads (socket_transport put now) fin socket (Suc (Suc M + length (k_rx s1 socket))) ((h, D) # ps) s"
      by (rule reads_again[OF none(1) less.hyps[OF none(3,2)]]) simp
    then show ?thesis by (rule reads_mono) (use none(3) in simp)
  next
    case part
    have "reads (socket_transport put now) fin socket (Suc (Suc M + length (k_rx s1 socket))) ((h, D) # ps) s"
      by (rule reads_again[OF part(1) less.hyps[OF part(4,3)]]) (use part(2) in simp)
    then show ?thesis by (rule reads_mono) (use part(4) in simp)
  qed
qed

lemma read_all:
  "rd_ready socket (concat (map (\<lambda>(h, D). packet_bytes h D) ps)) s \<Longrightarrow>
   list_all (\<lambda>(h, D). length D < 268435456) ps \<Longrightarrow>
   reads (socket_transport put now) (rd_ready socket []) socket (length ps + length (k_rx s socket)) ps s"
proof (induction ps arbitrary: s)
  case Nil
  then show ?case by (simp add: reads_Nil)
next
  case (Cons p ps)
  obtain h D where p: "p = (h, D)" by (cases p)
  let ?T = "concat (map (\<lambda>(h, D). packet_bytes h D) ps)"
  have D: "length D < 268435456" using Cons.prems(2) p by simp
  have "rd_inv socket D ?T (h # vbi (length D)) s 0"
    using rd_ready_inv[OF _ length_packet_header[OF D], of socket h D ?T s] Cons.prems(1) p
    by (simp add: packet_bytes_def)
  from read_one[OF this D, where put = put and now = now and fin = "rd_ready socket []" and M = "length ps" and ps = ps]
  show ?case using Cons.IH Cons.prems(2) p by simp
qed

text \<open>
  The bytes of the packets have arrived at the socket, cut into pieces anywhere and with any
  pauses; the buffer is as after its initialisation.
\<close>

definition arrived :: "int \<Rightarrow> rx_event list \<Rightarrow> (byte \<times> byte list) list \<Rightarrow> sock_state \<Rightarrow> bool" where
  "arrived socket evs ps s \<longleftrightarrow> (\<exists>m. s = fresh_state\<lparr>s_mem := m, k_rx := (\<lambda>_. [])(socket := evs)\<rparr> \<and> list_all (\<lambda>b. b) m)
     \<and> list_all rx_good evs
     \<and> rx_bytes evs = concat (map (\<lambda>(h, D). packet_bytes h D) ps)"

subsection \<open>Property\<close>

text \<open>
  C4: packets arrive whole and in order, however the network cuts the stream. When the bytes of
  the packets \<open>ps\<close> reach a socket in pieces of any sizes, with the socket not ready at any points
  between them, repeated calls of the reading part of \<open>MQTTPacket_Factory\<close>, at most one for each
  packet and each event of the network, return exactly the packets, each with its header and
  its data, and leave nothing behind in the buffers. Memory does not run out.
\<close>

theorem packets_delivered:
  assumes "arrived socket evs ps s" and "0 < socket" and "list_all (\<lambda>(h, D). length D < 268435456) ps"
  shows "\<exists>n s'. n \<le> length ps + length evs
    \<and> read_packets (socket_transport put now) socket n s = Some (ps, s')
    \<and> rx_bytes (k_rx s' socket) = [] \<and> find_queue s' socket = None"
proof -
  from assms(1) obtain m where s: "s = fresh_state\<lparr>s_mem := m, k_rx := (\<lambda>_. [])(socket := evs)\<rparr>" "list_all (\<lambda>b. b) m" "list_all rx_good evs"
    and evs: "rx_bytes evs = concat (map (\<lambda>(h, D). packet_bytes h D) ps)" unfolding arrived_def by blast
  have "rd_ready socket (concat (map (\<lambda>(h, D). packet_bytes h D) ps)) s"
    using s evs assms(2) by (auto simp: rd_ready_def rd_base_def fresh_state_def find_queue_eq)
  from read_all[OF this assms(3), of put now] obtain n s' where "n \<le> length ps + length evs"
    "read_packets (socket_transport put now) socket n s = Some (ps, s')" "rd_ready socket [] s'"
    by (auto simp: reads_def s(1))
  then show ?thesis by (auto simp: rd_ready_def)
qed

theorem packets_delivered_witness:
  "\<exists>n s'. read_packets (socket_transport (\<lambda>_ _ _ _ _ _ _ s. (0, s)) (\<lambda>_. 0)) 4 n
      (fresh_state\<lparr>k_rx := (\<lambda>_. [])(4 := [Arrive [64, 2], RxBlock, Arrive [0], Arrive [7, 208, 0]])\<rparr>)
    = Some ([(64, [0, 7]), (208, [])], s')"
proof -
  have "arrived 4 [Arrive [64, 2], RxBlock, Arrive [0], Arrive [7, 208, 0]] [(64, [0, 7]), (208, [])]
    (fresh_state\<lparr>k_rx := (\<lambda>_. [])(4 := [Arrive [64, 2], RxBlock, Arrive [0], Arrive [7, 208, 0]])\<rparr>)"
    unfolding arrived_def by (auto simp: packet_bytes_def vbi.simps fresh_state_def rx_good_def)
  from packets_delivered[OF this, of "\<lambda>_ _ _ _ _ _ _ s. (0, s)" "\<lambda>_. 0"] show ?thesis by auto
qed

end
