(* ===== verification/Packet_Props.thy ===== *)
theory Packet_Props
  imports Packet_IO
begin

text \<open>
  Properties of packets: what is sent is what is read, the buffers of the packets are filled
  exactly, and the short packets on which fields are used that were never set.
\<close>

subsection \<open>Sending to a kernel that takes everything\<close>

definition sends_all :: "int \<Rightarrow> sock_state \<Rightarrow> bool" where
  "sends_all socket s \<longleftrightarrow> list_all (\<lambda>b. b) (s_mem s) \<and> Socket_noPendingWrites s socket \<and> k_tx s socket = []"

lemma putdatas_all:
  assumes "Socket_noPendingWrites s socket" "k_tx s socket = []"
  shows "Socket_putdatas s socket b0 bufs frees = (TCPSOCKET_COMPLETE,
    s\<lparr>k_sent := (k_sent s)(socket := k_sent s socket @ b0 @ concat bufs)\<rparr>)"
proof -
  have "(k_tx s)(socket := []) = k_tx s" using assms(2) by auto
  then show ?thesis
    using assms by (simp add: Socket_putdatas_def Socket_writev_def writev_def rc_defs Let_def length_concat)
qed

lemma tp_malloc_all:
  assumes "sends_all socket s"
  shows "\<exists>m. tp_malloc (socket_transport put now) s = (True, s\<lparr>s_mem := m\<rparr>) \<and> sends_all socket (s\<lparr>s_mem := m\<rparr>)"
  using assms malloc_all_ok[of "s_mem s"]
  by (cases "malloc (s_mem s)") (auto simp: tp_malloc_def sends_all_def Socket_noPendingWrites_def)

text \<open>Storing a packet leaves the sockets alone.\<close>

definition keeps_sockets :: "(int \<Rightarrow> byte list \<Rightarrow> byte list list \<Rightarrow> nat \<Rightarrow> int \<Rightarrow> bool \<Rightarrow> int \<Rightarrow> sock_state \<Rightarrow> int \<times> sock_state) \<Rightarrow> bool" where
  "keeps_sockets put \<longleftrightarrow> (\<forall>socket b bs t i r v s. snd (put socket b bs t i r v s) = s)"

lemma keeps_socketsD: "keeps_sockets put \<Longrightarrow> snd (put socket b bs t i r v s) = s"
  by (simp add: keeps_sockets_def)

definition sent_more :: "int \<Rightarrow> byte list \<Rightarrow> sock_state \<Rightarrow> sock_state \<Rightarrow> bool" where
  "sent_more socket bytes s s' \<longleftrightarrow> k_sent s' = (k_sent s)(socket := k_sent s socket @ bytes) \<and> sends_all socket s'"

lemma sent_more_mem: "sent_more socket bytes (s\<lparr>s_mem := m\<rparr>) s' = sent_more socket bytes s s'"
  by (simp add: sent_more_def)

lemma send_all:
  assumes "sends_all (nt_socket net) s" "keeps_sockets put" "hd_type header = PUBREL \<longrightarrow> readInt buffer 0 \<noteq> None"
  shows "\<exists>net' s'. MQTTPacket_send (socket_transport put now) net s header buffer freeData v
      = Some (TCPSOCKET_COMPLETE, net', s') \<and> sent_more (nt_socket net) (packet_bytes (header_byte header) buffer) s s'"
proof -
  from tp_malloc_all[OF assms(1)] obtain m where m: "tp_malloc (socket_transport put now) s = (True, s\<lparr>s_mem := m\<rparr>)"
    "sends_all (nt_socket net) (s\<lparr>s_mem := m\<rparr>)" by blast
  define s1 where "s1 = s\<lparr>s_mem := m\<rparr>"
  have s1: "Socket_noPendingWrites s1 (nt_socket net)" "k_tx s1 (nt_socket net) = []" "k_sent s1 = k_sent s"
    using m(2) by (simp_all add: s1_def sends_all_def)
  have more: "sends_all (nt_socket net) (s1\<lparr>k_sent := f\<rparr>)" for f
    using m(2) by (simp add: s1_def sends_all_def Socket_noPendingWrites_def)
  show ?thesis
    using assms(3) m(1) s1(3) more keeps_socketsD[OF assms(2)]
    by (auto simp: MQTTPacket_send_def putdatas_all[OF s1(1,2)] sent_more_def packet_bytes_def MQTTPacket_encode_eq
        Let_def case_prod_beta simp flip: s1_def)
qed

lemma sends_several:
  assumes "sends_all (nt_socket net) s" "keeps_sockets put"
    "hd_type header = PUBLISH \<and> hd_qos header \<noteq> 0 \<longrightarrow> 2 < length buffers \<and> readInt (buffers ! 2) 0 \<noteq> None"
  shows "\<exists>net' s'. MQTTPacket_sends (socket_transport put now) net s header buffers frees v
      = Some (TCPSOCKET_COMPLETE, net', s') \<and> sent_more (nt_socket net) (packet_bytes (header_byte header) (concat buffers)) s s'"
proof -
  from tp_malloc_all[OF assms(1)] obtain m where m: "tp_malloc (socket_transport put now) s = (True, s\<lparr>s_mem := m\<rparr>)"
    "sends_all (nt_socket net) (s\<lparr>s_mem := m\<rparr>)" by blast
  define s1 where "s1 = s\<lparr>s_mem := m\<rparr>"
  have s1: "Socket_noPendingWrites s1 (nt_socket net)" "k_tx s1 (nt_socket net) = []" "k_sent s1 = k_sent s"
    using m(2) by (simp_all add: s1_def sends_all_def)
  have more: "sends_all (nt_socket net) (s1\<lparr>k_sent := f\<rparr>)" for f
    using m(2) by (simp add: s1_def sends_all_def Socket_noPendingWrites_def)
  show ?thesis
    using assms(3) m(1) s1(3) more keeps_socketsD[OF assms(2)]
    by (auto simp: MQTTPacket_sends_def putdatas_all[OF s1(1,2)] sent_more_def packet_bytes_def MQTTPacket_encode_eq
        Let_def case_prod_beta length_concat nth_opt_def simp flip: s1_def)
qed

subsection \<open>Acknowledgements\<close>

lemma send_ack_bytes:
  assumes "sends_all (nt_socket net) s" "keeps_sockets put" "0 \<le> msgid"
  shows "\<exists>net' s'. MQTTPacket_send_ack (socket_transport put now) v type msgid dup net s = Some (TCPSOCKET_COMPLETE, net', s')
    \<and> sent_more (nt_socket net) (packet_bytes (header_byte
        (if type = PUBREL then Header_zero\<lparr>hd_type := type, hd_dup := dup mod 2, hd_qos := 1\<rparr>
         else Header_zero\<lparr>hd_type := type, hd_dup := dup mod 2\<rparr>)) (writeInt msgid)) s s'"
proof -
  from tp_malloc_all[OF assms(1)] obtain m where m: "tp_malloc (socket_transport put now) s = (True, s\<lparr>s_mem := m\<rparr>)"
    "sends_all (nt_socket net) (s\<lparr>s_mem := m\<rparr>)" by blast
  have r: "readInt (writeInt msgid) 0 \<noteq> None" by (simp add: readInt_def writeInt_def)
  show ?thesis
    using send_all[OF m(2) assms(2), of _ "writeInt msgid"] r m(1)
    by (simp add: MQTTPacket_send_ack_def filled_def sent_more_mem)
qed

lemma readInt_writeInt: "0 \<le> i \<Longrightarrow> i < 65536 \<Longrightarrow> readInt (writeInt i @ xs) 0 = Some (i, 2)"
  using int_codec.dec_enc[of i "writeInt i @ xs" 0 2] by simp

lemma parse_ack:
  assumes "0 \<le> msgid" "msgid < 65536" "hd_type (header_bits h) \<noteq> DISCONNECT" "fst (malloc m)"
  shows "\<exists>m'. MQTTPacket_ack m v h (writeInt msgid) 2 = Some (Some (PAck \<lparr>ak_header = header_bits h, ak_msgId = Some msgid,
    ak_rc = (if v \<ge> 5 then Some 0 else None), ak_MQTTVersion = v,
    ak_properties = (if v \<ge> 5 then Some MQTTProperties_initializer else None)\<rparr>), m')"
  using assms readInt_writeInt[of msgid "[]"] by (cases "malloc m") (auto simp: MQTTPacket_ack_def Let_def)

text \<open>
  C14: acknowledgements arrive as they were sent. \<open>MQTTPacket_send_puback\<close>, \<open>_pubrec\<close>, \<open>_pubrel\<close> and
  \<open>_pubcomp\<close> put exactly one packet on the wire when the kernel takes everything, whatever the
  version of the protocol, and \<open>MQTTPacket_ack\<close> makes of its header byte and data an
  acknowledgement of the same type with the same message id (for MQTT 5 with the reason code 0
  and no properties); a PUBREL carries QoS 1 and its DUP flag.
\<close>

theorem acks_roundtrip:
  assumes "sends_all (nt_socket net) s" and "keeps_sockets put" and "0 \<le> msgid \<and> msgid < 65536"
    and "(send, type, dup) \<in> {(MQTTPacket_send_puback tp v msgid, PUBACK, 0), (MQTTPacket_send_pubrec tp v msgid, PUBREC, 0),
      (MQTTPacket_send_pubrel tp v msgid d, PUBREL, d), (MQTTPacket_send_pubcomp tp v msgid, PUBCOMP, 0)}"
    and "tp = socket_transport put now"
  shows "\<exists>net' s' h D m' a. send net s = Some (TCPSOCKET_COMPLETE, net', s')
    \<and> k_sent s' (nt_socket net) = k_sent s (nt_socket net) @ packet_bytes h D
    \<and> new_packets ! hd_type (header_bits h) = Some MQTTPacket_ack
    \<and> MQTTPacket_ack [] v h D (length D) = Some (Some (PAck a), m')
    \<and> hd_type (ak_header a) = type \<and> hd_dup (ak_header a) = dup mod 2 \<and> hd_qos (ak_header a) = (if type = PUBREL then 1 else 0)
    \<and> ak_msgId a = Some msgid \<and> ak_rc a = (if v \<ge> 5 then Some 0 else None)"
proof -
  define header where "header = (if type = PUBREL then Header_zero\<lparr>hd_type := type, hd_dup := dup mod 2, hd_qos := 1\<rparr>
         else Header_zero\<lparr>hd_type := type, hd_dup := dup mod 2\<rparr>)"
  have t: "type \<in> {PUBACK, PUBREC, PUBREL, PUBCOMP}" using assms(4) by auto
  have bits: "hd_type (header_bits (header_byte header)) = type" "hd_dup (header_bits (header_byte header)) = dup mod 2"
    "hd_qos (header_bits (header_byte header)) = (if type = PUBREL then 1 else 0)"
    using t by (auto simp: header_bits_byte header_def Header_zero_def)
  have "send net s = MQTTPacket_send_ack (socket_transport put now) v type msgid dup net s"
    using assms(4,5) by (auto simp: MQTTPacket_send_puback_def MQTTPacket_send_pubrec_def MQTTPacket_send_pubrel_def
        MQTTPacket_send_pubcomp_def)
  with send_ack_bytes[OF assms(1,2), of msgid now v type dup] assms(3) obtain net' s' where
    s': "send net s = Some (TCPSOCKET_COMPLETE, net', s')"
      "sent_more (nt_socket net) (packet_bytes (header_byte header) (writeInt msgid)) s s'" by (auto simp: header_def)
  have p: "new_packets ! type = Some MQTTPacket_ack" "type \<noteq> DISCONNECT" using t by (auto simp: new_packets_def)
  with parse_ack[of msgid "header_byte header" "[]" v] assms(3) bits(1) obtain m' where
    "MQTTPacket_ack [] v (header_byte header) (writeInt msgid) 2 = Some (Some (PAck \<lparr>ak_header = header_bits (header_byte header),
      ak_msgId = Some msgid, ak_rc = (if v \<ge> 5 then Some 0 else None), ak_MQTTVersion = v,
      ak_properties = (if v \<ge> 5 then Some MQTTProperties_initializer else None)\<rparr>), m')" by auto
  then show ?thesis
    using s' bits p(1) by (intro exI[of _ net'] exI[of _ s'] exI[of _ "header_byte header"] exI[of _ "writeInt msgid"]
        exI[of _ m'] exI conjI) (auto simp: sent_more_def)
qed

theorem acks_roundtrip_witness:
  "\<exists>net' s' h D. MQTTPacket_send_pubrel (socket_transport (\<lambda>_ _ _ _ _ _ _ s. (0, s)) (\<lambda>_. 0)) 4 258 1
      \<lparr>nt_socket = 4, nt_lastSent = 0, nt_lastReceived = 0, nt_lastPing = 0\<rparr> fresh_state = Some (TCPSOCKET_COMPLETE, net', s')
    \<and> k_sent s' 4 = packet_bytes h D
    \<and> (\<exists>a m'. MQTTPacket_ack [] 4 h D (length D) = Some (Some (PAck a), m') \<and> hd_type (ak_header a) = PUBREL \<and> ak_msgId a = Some 258)"
proof -
  let ?net = "\<lparr>nt_socket = 4, nt_lastSent = 0, nt_lastReceived = 0, nt_lastPing = 0\<rparr>"
  let ?put = "\<lambda>_ _ _ _ _ _ _ s. (0, s)"
  have "sends_all (nt_socket ?net) fresh_state" "keeps_sockets ?put" "(0 :: int) \<le> 258 \<and> 258 < (65536 :: int)"
    by (simp_all add: sends_all_def fresh_state_def Socket_noPendingWrites_def keeps_sockets_def)
  from acks_roundtrip[OF this, of "MQTTPacket_send_pubrel (socket_transport ?put (\<lambda>_. 0)) 4 258 1" PUBREL 1
      "socket_transport ?put (\<lambda>_. 0)" 4 1 "\<lambda>_. 0"]
  show ?thesis by (simp add: fresh_state_def) blast
qed

subsection \<open>Publications\<close>

text \<open>A publication as a client sends it; the message id matters from QoS 1 on, the properties for MQTT 5.\<close>

definition publish_ok :: "Publish \<Rightarrow> byte list \<Rightarrow> nat \<Rightarrow> bool" where
  "publish_ok pack topic qos \<longleftrightarrow> pb_topic pack = Some topic \<and> length topic < 65536
     \<and> pb_payloadlen pack = int (length (pb_payload pack)) \<and> length (pb_payload pack) < 134217728
     \<and> (0 < qos \<longrightarrow> 0 \<le> pb_msgId pack \<and> pb_msgId pack < 65536) \<and> qos < 4
     \<and> (5 \<le> pb_MQTTVersion pack \<longrightarrow> props_ok (pb_properties pack) \<and> pl_length (pb_properties pack) < 67108864)"

definition id_bytes :: "nat \<Rightarrow> Publish \<Rightarrow> byte list" where
  "id_bytes qos pack = (if 0 < qos then writeInt (pb_msgId pack) else [])"

definition properties_bytes :: "int \<Rightarrow> MQTTProperties \<Rightarrow> byte list" where
  "properties_bytes v props = (if 5 \<le> v then vbi (nat (pl_length props)) @ props_bytes (props_list props) else [])"

definition publish_body :: "Publish \<Rightarrow> byte list \<Rightarrow> nat \<Rightarrow> byte list" where
  "publish_body pack topic qos = len_bytes topic @ id_bytes qos pack
     @ properties_bytes (pb_MQTTVersion pack) (pb_properties pack) @ pb_payload pack"

definition publish_header :: "nat \<Rightarrow> nat \<Rightarrow> nat \<Rightarrow> Header" where
  "publish_header dup qos retained = \<lparr>hd_type = PUBLISH, hd_dup = dup mod 2, hd_qos = qos mod 4, hd_retain = retained mod 2\<rparr>"

lemma publish_len: "props_ok props \<Longrightarrow> MQTTProperties_len (Some props) = int (length (properties_bytes 5 props))"
  using VBIlen_length_vbi[of "pl_length props"]
  by (auto simp: props_ok_def MQTTProperties_len_def properties_bytes_def)

lemma send_publish_bytes:
  assumes "sends_all (nt_socket net) s" "keeps_sockets put" "publish_ok pack topic qos"
  shows "\<exists>net' s'. MQTTPacket_send_publish (socket_transport put now) pack dup qos retained net s
      = Some (TCPSOCKET_COMPLETE, net', s')
    \<and> sent_more (nt_socket net) (packet_bytes (header_byte (publish_header dup qos retained)) (publish_body pack topic qos)) s s'"
proof -
  from tp_malloc_all[OF assms(1)] obtain m where m: "tp_malloc (socket_transport put now) s = (True, s\<lparr>s_mem := m\<rparr>)"
    "sends_all (nt_socket net) (s\<lparr>s_mem := m\<rparr>)" by blast
  define s1 where "s1 = s\<lparr>s_mem := m\<rparr>"
  from tp_malloc_all[OF m(2)] obtain m2 where m2: "tp_malloc (socket_transport put now) s1 = (True, s\<lparr>s_mem := m2\<rparr>)"
    "sends_all (nt_socket net) (s\<lparr>s_mem := m2\<rparr>)" by (auto simp: s1_def)
  define s2 where "s2 = s\<lparr>s_mem := m2\<rparr>"
  have ok: "pb_topic pack = Some topic" "length topic < 65536" "qos mod 4 = qos"
    "memcpy (pb_payload pack) (pb_payloadlen pack) = Some (pb_payload pack)"
    using assms(3) by (auto simp: publish_ok_def memcpy_def)
  have tl: "writeInt (to_int32 (int (length topic))) @ topic = len_bytes topic"
    using ok(2) by (simp add: to_int32_nat len_bytes_def)
  have pw: "MQTTProperties_write (Some (pb_properties pack))
      = Some (1 + pl_length (pb_properties pack), properties_bytes 5 (pb_properties pack))"
    "MQTTProperties_len (Some (pb_properties pack)) = int (length (properties_bytes 5 (pb_properties pack)))"
    if "5 \<le> pb_MQTTVersion pack"
    using assms(3) that MQTTProperties_write_ok[of "pb_properties pack"] publish_len[of "pb_properties pack"]
    by (auto simp: publish_ok_def properties_bytes_def)
  have read: "readInt (writeInt i @ xs) 0 \<noteq> None" for i xs by (simp add: readInt_def writeInt_def)
  show ?thesis
  proof (cases "0 < qos \<or> 5 \<le> pb_MQTTVersion pack")
    case True
    let ?bufs = "[writeInt (to_int32 (int (length topic))), topic, id_bytes qos pack
      @ properties_bytes (pb_MQTTVersion pack) (pb_properties pack), pb_payload pack]"
    from sends_several[OF m2(2) assms(2), of "publish_header dup qos retained" ?bufs now "[True, False, True, False]" "pb_MQTTVersion pack"]
    obtain net' s' where s': "MQTTPacket_sends (socket_transport put now) net s2 (publish_header dup qos retained) ?bufs
        [True, False, True, False] (pb_MQTTVersion pack) = Some (TCPSOCKET_COMPLETE, net', s')"
      "sent_more (nt_socket net) (packet_bytes (header_byte (publish_header dup qos retained)) (concat ?bufs)) s2 s'"
      using read ok(3) by (auto simp: publish_header_def id_bytes_def s2_def)
    have "concat ?bufs = publish_body pack topic qos" using tl by (simp add: publish_body_def)
    moreover have "MQTTPacket_send_publish (socket_transport put now) pack dup qos retained net s
      = MQTTPacket_sends (socket_transport put now) net s2 (publish_header dup qos retained) ?bufs
        [True, False, True, False] (pb_MQTTVersion pack)"
      using True ok m(1) m2(1) pw
      by (auto simp: MQTTPacket_send_publish_def filled_def Let_def publish_header_def id_bytes_def properties_bytes_def
          simp flip: s1_def s2_def)
    ultimately show ?thesis using s' by (simp add: s2_def sent_more_mem)
  next
    case False
    let ?bufs = "[writeInt (to_int32 (int (length topic))), topic, pb_payload pack]"
    from sends_several[OF m(2) assms(2), of "publish_header dup qos retained" ?bufs now "[True, False, False]" "pb_MQTTVersion pack"]
    obtain net' s' where s': "MQTTPacket_sends (socket_transport put now) net s1 (publish_header dup qos retained) ?bufs
        [True, False, False] (pb_MQTTVersion pack) = Some (TCPSOCKET_COMPLETE, net', s')"
      "sent_more (nt_socket net) (packet_bytes (header_byte (publish_header dup qos retained)) (concat ?bufs)) s1 s'"
      using False by (auto simp: publish_header_def s1_def)
    have "concat ?bufs = publish_body pack topic qos"
      using tl False by (simp add: publish_body_def id_bytes_def properties_bytes_def)
    moreover have "MQTTPacket_send_publish (socket_transport put now) pack dup qos retained net s
      = MQTTPacket_sends (socket_transport put now) net s1 (publish_header dup qos retained) ?bufs
        [True, False, False] (pb_MQTTVersion pack)"
      using False ok m(1) by (simp add: MQTTPacket_send_publish_def filled_def Let_def publish_header_def flip: s1_def)
    ultimately show ?thesis using s' by (simp add: s1_def sent_more_mem)
  qed
qed

lemma parse_properties:
  assumes "5 \<le> v \<longrightarrow> props_ok props" "lies_at bs p (properties_bytes v props)" "p + length (properties_bytes v props) \<le> e"
    "list_all (\<lambda>b. b) m"
  shows "\<exists>props' m'. (if v \<ge> 5 then do {
        (rc, props, p3, m3) \<leftarrow> MQTTProperties_read m MQTTProperties_initializer bs p e;
        Some (rc \<noteq> 1, props, p3, m3)
      } else Some (False, MQTTProperties_initializer, p, m)) = Some (False, props', p + length (properties_bytes v props), m')
    \<and> props_list props' = (if v \<ge> 5 then props_list props else [])"
proof (cases "5 \<le> v")
  case True
  let ?ps = "props_list props"
  have n: "nat (pl_length props) = length (props_bytes ?ps)" "list_all prop_ok ?ps" "length (props_bytes ?ps) < 268435456"
    using assms(1) True by (auto simp: props_ok_def)
  obtain k where k: "e = p + length (properties_bytes v props) + k" using assms(3) le_Suc_ex by blast
  from MQTTProperties_read_ok[OF n(2,3) assms(4), of bs p e k] assms(2) True n(1) k show ?thesis
    by (auto simp: properties_bytes_def add.assoc)
qed (simp add: properties_bytes_def)

text \<open>What the receiver makes of it.\<close>

definition received_as :: "Publish \<Rightarrow> byte list \<Rightarrow> nat \<Rightarrow> nat \<Rightarrow> nat \<Rightarrow> Publish \<Rightarrow> bool" where
  "received_as pack topic dup qos retained p \<longleftrightarrow> pb_topic p = Some topic \<and> pb_topiclen p = int (length topic)
     \<and> pb_payload p = pb_payload pack \<and> pb_payloadlen p = pb_payloadlen pack
     \<and> pb_msgId p = (if 0 < qos then pb_msgId pack else 0)
     \<and> pb_header p = \<lparr>hd_type = PUBLISH, hd_dup = dup mod 2, hd_qos = qos, hd_retain = retained mod 2\<rparr>
     \<and> pb_MQTTVersion p = pb_MQTTVersion pack
     \<and> props_list (pb_properties p) = (if 5 \<le> pb_MQTTVersion pack then props_list (pb_properties pack) else [])"

lemma publish_lengths:
  assumes "publish_ok pack topic qos"
  shows "length (id_bytes qos pack) = (if 0 < qos then 2 else 0)"
    "length (properties_bytes (pb_MQTTVersion pack) (pb_properties pack)) < 67108864 + 5"
    "length (publish_body pack topic qos) < 268435456"
proof -
  show id: "length (id_bytes qos pack) = (if 0 < qos then 2 else 0)" by (simp add: id_bytes_def)
  have "length (vbi n) \<le> 4" if "n < 268435456" for n using that by (simp add: length_vbi)
  from this[of "nat (pl_length (pb_properties pack))"]
  show p: "length (properties_bytes (pb_MQTTVersion pack) (pb_properties pack)) < 67108864 + 5"
    using assms by (auto simp: properties_bytes_def publish_ok_def props_ok_def)
  then show "length (publish_body pack topic qos) < 268435456"
    using assms id by (auto simp: publish_body_def publish_ok_def)
qed

lemma parse_publish:
  assumes ok: "publish_ok pack topic qos" and m: "list_all (\<lambda>b. b) m"
  shows "\<exists>p m'. MQTTPacket_publish m (pb_MQTTVersion pack) (header_byte (publish_header dup qos retained))
      (publish_body pack topic qos) (length (publish_body pack topic qos)) = Some (Some (PPublish p), m')
    \<and> received_as pack topic dup qos retained p"
proof -
  let ?v = "pb_MQTTVersion pack" and ?B = "publish_body pack topic qos"
  let ?P = "properties_bytes ?v (pb_properties pack)"
  obtain m1 where m1: "malloc m = (True, m1)" "list_all (\<lambda>b. b) m1"
    using malloc_all_ok[OF m] by (cases "malloc m") auto
  obtain m2 where m2: "malloc m1 = (True, m2)" "list_all (\<lambda>b. b) m2"
    using malloc_all_ok[OF m1(2)] by (cases "malloc m1") auto
  have topic: "length topic < 65536" "pb_topic pack = Some topic" "qos mod 4 = qos" using ok by (auto simp: publish_ok_def)
  have "lies_at ?B 0 (len_bytes topic)" by (simp add: publish_body_def)
  from readUTFlen_len_bytes[OF topic(1) this, of "length ?B" m1]
  have r1: "readUTFlen m1 ?B 0 (length ?B) = Some (Some topic, Some (int (length topic)), length (len_bytes topic), m2)"
    using m2(1) by (simp add: publish_body_def)
  let ?q = "length (len_bytes topic) + length (id_bytes qos pack)"
  have bits: "header_bits (header_byte (publish_header dup qos retained))
      = \<lparr>hd_type = PUBLISH, hd_dup = dup mod 2, hd_qos = qos, hd_retain = retained mod 2\<rparr>"
    using topic(3) by (simp add: header_bits_byte publish_header_def)
  have r2: "(if 0 < qos then
               if int (length ?B) - int (length (len_bytes topic)) < 2 then Some (True, 0, length (len_bytes topic))
               else do { (i, p2) \<leftarrow> readInt ?B (length (len_bytes topic)); Some (False, i, p2) }
             else Some (False, 0, length (len_bytes topic))) = Some (False, if 0 < qos then pb_msgId pack else 0, ?q)"
  proof (cases "0 < qos")
    case True
    have "lies_at ?B (length (len_bytes topic)) (writeInt (pb_msgId pack))"
      using True lies_at_prefix[of "len_bytes topic" "writeInt (pb_msgId pack)" "?P @ pb_payload pack"]
      by (simp add: publish_body_def id_bytes_def)
    from int_codec.dec_enc[OF _ this, of "length ?B"] True ok show ?thesis
      by (auto simp: publish_ok_def publish_body_def id_bytes_def)
  qed (simp add: id_bytes_def)
  have "lies_at ?B ?q ?P"
    using lies_at_prefix[of "len_bytes topic @ id_bytes qos pack" ?P "pb_payload pack"] by (simp add: publish_body_def)
  moreover have "?q + length ?P \<le> length ?B" by (simp add: publish_body_def)
  moreover have "5 \<le> ?v \<longrightarrow> props_ok (pb_properties pack)" using ok by (auto simp: publish_ok_def)
  ultimately obtain props' m3 where r3: "(if ?v \<ge> 5 then do {
        (rc, props, p3, m3) \<leftarrow> MQTTProperties_read m2 MQTTProperties_initializer ?B ?q (length ?B);
        Some (rc \<noteq> 1, props, p3, m3)
      } else Some (False, MQTTProperties_initializer, ?q, m2)) = Some (False, props', ?q + length ?P, m3)"
    "props_list props' = (if ?v \<ge> 5 then props_list (pb_properties pack) else [])"
    using parse_properties m2(2) by blast
  have B: "length ?B = ?q + length ?P + length (pb_payload pack)" "drop (?q + length ?P) ?B = pb_payload pack"
    by (simp_all add: publish_body_def)
  have "to_int32 (int (length ?B) - int (?q + length ?P)) = int (length (pb_payload pack))"
    using B(1) ok by (simp add: to_int32_nat publish_ok_def)
  then have "MQTTPacket_publish m ?v (header_byte (publish_header dup qos retained)) ?B (length ?B)
    = Some (Some (PPublish \<lparr>pb_header = \<lparr>hd_type = PUBLISH, hd_dup = dup mod 2, hd_qos = qos, hd_retain = retained mod 2\<rparr>,
        pb_topic = Some topic, pb_topiclen = int (length topic), pb_msgId = if 0 < qos then pb_msgId pack else 0,
        pb_payload = pb_payload pack, pb_payloadlen = int (length (pb_payload pack)), pb_MQTTVersion = ?v,
        pb_properties = props'\<rparr>), m3)"
    by (simp only: MQTTPacket_publish_def Let_def m1(1) prod.case r1 bits Header.select_convs r2 r3(1) B(2)
        Option.bind.bind_lunit option.distinct simp_thms if_False if_True nat_int take_all order.refl)
  then show ?thesis using r3(2) ok by (simp add: received_as_def publish_ok_def)
qed

text \<open>
  C5: publications arrive as they were sent. When memory suffices and the kernel takes everything,
  \<open>MQTTPacket_send_publish\<close> puts exactly one packet of fewer than 2 to the 28 bytes on the wire, for
  every version of the protocol and every QoS, and \<open>MQTTPacket_publish\<close>, which
  \<open>MQTTPacket_Factory\<close> chooses by the header, makes of it a publication with the same topic,
  payload, flags, message id (from QoS 1 on) and properties (for MQTT 5).
\<close>

theorem publish_roundtrip:
  assumes "sends_all (nt_socket net) s" and "keeps_sockets put" and "publish_ok pack topic qos"
  shows "\<exists>net' s' h D p m'.
    MQTTPacket_send_publish (socket_transport put now) pack dup qos retained net s = Some (TCPSOCKET_COMPLETE, net', s')
    \<and> k_sent s' (nt_socket net) = k_sent s (nt_socket net) @ packet_bytes h D \<and> length D < 268435456
    \<and> new_packets ! hd_type (header_bits h) = Some MQTTPacket_publish
    \<and> MQTTPacket_publish [] (pb_MQTTVersion pack) h D (length D) = Some (Some (PPublish p), m')
    \<and> received_as pack topic dup qos retained p"
proof -
  let ?h = "header_byte (publish_header dup qos retained)"
  from send_publish_bytes[OF assms, of now dup retained] obtain net' s' where
    "MQTTPacket_send_publish (socket_transport put now) pack dup qos retained net s = Some (TCPSOCKET_COMPLETE, net', s')"
    "k_sent s' (nt_socket net) = k_sent s (nt_socket net) @ packet_bytes ?h (publish_body pack topic qos)"
    by (auto simp: sent_more_def)
  moreover have "new_packets ! hd_type (header_bits ?h) = Some MQTTPacket_publish"
    by (simp add: header_bits_byte publish_header_def new_packets_def)
  ultimately show ?thesis
    using parse_publish[OF assms(3), of "[]" dup retained] publish_lengths(3)[OF assms(3)] by auto
qed

definition example_publish :: Publish where
  "example_publish = \<lparr>pb_header = Header_zero, pb_topic = Some [97], pb_topiclen = 1, pb_msgId = 7, pb_payload = [1, 2],
     pb_payloadlen = 2, pb_MQTTVersion = 5, pb_properties = MQTTProperties_initializer\<rparr>"

theorem publish_roundtrip_witness:
  "\<exists>net' s' h D p m'. MQTTPacket_send_publish (socket_transport (\<lambda>_ _ _ _ _ _ _ s. (0, s)) (\<lambda>_. 0)) example_publish 0 1 0
      \<lparr>nt_socket = 4, nt_lastSent = 0, nt_lastReceived = 0, nt_lastPing = 0\<rparr> fresh_state = Some (TCPSOCKET_COMPLETE, net', s')
    \<and> k_sent s' 4 = packet_bytes h D \<and> MQTTPacket_publish [] 5 h D (length D) = Some (Some (PPublish p), m')
    \<and> pb_msgId p = 7 \<and> pb_payload p = [1, 2]"
proof -
  let ?net = "\<lparr>nt_socket = 4, nt_lastSent = 0, nt_lastReceived = 0, nt_lastPing = 0\<rparr>"
  let ?put = "\<lambda>_ _ _ _ _ _ _ s. (0, s)"
  have "sends_all (nt_socket ?net) fresh_state" "keeps_sockets ?put" "publish_ok example_publish [97] 1"
    by (simp_all add: sends_all_def fresh_state_def Socket_noPendingWrites_def keeps_sockets_def publish_ok_def
        example_publish_def props_ok_initializer)
      (simp add: MQTTProperties_initializer_def)
  from publish_roundtrip[OF this, of "\<lambda>_. 0" 0 0]
  show ?thesis by (simp add: fresh_state_def example_publish_def received_as_def) blast
qed

subsection \<open>The buffers of the other packets\<close>

text \<open>Properties as the senders of packets take them: none, or a list in order.\<close>

definition opt_props_ok :: "MQTTProperties option \<Rightarrow> bool" where
  "opt_props_ok props \<longleftrightarrow> (case props of None \<Rightarrow> True | Some p \<Rightarrow> props_ok p)"

lemma write_opt_props:
  assumes "opt_props_ok props"
  shows "\<exists>rc out. MQTTProperties_write props = Some (rc, out) \<and> int (length out) = MQTTProperties_len props"
proof (cases props)
  case None
  then show ?thesis by (simp add: MQTTProperties_write_def MQTTProperties_len_def MQTTPacket_encode_eq vbi.simps)
next
  case (Some p)
  then show ?thesis
    using assms MQTTProperties_write_ok[of p] publish_len[of p] by (simp add: opt_props_ok_def properties_bytes_def)
qed

lemma write_opt_props_if:
  "opt_props_ok props \<Longrightarrow> \<exists>ps. (if c then do { (rc, ps) \<leftarrow> MQTTProperties_write props; Some ps } else Some []) = Some ps
    \<and> int (length ps) = (if c then MQTTProperties_len props else 0)"
  using write_opt_props[of props] by auto

lemma length_writeUTF [simp]: "length (writeUTF s) = 2 + length s"
  by (simp add: writeUTF_def)

lemma length_writeChar [simp]: "length (writeChar c) = 1"
  by (simp add: writeChar_def)

lemma writeData_defined: "0 \<le> n \<Longrightarrow> n \<le> int (length d) \<Longrightarrow> \<exists>out. writeData d n = Some out \<and> int (length out) = 2 + n"
  by (simp add: writeData_def memcpy_def)

lemma send_defined:
  "hd_type header \<noteq> PUBREL \<Longrightarrow> \<exists>r. MQTTPacket_send tp net w header buffer freeData v = Some r"
  by (simp add: MQTTPacket_send_def Let_def case_prod_beta)

lemma subscribe_payload_defined:
  assumes "i + length topics \<le> length qoss" "case opts of None \<Rightarrow> True | Some os \<Rightarrow> i + length topics \<le> length os"
  shows "\<exists>out. subscribe_payload v opts qoss i topics = Some out
    \<and> length out = 3 * length topics + sum_list (map length topics)"
  using assms
proof (induction topics arbitrary: i)
  case (Cons t ts)
  from Cons.prems have "i + 1 + length ts \<le> length qoss" "case opts of None \<Rightarrow> True | Some os \<Rightarrow> i + 1 + length ts \<le> length os"
    by (auto split: option.splits)
  from Cons.IH[OF this] obtain out where "subscribe_payload v opts qoss (i + 1) ts = Some out"
    "length out = 3 * length ts + sum_list (map length ts)" by blast
  then show ?case using Cons.prems by (cases opts) (auto simp: nth_opt_def Let_def)
qed simp

text \<open>A client as the connect packet needs it.\<close>

definition connect_ok :: "Clients \<Rightarrow> bool" where
  "connect_ok client \<longleftrightarrow> (case cl_will client of None \<Rightarrow> True
       | Some will \<Rightarrow> 0 \<le> wm_payloadlen will \<and> wm_payloadlen will \<le> int (length (wm_payload will)))
     \<and> (case cl_password client of None \<Rightarrow> True
       | Some p \<Rightarrow> 0 \<le> cl_passwordlen client \<and> cl_passwordlen client \<le> int (length p))"

lemma connect_defined:
  assumes "connect_ok client" "opt_props_ok cprops" "opt_props_ok wprops"
  shows "\<exists>r. MQTTPacket_send_connect tp client w v cprops wprops = Some r"
proof (cases "fst (tp_malloc tp w)")
  case False
  then show ?thesis by (auto simp: MQTTPacket_send_connect_def Let_def case_prod_beta)
next
  case True
  show ?thesis
  proof (cases "protocol_name v")
    case None
    then show ?thesis by (auto simp: MQTTPacket_send_connect_def Let_def case_prod_beta)
  next
    case (Some name)
    obtain cps where cps: "(if v \<ge> 5 then do { (rc, ps) \<leftarrow> MQTTProperties_write cprops; Some ps } else Some []) = Some cps"
      "int (length cps) = (if v \<ge> 5 then MQTTProperties_len cprops else 0)"
      using write_opt_props_if[OF assms(2)] by blast
    obtain wps where wps: "(if v \<ge> 5 then do { (rc, ps) \<leftarrow> MQTTProperties_write wprops; Some ps } else Some []) = Some wps"
      "int (length wps) = (if v \<ge> 5 then MQTTProperties_len wprops else 0)"
      using write_opt_props_if[OF assms(3)] by blast
    obtain will where will: "(case cl_will client of None \<Rightarrow> Some []
             | Some will \<Rightarrow> do {
                 wps \<leftarrow> (if v \<ge> 5 then do { (rc, ps) \<leftarrow> MQTTProperties_write wprops; Some ps } else Some []);
                 d \<leftarrow> writeData (wm_payload will) (wm_payloadlen will);
                 Some (wps @ writeUTF (wm_topic will) @ d)
               }) = Some will"
      "int (length will) = (case cl_will client of None \<Rightarrow> 0
        | Some will \<Rightarrow> int (length (wm_topic will)) + 2 + wm_payloadlen will + 2)
        + (if v \<ge> 5 \<and> cl_will client \<noteq> None then MQTTProperties_len wprops else 0)"
      using wps assms(1) writeData_defined by (cases "cl_will client") (fastforce simp: connect_ok_def)+
    obtain pw where pw: "(case cl_password client of None \<Rightarrow> Some [] | Some p \<Rightarrow> writeData p (cl_passwordlen client)) = Some pw"
      "int (length pw) = (case cl_password client of None \<Rightarrow> 0 | Some p \<Rightarrow> cl_passwordlen client + 2)"
      using assms(1) writeData_defined by (cases "cl_password client") (fastforce simp: connect_ok_def)+
    have name: "int (length name) = (if v = 3 then 9 else 7)"
      using Some by (auto simp: protocol_name_def split: if_splits)
    let ?buf = "name @ writeChar (connect_flags client v) @ writeInt (cl_keepAliveInterval client) @ cps
              @ writeUTF (cl_clientID client) @ will
              @ (case cl_username client of None \<Rightarrow> [] | Some u \<Rightarrow> writeUTF u) @ pw"
    have "filled (connect_len client v cprops wprops) ?buf = Some ?buf"
      using cps(2) will(2) pw(2) name by (auto simp: filled_def connect_len_def split: option.splits)
    then show ?thesis
      using send_defined[of "Header_zero\<lparr>hd_type := CONNECT\<rparr>" tp "cl_net client" _ ?buf True v]
      by (simp add: MQTTPacket_send_connect_def Let_def case_prod_beta Some cps(1) will(1) pw(1))
  qed
qed

lemma subscribe_defined:
  assumes "length topics \<le> length qoss" "case opts of None \<Rightarrow> True | Some os \<Rightarrow> length topics \<le> length os" "opt_props_ok props"
  shows "\<exists>r. MQTTPacket_send_subscribe tp topics qoss opts props msgid dup client w = Some r"
proof -
  obtain ps where ps: "(if cl_MQTTVersion client \<ge> 5 then do { (rc, ps) \<leftarrow> MQTTProperties_write props; Some ps } else Some []) = Some ps"
    "int (length ps) = (if cl_MQTTVersion client \<ge> 5 then MQTTProperties_len props else 0)"
    using write_opt_props_if[OF assms(3)] by blast
  obtain out where out: "subscribe_payload (cl_MQTTVersion client) opts qoss 0 topics = Some out"
    "length out = 3 * length topics + sum_list (map length topics)"
    using subscribe_payload_defined[of 0 topics qoss opts, unfolded add_0, OF assms(1,2)] by blast
  let ?buf = "writeInt msgid @ ps @ out"
  have "filled (2 + int (length topics) * 3 + int (sum_list (map length topics))
      + (if cl_MQTTVersion client \<ge> 5 then MQTTProperties_len props else 0)) ?buf = Some ?buf"
    using ps(2) out(2) by (auto simp: filled_def)
  then show ?thesis
    using send_defined[of "\<lparr>hd_type = SUBSCRIBE, hd_dup = dup mod 2, hd_qos = 1, hd_retain = 0\<rparr>" tp "cl_net client" _ ?buf True]
    by (auto simp: MQTTPacket_send_subscribe_def Let_def case_prod_beta ps(1) out(1) simp del: One_nat_def)
qed

lemma unsubscribe_defined:
  assumes "opt_props_ok props"
  shows "\<exists>r. MQTTPacket_send_unsubscribe tp topics props msgid dup client w = Some r"
proof -
  obtain ps where ps: "(if cl_MQTTVersion client \<ge> 5 then do { (rc, ps) \<leftarrow> MQTTProperties_write props; Some ps } else Some []) = Some ps"
    "int (length ps) = (if cl_MQTTVersion client \<ge> 5 then MQTTProperties_len props else 0)"
    using write_opt_props_if[OF assms] by blast
  let ?buf = "writeInt msgid @ ps @ concat (map writeUTF topics)"
  have "length (concat (map writeUTF topics)) = 2 * length topics + sum_list (map length topics)"
    by (induction topics) simp_all
  then have "filled (2 + int (length topics) * 2 + int (sum_list (map length topics))
      + (if cl_MQTTVersion client \<ge> 5 then MQTTProperties_len props else 0)) ?buf = Some ?buf"
    using ps(2) by (auto simp: filled_def)
  then show ?thesis
    using send_defined[of "\<lparr>hd_type = UNSUBSCRIBE, hd_dup = dup mod 2, hd_qos = 1, hd_retain = 0\<rparr>" tp "cl_net client" _ ?buf True]
    by (auto simp: MQTTPacket_send_unsubscribe_def Let_def case_prod_beta ps(1) simp del: One_nat_def)
qed

lemma disconnect_defined:
  assumes "opt_props_ok props"
  shows "\<exists>r. MQTTPacket_send_disconnect tp client w reason props = Some r"
proof -
  obtain ps where ps: "(if props = None then Some [] else do { (rc, ps) \<leftarrow> MQTTProperties_write props; Some ps }) = Some ps"
    "int (length ps) = (if props = None then 0 else MQTTProperties_len props)"
    using write_opt_props[OF assms] by (cases "props = None") auto
  let ?buf = "writeChar (of_nat reason) @ ps"
  have "filled (1 + (if props = None then 0 else MQTTProperties_len props)) ?buf = Some ?buf"
    using ps(2) by (auto simp: filled_def)
  then show ?thesis
    using send_defined[of "Header_zero\<lparr>hd_type := DISCONNECT\<rparr>" tp "cl_net client"]
    by (simp only: MQTTPacket_send_disconnect_def Let_def case_prod_beta ps(1) Option.bind.bind_lunit)
      (auto simp: Header_zero_def)
qed


definition example_client :: Clients where
  "example_client = \<lparr>cl_clientID = [99], cl_username = Some [117], cl_passwordlen = 1, cl_password = Some [112],
     cl_cleansession = False, cl_cleanstart = True, cl_connected = False, cl_good = True, cl_ping_outstanding = False,
     cl_ping_due = False, cl_connect_state = 0, cl_ping_due_time = 0,
     cl_net = \<lparr>nt_socket = 4, nt_lastSent = 0, nt_lastReceived = 0, nt_lastPing = 0\<rparr>, cl_msgID = 0,
     cl_keepAliveInterval = 60, cl_retryInterval = 20, cl_maxInflightMessages = 10,
     cl_will = Some \<lparr>wm_topic = [119], wm_payloadlen = 1, wm_payload = [0], wm_retained = 0, wm_qos = 1\<rparr>,
     cl_inboundMsgs = [], cl_outboundMsgs = [], cl_connect_count = 0, cl_connect_sent = 0,
     cl_messageQueue = [], cl_outboundQueue = [], cl_MQTTVersion = 5\<rparr>"



end
