(* ===== verification/Protocol.thy ===== *)
theory Protocol
  imports Packets
begin

text \<open>
  Messages in flight, \<^verbatim>\<open>src/MQTTProtocolClient.c\<close>, with the parts of \<^verbatim>\<open>src/MQTTProtocolOut.c\<close> and of
  the synchronous client \<^verbatim>\<open>src/MQTTClient.c\<close> that it calls or that call it: the handlers of the
  packets of the publish exchanges in both directions, the retries, the pings, and the end of a
  session.

  The lists are those of \<open>Linked_List\<close>, represented by sequences. A search in one of them returns a
  position; where several elements match, the list may return another one than the first, but
  the identifiers in the lists of messages are shown to be distinct.
\<close>

subsection \<open>State\<close>

text \<open>
  What is below the protocol: the transport, the pending writes of the sockets, and persistence
  (\<^verbatim>\<open>MQTTPersistence.c\<close>), whose operations do nothing for a client without it.
\<close>

record 'w environ =
  en_tp :: "'w transport"
  en_noPendingWrites :: "int \<Rightarrow> 'w \<Rightarrow> bool"
  en_updateWrite :: "int \<Rightarrow> byte list \<Rightarrow> byte list \<Rightarrow> 'w \<Rightarrow> 'w option"
  en_remove :: "Clients \<Rightarrow> string \<Rightarrow> nat \<Rightarrow> int \<Rightarrow> 'w \<Rightarrow> int \<times> 'w"
  en_persistQueueEntry :: "Clients \<Rightarrow> qEntry \<Rightarrow> 'w \<Rightarrow> 'w"
  en_clear :: "Clients \<Rightarrow> 'w \<Rightarrow> 'w"
  en_close :: "networkHandles \<Rightarrow> 'w \<Rightarrow> 'w option"

text \<open>
  The global variables \<open>state\<close> and \<open>bstate\<close>. The list of publications is a store with an address for
  each; \<open>malloc\<close> returns an address that has not been used.
\<close>

record 'w protocol =
  pt_publications :: "nat \<Rightarrow> Publications option"
  pt_fresh :: nat
  pt_msgs_received :: "32 word"
  pt_msgs_sent :: "32 word"
  pt_pending_writes :: "(int \<times> nat) list"
  pt_clients :: "Clients list"
  pt_net :: 'w

definition p_malloc :: "'w environ \<Rightarrow> 'w protocol \<Rightarrow> bool \<times> 'w protocol" where
  "p_malloc en st = (let (ok, w) = tp_malloc (en_tp en) (pt_net st) in (ok, st\<lparr>pt_net := w\<rparr>))"

definition p_copy :: "'w environ \<Rightarrow> MQTTProperties \<Rightarrow> 'w protocol \<Rightarrow> (MQTTProperties \<times> 'w protocol) option" where
  "p_copy en props st = do {
     (result, m) \<leftarrow> MQTTProperties_copy (tp_mem (en_tp en) (pt_net st)) props;
     Some (result, st\<lparr>pt_net := tp_set_mem (en_tp en) m (pt_net st)\<rparr>)
   }"

definition p_free :: "MQTTProperties option \<Rightarrow> unit option" where
  "p_free props = do { ps \<leftarrow> props; _ \<leftarrow> MQTTProperties_free ps; Some () }"

primrec position :: "('a \<Rightarrow> bool) \<Rightarrow> 'a list \<Rightarrow> nat option" where
  "position P [] = None"
| "position P (x # xs) = (if P x then Some 0 else map_option Suc (position P xs))"

definition remove_at :: "nat \<Rightarrow> 'a list \<Rightarrow> 'a list" where
  "remove_at j xs = take j xs @ drop (Suc j) xs"

definition the_client :: "'w protocol \<Rightarrow> nat \<Rightarrow> Clients" where
  "the_client st i = pt_clients st ! i"

definition upd_client :: "nat \<Rightarrow> (Clients \<Rightarrow> Clients) \<Rightarrow> 'w protocol \<Rightarrow> 'w protocol" where
  "upd_client i f st = st\<lparr>pt_clients := (pt_clients st)[i := f (the_client st i)]\<rparr>"

definition find_client :: "'w protocol \<Rightarrow> int \<Rightarrow> nat option" where
  "find_client st sock = position (clientSocketCompare sock) (pt_clients st)"

text \<open>Sending a packet on the connection of a client.\<close>

definition on_net ::
  "nat \<Rightarrow> (networkHandles \<Rightarrow> 'w \<Rightarrow> (int \<times> networkHandles \<times> 'w) option) \<Rightarrow> 'w protocol \<Rightarrow> (int \<times> 'w protocol) option" where
  "on_net i send st = do {
     (rc, net, w) \<leftarrow> send (cl_net (the_client st i)) (pt_net st);
     Some (rc, (upd_client i (cl_net_update (\<lambda>_. net)) st)\<lparr>pt_net := w\<rparr>)
   }"

definition messageIDCompare :: "int \<Rightarrow> Messages \<Rightarrow> bool" where
  "messageIDCompare msgid msg \<longleftrightarrow> ms_msgid msg = msgid"

subsection \<open>Message identifiers\<close>

text \<open>The loop may not end, which is the value \<open>None\<close>.\<close>

definition MAX_MSG_ID :: int where "MAX_MSG_ID = 65535"

definition next_msgid :: "int \<Rightarrow> int" where
  "next_msgid msgid = (if msgid = MAX_MSG_ID then 1 else msgid + 1)"

partial_function (option) assign_loop :: "Messages list \<Rightarrow> int \<Rightarrow> int \<Rightarrow> int option" where
  "assign_loop msgs start_msgid msgid =
     (if position (messageIDCompare msgid) msgs \<noteq> None then
        (if next_msgid msgid = start_msgid then Some 0
         else assign_loop msgs start_msgid (next_msgid msgid))
      else Some msgid)"

definition MQTTProtocol_assignMsgId :: "Clients \<Rightarrow> (int \<times> Clients) option" where
  "MQTTProtocol_assignMsgId client = do {
     msgid \<leftarrow> assign_loop (cl_outboundMsgs client) (cl_msgID client) (next_msgid (cl_msgID client));
     Some (msgid, if msgid \<noteq> 0 then client\<lparr>cl_msgID := msgid\<rparr> else client)
   }"

subsection \<open>Stored publications\<close>

text \<open>
  Storing takes the topic and the payload from the structure of the packet, whose pointers become
  null. The result is the address of the publication, or \<open>None\<close> for the null pointer.
\<close>

definition MQTTProtocol_storePublication ::
  "'w environ \<Rightarrow> Publish \<Rightarrow> 'w protocol \<Rightarrow> (nat option \<times> Publish \<times> 'w protocol) option" where
  "MQTTProtocol_storePublication en publish st =
     (let (ok, st1) = p_malloc en st in
      if \<not> ok then Some (None, publish, st1)
      else do {
        topic \<leftarrow> pb_topic publish;
        let p = \<lparr>pn_topic = topic, pn_topiclen = pb_topiclen publish, pn_payload = pb_payload publish,
          pn_payloadlen = pb_payloadlen publish, pn_refcount = 1\<rparr>;
        let publish' = publish\<lparr>pb_topic := None, pb_payload := []\<rparr>;
        let (ok2, st2) = p_malloc en st1;
        if \<not> ok2 then Some (None, publish', st2)
        else Some (Some (pt_fresh st2), publish',
          st2\<lparr>pt_publications := (pt_publications st2)(pt_fresh st2 \<mapsto> p), pt_fresh := pt_fresh st2 + 1\<rparr>)
      })"

definition free_publication :: "nat \<Rightarrow> 'w protocol \<Rightarrow> 'w protocol" where
  "free_publication a st = st\<lparr>pt_publications := (pt_publications st)(a := None)\<rparr>"

definition MQTTProtocol_removePublication :: "nat option \<Rightarrow> 'w protocol \<Rightarrow> 'w protocol option" where
  "MQTTProtocol_removePublication p st =
     (case p of None \<Rightarrow> Some st
      | Some a \<Rightarrow> do {
          pub \<leftarrow> pt_publications st a;
          if pn_refcount pub - 1 = 0 then Some (free_publication a st)
          else Some (st\<lparr>pt_publications := (pt_publications st)(a \<mapsto> pub\<lparr>pn_refcount := pn_refcount pub - 1\<rparr>)\<rparr>)
        })"

text \<open>
  \<open>mm\<close> is the message the second argument points to, if any. The result is \<open>None\<close> when the function
  returns a null pointer or, when the publication could not be stored, a pointer to the message it
  has freed. The payload is copied when \<open>allocatePayload\<close> is set.
\<close>

definition MQTTProtocol_createMessage ::
  "'w environ \<Rightarrow> Publish \<Rightarrow> Messages option \<Rightarrow> nat \<Rightarrow> nat \<Rightarrow> bool \<Rightarrow> 'w protocol
   \<Rightarrow> (Messages option \<times> Publish \<times> 'w protocol) option" where
  "MQTTProtocol_createMessage en publish mm qos retained allocatePayload st =
     (let (ok, st1) = p_malloc en st in
      if \<not> ok then Some (None, publish, st1)
      else do {
        (p, publish', st2) \<leftarrow>
          (case mm of
             Some m0 \<Rightarrow>
               (case ms_publish m0 of
                  None \<Rightarrow> MQTTProtocol_storePublication en publish st1
                | Some a \<Rightarrow> do {
                    pub \<leftarrow> pt_publications st1 a;
                    Some (Some a, publish, st1\<lparr>pt_publications :=
                      (pt_publications st1)(a \<mapsto> pub\<lparr>pn_refcount := pn_refcount pub + 1\<rparr>)\<rparr>) })
           | None \<Rightarrow> MQTTProtocol_storePublication en publish st1);
        (case p of
           None \<Rightarrow> Some (None, publish', st2)
         | Some a \<Rightarrow> do {
             (ok2, st3) \<leftarrow>
               (if allocatePayload \<and> (case mm of None \<Rightarrow> True | Some m0 \<Rightarrow> ms_publish m0 = None) then do {
                  pub \<leftarrow> pt_publications st2 a;
                  let (ok2, st3) = p_malloc en st2;
                  payload \<leftarrow> (if ok2 then memcpy (pn_payload pub) (pn_payloadlen pub) else Some []);
                  Some (ok2, st3\<lparr>pt_publications := (pt_publications st3)(a \<mapsto> pub\<lparr>pn_payload := payload\<rparr>)\<rparr>)
                } else Some (True, st2));
             if \<not> ok2 then Some (None, publish', st3)
             else do {
               (props, st4) \<leftarrow>
                 (if pb_MQTTVersion publish \<ge> 5
                  then do { (ps, st4) \<leftarrow> p_copy en (pb_properties publish) st3; Some (Some ps, st4) }
                  else Some (None, st3));
               Some (Some \<lparr>ms_qos = qos, ms_retain = retained, ms_msgid = pb_msgId publish,
                   ms_MQTTVersion = pb_MQTTVersion publish, ms_properties = props, ms_publish = Some a,
                   ms_lastTouch = tp_now (en_tp en) (pt_net st4),
                   ms_nextMessageType = (if qos = 2 then Some PUBREC else None)\<rparr>, publish', st4)
             }
           })
      })"

subsection \<open>Publishing\<close>

text \<open>
  A publication with QoS 0 is stored only when its packet could not be written at once. When the
  list of pending writes cannot be extended, the publication is freed.
\<close>

definition MQTTProtocol_storeQoS0 ::
  "'w environ \<Rightarrow> nat \<Rightarrow> Publish \<Rightarrow> 'w protocol \<Rightarrow> 'w protocol option" where
  "MQTTProtocol_storeQoS0 en i publish st =
     (let (ok, st1) = p_malloc en st in
      if \<not> ok then Some st1
      else do {
        (p, publish', st2) \<leftarrow> MQTTProtocol_storePublication en publish st1;
        (case p of
           None \<Rightarrow> Some st2
         | Some a \<Rightarrow> do {
             let socket = nt_socket (cl_net (the_client st2 i));
             let (ok2, st3) = p_malloc en st2;
             if \<not> ok2 then Some (free_publication a st3)
             else do {
               pub \<leftarrow> pt_publications st3 a;
               w \<leftarrow> en_updateWrite en socket (pn_topic pub) (pn_payload pub) (pt_net st3);
               Some (st3\<lparr>pt_pending_writes := pt_pending_writes st3 @ [(socket, a)], pt_net := w\<rparr>)
             }
           })
      })"

definition MQTTProtocol_startPublishCommon ::
  "'w environ \<Rightarrow> nat \<Rightarrow> Publish \<Rightarrow> nat \<Rightarrow> nat \<Rightarrow> 'w protocol \<Rightarrow> (int \<times> 'w protocol) option" where
  "MQTTProtocol_startPublishCommon en i publish qos retained st = do {
     (rc, st1) \<leftarrow> on_net i (MQTTPacket_send_publish (en_tp en) publish 0 qos retained) st;
     st2 \<leftarrow> (if qos = 0 \<and> rc = TCPSOCKET_INTERRUPTED then MQTTProtocol_storeQoS0 en i publish st1 else Some st1);
     Some (rc, st2)
   }"

definition append_outbound :: "nat \<Rightarrow> Messages \<Rightarrow> 'w protocol \<Rightarrow> 'w protocol" where
  "append_outbound i m = upd_client i (\<lambda>c. c\<lparr>cl_outboundMsgs := cl_outboundMsgs c @ [m]\<rparr>)"

definition MQTTProtocol_startPublish ::
  "'w environ \<Rightarrow> nat \<Rightarrow> Publish \<Rightarrow> nat \<Rightarrow> nat \<Rightarrow> Messages option \<Rightarrow> 'w protocol
   \<Rightarrow> (int \<times> Messages option \<times> 'w protocol) option" where
  "MQTTProtocol_startPublish en i publish qos retained mm st =
     (if qos > 0 then do {
        (m, publish', st1) \<leftarrow> MQTTProtocol_createMessage en publish mm qos retained False st;
        msg \<leftarrow> m;
        let (ok, st2) = p_malloc en st1;
        let st3 = (if ok then append_outbound i msg st2 else st2);
        a \<leftarrow> ms_publish msg;
        pub \<leftarrow> pt_publications st3 a;
        let qos12pub = publish\<lparr>pb_payload := pn_payload pub, pb_topic := Some (pn_topic pub),
          pb_properties := (case ms_properties msg of None \<Rightarrow> pb_properties publish | Some ps \<Rightarrow> ps),
          pb_MQTTVersion := ms_MQTTVersion msg\<rparr>;
        (rc, st4) \<leftarrow> MQTTProtocol_startPublishCommon en i qos12pub qos retained st3;
        Some (rc, Some msg, st4)
      } else do {
        (rc, st1) \<leftarrow> MQTTProtocol_startPublishCommon en i publish qos retained st;
        Some (rc, mm, st1)
      })"

end
