(* ===== verification/Protocol_Handlers.thy ===== *)
theory Protocol_Handlers
  imports Protocol
begin

text \<open>
  The handlers of received packets, \<^verbatim>\<open>src/MQTTProtocolClient.c\<close> and the end of
  \<^verbatim>\<open>src/MQTTProtocolOut.c\<close>, with what the synchronous client does with a received publication and
  which handler it calls for a packet (\<^verbatim>\<open>src/MQTTClient.c\<close>).

  A handler looks for the client of the socket and does not test whether there is one.
\<close>

subsection \<open>Incoming publications\<close>

text \<open>The queue of the synchronous client takes the topic, and the payload or a copy of it.\<close>

definition Protocol_processPublication ::
  "'w environ \<Rightarrow> Publish \<Rightarrow> nat \<Rightarrow> bool \<Rightarrow> 'w protocol \<Rightarrow> (Publish \<times> 'w protocol) option" where
  "Protocol_processPublication en publish i allocatePayload st =
     (let (ok, st1) = p_malloc en st in
      if \<not> ok then Some (publish, st1)
      else let (ok2, st2) = p_malloc en st1 in
      if \<not> ok2 then Some (publish, st2)
      else
        let publish' = publish\<lparr>pb_topic := None\<rparr>;
            (ok3, st3) = (if allocatePayload then p_malloc en st2 else (True, st2)) in
        if \<not> ok3 then Some (publish', st3)
        else do {
          payload \<leftarrow> (if allocatePayload then memcpy (pb_payload publish) (pb_payloadlen publish)
                     else Some (pb_payload publish));
          (props, st4) \<leftarrow> (if pb_MQTTVersion publish \<ge> 5 then p_copy en (pb_properties publish) st3
                         else Some (MQTTProperties_initializer, st3));
          topic \<leftarrow> pb_topic publish;
          let qe = \<lparr>qe_msg = \<lparr>mm_payloadlen = pb_payloadlen publish, mm_payload = payload,
              mm_qos = hd_qos (pb_header publish), mm_retained = hd_retain (pb_header publish),
              mm_dup = (if hd_qos (pb_header publish) = 2 then 0 else hd_dup (pb_header publish)),
              mm_msgid = pb_msgId publish, mm_properties = props\<rparr>,
            qe_topicName = topic, qe_topicLen = pb_topiclen publish\<rparr>;
          let (ok5, st5) = p_malloc en st4;
          let st6 = (if ok5 then upd_client i (\<lambda>c. c\<lparr>cl_messageQueue := cl_messageQueue c @ [qe]\<rparr>) st5 else st5);
          Some (publish', st6\<lparr>pt_net := en_persistQueueEntry en (the_client st6 i) qe (pt_net st6)\<rparr>)
        })"

definition MQTTProtocol_queueAck :: "'w environ \<Rightarrow> nat \<Rightarrow> nat \<Rightarrow> int \<Rightarrow> 'w protocol \<Rightarrow> int \<times> 'w protocol" where
  "MQTTProtocol_queueAck en i ackType msgId st =
     (let (ok, st1) = p_malloc en st in
      if \<not> ok then (PAHO_MEMORY_ERROR, st1)
      else let (ok2, st2) = p_malloc en st1 in
        (0, if ok2 then upd_client i (\<lambda>c. c\<lparr>cl_outboundQueue := cl_outboundQueue c @
              [\<lparr>ar_messageId = msgId, ar_ackType = ackType\<rparr>]\<rparr>) st2 else st2))"

text \<open>An acknowledgement is queued while a write is outstanding on the socket, and sent otherwise.\<close>

definition send_or_queue ::
  "'w environ \<Rightarrow> nat \<Rightarrow> bool \<Rightarrow> nat \<Rightarrow> int \<Rightarrow> (networkHandles \<Rightarrow> 'w \<Rightarrow> (int \<times> networkHandles \<times> 'w) option)
   \<Rightarrow> 'w protocol \<Rightarrow> (int \<times> 'w protocol) option" where
  "send_or_queue en i pending ackType msgId send st =
     (if pending then Some (MQTTProtocol_queueAck en i ackType msgId st) else on_net i send st)"

text \<open>
  The new message of a publication with QoS 2 takes the place of one with the same identifier, or
  the last place. The result tells whether there was one, and where the new message is now, if
  the list element could be allocated.
\<close>

definition put_inbound ::
  "'w environ \<Rightarrow> nat \<Rightarrow> Messages \<Rightarrow> 'w protocol \<Rightarrow> (bool \<times> nat option \<times> 'w protocol) option" where
  "put_inbound en i m st =
     (case position (messageIDCompare (ms_msgid m)) (cl_inboundMsgs (the_client st i)) of
        Some j \<Rightarrow> do {
          let msg = cl_inboundMsgs (the_client st i) ! j;
          st1 \<leftarrow> MQTTProtocol_removePublication (ms_publish msg) st;
          _ \<leftarrow> (if ms_MQTTVersion msg \<ge> MQTTVERSION_5 then p_free (ms_properties msg) else Some ());
          let (ok, st2) = p_malloc en st1;
          Some (True, if ok then Some j else None,
            upd_client i (\<lambda>c. c\<lparr>cl_inboundMsgs := (if ok then (cl_inboundMsgs c)[j := m]
              else remove_at j (cl_inboundMsgs c))\<rparr>) st2)
        }
      | None \<Rightarrow>
          let (ok, st1) = p_malloc en st in
          Some (False, if ok then Some (length (cl_inboundMsgs (the_client st1 i))) else None,
            if ok then upd_client i (\<lambda>c. c\<lparr>cl_inboundMsgs := cl_inboundMsgs c @ [m]\<rparr>) st1 else st1))"

definition set_publish :: "nat \<Rightarrow> nat option \<Rightarrow> nat option \<Rightarrow> 'w protocol \<Rightarrow> 'w protocol" where
  "set_publish i j p st = (case j of None \<Rightarrow> st
     | Some j \<Rightarrow> upd_client i (\<lambda>c. c\<lparr>cl_inboundMsgs := (cl_inboundMsgs c)[j := (cl_inboundMsgs c ! j)\<lparr>ms_publish := p\<rparr>]\<rparr>) st)"

text \<open>The structure a stored publication is handed on in.\<close>

definition stored_publish :: "Messages \<Rightarrow> Publications option \<Rightarrow> Publish" where
  "stored_publish m pub = \<lparr>pb_header = Header_zero\<lparr>hd_qos := ms_qos m, hd_retain := ms_retain m\<rparr>,
     pb_topic = map_option pn_topic pub,
     pb_topiclen = (case pub of None \<Rightarrow> 0 | Some p \<Rightarrow> pn_topiclen p), pb_msgId = ms_msgid m,
     pb_payload = (case pub of None \<Rightarrow> [] | Some p \<Rightarrow> pn_payload p),
     pb_payloadlen = (case pub of None \<Rightarrow> 0 | Some p \<Rightarrow> pn_payloadlen p), pb_MQTTVersion = ms_MQTTVersion m,
     pb_properties = (case ms_properties m of None \<Rightarrow> MQTTProperties_initializer | Some ps \<Rightarrow> ps)\<rparr>"

text \<open>
  The message for a publication with QoS 2. Its time is not set, and never read.
\<close>

definition new_inbound ::
  "'w environ \<Rightarrow> Publish \<Rightarrow> 'w protocol \<Rightarrow> (Messages \<times> Publish \<times> 'w protocol) option" where
  "new_inbound en publish st = do {
     (p, publish', st1) \<leftarrow> MQTTProtocol_storePublication en publish st;
     (props, st2) \<leftarrow>
       (if pb_MQTTVersion publish \<ge> MQTTVERSION_5
        then do { (ps, st2) \<leftarrow> p_copy en (pb_properties publish) st1; Some (Some ps, st2) } else Some (None, st1));
     Some (\<lparr>ms_qos = hd_qos (pb_header publish), ms_retain = hd_retain (pb_header publish),
       ms_msgid = pb_msgId publish, ms_MQTTVersion = pb_MQTTVersion publish, ms_properties = props,
       ms_publish = p, ms_lastTouch = 0, ms_nextMessageType = Some PUBREL\<rparr>, publish', st2)
   }"

text \<open>
  With MQTT 5 the publication is handed on when it first arrives; otherwise its payload is copied,
  and before MQTT 5 it is handed on when the PUBREL arrives. The result tells whether the copy
  could be allocated.
\<close>

definition pass_on ::
  "'w environ \<Rightarrow> nat \<Rightarrow> Messages \<Rightarrow> bool \<Rightarrow> nat option \<Rightarrow> 'w protocol \<Rightarrow> (bool \<times> 'w protocol) option" where
  "pass_on en i m already_received j st = do {
     a \<leftarrow> ms_publish m;
     pub \<leftarrow> pt_publications st a;
     if ms_MQTTVersion m \<ge> MQTTVERSION_5 \<and> \<not> already_received then do {
       (publish1, st1) \<leftarrow> Protocol_processPublication en (stored_publish m (Some pub)) i True st;
       Some (True, set_publish i j None (free_publication a st1))
     } else do {
       let (ok, st1) = p_malloc en st;
       payload \<leftarrow> (if ok then memcpy (pn_payload pub) (pn_payloadlen pub) else Some []);
       Some (ok, st1\<lparr>pt_publications := (pt_publications st1)(a \<mapsto> pub\<lparr>pn_payload := payload\<rparr>)\<rparr>)
     }
   }"

definition handle_qos2 ::
  "'w environ \<Rightarrow> nat \<Rightarrow> bool \<Rightarrow> Publish \<Rightarrow> 'w protocol \<Rightarrow> (int \<times> Publish \<times> 'w protocol) option" where
  "handle_qos2 en i pending publish st =
     (let (ok, st1) = p_malloc en st in
      if \<not> ok then Some (PAHO_MEMORY_ERROR, publish, st1)
      else do {
        (m, publish', st2) \<leftarrow> new_inbound en publish st1;
        (already_received, j, st3) \<leftarrow> put_inbound en i m st2;
        (ok4, st4) \<leftarrow> pass_on en i m already_received j st3;
        if \<not> ok4 then Some (PAHO_MEMORY_ERROR, publish', st4)
        else do {
          (rc, st5) \<leftarrow> send_or_queue en i pending PUBREC (pb_msgId publish)
            (MQTTPacket_send_pubrec (en_tp en) (pb_MQTTVersion publish) (pb_msgId publish)) st4;
          Some (rc, publish', st5)
        }
      })"

definition MQTTProtocol_handlePublishes ::
  "'w environ \<Rightarrow> Publish \<Rightarrow> int \<Rightarrow> 'w protocol \<Rightarrow> (int \<times> 'w protocol) option" where
  "MQTTProtocol_handlePublishes en publish sock st = do {
     i \<leftarrow> find_client st sock;
     let qos = hd_qos (pb_header publish);
     let pending = (\<not> en_noPendingWrites en sock (pt_net st));
     (rc, publish', st') \<leftarrow>
       (if qos = 0 then do {
          (publish', st1) \<leftarrow> Protocol_processPublication en publish i True st;
          Some (TCPSOCKET_COMPLETE, publish', st1)
        } else if qos = 1 then do {
          (publish', st1) \<leftarrow> Protocol_processPublication en publish i True st;
          (rc, st2) \<leftarrow> send_or_queue en i pending PUBACK (pb_msgId publish)
            (MQTTPacket_send_puback (en_tp en) (pb_MQTTVersion publish) (pb_msgId publish)) st1;
          Some (rc, publish', st2)
        } else if qos = 2 then handle_qos2 en i pending publish st
        else Some (TCPSOCKET_COMPLETE, publish, st));
     _ \<leftarrow> MQTTPacket_freePublish publish';
     Some (rc, st')
   }"

subsection \<open>Acknowledgements of outgoing publications\<close>

text \<open>
  The end of an exchange: the stored message is removed from persistence and from the list, and
  its publication is freed or left to the caller (\<open>pubToRemove\<close>).
\<close>

definition PERSISTENCE_SENT :: "int \<Rightarrow> string" where
  "PERSISTENCE_SENT MQTTVersion = (if MQTTVersion \<ge> MQTTVERSION_5 then ''s5-'' else ''s-'')"

definition PERSISTENCE_RECEIVED :: "int \<Rightarrow> string" where
  "PERSISTENCE_RECEIVED MQTTVersion = (if MQTTVersion \<ge> MQTTVERSION_5 then ''r5-'' else ''r-'')"

definition p_remove :: "'w environ \<Rightarrow> nat \<Rightarrow> string \<Rightarrow> nat \<Rightarrow> int \<Rightarrow> 'w protocol \<Rightarrow> int \<times> 'w protocol" where
  "p_remove en i type qos msgId st =
     (let (rc, w) = en_remove en (the_client st i) type qos msgId (pt_net st) in (rc, st\<lparr>pt_net := w\<rparr>))"

definition end_exchange ::
  "'w environ \<Rightarrow> nat \<Rightarrow> nat \<Rightarrow> int \<Rightarrow> int \<Rightarrow> bool \<Rightarrow> 'w protocol \<Rightarrow> (int \<times> nat option \<times> 'w protocol) option" where
  "end_exchange en i j MQTTVersion msgId toRemove st = do {
     let m = cl_outboundMsgs (the_client st i) ! j;
     let (rc, st1) = p_remove en i (PERSISTENCE_SENT MQTTVersion) (ms_qos m) msgId st;
     st2 \<leftarrow> (if toRemove then Some st1 else MQTTProtocol_removePublication (ms_publish m) st1);
     _ \<leftarrow> (if ms_MQTTVersion m \<ge> MQTTVERSION_5 then p_free (ms_properties m) else Some ());
     Some (rc, if toRemove then ms_publish m else None,
       upd_client i (\<lambda>c. c\<lparr>cl_outboundMsgs := remove_at j (cl_outboundMsgs c)\<rparr>) st2)
   }"

definition MQTTProtocol_handlePubacks ::
  "'w environ \<Rightarrow> Ack \<Rightarrow> int \<Rightarrow> bool \<Rightarrow> 'w protocol \<Rightarrow> (int \<times> nat option \<times> 'w protocol) option" where
  "MQTTProtocol_handlePubacks en puback sock toRemove st = do {
     i \<leftarrow> find_client st sock;
     msgId \<leftarrow> ak_msgId puback;
     (rc, removed, st1) \<leftarrow>
       (case position (messageIDCompare msgId) (cl_outboundMsgs (the_client st i)) of
          None \<Rightarrow> Some (TCPSOCKET_COMPLETE, None, st)
        | Some j \<Rightarrow>
            let m = cl_outboundMsgs (the_client st i) ! j in
            if ms_qos m \<noteq> 1 then Some (TCPSOCKET_COMPLETE, None, st)
            else end_exchange en i j (ms_MQTTVersion m) msgId toRemove st);
     _ \<leftarrow> MQTTPacket_freeAck puback;
     Some (rc, removed, st1)
   }"

definition set_next :: "nat \<Rightarrow> nat \<Rightarrow> nat \<Rightarrow> nat \<Rightarrow> 'w protocol \<Rightarrow> 'w protocol" where
  "set_next i j type now = upd_client i (\<lambda>c. c\<lparr>cl_outboundMsgs := (cl_outboundMsgs c)[j :=
     (cl_outboundMsgs c ! j)\<lparr>ms_nextMessageType := Some type, ms_lastTouch := now\<rparr>]\<rparr>)"

text \<open>
  What a PUBREC does to the message it is for, and whether it is answered: it is, whether the message
  is known or not, except when it reports an error.
\<close>

definition pubrec_message ::
  "'w environ \<Rightarrow> Ack \<Rightarrow> nat \<Rightarrow> int \<Rightarrow> bool \<Rightarrow> 'w protocol \<Rightarrow> (int \<times> nat option \<times> bool \<times> 'w protocol) option" where
  "pubrec_message en pubrec i msgId toRemove st =
     (case position (messageIDCompare msgId) (cl_outboundMsgs (the_client st i)) of
        None \<Rightarrow> Some (TCPSOCKET_COMPLETE, None, True, st)
      | Some j \<Rightarrow>
          let m = cl_outboundMsgs (the_client st i) ! j in
          if ms_qos m \<noteq> 2 then Some (TCPSOCKET_COMPLETE, None, True, st)
          else do {
            next \<leftarrow> ms_nextMessageType m;
            if next \<noteq> PUBREC then Some (TCPSOCKET_COMPLETE, None, True, st)
            else do {
              error \<leftarrow> (if ak_MQTTVersion pubrec \<ge> MQTTVERSION_5
                       then do { reason \<leftarrow> ak_rc pubrec; Some (unat reason \<ge> 128) } else Some False);
              if error then do {
                (rc, removed, st1) \<leftarrow> end_exchange en i j (ak_MQTTVersion pubrec) msgId toRemove st;
                Some (rc, removed, False, st1\<lparr>pt_msgs_sent := pt_msgs_sent st1 + 1\<rparr>)
              } else Some (TCPSOCKET_COMPLETE, None, True,
                  set_next i j PUBCOMP (tp_now (en_tp en) (pt_net st)) st)
            }
          })"

definition MQTTProtocol_handlePubrecs ::
  "'w environ \<Rightarrow> Ack \<Rightarrow> int \<Rightarrow> bool \<Rightarrow> 'w protocol \<Rightarrow> (int \<times> nat option \<times> 'w protocol) option" where
  "MQTTProtocol_handlePubrecs en pubrec sock toRemove st = do {
     i \<leftarrow> find_client st sock;
     msgId \<leftarrow> ak_msgId pubrec;
     (rc, removed, send_pubrel, st1) \<leftarrow> pubrec_message en pubrec i msgId toRemove st;
     (rc2, st2) \<leftarrow>
       (if \<not> send_pubrel then Some (rc, st1)
        else send_or_queue en i (\<not> en_noPendingWrites en sock (pt_net st1)) PUBREL msgId
          (MQTTPacket_send_pubrel (en_tp en) (ak_MQTTVersion pubrec) msgId 0) st1);
     _ \<leftarrow> MQTTPacket_freeAck pubrec;
     Some (rc2, removed, st2)
   }"

definition MQTTProtocol_handlePubcomps ::
  "'w environ \<Rightarrow> Ack \<Rightarrow> int \<Rightarrow> bool \<Rightarrow> 'w protocol \<Rightarrow> (int \<times> nat option \<times> 'w protocol) option" where
  "MQTTProtocol_handlePubcomps en pubcomp sock toRemove st = do {
     i \<leftarrow> find_client st sock;
     msgId \<leftarrow> ak_msgId pubcomp;
     (rc, removed, st1) \<leftarrow>
       (case position (messageIDCompare msgId) (cl_outboundMsgs (the_client st i)) of
          None \<Rightarrow> Some (TCPSOCKET_COMPLETE, None, st)
        | Some j \<Rightarrow>
            let m = cl_outboundMsgs (the_client st i) ! j in
            if ms_qos m \<noteq> 2 then Some (TCPSOCKET_COMPLETE, None, st)
            else do {
              next \<leftarrow> ms_nextMessageType m;
              if next \<noteq> PUBCOMP then Some (TCPSOCKET_COMPLETE, None, st)
              else do {
                (rc, removed, st1) \<leftarrow> end_exchange en i j (ms_MQTTVersion m) msgId toRemove st;
                Some (rc, removed, st1\<lparr>pt_msgs_sent := pt_msgs_sent st1 + 1\<rparr>)
              }
            });
     _ \<leftarrow> MQTTPacket_freeAck pubcomp;
     Some (rc, removed, st1)
   }"

subsection \<open>The second half of an incoming exchange\<close>

text \<open>
  A PUBREL ends the exchange; before MQTT 5 the publication is handed on now. The result of
  persistence is overwritten by that of sending the PUBCOMP.
\<close>

definition end_inbound ::
  "'w environ \<Rightarrow> nat \<Rightarrow> nat \<Rightarrow> int \<Rightarrow> 'w protocol \<Rightarrow> 'w protocol option" where
  "end_inbound en i j msgId st = do {
     let m = cl_inboundMsgs (the_client st i) ! j;
     pub \<leftarrow> (case ms_publish m of None \<Rightarrow> Some None | Some a \<Rightarrow> do { pub \<leftarrow> pt_publications st a; Some (Some pub) });
     st1 \<leftarrow> (if ms_MQTTVersion m \<ge> MQTTVERSION_5 then Some st
            else do { (publish', st1) \<leftarrow> Protocol_processPublication en (stored_publish m pub) i False st; Some st1 });
     let (rc, st2) = p_remove en i (PERSISTENCE_RECEIVED (ms_MQTTVersion m)) (ms_qos m) msgId st1;
     _ \<leftarrow> (if ms_MQTTVersion m \<ge> MQTTVERSION_5 then p_free (ms_properties m) else Some ());
     let st3 = (case ms_publish m of None \<Rightarrow> st2 | Some a \<Rightarrow> free_publication a st2);
     let st4 = upd_client i (\<lambda>c. c\<lparr>cl_inboundMsgs := remove_at j (cl_inboundMsgs c)\<rparr>) st3;
     Some (st4\<lparr>pt_msgs_received := pt_msgs_received st4 + 1\<rparr>)
   }"

definition MQTTProtocol_handlePubrels ::
  "'w environ \<Rightarrow> Ack \<Rightarrow> int \<Rightarrow> 'w protocol \<Rightarrow> (int \<times> 'w protocol) option" where
  "MQTTProtocol_handlePubrels en pubrel sock st = do {
     i \<leftarrow> find_client st sock;
     msgId \<leftarrow> ak_msgId pubrel;
     st1 \<leftarrow>
       (case position (messageIDCompare msgId) (cl_inboundMsgs (the_client st i)) of
          None \<Rightarrow> Some st
        | Some j \<Rightarrow>
            let m = cl_inboundMsgs (the_client st i) ! j in
            if ms_qos m \<noteq> 2 then Some st
            else do {
              next \<leftarrow> ms_nextMessageType m;
              if next \<noteq> PUBREL then Some st else end_inbound en i j msgId st
            });
     (rc, st2) \<leftarrow> send_or_queue en i (\<not> en_noPendingWrites en sock (pt_net st1)) PUBCOMP msgId
       (MQTTPacket_send_pubcomp (en_tp en) (ak_MQTTVersion pubrel) msgId) st1;
     _ \<leftarrow> MQTTPacket_freeAck pubrel;
     Some (rc, st2)
   }"

subsection \<open>Other packets\<close>

definition MQTTProtocol_handlePingresps :: "int \<Rightarrow> 'w protocol \<Rightarrow> (int \<times> 'w protocol) option" where
  "MQTTProtocol_handlePingresps sock st = do {
     i \<leftarrow> find_client st sock;
     Some (TCPSOCKET_COMPLETE, upd_client i (\<lambda>c. c\<lparr>cl_ping_outstanding := False\<rparr>) st)
   }"

definition MQTTProtocol_handleSubacks :: "Suback \<Rightarrow> int \<Rightarrow> 'w protocol \<Rightarrow> int option" where
  "MQTTProtocol_handleSubacks suback sock st = do {
     i \<leftarrow> find_client st sock;
     _ \<leftarrow> MQTTPacket_freeSuback suback;
     Some TCPSOCKET_COMPLETE
   }"

definition MQTTProtocol_handleUnsubacks :: "Unsuback \<Rightarrow> int \<Rightarrow> 'w protocol \<Rightarrow> int option" where
  "MQTTProtocol_handleUnsubacks unsuback sock st = do {
     i \<leftarrow> find_client st sock;
     _ \<leftarrow> MQTTPacket_freeUnsuback unsuback;
     Some TCPSOCKET_COMPLETE
   }"

definition MQTTProtocol_handleDisconnects :: "Ack \<Rightarrow> int \<Rightarrow> 'w protocol \<Rightarrow> int option" where
  "MQTTProtocol_handleDisconnects disconnect sock st = do {
     i \<leftarrow> find_client st sock;
     _ \<leftarrow> MQTTPacket_freeAck disconnect;
     Some TCPSOCKET_COMPLETE
   }"

text \<open>
  Which handler the synchronous client calls; the packet is returned when none was, for the caller
  to deal with. The callbacks of the application are left out.
\<close>

definition MQTTClient_cycle_handle ::
  "'w environ \<Rightarrow> packet \<Rightarrow> int \<Rightarrow> 'w protocol \<Rightarrow> (int option \<times> packet option \<times> 'w protocol) option" where
  "MQTTClient_cycle_handle en pack sock st =
     (let type = hd_type (packet_header pack) in
      if type = PUBLISH then (case pack of
          PPublish p \<Rightarrow> do { (rc, st1) \<leftarrow> MQTTProtocol_handlePublishes en p sock st; Some (Some rc, None, st1) }
        | _ \<Rightarrow> None)
      else if type = PUBACK then (case pack of
          PAck a \<Rightarrow> do { (rc, removed, st1) \<leftarrow> MQTTProtocol_handlePubacks en a sock False st; Some (Some rc, None, st1) }
        | _ \<Rightarrow> None)
      else if type = PUBCOMP then (case pack of
          PAck a \<Rightarrow> do { (rc, removed, st1) \<leftarrow> MQTTProtocol_handlePubcomps en a sock False st; Some (Some rc, None, st1) }
        | _ \<Rightarrow> None)
      else if type = PUBREC then (case pack of
          PAck a \<Rightarrow> do { (rc, removed, st1) \<leftarrow> MQTTProtocol_handlePubrecs en a sock False st; Some (Some rc, None, st1) }
        | _ \<Rightarrow> None)
      else if type = PUBREL then (case pack of
          PAck a \<Rightarrow> do { (rc, st1) \<leftarrow> MQTTProtocol_handlePubrels en a sock st; Some (Some rc, None, st1) }
        | _ \<Rightarrow> None)
      else if type = PINGRESP then
        do { (rc, st1) \<leftarrow> MQTTProtocol_handlePingresps sock st; Some (Some rc, None, st1) }
      else Some (None, Some pack, st))"

end
