(* ===== verification/Protocol_Session.thy ===== *)
theory Protocol_Session
  imports Protocol_Handlers
begin

text \<open>
  What the protocol does on its own: the end of a session, retries, pings, and queued
  acknowledgements (\<^verbatim>\<open>src/MQTTProtocolClient.c\<close>, \<^verbatim>\<open>src/MQTTClient.c\<close>), and the start of a publication
  by the application.
\<close>

subsection \<open>The end of a session\<close>

fun empty_loop_messages :: "Messages list \<Rightarrow> 'w protocol \<Rightarrow> 'w protocol option" where
  "empty_loop_messages [] st = Some st"
| "empty_loop_messages (m # ms) st = do {
     st1 \<leftarrow> MQTTProtocol_removePublication (ms_publish m) st;
     _ \<leftarrow> (if ms_MQTTVersion m \<ge> MQTTVERSION_5 then p_free (ms_properties m) else Some ());
     empty_loop_messages ms st1
   }"

text \<open>Which of the two lists of the client is emptied is given by its selector and its update.\<close>

definition MQTTProtocol_emptyMessageList ::
  "(Clients \<Rightarrow> Messages list) \<Rightarrow> ((Messages list \<Rightarrow> Messages list) \<Rightarrow> Clients \<Rightarrow> Clients) \<Rightarrow> nat \<Rightarrow> 'w protocol
   \<Rightarrow> 'w protocol option" where
  "MQTTProtocol_emptyMessageList msgList upd i st = do {
     st1 \<leftarrow> empty_loop_messages (msgList (the_client st i)) st;
     Some (upd_client i (upd (\<lambda>_. [])) st1)
   }"

definition MQTTClient_emptyMessageQueue :: "nat \<Rightarrow> 'w protocol \<Rightarrow> 'w protocol" where
  "MQTTClient_emptyMessageQueue i = upd_client i (\<lambda>c. c\<lparr>cl_messageQueue := []\<rparr>)"

definition MQTTClient_cleanSession :: "'w environ \<Rightarrow> nat \<Rightarrow> 'w protocol \<Rightarrow> 'w protocol option" where
  "MQTTClient_cleanSession en i st = do {
     let st1 = st\<lparr>pt_net := en_clear en (the_client st i) (pt_net st)\<rparr>;
     st2 \<leftarrow> MQTTProtocol_emptyMessageList cl_inboundMsgs cl_inboundMsgs_update i st1;
     st3 \<leftarrow> MQTTProtocol_emptyMessageList cl_outboundMsgs cl_outboundMsgs_update i st2;
     Some (upd_client i (\<lambda>c. c\<lparr>cl_msgID := 0\<rparr>) (MQTTClient_emptyMessageQueue i st3))
   }"

definition close_socket :: "'w environ \<Rightarrow> nat \<Rightarrow> 'w protocol \<Rightarrow> 'w protocol option" where
  "close_socket en i st = do {
     w \<leftarrow> en_close en (cl_net (the_client st i)) (pt_net st);
     Some ((upd_client i (cl_net_update (nt_socket_update (\<lambda>_. 0))) st)\<lparr>pt_net := w\<rparr>)
   }"

definition MQTTClient_closeSession ::
  "'w environ \<Rightarrow> nat \<Rightarrow> nat \<Rightarrow> MQTTProperties option \<Rightarrow> 'w protocol \<Rightarrow> 'w protocol option" where
  "MQTTClient_closeSession en i reason props st = do {
     let st1 = upd_client i (\<lambda>c. c\<lparr>cl_good := False, cl_ping_outstanding := False, cl_ping_due := False\<rparr>) st;
     st2 \<leftarrow> (if nt_socket (cl_net (the_client st1 i)) > 0 then do {
              st2 \<leftarrow> (if cl_connected (the_client st1 i) then do {
                       (rc, st2) \<leftarrow> on_net i (\<lambda>net w. MQTTPacket_send_disconnect (en_tp en)
                         ((the_client st1 i)\<lparr>cl_net := net\<rparr>) w reason props) st1;
                       Some st2
                     } else Some st1);
              close_socket en i st2
            } else Some st1);
     let st3 = upd_client i (\<lambda>c. c\<lparr>cl_connected := False, cl_connect_state := NOT_IN_PROGRESS\<rparr>) st2;
     (if cl_MQTTVersion (the_client st3 i) < MQTTVERSION_5 \<and> cl_cleansession (the_client st3 i)
      then MQTTClient_cleanSession en i st3 else Some st3)
   }"

text \<open>
  With a timeout of 0 there is no wait for the messages in flight. Stopping the background thread
  and the callback \<open>connectionLost\<close>, which runs in a thread of its own, are left out.
\<close>

definition MQTTProtocol_closeSession :: "'w environ \<Rightarrow> nat \<Rightarrow> 'w protocol \<Rightarrow> 'w protocol option" where
  "MQTTProtocol_closeSession en i st =
     MQTTClient_closeSession en i 0 None
       (if cl_connected (the_client st i) then upd_client i (\<lambda>c. c\<lparr>cl_connect_state := DISCONNECTING\<rparr>) st else st)"

subsection \<open>Retries\<close>

definition MQTTTime_difftime :: "nat \<Rightarrow> nat \<Rightarrow> int" where
  "MQTTTime_difftime t_new t_old = int t_new - int t_old"

text \<open>
  One message of the list: the result tells whether the loop goes on. \<open>MQTTPacket_send_publish\<close> does
  not read the fields of the structure that are not set here. The test for QoS 0 after it never
  holds, because only messages with QoS 1 and 2 are sent again.
\<close>

definition touch :: "nat \<Rightarrow> nat \<Rightarrow> nat \<Rightarrow> 'w protocol \<Rightarrow> 'w protocol" where
  "touch i j now = upd_client i (\<lambda>c. c\<lparr>cl_outboundMsgs := (cl_outboundMsgs c)[j :=
     (cl_outboundMsgs c ! j)\<lparr>ms_lastTouch := now\<rparr>]\<rparr>)"

definition bad_session :: "'w environ \<Rightarrow> nat \<Rightarrow> 'w protocol \<Rightarrow> 'w protocol option" where
  "bad_session en i st = MQTTProtocol_closeSession en i (upd_client i (\<lambda>c. c\<lparr>cl_good := False\<rparr>) st)"

definition retry_message :: "'w environ \<Rightarrow> nat \<Rightarrow> nat \<Rightarrow> 'w protocol \<Rightarrow> (bool \<times> 'w protocol) option" where
  "retry_message en i j st = do {
     let m = cl_outboundMsgs (the_client st i) ! j;
     publishing \<leftarrow> (if ms_qos m = 1 then Some True
       else if ms_qos m = 2 then do { next \<leftarrow> ms_nextMessageType m; Some (next = PUBREC) } else Some False);
     if publishing then do {
       a \<leftarrow> ms_publish m;
       pub \<leftarrow> pt_publications st a;
       (rc, st1) \<leftarrow> on_net i (MQTTPacket_send_publish (en_tp en) (stored_publish m (Some pub)) 1 (ms_qos m) (ms_retain m)) st;
       if rc = SOCKET_ERROR then do { st2 \<leftarrow> bad_session en i st1; Some (False, st2) }
       else Some (True, touch i j (tp_now (en_tp en) (pt_net st1)) st1)
     } else do {
       releasing \<leftarrow> (if ms_qos m = 0 then Some False
                    else do { next \<leftarrow> ms_nextMessageType m; Some (next = PUBCOMP) });
       if releasing then do {
         (rc, st1) \<leftarrow> on_net i (MQTTPacket_send_pubrel (en_tp en) (ms_MQTTVersion m) (ms_msgid m) 0) st;
         if rc \<noteq> TCPSOCKET_COMPLETE then do { st2 \<leftarrow> bad_session en i st1; Some (False, st2) }
         else Some (True, touch i j (tp_now (en_tp en) (pt_net st1)) st1)
       } else Some (True, st)
     }
   }"

fun retries_loop :: "'w environ \<Rightarrow> nat \<Rightarrow> nat \<Rightarrow> bool \<Rightarrow> nat list \<Rightarrow> 'w protocol \<Rightarrow> 'w protocol option" where
  "retries_loop en now i regardless [] st = Some st"
| "retries_loop en now i regardless (j # js) st =
     (let c = the_client st i; m = cl_outboundMsgs c ! j in
      if \<not> (cl_connected c \<and> cl_good c \<and> en_noPendingWrites en (nt_socket (cl_net c)) (pt_net st)) then Some st
      else if regardless \<or> MQTTTime_difftime now (ms_lastTouch m) > max (cl_retryInterval c) 10 * 1000 then do {
        (go_on, st1) \<leftarrow> retry_message en i j
          (if regardless then upd_client i (\<lambda>c. c\<lparr>cl_connect_sent := cl_connect_sent c + 1\<rparr>) st else st);
        if go_on then retries_loop en now i regardless js st1 else Some st1
      } else retries_loop en now i regardless js st)"

definition MQTTProtocol_retries :: "'w environ \<Rightarrow> nat \<Rightarrow> nat \<Rightarrow> bool \<Rightarrow> 'w protocol \<Rightarrow> 'w protocol option" where
  "MQTTProtocol_retries en now i regardless st =
     (let c = the_client st i; n = length (cl_outboundMsgs c) in
      if \<not> regardless \<and> cl_retryInterval c \<le> 0 \<and> cl_connect_sent c = cl_connect_count c then Some st
      else if regardless
        then retries_loop en now i True [0..<n] (upd_client i (\<lambda>c. c\<lparr>cl_connect_count := int n\<rparr>) st)
      else retries_loop en now i (cl_connect_sent c < cl_connect_count c) [0..<n] st)"

fun retry_clients :: "'w environ \<Rightarrow> nat \<Rightarrow> bool \<Rightarrow> bool \<Rightarrow> nat list \<Rightarrow> 'w protocol \<Rightarrow> 'w protocol option" where
  "retry_clients en now doRetry regardless [] st = Some st"
| "retry_clients en now doRetry regardless (i # is) st = do {
     let c = the_client st i;
     st1 \<leftarrow> (if \<not> cl_connected c then Some st
            else if \<not> cl_good c then MQTTProtocol_closeSession en i st
            else if \<not> en_noPendingWrites en (nt_socket (cl_net c)) (pt_net st) then Some st
            else if doRetry then MQTTProtocol_retries en now i regardless st else Some st);
     retry_clients en now doRetry regardless is st1
   }"

definition MQTTProtocol_retry :: "'w environ \<Rightarrow> nat \<Rightarrow> bool \<Rightarrow> bool \<Rightarrow> 'w protocol \<Rightarrow> 'w protocol option" where
  "MQTTProtocol_retry en now doRetry regardless st =
     retry_clients en now doRetry regardless [0..<length (pt_clients st)] st"

subsection \<open>Pings\<close>

definition send_ping :: "'w environ \<Rightarrow> nat \<Rightarrow> nat \<Rightarrow> 'w protocol \<Rightarrow> 'w protocol option" where
  "send_ping en now i st = do {
     (rc, st1) \<leftarrow> on_net i (MQTTPacket_send_pingreq (en_tp en)) st;
     if rc \<noteq> TCPSOCKET_COMPLETE then MQTTProtocol_closeSession en i st1
     else Some (upd_client i (\<lambda>c. c\<lparr>cl_ping_due := False, cl_net := (cl_net c)\<lparr>nt_lastPing := now\<rparr>,
       cl_ping_outstanding := True\<rparr>) st1)
   }"

definition keepalive_client :: "'w environ \<Rightarrow> nat \<Rightarrow> nat \<Rightarrow> 'w protocol \<Rightarrow> 'w protocol option" where
  "keepalive_client en now i st =
     (let c = the_client st i; net = cl_net c; interval = cl_keepAliveInterval c in
      if \<not> cl_connected c \<or> interval = 0 then Some st
      else if cl_ping_outstanding c then
        (if MQTTTime_difftime now (nt_lastPing net) \<ge> interval * 1500
            \<and> MQTTTime_difftime now (nt_lastReceived net) \<ge> interval * 1500
         then MQTTProtocol_closeSession en i st else Some st)
      else if cl_ping_due c \<and> MQTTTime_difftime now (cl_ping_due_time c) \<ge> interval * 1500 then
        (if MQTTTime_difftime now (cl_ping_due_time c) \<le> MQTTTime_difftime now (nt_lastReceived net)
         then MQTTProtocol_closeSession en i st else Some st)
      else if MQTTTime_difftime now (nt_lastSent net) \<ge> interval * 1000 then
        (if en_noPendingWrites en (nt_socket net) (pt_net st) then send_ping en now i st
         else if \<not> cl_ping_due c
           then Some (upd_client i (\<lambda>c. c\<lparr>cl_ping_due := True, cl_ping_due_time := now\<rparr>) st)
         else Some st)
      else if MQTTTime_difftime now (nt_lastReceived net) \<ge> interval * 1000 then
        (if en_noPendingWrites en (nt_socket net) (pt_net st) then send_ping en now i st else Some st)
      else Some st)"

fun keepalive_clients :: "'w environ \<Rightarrow> nat \<Rightarrow> nat list \<Rightarrow> 'w protocol \<Rightarrow> 'w protocol option" where
  "keepalive_clients en now [] st = Some st"
| "keepalive_clients en now (i # is) st = do { st1 \<leftarrow> keepalive_client en now i st; keepalive_clients en now is st1 }"

definition MQTTProtocol_keepalive :: "'w environ \<Rightarrow> nat \<Rightarrow> 'w protocol \<Rightarrow> 'w protocol option" where
  "MQTTProtocol_keepalive en now st = keepalive_clients en now [0..<length (pt_clients st)] st"

subsection \<open>Writes that complete\<close>

text \<open>The publications of the writes that are complete are released, and their entries removed.\<close>

fun check_pending :: "'w environ \<Rightarrow> (int \<times> nat) list \<Rightarrow> 'w protocol \<Rightarrow> ((int \<times> nat) list \<times> 'w protocol) option" where
  "check_pending en [] st = Some ([], st)"
| "check_pending en ((socket, p) # ws) st =
     (if en_noPendingWrites en socket (pt_net st)
      then do { st1 \<leftarrow> MQTTProtocol_removePublication (Some p) st; check_pending en ws st1 }
      else do { (left, st1) \<leftarrow> check_pending en ws st; Some ((socket, p) # left, st1) })"

definition MQTTProtocol_checkPendingWrites :: "'w environ \<Rightarrow> 'w protocol \<Rightarrow> 'w protocol option" where
  "MQTTProtocol_checkPendingWrites en st = do {
     (left, st1) \<leftarrow> check_pending en (pt_pending_writes st) st;
     Some (st1\<lparr>pt_pending_writes := left\<rparr>)
   }"

text \<open>The queue is emptied even when the loop has stopped at an acknowledgement that was not sent whole.\<close>

fun ack_loop :: "'w environ \<Rightarrow> nat \<Rightarrow> AckRequest list \<Rightarrow> int \<Rightarrow> 'w protocol \<Rightarrow> (int \<times> 'w protocol) option" where
  "ack_loop en i [] rc st = Some (rc, st)"
| "ack_loop en i (ack # acks) rc st =
     (if rc \<noteq> 0 then Some (rc, st)
      else do {
        let v = cl_MQTTVersion (the_client st i);
        let msgId = ar_messageId ack;
        (rc1, st1) \<leftarrow>
          (if ar_ackType ack = PUBACK then on_net i (MQTTPacket_send_puback (en_tp en) v msgId) st
           else if ar_ackType ack = PUBREC then on_net i (MQTTPacket_send_pubrec (en_tp en) v msgId) st
           else if ar_ackType ack = PUBREL then on_net i (MQTTPacket_send_pubrel (en_tp en) v msgId 0) st
           else if ar_ackType ack = PUBCOMP then on_net i (MQTTPacket_send_pubcomp (en_tp en) v msgId) st
           else Some (rc, st));
        ack_loop en i acks rc1 st1
      })"

definition MQTTProtocol_writeAvailable :: "'w environ \<Rightarrow> int \<Rightarrow> 'w protocol \<Rightarrow> (int \<times> 'w protocol) option" where
  "MQTTProtocol_writeAvailable en socket st = do {
     i \<leftarrow> find_client st socket;
     (rc, st1) \<leftarrow> ack_loop en i (cl_outboundQueue (the_client st i)) 0 st;
     Some (rc, upd_client i (\<lambda>c. c\<lparr>cl_outboundQueue := []\<rparr>) st1)
   }"

subsection \<open>Publishing from the application\<close>

definition MQTTCLIENT_MAX_MESSAGES_INFLIGHT :: int where "MQTTCLIENT_MAX_MESSAGES_INFLIGHT = -4"

text \<open>
  \<open>MQTTClient_publish5\<close> from the moment it need not wait for the queue or the socket to the start of the
  exchange: the message id, the structure with copies of the topic and the payload, and
  \<open>MQTTProtocol_startPublish\<close>. The length of the topic is not set, and not used.
\<close>

definition MQTTClient_publish5 ::
  "'w environ \<Rightarrow> nat \<Rightarrow> byte list \<Rightarrow> int \<Rightarrow> byte list \<Rightarrow> nat \<Rightarrow> nat \<Rightarrow> MQTTProperties option \<Rightarrow> 'w protocol
   \<Rightarrow> (int \<times> Messages option \<times> 'w protocol) option" where
  "MQTTClient_publish5 en i topicName payloadlen payload qos retained properties st = do {
     (msgid, st1) \<leftarrow> (if qos > 0 then do {
         (msgid, c) \<leftarrow> MQTTProtocol_assignMsgId (the_client st i);
         Some (msgid, upd_client i (\<lambda>_. c) st)
       } else Some (0, st));
     if qos > 0 \<and> msgid = 0 then Some (MQTTCLIENT_MAX_MESSAGES_INFLIGHT, None, st1)
     else do {
       let (ok, st2) = p_malloc en st1;
       if \<not> ok then Some (PAHO_MEMORY_ERROR, None, st2)
       else do {
         let (ok2, st3) = (if payloadlen > 0 then p_malloc en st2 else (True, st2));
         if \<not> ok2 then Some (PAHO_MEMORY_ERROR, None, st3)
         else do {
           data \<leftarrow> (if payloadlen > 0 then memcpy payload payloadlen else Some []);
           let (ok3, st4) = p_malloc en st3;
           if \<not> ok3 then Some (PAHO_MEMORY_ERROR, None, st4)
           else do {
             let v = cl_MQTTVersion (the_client st4 i);
             let p = \<lparr>pb_header = Header_zero, pb_topic = Some topicName, pb_topiclen = 0, pb_msgId = msgid,
               pb_payload = data, pb_payloadlen = payloadlen, pb_MQTTVersion = v,
               pb_properties = (case properties of None \<Rightarrow> MQTTProperties_initializer
                 | Some ps \<Rightarrow> if v \<ge> MQTTVERSION_5 then ps else MQTTProperties_initializer)\<rparr>;
             MQTTProtocol_startPublish en i p qos retained None st4
           }
         }
       }
     }
   }"

end
