(* ===== verification/Protocol_Inv.thy ===== *)
theory Protocol_Inv
  imports Protocol_Session Packet_Props "HOL-Library.Multiset"
begin

text \<open>
  The invariant of the protocol state: every message in flight refers to a stored publication of
  its own, no other publications are stored, and the messages are in the states the handlers
  expect. It is proved for every operation over any network that meets the contract \<open>network\<close>.
\<close>

subsection \<open>Lists\<close>

lemma position_Some: "position P xs = Some j \<Longrightarrow> j < length xs \<and> P (xs ! j)"
  by (induction xs arbitrary: j) (auto split: if_splits)

lemma position_None: "position P xs = None \<longleftrightarrow> (\<forall>x \<in> set xs. \<not> P x)"
  by (induction xs) auto

lemma position_first: "position P xs = Some j \<Longrightarrow> k < j \<Longrightarrow> \<not> P (xs ! k)"
  by (induction xs arbitrary: j k) (auto simp: nth_Cons split: if_splits nat.splits)

lemma position_distinct:
  assumes "distinct (map key xs)" "j < length xs" "\<And>x. P x \<longleftrightarrow> key x = key (xs ! j)"
  shows "position P xs = Some j"
proof (cases "position P xs")
  case None
  with assms(2,3) show ?thesis by (auto simp: position_None)
next
  case (Some k)
  with position_Some[OF Some] assms nth_eq_iff_index_eq[of "map key xs" k j] show ?thesis by auto
qed

lemma set_remove_at: "set (remove_at j xs) \<subseteq> set xs"
  by (auto simp: remove_at_def dest: in_set_takeD in_set_dropD)

lemma map_remove_at: "map f (remove_at j xs) = remove_at j (map f xs)"
  by (simp add: remove_at_def take_map drop_map)

lemma remove_at_split: "j < length xs \<Longrightarrow> xs = take j xs @ xs ! j # drop (Suc j) xs"
  by (rule id_take_nth_drop)

lemma distinct_remove_at: "distinct xs \<Longrightarrow> distinct (remove_at j xs)"
  by (cases "j < length xs")
    (auto simp: remove_at_def set_take_disj_set_drop_if_distinct)

lemma remove_at_simps [simp]:
  "remove_at 0 (x # xs) = xs" "remove_at (Suc j) (x # xs) = x # remove_at j xs" "remove_at j [] = []"
  by (simp_all add: remove_at_def)

lemma remove_at_filter:
  "j < length xs \<Longrightarrow> distinct (map key xs) \<Longrightarrow> remove_at j xs = filter (\<lambda>x. key x \<noteq> key (xs ! j)) xs"
proof (induction xs arbitrary: j)
  case (Cons x xs)
  show ?case
  proof (cases j)
    case 0
    have "\<forall>y \<in> set xs. key y \<noteq> key x" using Cons.prems(2) by simp (metis imageI)
    with 0 show ?thesis by simp
  next
    case (Suc k)
    then show ?thesis using Cons.IH[of k] Cons.prems by auto
  qed
qed simp

lemma sum_list_upd:
  fixes g :: "'a \<Rightarrow> 'b :: comm_monoid_add"
  shows "i < length xs \<Longrightarrow> sum_list (map g (xs[i := x])) + g (xs ! i) = sum_list (map g xs) + g x"
  by (induction xs arbitrary: i) (auto simp: ac_simps split: nat.splits)

lemma sum_list_remove_at:
  fixes g :: "'a \<Rightarrow> 'b :: comm_monoid_add"
  assumes "j < length xs"
  shows "sum_list (map g (remove_at j xs)) + g (xs ! j) = sum_list (map g xs)"
  unfolding remove_at_def by (subst (4) remove_at_split[OF assms]) (simp add: ac_simps)

subsection \<open>The invariant\<close>

definition msg_refs :: "Messages \<Rightarrow> nat multiset" where
  "msg_refs m = (case ms_publish m of None \<Rightarrow> {#} | Some a \<Rightarrow> {#a#})"

definition client_refs :: "Clients \<Rightarrow> nat multiset" where
  "client_refs c = sum_list (map msg_refs (cl_inboundMsgs c)) + sum_list (map msg_refs (cl_outboundMsgs c))"

definition all_refs :: "'w protocol \<Rightarrow> nat multiset" where
  "all_refs st = sum_list (map client_refs (pt_clients st)) + mset (map snd (pt_pending_writes st))"

definition pub_ok :: "Publications \<Rightarrow> bool" where
  "pub_ok p \<longleftrightarrow> pn_refcount p = 1 \<and> pn_payloadlen p = int (length (pn_payload p))"

text \<open>\<open>extra\<close> are references held by a function that runs.\<close>

definition pubs_ok :: "nat multiset \<Rightarrow> 'w protocol \<Rightarrow> bool" where
  "pubs_ok extra st \<longleftrightarrow> finite (dom (pt_publications st))
     \<and> all_refs st + extra = mset_set (dom (pt_publications st))
     \<and> (\<forall>a p. pt_publications st a = Some p \<longrightarrow> pub_ok p \<and> a < pt_fresh st)"

definition msg_ok :: "Messages \<Rightarrow> bool" where
  "msg_ok m \<longleftrightarrow> (ms_MQTTVersion m \<ge> 5 \<longrightarrow> (\<exists>ps. ms_properties m = Some ps \<and> props_ok ps))"

definition out_ok :: "Messages \<Rightarrow> bool" where
  "out_ok m \<longleftrightarrow> msg_ok m \<and> 1 \<le> ms_msgid m \<and> ms_msgid m \<le> MAX_MSG_ID \<and> ms_publish m \<noteq> None
     \<and> (ms_qos m = 1 \<or> ms_qos m = 2 \<and> ms_nextMessageType m \<in> {Some PUBREC, Some PUBCOMP})"

definition in_ok :: "Messages \<Rightarrow> bool" where
  "in_ok m \<longleftrightarrow> msg_ok m \<and> ms_qos m = 2 \<and> ms_nextMessageType m = Some PUBREL
     \<and> (ms_MQTTVersion m < 5 \<longrightarrow> ms_publish m \<noteq> None)"

definition client_ok :: "Clients \<Rightarrow> bool" where
  "client_ok c \<longleftrightarrow> 0 \<le> cl_msgID c \<and> cl_msgID c \<le> MAX_MSG_ID \<and> (cl_msgID c = 0 \<longrightarrow> cl_outboundMsgs c = [])
     \<and> distinct (map ms_msgid (cl_outboundMsgs c)) \<and> list_all out_ok (cl_outboundMsgs c)
     \<and> distinct (map ms_msgid (cl_inboundMsgs c)) \<and> list_all in_ok (cl_inboundMsgs c)"

definition proto_ok :: "nat multiset \<Rightarrow> 'w protocol \<Rightarrow> bool" where
  "proto_ok extra st \<longleftrightarrow> pubs_ok extra st \<and> list_all client_ok (pt_clients st)"

subsection \<open>Changing a client\<close>

lemma the_client_simps [simp]:
  "the_client (st\<lparr>pt_net := w\<rparr>) i = the_client st i"
  "the_client (st\<lparr>pt_publications := ps\<rparr>) i = the_client st i"
  "the_client (st\<lparr>pt_publications := ps, pt_fresh := n\<rparr>) i = the_client st i"
  "the_client (st\<lparr>pt_msgs_sent := x\<rparr>) i = the_client st i"
  "the_client (st\<lparr>pt_msgs_received := x\<rparr>) i = the_client st i"
  "the_client (free_publication a st) i = the_client st i"
  by (simp_all add: the_client_def free_publication_def)

lemma upd_client_simps [simp]:
  "pt_publications (upd_client i f st) = pt_publications st" "pt_fresh (upd_client i f st) = pt_fresh st"
  "pt_pending_writes (upd_client i f st) = pt_pending_writes st" "pt_net (upd_client i f st) = pt_net st"
  "length (pt_clients (upd_client i f st)) = length (pt_clients st)"
  "pt_msgs_sent (upd_client i f st) = pt_msgs_sent st" "pt_msgs_received (upd_client i f st) = pt_msgs_received st"
  by (simp_all add: upd_client_def)

lemma free_publication_simps [simp]:
  "pt_publications (free_publication a st) = (pt_publications st)(a := None)"
  "pt_fresh (free_publication a st) = pt_fresh st" "pt_clients (free_publication a st) = pt_clients st"
  "pt_pending_writes (free_publication a st) = pt_pending_writes st" "pt_net (free_publication a st) = pt_net st"
  "pt_msgs_sent (free_publication a st) = pt_msgs_sent st"
  "pt_msgs_received (free_publication a st) = pt_msgs_received st"
  by (simp_all add: free_publication_def)

lemma the_client_upd: "i < length (pt_clients st) \<Longrightarrow>
    the_client (upd_client i f st) k = (if k = i then f (the_client st i) else the_client st k)"
  by (simp add: the_client_def upd_client_def)

lemma find_client_in: "find_client st sock = Some i \<Longrightarrow> i < length (pt_clients st)"
  by (simp add: find_client_def position_Some)

lemma all_refs_upd:
  assumes "i < length (pt_clients st)"
  shows "all_refs (upd_client i f st) + client_refs (the_client st i) = all_refs st + client_refs (f (the_client st i))"
  using sum_list_upd[OF assms, of client_refs "f (the_client st i)"]
  by (simp add: all_refs_def upd_client_def the_client_def ac_simps)

lemma all_refs_cong: "pt_clients st' = pt_clients st \<Longrightarrow> pt_pending_writes st' = pt_pending_writes st \<Longrightarrow>
    all_refs st' = all_refs st"
  by (simp add: all_refs_def)

lemma all_refs_same:
  "i < length (pt_clients st) \<Longrightarrow> client_refs (f (the_client st i)) = client_refs (the_client st i) \<Longrightarrow>
    all_refs (upd_client i f st) = all_refs st"
  using all_refs_upd[of i st f] by simp

lemma pubs_ok_cong:
  "pt_publications st' = pt_publications st \<Longrightarrow> pt_fresh st' = pt_fresh st \<Longrightarrow> pt_clients st' = pt_clients st \<Longrightarrow>
    pt_pending_writes st' = pt_pending_writes st \<Longrightarrow> pubs_ok extra st' = pubs_ok extra st"
  by (simp add: pubs_ok_def all_refs_def)

lemma clients_ok_upd:
  "list_all client_ok (pt_clients st) \<Longrightarrow> client_ok (f (the_client st i)) \<Longrightarrow>
    list_all client_ok (pt_clients (upd_client i f st))"
  by (auto simp: upd_client_def list_all_iff dest!: set_update_subset_insert[THEN subsetD])

lemma client_ok_at: "proto_ok extra st \<Longrightarrow> i < length (pt_clients st) \<Longrightarrow> client_ok (the_client st i)"
  by (simp add: proto_ok_def list_all_iff the_client_def)

text \<open>A change that concerns neither the messages nor their identifiers.\<close>

lemma proto_ok_upd_same:
  assumes "proto_ok extra st" "i < length (pt_clients st)"
    and "\<And>c. cl_inboundMsgs (f c) = cl_inboundMsgs c" "\<And>c. cl_outboundMsgs (f c) = cl_outboundMsgs c"
    and "cl_msgID (f (the_client st i)) = cl_msgID (the_client st i)"
  shows "proto_ok extra (upd_client i f st)"
proof -
  have "all_refs (upd_client i f st) = all_refs st" by (rule all_refs_same[OF assms(2)]) (simp add: client_refs_def assms(3,4))
  moreover have "client_ok (f (the_client st i))" using client_ok_at[OF assms(1,2)] by (simp add: client_ok_def assms(3-5))
  ultimately show ?thesis using assms(1) clients_ok_upd[of st f i] by (simp add: proto_ok_def pubs_ok_def)
qed

lemma proto_ok_cong:
  "pt_publications st' = pt_publications st \<Longrightarrow> pt_fresh st' = pt_fresh st \<Longrightarrow> pt_clients st' = pt_clients st \<Longrightarrow>
    pt_pending_writes st' = pt_pending_writes st \<Longrightarrow> proto_ok extra st' = proto_ok extra st"
  by (simp add: proto_ok_def pubs_ok_def all_refs_def)

lemma proto_ok_net [simp]: "proto_ok extra (st\<lparr>pt_net := w\<rparr>) = proto_ok extra st"
  by (rule proto_ok_cong) simp_all

lemma proto_ok_counters [simp]:
  "proto_ok extra (st\<lparr>pt_msgs_sent := n\<rparr>) = proto_ok extra st"
  "proto_ok extra (st\<lparr>pt_msgs_received := n\<rparr>) = proto_ok extra st"
  by (rule proto_ok_cong; simp)+

text \<open>A reference of a function or a message is to a stored publication.\<close>

lemma extra_stored:
  assumes "pubs_ok extra st" "a \<in># all_refs st + extra"
  obtains p where "pt_publications st a = Some p" "pub_ok p"
  using assms by (auto simp: pubs_ok_def dom_def)

lemma in_sum_list_mset: "x \<in># sum_list (ms :: 'a multiset list) \<longleftrightarrow> (\<exists>m \<in> set ms. x \<in># m)"
  by (induction ms) auto

lemma ref_of_out:
  "i < length (pt_clients st) \<Longrightarrow> m \<in> set (cl_outboundMsgs (the_client st i)) \<Longrightarrow> ms_publish m = Some a \<Longrightarrow>
    a \<in># all_refs st + extra"
  by (auto simp: all_refs_def in_sum_list_mset client_refs_def msg_refs_def the_client_def
      intro!: bexI[of _ "pt_clients st ! i"] bexI[of _ m])

lemma ref_of_in:
  "i < length (pt_clients st) \<Longrightarrow> m \<in> set (cl_inboundMsgs (the_client st i)) \<Longrightarrow> ms_publish m = Some a \<Longrightarrow>
    a \<in># all_refs st + extra"
  by (auto simp: all_refs_def in_sum_list_mset client_refs_def msg_refs_def the_client_def
      intro!: bexI[of _ "pt_clients st ! i"] bexI[of _ m])

lemma removePublication_ok:
  "pt_publications st a = Some p \<Longrightarrow> pub_ok p \<Longrightarrow>
    MQTTProtocol_removePublication (Some a) st = Some (free_publication a st)"
  by (simp add: MQTTProtocol_removePublication_def pub_ok_def)

text \<open>Freeing a publication together with the reference to it.\<close>

lemma pubs_ok_free:
  assumes "pubs_ok extra st" "all_refs st + extra = all_refs st' + extra' + {#a#}"
    and "pt_publications st' = (pt_publications st)(a := None)" "pt_fresh st' = pt_fresh st"
  shows "pubs_ok extra' st'"
proof -
  let ?D = "dom (pt_publications st)"
  have D: "finite ?D" "all_refs st + extra = mset_set ?D" using assms(1) by (auto simp: pubs_ok_def)
  have "a \<in># mset_set ?D" using assms(2) D by (metis union_single_eq_member add_mset_add_single)
  then have "a \<in> ?D" using D(1) by simp
  then have "mset_set ?D = mset_set (?D - {a}) + {#a#}" using D(1) mset_set.remove[of ?D a] by simp
  with D(2) assms(2) have "all_refs st' + extra' = mset_set (?D - {a})" by (metis add_right_cancel)
  then show ?thesis using assms D(1) by (auto simp: pubs_ok_def)
qed

lemma pubs_ok_refs:
  assumes "pubs_ok extra st" "all_refs st + extra = all_refs st' + extra'"
    and "pt_publications st' = pt_publications st" "pt_fresh st' = pt_fresh st"
  shows "pubs_ok extra' st'"
  using assms by (simp add: pubs_ok_def)

subsection \<open>Steps that leave the messages alone\<close>

definition core :: "Clients \<Rightarrow> Clients \<Rightarrow> bool" where
  "core c c' \<longleftrightarrow> (\<exists>net acks. c' = c\<lparr>cl_net := net, cl_outboundQueue := acks\<rparr> \<and> nt_socket net = nt_socket (cl_net c))"

definition quiet :: "'w protocol \<Rightarrow> 'w protocol \<Rightarrow> bool" where
  "quiet st st' \<longleftrightarrow> pt_publications st' = pt_publications st \<and> pt_fresh st' = pt_fresh st
     \<and> pt_pending_writes st' = pt_pending_writes st \<and> pt_msgs_sent st' = pt_msgs_sent st
     \<and> pt_msgs_received st' = pt_msgs_received st \<and> list_all2 core (pt_clients st) (pt_clients st')"

lemma core_refl [simp]: "core c c"
  unfolding core_def by (rule exI[of _ "cl_net c"], rule exI[of _ "cl_outboundQueue c"]) simp

lemma core_net: "nt_socket n = nt_socket (cl_net c) \<Longrightarrow> core c (c\<lparr>cl_net := n\<rparr>)"
  unfolding core_def by (rule exI[of _ n], rule exI[of _ "cl_outboundQueue c"]) simp

lemma core_queue [simp]: "core c (c\<lparr>cl_outboundQueue := q\<rparr>)"
  unfolding core_def by (rule exI[of _ "cl_net c"], rule exI[of _ q]) simp

lemma core_trans:
  assumes "core a b" "core b c"
  shows "core a c"
proof -
  obtain n q n' q' where "b = a\<lparr>cl_net := n, cl_outboundQueue := q\<rparr>" "c = b\<lparr>cl_net := n', cl_outboundQueue := q'\<rparr>"
    "nt_socket n = nt_socket (cl_net a)" "nt_socket n' = nt_socket (cl_net b)"
    using assms unfolding core_def by blast
  then have "c = a\<lparr>cl_net := n', cl_outboundQueue := q'\<rparr> \<and> nt_socket n' = nt_socket (cl_net a)" by simp
  then show ?thesis unfolding core_def by blast
qed

lemma core_fields:
  assumes "core c c'"
  shows "cl_inboundMsgs c' = cl_inboundMsgs c" "cl_outboundMsgs c' = cl_outboundMsgs c" "cl_msgID c' = cl_msgID c"
    "cl_messageQueue c' = cl_messageQueue c" "cl_connected c' = cl_connected c" "cl_good c' = cl_good c"
    "cl_MQTTVersion c' = cl_MQTTVersion c" "client_refs c' = client_refs c" "client_ok c' = client_ok c"
    "nt_socket (cl_net c') = nt_socket (cl_net c)"
  using assms by (auto simp: core_def client_refs_def client_ok_def)

lemma quiet_refl [simp]: "quiet st st"
  by (simp add: quiet_def list_all2_same)

lemma quiet_trans: "quiet a b \<Longrightarrow> quiet b c \<Longrightarrow> quiet a c"
  unfolding quiet_def list_all2_conv_all_nth by (metis core_trans)

lemma quiet_net [simp]: "quiet st (st\<lparr>pt_net := w\<rparr>)"
  by (simp add: quiet_def list_all2_same)

lemma quiet_upd: "core (the_client st i) (f (the_client st i)) \<Longrightarrow> quiet st (upd_client i f st)"
  unfolding quiet_def upd_client_def the_client_def list_all2_conv_all_nth
  by simp (metis core_refl nth_list_update_eq nth_list_update_neq)

lemma quiet_length: "quiet st st' \<Longrightarrow> length (pt_clients st') = length (pt_clients st)"
  by (auto simp: quiet_def dest: list_all2_lengthD)

lemma quiet_core: "quiet st st' \<Longrightarrow> i < length (pt_clients st) \<Longrightarrow> core (the_client st i) (the_client st' i)"
  by (simp add: quiet_def the_client_def list_all2_nthD)

lemma quiet_stores:
  "quiet st st' \<Longrightarrow> pt_publications st' = pt_publications st"
  "quiet st st' \<Longrightarrow> pt_fresh st' = pt_fresh st"
  "quiet st st' \<Longrightarrow> pt_pending_writes st' = pt_pending_writes st"
  by (simp_all add: quiet_def)

lemma quiet_refs: "quiet st st' \<Longrightarrow> all_refs st' = all_refs st"
proof -
  assume q: "quiet st st'"
  have "map client_refs (pt_clients st') = map client_refs (pt_clients st)"
    using q core_fields(8) by (auto simp: quiet_def list_all2_conv_all_nth intro!: nth_equalityI)
  with q show ?thesis by (simp add: all_refs_def quiet_def)
qed

lemma quiet_proto_ok: "quiet st st' \<Longrightarrow> proto_ok extra st' = proto_ok extra st"
proof -
  assume q: "quiet st st'"
  have "list_all client_ok (pt_clients st') = list_all client_ok (pt_clients st)"
    using q core_fields(9) unfolding quiet_def list_all2_conv_all_nth list_all_length by (metis (no_types, lifting))
  with q quiet_refs[OF q] show ?thesis by (simp add: proto_ok_def pubs_ok_def quiet_def)
qed

lemma position_cong: "list_all2 (\<lambda>x y. P x = Q y) xs ys \<Longrightarrow> position P xs = position Q ys"
  by (induction rule: list_all2_induct) auto

lemma quiet_find_client: "quiet st st' \<Longrightarrow> find_client st' sock = find_client st sock"
  unfolding find_client_def quiet_def
  by (rule position_cong[symmetric]) (auto elim!: list_all2_mono simp: clientSocketCompare_def core_fields(10))

subsection \<open>What the protocol relies on\<close>

text \<open>
  A state of the network with room has memory, and every operation keeps that. The addresses in a
  pending write can be replaced by others of the same contents.
\<close>

definition sends_ok ::
  "('w \<Rightarrow> bool) \<Rightarrow> (networkHandles \<Rightarrow> 'w \<Rightarrow> (int \<times> networkHandles \<times> 'w) option) \<Rightarrow> bool" where
  "sends_ok room send \<longleftrightarrow> (\<forall>net w. room w \<longrightarrow> (\<exists>rc net' w'. send net w = Some (rc, net', w') \<and> room w'
     \<and> nt_socket net' = nt_socket net))"

locale network =
  fixes en :: "'w environ" and room :: "'w \<Rightarrow> bool"
  assumes room_mem: "room w \<Longrightarrow> list_all (\<lambda>b. b) (tp_mem (en_tp en) w)"
    and room_set: "room w \<Longrightarrow> list_all (\<lambda>b. b) m \<Longrightarrow> room (tp_set_mem (en_tp en) m w)"
    and mem_set: "tp_mem (en_tp en) (tp_set_mem (en_tp en) m w) = m"
    and set_set: "tp_set_mem (en_tp en) m' (tp_set_mem (en_tp en) m w) = tp_set_mem (en_tp en) m' w"
    and set_mem: "tp_set_mem (en_tp en) (tp_mem (en_tp en) w) w = w"
    and putdatas: "room w \<Longrightarrow> room (snd (tp_putdatas (en_tp en) socket buf bufs frees w))"
    and putPacket: "room w \<Longrightarrow> room (snd (tp_putPacket (en_tp en) socket buf bufs type msgId scr v w))"
    and remove: "room w \<Longrightarrow> room (snd (en_remove en c stem qos msgId w))"
    and persist: "room w \<Longrightarrow> room (en_persistQueueEntry en c qe w)"
    and clear: "room w \<Longrightarrow> room (en_clear en c w)"
    and close: "room w \<Longrightarrow> \<exists>w'. en_close en net w = Some w' \<and> room w'"
    and update: "room w \<Longrightarrow> tp_putdatas (en_tp en) socket buf bufs frees w = (TCPSOCKET_INTERRUPTED, w1) \<Longrightarrow>
      (bufs = [x, topic, payload] \<or> bufs = [x, topic, y, payload]) \<Longrightarrow> list_all (\<lambda>b. b) m \<Longrightarrow>
      \<exists>w2. en_updateWrite en socket topic payload (tp_set_mem (en_tp en) m w1) = Some w2 \<and> room w2"
begin

lemma p_malloc:
  assumes "room (pt_net st)"
  shows "\<exists>m. p_malloc en st = (True, st\<lparr>pt_net := tp_set_mem (en_tp en) m (pt_net st)\<rparr>) \<and> list_all (\<lambda>b. b) m
    \<and> room (tp_set_mem (en_tp en) m (pt_net st))"
  using malloc_all_ok[OF room_mem[OF assms]] room_set[OF assms]
  by (cases "malloc (tp_mem (en_tp en) (pt_net st))") (auto simp: p_malloc_def tp_malloc_def)

lemma p_copy:
  assumes "room (pt_net st)" "props_ok ps"
  shows "\<exists>ps' w. p_copy en ps st = Some (ps', st\<lparr>pt_net := w\<rparr>) \<and> props_ok ps' \<and> props_list ps' = props_list ps \<and> room w"
proof -
  have "props_consistent MQTTProperties_initializer" "pl_length MQTTProperties_initializer = 0"
    "props_list MQTTProperties_initializer = []"
    using props_ok_initializer by (auto simp: props_ok_def MQTTProperties_initializer_def props_list_def)
  with copy_loop_ok[of "props_list ps" "tp_mem (en_tp en) (pt_net st)" MQTTProperties_initializer] assms
    room_mem[OF assms(1)]
  obtain r m where "MQTTProperties_copy_loop (tp_mem (en_tp en) (pt_net st)) (props_list ps) MQTTProperties_initializer
      = Some (r, m)" "props_consistent r" "list_all (\<lambda>b. b) m" "props_list r = props_list ps"
      "pl_length r = int (length (props_bytes (props_list ps)))"
    by (auto simp: props_ok_def)
  then show ?thesis
    using assms room_set[OF assms(1), of m]
    by (auto simp: p_copy_def MQTTProperties_copy_def props_consistent_slots props_ok_def)
qed

lemma tp_malloc:
  assumes "room w"
  shows "\<exists>w'. tp_malloc (en_tp en) w = (True, w') \<and> room w'"
  using malloc_all_ok[OF room_mem[OF assms]] room_set[OF assms]
  by (cases "malloc (tp_mem (en_tp en) w)") (auto simp: tp_malloc_def)

lemma stored_room: "room w \<Longrightarrow> tp_putPacket (en_tp en) socket buf bufs type msgId scr v w = (rc, w') \<Longrightarrow> room w'"
  using putPacket by (metis snd_conv)

lemma put_room: "room w \<Longrightarrow> tp_putdatas (en_tp en) socket buf bufs frees w = (rc, w') \<Longrightarrow> room w'"
  using putdatas by (metis snd_conv)

lemma readInt_defined: "2 \<le> length b \<Longrightarrow> \<exists>n p. readInt b 0 = Some (n, p)"
  by (auto simp: readInt_def nth_opt_def)

lemma send_ok:
  assumes "hd_type header = PUBREL \<longrightarrow> 2 \<le> length buffer"
  shows "sends_ok room (\<lambda>net w. MQTTPacket_send (en_tp en) net w header buffer freeData v)"
  unfolding sends_ok_def
proof (intro allI impI)
  fix net w assume "room w"
  then obtain w1 where w1: "tp_malloc (en_tp en) w = (True, w1)" "room w1" using tp_malloc by blast
  have "\<exists>n p. readInt buffer 0 = Some (n, p)" if "hd_type header = PUBREL"
    using that assms readInt_defined by blast
  then show "\<exists>rc net' w'. MQTTPacket_send (en_tp en) net w header buffer freeData v = Some (rc, net', w') \<and> room w'
      \<and> nt_socket net' = nt_socket net"
    using w1 putPacket[OF w1(2)] putdatas
    by (auto simp: MQTTPacket_send_def Let_def case_prod_beta)
qed

lemma sends_ok:
  assumes "room w" "hd_type header = PUBLISH \<and> hd_qos header \<noteq> 0 \<longrightarrow> 2 < length buffers \<and> 2 \<le> length (buffers ! 2)"
  shows "\<exists>rc net' w'. MQTTPacket_sends (en_tp en) net w header buffers frees v = Some (rc, net', w') \<and> room w'
    \<and> (rc = TCPSOCKET_INTERRUPTED \<longrightarrow> (\<exists>w0 buf. room w0
         \<and> tp_putdatas (en_tp en) (nt_socket net) buf buffers frees w0 = (TCPSOCKET_INTERRUPTED, w')))
    \<and> nt_socket net' = nt_socket net"
proof -
  obtain w1 where w1: "tp_malloc (en_tp en) w = (True, w1)" "room w1" using tp_malloc[OF assms(1)] by blast
  define b where "b = header_byte header # snd (MQTTPacket_encode True (sum_list (map length buffers)))"
  show ?thesis
  proof (cases "hd_type header = PUBLISH \<and> hd_qos header \<noteq> 0")
    case True
    with assms(2) readInt_defined[of "buffers ! 2"] obtain n p where
      n: "nth_opt buffers 2 = Some (buffers ! 2)" "readInt (buffers ! 2) 0 = Some (n, p)" by (auto simp: nth_opt_def)
    define w2 where "w2 = snd (tp_putPacket (en_tp en) (nt_socket net) b buffers PUBLISH n False v w1)"
    obtain rc w3 where w3: "tp_putdatas (en_tp en) (nt_socket net) b buffers frees w2 = (rc, w3)" by fastforce
    have "room w2" using putPacket[OF w1(2)] by (simp add: w2_def)
    moreover from this have "room w3" using put_room w3 by blast
    ultimately show ?thesis using w1(1) True n w3
      by (simp add: MQTTPacket_sends_def Let_def flip: b_def w2_def) metis
  next
    case False
    obtain rc w3 where w3: "tp_putdatas (en_tp en) (nt_socket net) b buffers frees w1 = (rc, w3)" by fastforce
    then have "room w3" using put_room w1(2) by blast
    moreover have "rc = TCPSOCKET_INTERRUPTED \<longrightarrow> (\<exists>w0 buf. room w0
        \<and> tp_putdatas (en_tp en) (nt_socket net) buf buffers frees w0 = (TCPSOCKET_INTERRUPTED, w3))"
      using w1(2) w3 by blast
    moreover have "MQTTPacket_sends (en_tp en) net w header buffers frees v
        = Some (rc, if rc = TCPSOCKET_COMPLETE then net\<lparr>nt_lastSent := tp_now (en_tp en) w3\<rparr> else net, w3)"
      using False w1(1) w3 by (auto simp: MQTTPacket_sends_def Let_def simp flip: b_def)
    ultimately show ?thesis by simp
  qed
qed

lemma send_ack_ok: "sends_ok room (MQTTPacket_send_ack (en_tp en) v type msgid dup)"
  unfolding sends_ok_def
proof (intro allI impI)
  fix net w assume "room w"
  then obtain w1 where w1: "tp_malloc (en_tp en) w = (True, w1)" "room w1" using tp_malloc by blast
  from send_ok[of _ "writeInt msgid"] w1
  show "\<exists>rc net' w'. MQTTPacket_send_ack (en_tp en) v type msgid dup net w = Some (rc, net', w') \<and> room w'
      \<and> nt_socket net' = nt_socket net"
    by (simp add: MQTTPacket_send_ack_def filled_def sends_ok_def Let_def)
qed

lemma acks_ok:
  "sends_ok room (MQTTPacket_send_puback (en_tp en) v msgid)" "sends_ok room (MQTTPacket_send_pubrec (en_tp en) v msgid)"
  "sends_ok room (MQTTPacket_send_pubrel (en_tp en) v msgid dup)" "sends_ok room (MQTTPacket_send_pubcomp (en_tp en) v msgid)"
  "sends_ok room (MQTTPacket_send_pingreq (en_tp en))"
  using send_ack_ok send_ok
  by (simp_all add: sends_ok_def MQTTPacket_send_puback_def MQTTPacket_send_pubrec_def MQTTPacket_send_pubrel_def
      MQTTPacket_send_pubcomp_def MQTTPacket_send_pingreq_def)

lemma on_net_ok:
  assumes "room (pt_net st)" "sends_ok room send"
  shows "\<exists>rc st'. on_net i send st = Some (rc, st') \<and> quiet st st' \<and> room (pt_net st')"
proof -
  obtain rc net' w' where w: "send (cl_net (the_client st i)) (pt_net st) = Some (rc, net', w')" "room w'"
    "nt_socket net' = nt_socket (cl_net (the_client st i))"
    using assms unfolding sends_ok_def by blast
  have "quiet st (upd_client i (cl_net_update (\<lambda>_. net')) st)" by (rule quiet_upd) (rule core_net[OF w(3)])
  from quiet_trans[OF this quiet_net] w show ?thesis by (simp add: on_net_def)
qed

lemma malloc_quiet:
  assumes "room (pt_net st)"
  obtains st' where "p_malloc en st = (True, st')" "quiet st st'" "room (pt_net st')"
  using p_malloc[OF assms] by fastforce

lemma queueAck_ok:
  assumes "room (pt_net st)"
  shows "\<exists>st'. MQTTProtocol_queueAck en i type msgId st = (0, st') \<and> quiet st st' \<and> room (pt_net st')"
proof -
  obtain st1 where st1: "p_malloc en st = (True, st1)" "quiet st st1" "room (pt_net st1)" by (rule malloc_quiet[OF assms])
  obtain st2 where st2: "p_malloc en st1 = (True, st2)" "quiet st1 st2" "room (pt_net st2)" by (rule malloc_quiet[OF st1(3)])
  let ?st3 = "upd_client i (\<lambda>c. c\<lparr>cl_outboundQueue := cl_outboundQueue c @ [\<lparr>ar_messageId = msgId, ar_ackType = type\<rparr>]\<rparr>) st2"
  have "quiet st2 ?st3" by (rule quiet_upd) simp
  then have "quiet st ?st3" using st1(2) st2(2) by (blast intro: quiet_trans)
  then show ?thesis using st1(1) st2 by (simp add: MQTTProtocol_queueAck_def)
qed

lemma send_or_queue_ok:
  assumes "room (pt_net st)" "sends_ok room send"
  shows "\<exists>rc st'. send_or_queue en i pending type msgId send st = Some (rc, st') \<and> quiet st st' \<and> room (pt_net st')"
  using on_net_ok[OF assms, of i] queueAck_ok[OF assms(1), of i type msgId] unfolding send_or_queue_def by (cases pending) auto

end

end
