(* ===== verification/Protocol_Steps.thy ===== *)
theory Protocol_Steps
  imports Protocol_Inv
begin

text \<open>
  What each operation of the protocol does to a state in which the invariant holds: it is defined,
  and the state after it is described up to steps that leave the messages alone.
\<close>

lemma memcpy_all: "n = int (length bs) \<Longrightarrow> memcpy bs n = Some bs"
  by (simp add: memcpy_def)

subsection \<open>Storing publications\<close>

definition publication_of :: "Publish \<Rightarrow> Publications" where
  "publication_of publish = \<lparr>pn_topic = the (pb_topic publish), pn_topiclen = pb_topiclen publish,
     pn_payload = pb_payload publish, pn_payloadlen = pb_payloadlen publish, pn_refcount = 1\<rparr>"

definition with_publication :: "nat \<Rightarrow> Publications \<Rightarrow> 'w protocol \<Rightarrow> 'w protocol" where
  "with_publication a p st = st\<lparr>pt_publications := (pt_publications st)(a \<mapsto> p), pt_fresh := a + 1\<rparr>"

text \<open>A publication packet the application or the network can hand over.\<close>

definition publish_wf :: "Publish \<Rightarrow> bool" where
  "publish_wf p \<longleftrightarrow> pb_topic p \<noteq> None \<and> pb_payloadlen p = int (length (pb_payload p))
     \<and> (pb_MQTTVersion p \<ge> 5 \<longrightarrow> props_ok (pb_properties p))"

lemma pub_ok_publication_of: "publish_wf publish \<Longrightarrow> pub_ok (publication_of publish)"
  by (simp add: publish_wf_def pub_ok_def publication_of_def)

lemma with_publication_simps [simp]:
  "pt_publications (with_publication a p st) = (pt_publications st)(a \<mapsto> p)" "pt_fresh (with_publication a p st) = a + 1"
  "pt_clients (with_publication a p st) = pt_clients st" "pt_pending_writes (with_publication a p st) = pt_pending_writes st"
  "pt_net (with_publication a p st) = pt_net st" "the_client (with_publication a p st) i = the_client st i"
  "pt_msgs_sent (with_publication a p st) = pt_msgs_sent st"
  "pt_msgs_received (with_publication a p st) = pt_msgs_received st"
  by (simp_all add: with_publication_def the_client_def)

lemma proto_ok_store:
  assumes "proto_ok extra st" "pub_ok p"
  shows "proto_ok (extra + {#pt_fresh st#}) (with_publication (pt_fresh st) p st)"
proof -
  have "pt_fresh st \<notin> dom (pt_publications st)" using assms(1) by (fastforce simp: proto_ok_def pubs_ok_def)
  moreover have "all_refs (with_publication (pt_fresh st) p st) = all_refs st" by (rule all_refs_cong) simp_all
  ultimately show ?thesis using assms by (auto simp: proto_ok_def pubs_ok_def intro: less_SucI)
qed

lemma quiet_with_publication: "quiet st st' \<Longrightarrow> quiet (with_publication a p st) (with_publication a p st')"
  by (simp add: quiet_def)

lemma quiet_upd_client:
  assumes "quiet st st'" "\<And>c c'. core c c' \<Longrightarrow> core (f c) (f c')"
  shows "quiet (upd_client i f st) (upd_client i f st')"
  using assms unfolding quiet_def upd_client_def the_client_def list_all2_conv_all_nth
  by simp (metis nth_list_update_eq nth_list_update_neq)

lemma upd_client_commutes:
  "free_publication a (upd_client i f st) = upd_client i f (free_publication a st)"
  "with_publication a p (upd_client i f st) = upd_client i f (with_publication a p st)"
  "(upd_client i f st)\<lparr>pt_net := w\<rparr> = upd_client i f (st\<lparr>pt_net := w\<rparr>)"
  by (simp_all add: free_publication_def with_publication_def upd_client_def the_client_def)

lemma proto_ok_upd:
  assumes "proto_ok extra st" "i < length (pt_clients st)" "client_ok (f (the_client st i))"
    and "client_refs (f (the_client st i)) + extra' = client_refs (the_client st i) + extra"
  shows "proto_ok extra' (upd_client i f st)"
proof -
  have "all_refs (upd_client i f st) + extra' + client_refs (the_client st i)
      = all_refs st + (client_refs (f (the_client st i)) + extra')"
    using arg_cong[OF all_refs_upd[OF assms(2), of f], of "\<lambda>z. z + extra'"] by (simp only: ac_simps)
  also have "\<dots> = all_refs st + extra + client_refs (the_client st i)"
    unfolding assms(4) by (simp add: ac_simps)
  finally have "all_refs (upd_client i f st) + extra' = all_refs st + extra" by simp
  then show ?thesis
    using assms(1) clients_ok_upd[of st f i, OF _ assms(3)] by (simp add: proto_ok_def pubs_ok_def)
qed

lemma proto_ok_free:
  assumes "proto_ok (extra + {#a#}) st"
  shows "proto_ok extra (free_publication a st)"
proof -
  have r: "all_refs (free_publication a st) = all_refs st" by (rule all_refs_cong) simp_all
  have "pubs_ok (extra + {#a#}) st" using assms by (simp add: proto_ok_def)
  then have "pubs_ok extra (free_publication a st)"
    by (rule pubs_ok_free) (simp_all add: r)
  with assms show ?thesis by (simp add: proto_ok_def)
qed

lemma client_refs_simps [simp]:
  "client_refs (c\<lparr>cl_inboundMsgs := cl_inboundMsgs c @ [m]\<rparr>) = client_refs c + msg_refs m"
  "client_refs (c\<lparr>cl_outboundMsgs := cl_outboundMsgs c @ [m]\<rparr>) = client_refs c + msg_refs m"
  "client_refs (c\<lparr>cl_messageQueue := q\<rparr>) = client_refs c" "client_refs (c\<lparr>cl_msgID := n\<rparr>) = client_refs c"
  by (simp_all add: client_refs_def ac_simps)

lemma client_refs_replace:
  "j < length (cl_inboundMsgs c) \<Longrightarrow>
    client_refs (c\<lparr>cl_inboundMsgs := (cl_inboundMsgs c)[j := m]\<rparr>) + msg_refs (cl_inboundMsgs c ! j) = client_refs c + msg_refs m"
  "j < length (cl_outboundMsgs c) \<Longrightarrow>
    client_refs (c\<lparr>cl_outboundMsgs := (cl_outboundMsgs c)[j := m]\<rparr>) + msg_refs (cl_outboundMsgs c ! j) = client_refs c + msg_refs m"
  using sum_list_upd[of j "cl_inboundMsgs c" msg_refs m] sum_list_upd[of j "cl_outboundMsgs c" msg_refs m]
  by (simp_all add: client_refs_def ac_simps)

lemma client_refs_remove:
  "j < length (cl_inboundMsgs c) \<Longrightarrow>
    client_refs (c\<lparr>cl_inboundMsgs := remove_at j (cl_inboundMsgs c)\<rparr>) + msg_refs (cl_inboundMsgs c ! j) = client_refs c"
  "j < length (cl_outboundMsgs c) \<Longrightarrow>
    client_refs (c\<lparr>cl_outboundMsgs := remove_at j (cl_outboundMsgs c)\<rparr>) + msg_refs (cl_outboundMsgs c ! j) = client_refs c"
  using sum_list_remove_at[of j "cl_inboundMsgs c" msg_refs] sum_list_remove_at[of j "cl_outboundMsgs c" msg_refs]
  by (simp_all add: client_refs_def ac_simps)

context network begin

lemma store_ok:
  assumes "room (pt_net st)" "pb_topic publish \<noteq> None"
  shows "\<exists>m. MQTTProtocol_storePublication en publish st = Some (Some (pt_fresh st),
      publish\<lparr>pb_topic := None, pb_payload := []\<rparr>,
      (with_publication (pt_fresh st) (publication_of publish) st)\<lparr>pt_net := tp_set_mem (en_tp en) m (pt_net st)\<rparr>)
    \<and> list_all (\<lambda>b. b) m \<and> room (tp_set_mem (en_tp en) m (pt_net st))"
proof -
  obtain m where m: "p_malloc en st = (True, st\<lparr>pt_net := tp_set_mem (en_tp en) m (pt_net st)\<rparr>)"
    "room (tp_set_mem (en_tp en) m (pt_net st))" using p_malloc[OF assms(1)] by blast
  then obtain m2 where m2: "p_malloc en (st\<lparr>pt_net := tp_set_mem (en_tp en) m (pt_net st)\<rparr>)
      = (True, st\<lparr>pt_net := tp_set_mem (en_tp en) m2 (pt_net st)\<rparr>)" "list_all (\<lambda>b. b) m2"
    "room (tp_set_mem (en_tp en) m2 (pt_net st))"
    using p_malloc[of "st\<lparr>pt_net := tp_set_mem (en_tp en) m (pt_net st)\<rparr>"] by (auto simp: set_set)
  from assms(2) obtain t where "pb_topic publish = Some t" by blast
  then show ?thesis
    using m m2
    by (auto simp: MQTTProtocol_storePublication_def Let_def publication_of_def with_publication_def intro!: exI[of _ m2])
qed

subsection \<open>Sending publications\<close>

lemma send_publish_ok:
  assumes "room w" "publish_wf p" "pb_topic p = Some topic" "qos < 4"
  shows "\<exists>rc net' w'. MQTTPacket_send_publish (en_tp en) p dup qos retained net w = Some (rc, net', w') \<and> room w'
    \<and> nt_socket net' = nt_socket net
    \<and> (rc = TCPSOCKET_INTERRUPTED \<longrightarrow> (\<exists>w0 buf bufs frees x y. room w0
         \<and> tp_putdatas (en_tp en) (nt_socket net) buf bufs frees w0 = (TCPSOCKET_INTERRUPTED, w')
         \<and> (bufs = [x, topic, pb_payload p] \<or> bufs = [x, topic, y, pb_payload p])))"
proof -
  obtain w1 where w1: "tp_malloc (en_tp en) w = (True, w1)" "room w1" using tp_malloc[OF assms(1)] by blast
  obtain w2 where w2: "tp_malloc (en_tp en) w1 = (True, w2)" "room w2" using tp_malloc[OF w1(2)] by blast
  have payload: "memcpy (pb_payload p) (pb_payloadlen p) = Some (pb_payload p)"
    using assms(2) by (intro memcpy_all) (simp add: publish_wf_def)
  have pw: "MQTTProperties_write (Some (pb_properties p))
      = Some (1 + pl_length (pb_properties p), properties_bytes 5 (pb_properties p))"
    "MQTTProperties_len (Some (pb_properties p)) = int (length (properties_bytes 5 (pb_properties p)))"
    if "5 \<le> pb_MQTTVersion p"
    using assms(2) that MQTTProperties_write_ok[of "pb_properties p"] publish_len[of "pb_properties p"]
    by (auto simp: publish_wf_def properties_bytes_def)
  let ?x = "writeInt (to_int32 (int (length topic)))"
    and ?y = "id_bytes qos p @ properties_bytes (pb_MQTTVersion p) (pb_properties p)"
  show ?thesis
  proof (cases "0 < qos \<or> 5 \<le> pb_MQTTVersion p")
    case True
    have "MQTTPacket_send_publish (en_tp en) p dup qos retained net w
      = MQTTPacket_sends (en_tp en) net w2 (publish_header dup qos retained) [?x, topic, ?y, pb_payload p]
        [True, False, True, False] (pb_MQTTVersion p)"
      using True assms(3) w1(1) w2(1) pw payload
      by (auto simp: MQTTPacket_send_publish_def filled_def Let_def publish_header_def id_bytes_def properties_bytes_def)
    with sends_ok[OF w2(2), of "publish_header dup qos retained" "[?x, topic, ?y, pb_payload p]" net
        "[True, False, True, False]" "pb_MQTTVersion p"] assms(4)
    show ?thesis by (fastforce simp: publish_header_def id_bytes_def)
  next
    case False
    have "MQTTPacket_send_publish (en_tp en) p dup qos retained net w
      = MQTTPacket_sends (en_tp en) net w1 (publish_header dup qos retained) [?x, topic, pb_payload p]
        [True, False, False] (pb_MQTTVersion p)"
      using False assms(3) w1(1) payload
      by (simp add: MQTTPacket_send_publish_def filled_def Let_def publish_header_def)
    with sends_ok[OF w1(2), of "publish_header dup qos retained" "[?x, topic, pb_payload p]" net
        "[True, False, False]" "pb_MQTTVersion p"] False
    show ?thesis by (fastforce simp: publish_header_def)
  qed
qed

end

subsection \<open>Incoming publications\<close>

text \<open>The entry of the queue for a publication, with a copy of its properties.\<close>

definition entry_of :: "Publish \<Rightarrow> MQTTProperties \<Rightarrow> qEntry" where
  "entry_of publish props = \<lparr>qe_msg = \<lparr>mm_payloadlen = pb_payloadlen publish, mm_payload = pb_payload publish,
       mm_qos = hd_qos (pb_header publish), mm_retained = hd_retain (pb_header publish),
       mm_dup = (if hd_qos (pb_header publish) = 2 then 0 else hd_dup (pb_header publish)),
       mm_msgid = pb_msgId publish, mm_properties = props\<rparr>,
     qe_topicName = the (pb_topic publish), qe_topicLen = pb_topiclen publish\<rparr>"

definition copied :: "Publish \<Rightarrow> MQTTProperties \<Rightarrow> bool" where
  "copied publish props \<longleftrightarrow>
     props_list props = (if pb_MQTTVersion publish \<ge> 5 then props_list (pb_properties publish) else [])"

definition enqueue :: "nat \<Rightarrow> qEntry \<Rightarrow> 'w protocol \<Rightarrow> 'w protocol" where
  "enqueue i qe = upd_client i (\<lambda>c. c\<lparr>cl_messageQueue := cl_messageQueue c @ [qe]\<rparr>)"

definition inbound_msg :: "Publish \<Rightarrow> MQTTProperties option \<Rightarrow> nat option \<Rightarrow> Messages" where
  "inbound_msg publish props p = \<lparr>ms_qos = hd_qos (pb_header publish), ms_retain = hd_retain (pb_header publish),
     ms_msgid = pb_msgId publish, ms_MQTTVersion = pb_MQTTVersion publish, ms_properties = props,
     ms_publish = p, ms_lastTouch = 0, ms_nextMessageType = Some PUBREL\<rparr>"

text \<open>The properties of the stored message are a copy too, from MQTT 5 on.\<close>

definition kept :: "Publish \<Rightarrow> MQTTProperties option \<Rightarrow> bool" where
  "kept publish props \<longleftrightarrow> (if pb_MQTTVersion publish \<ge> 5
     then \<exists>ps. props = Some ps \<and> props_ok ps \<and> props_list ps = props_list (pb_properties publish) else props = None)"

definition drop_publication :: "nat option \<Rightarrow> 'w protocol \<Rightarrow> 'w protocol" where
  "drop_publication p st = (case p of None \<Rightarrow> st | Some a \<Rightarrow> free_publication a st)"

lemma drop_publication_simps [simp]:
  "pt_fresh (drop_publication p st) = pt_fresh st" "pt_clients (drop_publication p st) = pt_clients st"
  "pt_pending_writes (drop_publication p st) = pt_pending_writes st" "pt_net (drop_publication p st) = pt_net st"
  "the_client (drop_publication p st) i = the_client st i"
  "pt_msgs_sent (drop_publication p st) = pt_msgs_sent st" "pt_msgs_received (drop_publication p st) = pt_msgs_received st"
  by (simp_all add: drop_publication_def split: option.splits)

lemma drop_publication_net: "drop_publication p (st\<lparr>pt_net := w\<rparr>) = (drop_publication p st)\<lparr>pt_net := w\<rparr>"
  by (simp add: drop_publication_def free_publication_def split: option.splits)

lemma proto_ok_drop:
  "proto_ok (extra + (case p of None \<Rightarrow> {#} | Some a \<Rightarrow> {#a#})) st \<Longrightarrow> proto_ok extra (drop_publication p st)"
  by (cases p) (simp_all add: drop_publication_def proto_ok_free)

lemma p_free_ok: "props_ok ps \<Longrightarrow> p_free (Some ps) = Some ()"
  by (auto simp: p_free_def MQTTProperties_free_def props_ok_def props_consistent_slots)

lemma msg_ok_free: "msg_ok m \<Longrightarrow> (if ms_MQTTVersion m \<ge> 5 then p_free (ms_properties m) else Some ()) = Some ()"
  by (auto simp: msg_ok_def p_free_ok)

lemma release_ok:
  assumes "\<And>a. p = Some a \<Longrightarrow> \<exists>pub. pt_publications st a = Some pub \<and> pub_ok pub"
  shows "MQTTProtocol_removePublication p st = Some (drop_publication p st)"
proof (cases p)
  case None
  then show ?thesis by (simp add: MQTTProtocol_removePublication_def drop_publication_def)
next
  case (Some a)
  with assms removePublication_ok show ?thesis by (fastforce simp: drop_publication_def)
qed

lemma stored_publish_wf: "pub_ok pub \<Longrightarrow> msg_ok m \<Longrightarrow> publish_wf (stored_publish m (Some pub))"
  by (auto simp: publish_wf_def stored_publish_def pub_ok_def msg_ok_def)

definition receive_new :: "nat \<Rightarrow> Messages \<Rightarrow> qEntry list \<Rightarrow> 'w protocol \<Rightarrow> 'w protocol" where
  "receive_new i m qes = upd_client i (\<lambda>c. c\<lparr>cl_messageQueue := cl_messageQueue c @ qes, cl_inboundMsgs := cl_inboundMsgs c @ [m]\<rparr>)"

definition receive_again :: "nat \<Rightarrow> nat \<Rightarrow> Messages \<Rightarrow> 'w protocol \<Rightarrow> 'w protocol" where
  "receive_again i j m = upd_client i (\<lambda>c. c\<lparr>cl_inboundMsgs := (cl_inboundMsgs c)[j := m]\<rparr>)"

lemma entry_of_stored:
  assumes "pb_topic publish \<noteq> None" "hd_qos (pb_header publish) = 2"
  shows "entry_of (stored_publish (inbound_msg publish props p) (Some (publication_of publish))) ps = entry_of publish ps"
  using assms by (auto simp: entry_of_def stored_publish_def inbound_msg_def publication_of_def Header_zero_def)

lemma copied_stored:
  "kept publish props \<Longrightarrow> copied (stored_publish (inbound_msg publish props p) pub) ps = copied publish ps"
  by (auto simp: copied_def stored_publish_def inbound_msg_def kept_def)

lemma kept_msg_ok: "kept publish props \<Longrightarrow> msg_ok (inbound_msg publish props p)"
  by (auto simp: kept_def msg_ok_def inbound_msg_def)

lemma inbound_msg_simps [simp]:
  "ms_msgid (inbound_msg publish props p) = pb_msgId publish"
  "ms_MQTTVersion (inbound_msg publish props p) = pb_MQTTVersion publish"
  "ms_publish (inbound_msg publish props p) = p" "ms_properties (inbound_msg publish props p) = props"
  "ms_qos (inbound_msg publish props p) = hd_qos (pb_header publish)"
  "(inbound_msg publish props p)\<lparr>ms_publish := q\<rparr> = inbound_msg publish props q"
  by (simp_all add: inbound_msg_def)

lemma receive_new_steps:
  assumes "i < length (pt_clients st)" "n = length (cl_inboundMsgs (the_client st i))"
  shows "set_publish i (Some n) q (free_publication a ((enqueue i qe
      ((upd_client i (\<lambda>c. c\<lparr>cl_inboundMsgs := cl_inboundMsgs c @ [m]\<rparr>) st)\<lparr>pt_net := w\<rparr>))\<lparr>pt_net := w'\<rparr>))
    = (receive_new i (m\<lparr>ms_publish := q\<rparr>) [qe] (free_publication a st))\<lparr>pt_net := w'\<rparr>"
  using assms
  by (intro protocol.equality)
    (simp_all add: set_publish_def receive_new_def enqueue_def upd_client_def the_client_def free_publication_def)

context network begin

lemma process_ok:
  assumes "room (pt_net st)" "publish_wf publish"
  shows "\<exists>props w. Protocol_processPublication en publish i alloc st
      = Some (publish\<lparr>pb_topic := None\<rparr>, (enqueue i (entry_of publish props) st)\<lparr>pt_net := w\<rparr>)
    \<and> room w \<and> copied publish props"
proof -
  obtain topic where topic: "pb_topic publish = Some topic" using assms(2) by (auto simp: publish_wf_def)
  have payload: "memcpy (pb_payload publish) (pb_payloadlen publish) = Some (pb_payload publish)"
    using assms(2) by (intro memcpy_all) (simp add: publish_wf_def)
  have malloc: "\<exists>w'. p_malloc en (st\<lparr>pt_net := w\<rparr>) = (True, st\<lparr>pt_net := w'\<rparr>) \<and> room w'" if "room w" for w
    using p_malloc[of "st\<lparr>pt_net := w\<rparr>"] that by fastforce
  obtain w1 where w1: "p_malloc en st = (True, st\<lparr>pt_net := w1\<rparr>)" "room w1" using malloc[OF assms(1)] by auto
  obtain w2 where w2: "p_malloc en (st\<lparr>pt_net := w1\<rparr>) = (True, st\<lparr>pt_net := w2\<rparr>)" "room w2" using malloc[OF w1(2)] by auto
  obtain w3 where w3: "(if alloc then p_malloc en (st\<lparr>pt_net := w2\<rparr>) else (True, st\<lparr>pt_net := w2\<rparr>))
      = (True, st\<lparr>pt_net := w3\<rparr>)" "room w3" using malloc[OF w2(2)] w2(2) by (cases alloc) auto
  obtain props w4 where w4: "(if pb_MQTTVersion publish \<ge> 5 then p_copy en (pb_properties publish) (st\<lparr>pt_net := w3\<rparr>)
      else Some (MQTTProperties_initializer, st\<lparr>pt_net := w3\<rparr>)) = Some (props, st\<lparr>pt_net := w4\<rparr>)" "room w4" "copied publish props"
  proof (cases "pb_MQTTVersion publish \<ge> 5")
    case True
    then show thesis using that p_copy[of "st\<lparr>pt_net := w3\<rparr>" "pb_properties publish"] assms(2) w3(2)
      by (fastforce simp: publish_wf_def copied_def)
  next
    case False
    then show thesis using that[of MQTTProperties_initializer w3] w3(2)
      by (simp add: copied_def MQTTProperties_initializer_def props_list_def)
  qed
  obtain w5 where w5: "p_malloc en (st\<lparr>pt_net := w4\<rparr>) = (True, st\<lparr>pt_net := w5\<rparr>)" "room w5" using malloc[OF w4(2)] by auto
  let ?qe = "entry_of publish props"
  let ?w6 = "en_persistQueueEntry en (the_client (enqueue i ?qe (st\<lparr>pt_net := w5\<rparr>)) i) ?qe w5"
  have "Protocol_processPublication en publish i alloc st
      = Some (publish\<lparr>pb_topic := None\<rparr>, (enqueue i ?qe (st\<lparr>pt_net := w5\<rparr>))\<lparr>pt_net := ?w6\<rparr>)"
    unfolding Protocol_processPublication_def w1(1) w2(1) Let_def prod.case w3(1) payload w4(1)
    by (simp add: w5(1) topic enqueue_def entry_of_def)
  moreover have "(enqueue i ?qe (st\<lparr>pt_net := w5\<rparr>))\<lparr>pt_net := w\<rparr> = (enqueue i ?qe st)\<lparr>pt_net := w\<rparr>" for w
    by (simp add: enqueue_def upd_client_def the_client_def)
  ultimately show ?thesis using persist[OF w5(2)] w4(3) by (intro exI[of _ props] exI[of _ ?w6]) simp
qed

lemma put_inbound_new:
  assumes "room (pt_net st)" "position (messageIDCompare (ms_msgid m)) (cl_inboundMsgs (the_client st i)) = None"
  shows "\<exists>w. put_inbound en i m st = Some (False, Some (length (cl_inboundMsgs (the_client st i))),
      (upd_client i (\<lambda>c. c\<lparr>cl_inboundMsgs := cl_inboundMsgs c @ [m]\<rparr>) st)\<lparr>pt_net := w\<rparr>) \<and> room w"
  using p_malloc[OF assms(1)] assms(2) by (auto simp: put_inbound_def upd_client_commutes)

lemma put_inbound_again:
  assumes "room (pt_net st)" "position (messageIDCompare (ms_msgid m)) (cl_inboundMsgs (the_client st i)) = Some j"
    and "msg_ok (cl_inboundMsgs (the_client st i) ! j)"
    and "\<And>a. ms_publish (cl_inboundMsgs (the_client st i) ! j) = Some a \<Longrightarrow> \<exists>pub. pt_publications st a = Some pub \<and> pub_ok pub"
  shows "\<exists>w. put_inbound en i m st = Some (True, Some j,
      (upd_client i (\<lambda>c. c\<lparr>cl_inboundMsgs := (cl_inboundMsgs c)[j := m]\<rparr>)
        (drop_publication (ms_publish (cl_inboundMsgs (the_client st i) ! j)) st))\<lparr>pt_net := w\<rparr>) \<and> room w"
proof -
  let ?m = "cl_inboundMsgs (the_client st i) ! j"
  have "MQTTProtocol_removePublication (ms_publish ?m) st = Some (drop_publication (ms_publish ?m) st)"
    by (rule release_ok) (rule assms(4))
  then show ?thesis
    using p_malloc[of "drop_publication (ms_publish ?m) st"] assms(1,2) msg_ok_free[OF assms(3)]
    by (auto simp: put_inbound_def Let_def upd_client_commutes)
qed

text \<open>The publication is stored under a fresh address in any case.\<close>

lemma new_inbound_ok:
  assumes "room (pt_net st)" "publish_wf publish"
  shows "\<exists>props w. new_inbound en publish st = Some (inbound_msg publish props (Some (pt_fresh st)),
      publish\<lparr>pb_topic := None, pb_payload := []\<rparr>,
      (with_publication (pt_fresh st) (publication_of publish) st)\<lparr>pt_net := w\<rparr>) \<and> room w \<and> kept publish props"
proof -
  let ?S = "with_publication (pt_fresh st) (publication_of publish) st"
  have topic: "pb_topic publish \<noteq> None" using assms(2) by (simp add: publish_wf_def)
  obtain w2 where w2: "MQTTProtocol_storePublication en publish st
      = Some (Some (pt_fresh st), publish\<lparr>pb_topic := None, pb_payload := []\<rparr>, ?S\<lparr>pt_net := w2\<rparr>)" "room w2"
    using store_ok[OF assms(1) topic] by blast
  show ?thesis
  proof (cases "pb_MQTTVersion publish \<ge> 5")
    case True
    then obtain ps w3 where "p_copy en (pb_properties publish) (?S\<lparr>pt_net := w2\<rparr>) = Some (ps, ?S\<lparr>pt_net := w3\<rparr>)"
      "room w3" "props_ok ps" "props_list ps = props_list (pb_properties publish)"
      using p_copy[of "?S\<lparr>pt_net := w2\<rparr>" "pb_properties publish"] assms(2) w2(2) by (auto simp: publish_wf_def)
    then show ?thesis using w2(1) True
      by (intro exI[of _ "Some ps"] exI[of _ w3]) (simp add: new_inbound_def inbound_msg_def kept_def)
  next
    case False
    then show ?thesis using w2
      by (intro exI[of _ None] exI[of _ w2]) (simp add: new_inbound_def inbound_msg_def kept_def)
  qed
qed

lemma pass_on_first:
  assumes "room (pt_net st)" "ms_publish m = Some a" "pt_publications st a = Some pub" "pub_ok pub" "msg_ok m"
    and "ms_MQTTVersion m \<ge> 5"
  shows "\<exists>ps w. pass_on en i m False j st = Some (True, set_publish i j None (free_publication a
      ((enqueue i (entry_of (stored_publish m (Some pub)) ps) st)\<lparr>pt_net := w\<rparr>)))
    \<and> room w \<and> copied (stored_publish m (Some pub)) ps"
proof -
  from process_ok[OF assms(1) stored_publish_wf[OF assms(4,5)], of i True] obtain ps w where
    "Protocol_processPublication en (stored_publish m (Some pub)) i True st
      = Some ((stored_publish m (Some pub))\<lparr>pb_topic := None\<rparr>,
          (enqueue i (entry_of (stored_publish m (Some pub)) ps) st)\<lparr>pt_net := w\<rparr>)"
    "room w" "copied (stored_publish m (Some pub)) ps" by blast
  then show ?thesis using assms(2,3,6) by (intro exI[of _ ps] exI[of _ w]) (simp add: pass_on_def)
qed

lemma pass_on_kept:
  assumes "room (pt_net st)" "ms_publish m = Some a" "pt_publications st a = Some pub" "pub_ok pub"
    and "ms_MQTTVersion m < 5 \<or> again"
  shows "\<exists>w. pass_on en i m again j st = Some (True, st\<lparr>pt_net := w\<rparr>) \<and> room w"
proof -
  obtain w where w: "p_malloc en st = (True, st\<lparr>pt_net := w\<rparr>)" "room w" using p_malloc[OF assms(1)] by blast
  moreover have "(pt_publications st)(a \<mapsto> pub) = pt_publications st" using assms(3) by auto
  moreover have "memcpy (pn_payload pub) (pn_payloadlen pub) = Some (pn_payload pub)"
    using assms(4) by (intro memcpy_all) (simp add: pub_ok_def)
  ultimately show ?thesis using assms(2,3,5) by (auto simp: pass_on_def)
qed

text \<open>
  What \<open>handle_qos2\<close> does, by the version and whether a message with the identifier is in flight.
\<close>

lemma handle_qos2_steps:
  assumes "p_malloc en st = (True, st1)" "new_inbound en publish st1 = Some (m, publish', st2)"
    and "put_inbound en i m st2 = Some (again, j, st3)" "pass_on en i m again j st3 = Some (True, st4)" "room (pt_net st4)"
  shows "\<exists>rc st'. handle_qos2 en i pending publish st = Some (rc, publish', st') \<and> room (pt_net st') \<and> quiet st4 st'"
  using send_or_queue_ok[OF assms(5) acks_ok(2), of i pending PUBREC "pb_msgId publish" "pb_MQTTVersion publish" "pb_msgId publish"]
    assms(1-4)
  by (auto simp: handle_qos2_def)

lemma qos2_start:
  assumes "room (pt_net st)" "publish_wf publish"
  obtains st1 props w where "p_malloc en st = (True, st1)" "kept publish props" "room w"
    "new_inbound en publish st1 = Some (inbound_msg publish props (Some (pt_fresh st)),
      publish\<lparr>pb_topic := None, pb_payload := []\<rparr>,
      (with_publication (pt_fresh st) (publication_of publish) st)\<lparr>pt_net := w\<rparr>)"
proof -
  obtain w1 where w1: "p_malloc en st = (True, st\<lparr>pt_net := w1\<rparr>)" "room w1" using p_malloc[OF assms(1)] by blast
  from new_inbound_ok[of "st\<lparr>pt_net := w1\<rparr>", OF _ assms(2)] w1 that show thesis
    by (fastforce simp: with_publication_def)
qed

lemma qos2_new_v5:
  assumes "i < length (pt_clients st)" "room (pt_net st)" "publish_wf publish" "pb_MQTTVersion publish \<ge> 5"
    and "hd_qos (pb_header publish) = 2"
    and "position (messageIDCompare (pb_msgId publish)) (cl_inboundMsgs (the_client st i)) = None"
  shows "\<exists>rc st' props ps. handle_qos2 en i pending publish st = Some (rc, publish\<lparr>pb_topic := None, pb_payload := []\<rparr>, st')
    \<and> room (pt_net st') \<and> kept publish props \<and> copied publish ps
    \<and> quiet (receive_new i (inbound_msg publish props None) [entry_of publish ps]
        (free_publication (pt_fresh st) (with_publication (pt_fresh st) (publication_of publish) st))) st'"
proof -
  define a P where "a = pt_fresh st" and "P = publication_of publish"
  define S where "S = with_publication a P st"
  obtain st1 props w where w: "p_malloc en st = (True, st1)" "kept publish props" "room w"
    "new_inbound en publish st1 = Some (inbound_msg publish props (Some a),
      publish\<lparr>pb_topic := None, pb_payload := []\<rparr>, S\<lparr>pt_net := w\<rparr>)"
    using qos2_start[OF assms(2,3)] unfolding a_def S_def P_def by blast
  define m where "m = inbound_msg publish props (Some a)"
  define n where "n = length (cl_inboundMsgs (the_client st i))"
  obtain w4 where w4: "put_inbound en i m (S\<lparr>pt_net := w\<rparr>) = Some (False, Some n,
      (upd_client i (\<lambda>c. c\<lparr>cl_inboundMsgs := cl_inboundMsgs c @ [m]\<rparr>) (S\<lparr>pt_net := w\<rparr>))\<lparr>pt_net := w4\<rparr>)" "room w4"
    using put_inbound_new[of "S\<lparr>pt_net := w\<rparr>" m i] w(3) assms(6) by (auto simp: S_def m_def n_def)
  define st4 where "st4 = (upd_client i (\<lambda>c. c\<lparr>cl_inboundMsgs := cl_inboundMsgs c @ [m]\<rparr>) (S\<lparr>pt_net := w\<rparr>))\<lparr>pt_net := w4\<rparr>"
  have st4: "room (pt_net st4)" "ms_publish m = Some a" "pt_publications st4 a = Some P" "pub_ok P" "msg_ok m" "ms_MQTTVersion m \<ge> 5"
    using w4(2) pub_ok_publication_of[OF assms(3)] kept_msg_ok[OF w(2)] assms(4) by (simp_all add: st4_def m_def S_def P_def)
  obtain ps w5 where w5: "pass_on en i m False (Some n) st4 = Some (True, set_publish i (Some n) None (free_publication a
      ((enqueue i (entry_of (stored_publish m (Some P)) ps) st4)\<lparr>pt_net := w5\<rparr>)))"
    "room w5" "copied (stored_publish m (Some P)) ps" using pass_on_first[OF st4, of i "Some n"] by blast
  have entry: "entry_of (stored_publish m (Some P)) ps = entry_of publish ps"
    using assms(3,5) by (simp add: m_def P_def entry_of_stored publish_wf_def)
  have cp: "copied publish ps" using w5(3) copied_stored[OF w(2)] by (simp add: m_def)
  define T where "T = receive_new i (inbound_msg publish props None) [entry_of publish ps] (free_publication a S)"
  have T: "set_publish i (Some n) None (free_publication a ((enqueue i (entry_of publish ps) st4)\<lparr>pt_net := w5\<rparr>))
      = T\<lparr>pt_net := w5\<rparr>"
    unfolding st4_def
    by (subst receive_new_steps) (use assms(1) in \<open>simp_all add: n_def S_def T_def m_def receive_new_def
        free_publication_def upd_client_def the_client_def with_publication_def\<close>)
  obtain rc st' where "handle_qos2 en i pending publish st = Some (rc, publish\<lparr>pb_topic := None, pb_payload := []\<rparr>, st')"
    "room (pt_net st')" "quiet (T\<lparr>pt_net := w5\<rparr>) st'"
    using handle_qos2_steps[OF w(1) w(4)[folded m_def] w4(1)[folded st4_def] w5(1)[unfolded entry T], of pending] w5(2) by auto
  moreover from this(3) have "quiet T st'" by (rule quiet_trans[OF quiet_net])
  ultimately show ?thesis using w(2) cp unfolding T_def S_def a_def P_def by blast
qed

lemma qos2_new_v3:
  assumes "room (pt_net st)" "publish_wf publish" "pb_MQTTVersion publish < 5"
    and "position (messageIDCompare (pb_msgId publish)) (cl_inboundMsgs (the_client st i)) = None"
  shows "\<exists>rc st' props. handle_qos2 en i pending publish st = Some (rc, publish\<lparr>pb_topic := None, pb_payload := []\<rparr>, st')
    \<and> room (pt_net st') \<and> kept publish props
    \<and> quiet (upd_client i (\<lambda>c. c\<lparr>cl_inboundMsgs := cl_inboundMsgs c @ [inbound_msg publish props (Some (pt_fresh st))]\<rparr>)
        (with_publication (pt_fresh st) (publication_of publish) st)) st'"
proof -
  define S where "S = with_publication (pt_fresh st) (publication_of publish) st"
  obtain st1 props w where w: "p_malloc en st = (True, st1)" "kept publish props" "room w"
    "new_inbound en publish st1 = Some (inbound_msg publish props (Some (pt_fresh st)),
      publish\<lparr>pb_topic := None, pb_payload := []\<rparr>, S\<lparr>pt_net := w\<rparr>)"
    using qos2_start[OF assms(1,2)] unfolding S_def by blast
  define m where "m = inbound_msg publish props (Some (pt_fresh st))"
  define T where "T = upd_client i (\<lambda>c. c\<lparr>cl_inboundMsgs := cl_inboundMsgs c @ [m]\<rparr>) S"
  obtain w4 where w4: "put_inbound en i m (S\<lparr>pt_net := w\<rparr>) = Some (False, Some (length (cl_inboundMsgs (the_client st i))),
      T\<lparr>pt_net := w4\<rparr>)" "room w4"
    using put_inbound_new[of "S\<lparr>pt_net := w\<rparr>" m i] w(3) assms(4) by (auto simp: S_def m_def T_def upd_client_commutes)
  obtain w5 where w5: "pass_on en i m False (Some (length (cl_inboundMsgs (the_client st i)))) (T\<lparr>pt_net := w4\<rparr>)
      = Some (True, T\<lparr>pt_net := w5\<rparr>)" "room w5"
    using pass_on_kept[of "T\<lparr>pt_net := w4\<rparr>" m "pt_fresh st" "publication_of publish" False] w4(2) assms(3)
      pub_ok_publication_of[OF assms(2)]
    by (auto simp: T_def S_def m_def)
  obtain rc st' where "handle_qos2 en i pending publish st = Some (rc, publish\<lparr>pb_topic := None, pb_payload := []\<rparr>, st')"
    "room (pt_net st')" "quiet (T\<lparr>pt_net := w5\<rparr>) st'"
    using handle_qos2_steps[OF w(1) w(4)[folded m_def] w4(1) w5(1), of pending] w5(2) by auto
  moreover from this(3) have "quiet T st'" by (rule quiet_trans[OF quiet_net])
  ultimately show ?thesis using w(2) unfolding T_def S_def m_def by blast
qed

lemma qos2_again:
  assumes "room (pt_net st)" "publish_wf publish" "proto_ok extra st"
    and "i < length (pt_clients st)"
    and "position (messageIDCompare (pb_msgId publish)) (cl_inboundMsgs (the_client st i)) = Some j"
  shows "\<exists>rc st' props. handle_qos2 en i pending publish st = Some (rc, publish\<lparr>pb_topic := None, pb_payload := []\<rparr>, st')
    \<and> room (pt_net st') \<and> kept publish props
    \<and> quiet (receive_again i j (inbound_msg publish props (Some (pt_fresh st)))
        (drop_publication (ms_publish (cl_inboundMsgs (the_client st i) ! j))
          (with_publication (pt_fresh st) (publication_of publish) st))) st'"
proof -
  define S where "S = with_publication (pt_fresh st) (publication_of publish) st"
  define old where "old = cl_inboundMsgs (the_client st i) ! j"
  have old: "old \<in> set (cl_inboundMsgs (the_client st i))" using position_Some[OF assms(5)] by (simp add: old_def)
  have ok: "msg_ok old" using old client_ok_at[OF assms(3,4)] by (auto simp: client_ok_def list_all_iff in_ok_def)
  have stored: "\<exists>pub. pt_publications st a = Some pub \<and> pub_ok pub \<and> a < pt_fresh st" if "ms_publish old = Some a" for a
    using ref_of_in[OF assms(4) old that] assms(3) extra_stored[of extra st a]
    by (metis proto_ok_def pubs_ok_def)
  obtain st1 props w where w: "p_malloc en st = (True, st1)" "kept publish props" "room w"
    "new_inbound en publish st1 = Some (inbound_msg publish props (Some (pt_fresh st)),
      publish\<lparr>pb_topic := None, pb_payload := []\<rparr>, S\<lparr>pt_net := w\<rparr>)"
    using qos2_start[OF assms(1,2)] unfolding S_def by blast
  define m where "m = inbound_msg publish props (Some (pt_fresh st))"
  define T where "T = receive_again i j m (drop_publication (ms_publish old) S)"
  obtain w4 where w4: "put_inbound en i m (S\<lparr>pt_net := w\<rparr>) = Some (True, Some j, T\<lparr>pt_net := w4\<rparr>)" "room w4"
    using put_inbound_again[of "S\<lparr>pt_net := w\<rparr>" m i j] w(3) assms(5) ok stored
    by (fastforce simp: S_def m_def T_def upd_client_commutes receive_again_def old_def drop_publication_net)
  have pub: "pt_publications T (pt_fresh st) = Some (publication_of publish)"
    using stored by (auto simp: T_def receive_again_def S_def drop_publication_def split: option.splits)
  obtain w5 where w5: "pass_on en i m True (Some j) (T\<lparr>pt_net := w4\<rparr>) = Some (True, T\<lparr>pt_net := w5\<rparr>)" "room w5"
    using pass_on_kept[of "T\<lparr>pt_net := w4\<rparr>" m "pt_fresh st" "publication_of publish" True] w4(2) pub
      pub_ok_publication_of[OF assms(2)]
    by (auto simp: m_def)
  obtain rc st' where "handle_qos2 en i pending publish st = Some (rc, publish\<lparr>pb_topic := None, pb_payload := []\<rparr>, st')"
    "room (pt_net st')" "quiet (T\<lparr>pt_net := w5\<rparr>) st'"
    using handle_qos2_steps[OF w(1) w(4)[folded m_def] w4(1) w5(1), of pending] w5(2) by auto
  moreover from this(3) have "quiet T st'" by (rule quiet_trans[OF quiet_net])
  ultimately show ?thesis using w(2) unfolding T_def S_def m_def old_def by blast
qed

end

end
