(* ===== verification/Protocol_Safe.thy ===== *)
theory Protocol_Safe
  imports Protocol_Steps
begin

text \<open>
  Every operation of the protocol is defined in a state in which the invariant holds, and keeps it.
\<close>

subsection \<open>Incoming publications\<close>

lemma client_refs_receive [simp]:
  "client_refs (c\<lparr>cl_messageQueue := q, cl_inboundMsgs := cl_inboundMsgs c @ [m]\<rparr>) = client_refs c + msg_refs m"
  by (simp add: client_refs_def ac_simps)

lemma client_ok_simps [simp]:
  "client_ok (c\<lparr>cl_messageQueue := q\<rparr>) = client_ok c"
  "client_ok (c\<lparr>cl_messageQueue := q, cl_inboundMsgs := ms\<rparr>) = client_ok (c\<lparr>cl_inboundMsgs := ms\<rparr>)"
  by (simp_all add: client_ok_def)

lemma client_ok_inbound:
  assumes "client_ok c" "in_ok m" "position (messageIDCompare (ms_msgid m)) (cl_inboundMsgs c) = None"
  shows "client_ok (c\<lparr>cl_inboundMsgs := cl_inboundMsgs c @ [m]\<rparr>)"
  using assms by (auto simp: client_ok_def position_None messageIDCompare_def)

lemma client_ok_replace:
  assumes "client_ok c" "in_ok m" "position (messageIDCompare (ms_msgid m)) (cl_inboundMsgs c) = Some j"
  shows "client_ok (c\<lparr>cl_inboundMsgs := (cl_inboundMsgs c)[j := m]\<rparr>)"
proof -
  have j: "j < length (cl_inboundMsgs c)" "ms_msgid (cl_inboundMsgs c ! j) = ms_msgid m"
    using position_Some[OF assms(3)] by (auto simp: messageIDCompare_def)
  then have "map ms_msgid ((cl_inboundMsgs c)[j := m]) = map ms_msgid (cl_inboundMsgs c)"
    by (auto simp: map_update list_update_id) (metis list_update_id map_update nth_map)
  with assms(1,2) show ?thesis
    by (auto simp: client_ok_def list_all_iff dest!: set_update_subset_insert[THEN subsetD])
qed

lemma kept_in_ok:
  "kept publish props \<Longrightarrow> hd_qos (pb_header publish) = 2 \<Longrightarrow> (pb_MQTTVersion publish < 5 \<Longrightarrow> p \<noteq> None) \<Longrightarrow>
    in_ok (inbound_msg publish props p)"
  using kept_msg_ok[of publish props p] by (auto simp: in_ok_def) (simp_all add: inbound_msg_def)

lemma fresh_upd_client: "pt_fresh (upd_client i f st) = pt_fresh st" by simp

lemma proto_ok_new_v5:
  assumes "proto_ok {#} st" "i < length (pt_clients st)" "publish_wf publish" "kept publish props"
    and "hd_qos (pb_header publish) = 2" "pb_MQTTVersion publish \<ge> 5"
    and "position (messageIDCompare (pb_msgId publish)) (cl_inboundMsgs (the_client st i)) = None"
  shows "proto_ok {#} (receive_new i (inbound_msg publish props None) qes
      (free_publication (pt_fresh st) (with_publication (pt_fresh st) (publication_of publish) st)))"
proof -
  have "proto_ok {#} (free_publication (pt_fresh st) (with_publication (pt_fresh st) (publication_of publish) st))"
    using proto_ok_store[OF assms(1) pub_ok_publication_of[OF assms(3)]] by (intro proto_ok_free) simp
  then show ?thesis
    unfolding receive_new_def
    by (rule proto_ok_upd) (use assms client_ok_at[OF assms(1,2)] in
        \<open>simp_all add: msg_refs_def client_ok_inbound kept_in_ok\<close>)
qed

lemma proto_ok_new_v3:
  assumes "proto_ok {#} st" "i < length (pt_clients st)" "publish_wf publish" "kept publish props"
    and "hd_qos (pb_header publish) = 2"
    and "position (messageIDCompare (pb_msgId publish)) (cl_inboundMsgs (the_client st i)) = None"
  shows "proto_ok {#} (upd_client i (\<lambda>c. c\<lparr>cl_inboundMsgs := cl_inboundMsgs c @ [inbound_msg publish props (Some (pt_fresh st))]\<rparr>)
        (with_publication (pt_fresh st) (publication_of publish) st))"
  using proto_ok_store[OF assms(1) pub_ok_publication_of[OF assms(3)]]
  by (rule proto_ok_upd) (use assms client_ok_at[OF assms(1,2)] in
      \<open>simp_all add: msg_refs_def client_ok_inbound kept_in_ok\<close>)

lemma proto_ok_again:
  assumes "proto_ok {#} st" "i < length (pt_clients st)" "publish_wf publish" "kept publish props"
    and "hd_qos (pb_header publish) = 2"
    and j: "position (messageIDCompare (pb_msgId publish)) (cl_inboundMsgs (the_client st i)) = Some j"
  shows "proto_ok {#} (receive_again i j (inbound_msg publish props (Some (pt_fresh st)))
        (drop_publication (ms_publish (cl_inboundMsgs (the_client st i) ! j))
          (with_publication (pt_fresh st) (publication_of publish) st)))"
proof -
  let ?c = "the_client st i" and ?m = "inbound_msg publish props (Some (pt_fresh st))"
  let ?old = "cl_inboundMsgs ?c ! j"
  let ?S = "with_publication (pt_fresh st) (publication_of publish) st"
  have jl: "j < length (cl_inboundMsgs ?c)" using position_Some[OF j] by simp
  have "proto_ok ({#} + {#pt_fresh st#}) ?S" by (rule proto_ok_store[OF assms(1) pub_ok_publication_of[OF assms(3)]])
  then have "proto_ok (msg_refs ?old) (receive_again i j ?m ?S)"
    unfolding receive_again_def
    by (rule proto_ok_upd)
      (use assms client_ok_at[OF assms(1,2)] client_refs_replace(1)[OF jl, of ?m] in
        \<open>simp_all add: msg_refs_def client_ok_replace kept_in_ok\<close>)
  then have "proto_ok {#} (drop_publication (ms_publish ?old) (receive_again i j ?m ?S))"
    by (intro proto_ok_drop) (simp add: msg_refs_def)
  moreover have "drop_publication (ms_publish ?old) (receive_again i j ?m ?S)
      = receive_again i j ?m (drop_publication (ms_publish ?old) ?S)"
    by (simp add: drop_publication_def receive_again_def upd_client_commutes split: option.splits)
  ultimately show ?thesis by simp
qed

definition good :: "('w \<Rightarrow> bool) \<Rightarrow> 'w protocol \<Rightarrow> bool" where
  "good room st \<longleftrightarrow> proto_ok {#} st \<and> room (pt_net st)"

lemma good_quiet: "quiet st st' \<Longrightarrow> proto_ok {#} st \<Longrightarrow> room (pt_net st') \<Longrightarrow> good room st'"
  by (simp add: good_def quiet_proto_ok)

lemma freePublish_ok:
  "publish_wf p \<Longrightarrow> MQTTPacket_freePublish (p\<lparr>pb_topic := t\<rparr>) = Some ()"
  "publish_wf p \<Longrightarrow> MQTTPacket_freePublish (p\<lparr>pb_topic := t, pb_payload := d\<rparr>) = Some ()"
  "publish_wf p \<Longrightarrow> MQTTPacket_freePublish p = Some ()"
  by (auto simp: MQTTPacket_freePublish_def publish_wf_def MQTTProperties_free_def props_ok_def props_consistent_slots)

text \<open>An acknowledgement of which the handlers read the fields.\<close>

definition ack_wf :: "Ack \<Rightarrow> bool" where
  "ack_wf a \<longleftrightarrow> ak_msgId a \<noteq> None
     \<and> (ak_MQTTVersion a \<ge> 5 \<longrightarrow> ak_rc a \<noteq> None \<and> (\<exists>ps. ak_properties a = Some ps \<and> props_ok ps))"

lemma freeAck_ok: "ack_wf a \<Longrightarrow> MQTTPacket_freeAck a = Some ()"
  by (auto simp: MQTTPacket_freeAck_def ack_wf_def MQTTProperties_free_def props_ok_def props_consistent_slots)

lemma proto_ok_enqueue:
  "proto_ok {#} st \<Longrightarrow> i < length (pt_clients st) \<Longrightarrow> proto_ok {#} (enqueue i qe st)"
  unfolding enqueue_def by (rule proto_ok_upd_same) simp_all

lemma enqueue_length [simp]: "length (pt_clients (enqueue i qe st)) = length (pt_clients st)"
  by (simp add: enqueue_def)

context network begin

lemma handle_qos2_good:
  assumes "good room st" "i < length (pt_clients st)" "publish_wf publish" "hd_qos (pb_header publish) = 2"
  shows "\<exists>rc st'. handle_qos2 en i pending publish st = Some (rc, publish\<lparr>pb_topic := None, pb_payload := []\<rparr>, st')
    \<and> good room st'"
proof -
  have ok: "proto_ok {#} st" "room (pt_net st)" using assms(1) by (simp_all add: good_def)
  consider (new5) "position (messageIDCompare (pb_msgId publish)) (cl_inboundMsgs (the_client st i)) = None"
      "pb_MQTTVersion publish \<ge> 5"
    | (new3) "position (messageIDCompare (pb_msgId publish)) (cl_inboundMsgs (the_client st i)) = None"
      "pb_MQTTVersion publish < 5"
    | (again) j where "position (messageIDCompare (pb_msgId publish)) (cl_inboundMsgs (the_client st i)) = Some j"
    by fastforce
  then show ?thesis
  proof cases
    case new5
    from qos2_new_v5[OF assms(2) ok(2) assms(3) new5(2) assms(4) new5(1), of pending] show ?thesis
      using proto_ok_new_v5[OF ok(1) assms(2,3) _ assms(4) new5(2,1)] good_quiet by blast
  next
    case new3
    from qos2_new_v3[OF ok(2) assms(3) new3(2,1), of pending] show ?thesis
      using proto_ok_new_v3[OF ok(1) assms(2,3) _ assms(4) new3(1)] good_quiet by blast
  next
    case again
    from qos2_again[OF ok(2) assms(3) ok(1) assms(2) again, of pending] show ?thesis
      using proto_ok_again[OF ok(1) assms(2,3) _ assms(4) again] good_quiet by blast
  qed
qed

lemma process_good:
  assumes "good room st" "i < length (pt_clients st)" "publish_wf publish"
  shows "\<exists>st'. Protocol_processPublication en publish i alloc st = Some (publish\<lparr>pb_topic := None\<rparr>, st') \<and> good room st'
    \<and> length (pt_clients st') = length (pt_clients st)"
  using process_ok[of st publish i alloc] assms proto_ok_enqueue[of st i] by (fastforce simp: good_def)

lemma send_or_queue_good:
  assumes "good room st" "sends_ok room send"
  shows "\<exists>rc st'. send_or_queue en i pending type msgId send st = Some (rc, st') \<and> good room st'"
  using send_or_queue_ok[of st send i pending type msgId] assms good_quiet unfolding good_def by blast

lemma handlePublishes_good:
  assumes "good room st" "find_client st sock = Some i" "publish_wf publish"
  shows "\<exists>rc st'. MQTTProtocol_handlePublishes en publish sock st = Some (rc, st') \<and> good room st'"
proof -
  note i = find_client_in[OF assms(2)]
  define pending where "pending \<longleftrightarrow> \<not> en_noPendingWrites en sock (pt_net st)"
  obtain st1 where st1: "Protocol_processPublication en publish i True st = Some (publish\<lparr>pb_topic := None\<rparr>, st1)" "good room st1"
    using process_good[OF assms(1) i assms(3)] by blast
  obtain rc2 st2 where st2: "send_or_queue en i pending PUBACK (pb_msgId publish)
      (MQTTPacket_send_puback (en_tp en) (pb_MQTTVersion publish) (pb_msgId publish)) st1 = Some (rc2, st2)" "good room st2"
    using send_or_queue_good[OF st1(2) acks_ok(1)] by blast
  consider (zero) "hd_qos (pb_header publish) = 0" | (one) "hd_qos (pb_header publish) = 1"
    | (two) "hd_qos (pb_header publish) = 2" | (bad) "hd_qos (pb_header publish) > 2" by linarith
  then show ?thesis
  proof cases
    case two
    obtain rc st' where "handle_qos2 en i pending publish st = Some (rc, publish\<lparr>pb_topic := None, pb_payload := []\<rparr>, st')" "good room st'"
      using handle_qos2_good[OF assms(1) i assms(3) two] by blast
    with two assms(2) freePublish_ok[OF assms(3)] show ?thesis
      by (simp add: MQTTProtocol_handlePublishes_def Let_def flip: pending_def)
  qed (use assms(1,2) st1 st2 freePublish_ok[OF assms(3)] in
      \<open>simp_all add: MQTTProtocol_handlePublishes_def Let_def flip: pending_def\<close>)
qed

end

subsection \<open>Acknowledgements\<close>

definition forget_outbound :: "nat \<Rightarrow> nat \<Rightarrow> 'w protocol \<Rightarrow> 'w protocol" where
  "forget_outbound i j st = upd_client i (\<lambda>c. c\<lparr>cl_outboundMsgs := remove_at j (cl_outboundMsgs c)\<rparr>)
     (drop_publication (ms_publish (cl_outboundMsgs (the_client st i) ! j)) st)"

definition forget_inbound :: "nat \<Rightarrow> nat \<Rightarrow> 'w protocol \<Rightarrow> 'w protocol" where
  "forget_inbound i j st = upd_client i (\<lambda>c. c\<lparr>cl_inboundMsgs := remove_at j (cl_inboundMsgs c)\<rparr>)
     (drop_publication (ms_publish (cl_inboundMsgs (the_client st i) ! j)) st)"

lemma drop_upd_client: "drop_publication p (upd_client i f st) = upd_client i f (drop_publication p st)"
  by (simp add: drop_publication_def upd_client_commutes split: option.splits)

lemma client_ok_forget:
  "client_ok c \<Longrightarrow> client_ok (c\<lparr>cl_outboundMsgs := remove_at j (cl_outboundMsgs c)\<rparr>)"
  "client_ok c \<Longrightarrow> client_ok (c\<lparr>cl_inboundMsgs := remove_at j (cl_inboundMsgs c)\<rparr>)"
  using set_remove_at[of j "cl_outboundMsgs c"] set_remove_at[of j "cl_inboundMsgs c"]
  by (auto simp: client_ok_def map_remove_at distinct_remove_at list_all_iff)

lemma proto_ok_forget:
  assumes "proto_ok {#} st" "i < length (pt_clients st)"
  shows "j < length (cl_outboundMsgs (the_client st i)) \<Longrightarrow> proto_ok {#} (forget_outbound i j st)"
    and "j < length (cl_inboundMsgs (the_client st i)) \<Longrightarrow> proto_ok {#} (forget_inbound i j st)"
proof -
  let ?c = "the_client st i"
  note ok = client_ok_forget[OF client_ok_at[OF assms], of j]
  { assume j: "j < length (cl_outboundMsgs ?c)"
    have "proto_ok (msg_refs (cl_outboundMsgs ?c ! j)) (upd_client i (\<lambda>c. c\<lparr>cl_outboundMsgs := remove_at j (cl_outboundMsgs c)\<rparr>) st)"
      by (rule proto_ok_upd[OF assms]) (simp_all add: ok client_refs_remove(2)[OF j])
    then show "proto_ok {#} (forget_outbound i j st)"
      unfolding forget_outbound_def drop_upd_client[symmetric] by (intro proto_ok_drop) (simp add: msg_refs_def) }
  { assume j: "j < length (cl_inboundMsgs ?c)"
    have "proto_ok (msg_refs (cl_inboundMsgs ?c ! j)) (upd_client i (\<lambda>c. c\<lparr>cl_inboundMsgs := remove_at j (cl_inboundMsgs c)\<rparr>) st)"
      by (rule proto_ok_upd[OF assms]) (simp_all add: ok client_refs_remove(1)[OF j])
    then show "proto_ok {#} (forget_inbound i j st)"
      unfolding forget_inbound_def drop_upd_client[symmetric] by (intro proto_ok_drop) (simp add: msg_refs_def) }
qed

lemma proto_ok_same_ids:
  assumes "proto_ok {#} st" "i < length (pt_clients st)" "j < length (cl_outboundMsgs (the_client st i))"
    and "out_ok (g (cl_outboundMsgs (the_client st i) ! j))"
    and "ms_msgid (g (cl_outboundMsgs (the_client st i) ! j)) = ms_msgid (cl_outboundMsgs (the_client st i) ! j)"
    and "ms_publish (g (cl_outboundMsgs (the_client st i) ! j)) = ms_publish (cl_outboundMsgs (the_client st i) ! j)"
  shows "proto_ok {#} (upd_client i (\<lambda>c. c\<lparr>cl_outboundMsgs := (cl_outboundMsgs c)[j := g (cl_outboundMsgs c ! j)]\<rparr>) st)"
proof (rule proto_ok_upd[OF assms(1,2)])
  let ?c = "the_client st i"
  let ?m = "cl_outboundMsgs ?c ! j"
  have "map ms_msgid ((cl_outboundMsgs ?c)[j := g ?m]) = map ms_msgid (cl_outboundMsgs ?c)"
    using assms(3,5) by (simp add: map_update) (metis list_update_id map_update nth_map)
  then show "client_ok (?c\<lparr>cl_outboundMsgs := (cl_outboundMsgs ?c)[j := g ?m]\<rparr>)"
    using client_ok_at[OF assms(1,2)] assms(4)
    by (auto simp: client_ok_def list_all_iff dest!: set_update_subset_insert[THEN subsetD])
  have "msg_refs (g ?m) = msg_refs ?m" by (simp add: msg_refs_def assms(6))
  then show "client_refs (?c\<lparr>cl_outboundMsgs := (cl_outboundMsgs ?c)[j := g ?m]\<rparr>) + {#} = client_refs ?c + {#}"
    using client_refs_replace(2)[OF assms(3), of "g ?m"] by simp
qed

lemma out_ok_at:
  "proto_ok extra st \<Longrightarrow> i < length (pt_clients st) \<Longrightarrow> j < length (cl_outboundMsgs (the_client st i)) \<Longrightarrow>
    out_ok (cl_outboundMsgs (the_client st i) ! j)"
  using client_ok_at by (fastforce simp: client_ok_def list_all_length)

lemma in_ok_at:
  "proto_ok extra st \<Longrightarrow> i < length (pt_clients st) \<Longrightarrow> j < length (cl_inboundMsgs (the_client st i)) \<Longrightarrow>
    in_ok (cl_inboundMsgs (the_client st i) ! j)"
  using client_ok_at by (fastforce simp: client_ok_def list_all_length)

lemma out_stored:
  assumes "proto_ok extra st" "i < length (pt_clients st)" "j < length (cl_outboundMsgs (the_client st i))"
  shows "\<exists>a pub. ms_publish (cl_outboundMsgs (the_client st i) ! j) = Some a \<and> pt_publications st a = Some pub \<and> pub_ok pub"
proof -
  obtain a where a: "ms_publish (cl_outboundMsgs (the_client st i) ! j) = Some a"
    using out_ok_at[OF assms] by (auto simp: out_ok_def)
  have "a \<in># all_refs st + extra" by (rule ref_of_out[OF assms(2) nth_mem[OF assms(3)] a])
  with a assms(1) show ?thesis by (auto simp: proto_ok_def elim: extra_stored)
qed

lemma in_stored:
  assumes "proto_ok extra st" "i < length (pt_clients st)" "j < length (cl_inboundMsgs (the_client st i))"
    and "ms_publish (cl_inboundMsgs (the_client st i) ! j) = Some a"
  shows "\<exists>pub. pt_publications st a = Some pub \<and> pub_ok pub"
proof -
  have "a \<in># all_refs st + extra" by (rule ref_of_in[OF assms(2) nth_mem[OF assms(3)] assms(4)])
  with assms(1) show ?thesis by (auto simp: proto_ok_def elim: extra_stored)
qed

text \<open>The effects of the acknowledgements on the messages.\<close>

definition puback_effect :: "nat \<Rightarrow> int \<Rightarrow> 'w protocol \<Rightarrow> 'w protocol" where
  "puback_effect i msgId st = (case position (messageIDCompare msgId) (cl_outboundMsgs (the_client st i)) of
       Some j \<Rightarrow> if ms_qos (cl_outboundMsgs (the_client st i) ! j) = 1 then forget_outbound i j st else st
     | None \<Rightarrow> st)"

definition pubrec_effect :: "nat \<Rightarrow> int \<Rightarrow> bool \<Rightarrow> nat \<Rightarrow> 'w protocol \<Rightarrow> 'w protocol" where
  "pubrec_effect i msgId error now st = (case position (messageIDCompare msgId) (cl_outboundMsgs (the_client st i)) of
       Some j \<Rightarrow> (let m = cl_outboundMsgs (the_client st i) ! j in
         if ms_qos m = 2 \<and> ms_nextMessageType m = Some PUBREC
         then if error then (forget_outbound i j st)\<lparr>pt_msgs_sent := pt_msgs_sent st + 1\<rparr> else set_next i j PUBCOMP now st
         else st)
     | None \<Rightarrow> st)"

definition pubcomp_effect :: "nat \<Rightarrow> int \<Rightarrow> 'w protocol \<Rightarrow> 'w protocol" where
  "pubcomp_effect i msgId st = (case position (messageIDCompare msgId) (cl_outboundMsgs (the_client st i)) of
       Some j \<Rightarrow> (let m = cl_outboundMsgs (the_client st i) ! j in
         if ms_qos m = 2 \<and> ms_nextMessageType m = Some PUBCOMP
         then (forget_outbound i j st)\<lparr>pt_msgs_sent := pt_msgs_sent st + 1\<rparr> else st)
     | None \<Rightarrow> st)"

definition ack_error :: "Ack \<Rightarrow> bool" where
  "ack_error a \<longleftrightarrow> ak_MQTTVersion a \<ge> 5 \<and> (\<exists>reason. ak_rc a = Some reason \<and> unat reason \<ge> 128)"

lemma proto_ok_effects:
  assumes "proto_ok {#} st" "i < length (pt_clients st)"
  shows "proto_ok {#} (puback_effect i msgId st)" "proto_ok {#} (pubrec_effect i msgId error now st)"
    "proto_ok {#} (pubcomp_effect i msgId st)"
proof -
  have next_ok: "proto_ok {#} (set_next i j PUBCOMP now st)"
    if "j < length (cl_outboundMsgs (the_client st i))" "ms_qos (cl_outboundMsgs (the_client st i) ! j) = 2" for j
    unfolding set_next_def
    by (rule proto_ok_same_ids[OF assms that(1), where g = "\<lambda>m. m\<lparr>ms_nextMessageType := Some PUBCOMP, ms_lastTouch := now\<rparr>"])
      (use out_ok_at[OF assms that(1)] that(2) in \<open>simp_all add: out_ok_def msg_ok_def\<close>)
  note f = proto_ok_forget(1)[OF assms]
  show "proto_ok {#} (puback_effect i msgId st)"
    using assms(1) f by (auto simp: puback_effect_def dest: position_Some split: option.splits)
  show "proto_ok {#} (pubrec_effect i msgId error now st)"
    using assms(1) f next_ok by (auto simp: pubrec_effect_def Let_def dest: position_Some split: option.splits)
  show "proto_ok {#} (pubcomp_effect i msgId st)"
    using assms(1) f by (auto simp: pubcomp_effect_def Let_def dest: position_Some split: option.splits)
qed

lemma forget_outbound_sent [simp]: "pt_msgs_sent (forget_outbound i j st) = pt_msgs_sent st"
  by (simp add: forget_outbound_def drop_publication_def split: option.splits)

context network begin

lemma p_remove_quiet:
  assumes "room (pt_net st)"
  obtains rc w where "p_remove en i stem qos msgId st = (rc, st\<lparr>pt_net := w\<rparr>)" "room w"
proof -
  obtain rc w where e: "en_remove en (the_client st i) stem qos msgId (pt_net st) = (rc, w)" by fastforce
  moreover have "room w" using remove[OF assms, of "the_client st i" stem qos msgId] by (simp add: e)
  ultimately show thesis using that by (simp add: p_remove_def)
qed

lemma end_exchange_ok:
  assumes "good room st" "i < length (pt_clients st)" "j < length (cl_outboundMsgs (the_client st i))"
  shows "\<exists>rc w. end_exchange en i j v msgId False st = Some (rc, None, (forget_outbound i j st)\<lparr>pt_net := w\<rparr>) \<and> room w"
proof -
  have ok: "proto_ok {#} st" "room (pt_net st)" using assms(1) by (simp_all add: good_def)
  let ?m = "cl_outboundMsgs (the_client st i) ! j"
  obtain rc w where w: "p_remove en i (PERSISTENCE_SENT v) (ms_qos ?m) msgId st = (rc, st\<lparr>pt_net := w\<rparr>)" "room w"
    using p_remove_quiet[OF ok(2)] by blast
  have "MQTTProtocol_removePublication (ms_publish ?m) (st\<lparr>pt_net := w\<rparr>) = Some ((drop_publication (ms_publish ?m) st)\<lparr>pt_net := w\<rparr>)"
    using release_ok[of "ms_publish ?m" "st\<lparr>pt_net := w\<rparr>"] out_stored[OF ok(1) assms(2,3)] by (auto simp: drop_publication_net)
  moreover have "(if ms_MQTTVersion ?m \<ge> 5 then p_free (ms_properties ?m) else Some ()) = Some ()"
    using out_ok_at[OF ok(1) assms(2,3)] by (intro msg_ok_free) (simp add: out_ok_def)
  ultimately show ?thesis using w by (auto simp: end_exchange_def forget_outbound_def upd_client_commutes)
qed

lemma forget_good:
  assumes "good room st" "i < length (pt_clients st)" "j < length (cl_outboundMsgs (the_client st i))" "room w"
  shows "good room ((forget_outbound i j st)\<lparr>pt_net := w\<rparr>)"
  using proto_ok_forget(1)[of st i j] assms by (simp add: good_def)

text \<open>A PUBACK ends the exchange of a message with QoS 1, and does nothing otherwise.\<close>

lemma handlePubacks_ok:
  assumes "good room st" "find_client st sock = Some i" "ack_wf puback" "ak_msgId puback = Some msgId"
  shows "\<exists>rc w. MQTTProtocol_handlePubacks en puback sock False st = Some (rc, None, (puback_effect i msgId st)\<lparr>pt_net := w\<rparr>)
    \<and> room w"
proof -
  note i = find_client_in[OF assms(2)]
  have r: "room (pt_net st)" using assms(1) by (simp add: good_def)
  show ?thesis
  proof (cases "position (messageIDCompare msgId) (cl_outboundMsgs (the_client st i))")
    case None
    with assms(2,4) freeAck_ok[OF assms(3)] r show ?thesis
      by (intro exI[of _ TCPSOCKET_COMPLETE] exI[of _ "pt_net st"])
        (simp add: MQTTProtocol_handlePubacks_def puback_effect_def)
  next
    case (Some j)
    note j = position_Some[OF Some]
    show ?thesis
    proof (cases "ms_qos (cl_outboundMsgs (the_client st i) ! j) = 1")
      case True
      with end_exchange_ok[OF assms(1) i, of j] j Some assms(2,4) freeAck_ok[OF assms(3)] show ?thesis
        by (fastforce simp: MQTTProtocol_handlePubacks_def Let_def puback_effect_def)
    next
      case False
      with Some assms(2,4) freeAck_ok[OF assms(3)] r show ?thesis
        by (intro exI[of _ TCPSOCKET_COMPLETE] exI[of _ "pt_net st"])
          (simp add: MQTTProtocol_handlePubacks_def puback_effect_def)
    qed
  qed
qed

lemma handlePubcomps_ok:
  assumes "good room st" "find_client st sock = Some i" "ack_wf pubcomp" "ak_msgId pubcomp = Some msgId"
  shows "\<exists>rc w. MQTTProtocol_handlePubcomps en pubcomp sock False st = Some (rc, None, (pubcomp_effect i msgId st)\<lparr>pt_net := w\<rparr>)
    \<and> room w"
proof -
  note i = find_client_in[OF assms(2)]
  have r: "room (pt_net st)" "proto_ok {#} st" using assms(1) by (simp_all add: good_def)
  consider (none) "position (messageIDCompare msgId) (cl_outboundMsgs (the_client st i)) = None"
    | (other) j where "position (messageIDCompare msgId) (cl_outboundMsgs (the_client st i)) = Some j"
        "\<not> (ms_qos (cl_outboundMsgs (the_client st i) ! j) = 2 \<and> ms_nextMessageType (cl_outboundMsgs (the_client st i) ! j) = Some PUBCOMP)"
    | (last) j where "position (messageIDCompare msgId) (cl_outboundMsgs (the_client st i)) = Some j"
        "ms_qos (cl_outboundMsgs (the_client st i) ! j) = 2" "ms_nextMessageType (cl_outboundMsgs (the_client st i) ! j) = Some PUBCOMP"
    by (cases "position (messageIDCompare msgId) (cl_outboundMsgs (the_client st i))") auto
  then show ?thesis
  proof cases
    case none
    with assms(2,4) freeAck_ok[OF assms(3)] r show ?thesis
      by (intro exI[of _ TCPSOCKET_COMPLETE] exI[of _ "pt_net st"])
        (simp add: MQTTProtocol_handlePubcomps_def pubcomp_effect_def)
  next
    case other
    with out_ok_at[OF r(2) i, of j] position_Some[OF other(1)] assms(2,4) freeAck_ok[OF assms(3)] r show ?thesis
      by (intro exI[of _ TCPSOCKET_COMPLETE] exI[of _ "pt_net st"])
        (auto simp: MQTTProtocol_handlePubcomps_def pubcomp_effect_def out_ok_def)
  next
    case last
    obtain rc w where w: "end_exchange en i j (ms_MQTTVersion (cl_outboundMsgs (the_client st i) ! j)) msgId False st
        = Some (rc, None, (forget_outbound i j st)\<lparr>pt_net := w\<rparr>)" "room w"
      using end_exchange_ok[OF assms(1) i, of j] position_Some[OF last(1)] by blast
    with last assms(2,4) freeAck_ok[OF assms(3)] show ?thesis
      by (intro exI[of _ rc] exI[of _ w]) (simp add: MQTTProtocol_handlePubcomps_def Let_def pubcomp_effect_def)
  qed
qed

lemma pubrec_message_ok:
  assumes "good room st" "i < length (pt_clients st)" "ack_wf pubrec"
  shows "\<exists>rc w send_pubrel. pubrec_message en pubrec i msgId False st = Some (rc, None, send_pubrel,
      (pubrec_effect i msgId (ack_error pubrec) (tp_now (en_tp en) (pt_net st)) st)\<lparr>pt_net := w\<rparr>) \<and> room w"
proof -
  have r: "room (pt_net st)" "proto_ok {#} st" using assms(1) by (simp_all add: good_def)
  have err: "(if ak_MQTTVersion pubrec \<ge> MQTTVERSION_5
      then do { reason \<leftarrow> ak_rc pubrec; Some (unat reason \<ge> 128) } else Some False) = Some (ack_error pubrec)"
    using assms(3) by (auto simp: ack_wf_def ack_error_def)
  consider (none) "position (messageIDCompare msgId) (cl_outboundMsgs (the_client st i)) = None"
    | (other) j where "position (messageIDCompare msgId) (cl_outboundMsgs (the_client st i)) = Some j"
        "\<not> (ms_qos (cl_outboundMsgs (the_client st i) ! j) = 2 \<and> ms_nextMessageType (cl_outboundMsgs (the_client st i) ! j) = Some PUBREC)"
    | (first) j where "position (messageIDCompare msgId) (cl_outboundMsgs (the_client st i)) = Some j"
        "ms_qos (cl_outboundMsgs (the_client st i) ! j) = 2" "ms_nextMessageType (cl_outboundMsgs (the_client st i) ! j) = Some PUBREC"
    by (cases "position (messageIDCompare msgId) (cl_outboundMsgs (the_client st i))") auto
  then show ?thesis
  proof cases
    case none
    with r(1) show ?thesis
      by (intro exI[of _ TCPSOCKET_COMPLETE] exI[of _ "pt_net st"] exI[of _ True]) (simp add: pubrec_effect_def pubrec_message_def)
  next
    case other
    with r(1) out_ok_at[OF r(2) assms(2), of j] position_Some[OF other(1)] show ?thesis
      by (intro exI[of _ TCPSOCKET_COMPLETE] exI[of _ "pt_net st"] exI[of _ True])
        (auto simp: pubrec_effect_def out_ok_def pubrec_message_def)
  next
    case first
    note j = position_Some[OF first(1)]
    show ?thesis
    proof (cases "ack_error pubrec")
      case True
      obtain rc w where "end_exchange en i j (ak_MQTTVersion pubrec) msgId False st
          = Some (rc, None, (forget_outbound i j st)\<lparr>pt_net := w\<rparr>)" "room w"
        using end_exchange_ok[OF assms(1,2), of j] j by blast
      with first True err show ?thesis
        by (intro exI[of _ rc] exI[of _ w] exI[of _ False]) (simp add: pubrec_effect_def Let_def pubrec_message_def)
    next
      case False
      with first err r(1) show ?thesis
        by (intro exI[of _ TCPSOCKET_COMPLETE] exI[of _ "pt_net st"] exI[of _ True])
          (simp add: pubrec_effect_def Let_def pubrec_message_def, simp add: set_next_def upd_client_def)
    qed
  qed
qed

lemma handlePubrecs_ok:
  assumes "good room st" "find_client st sock = Some i" "ack_wf pubrec" "ak_msgId pubrec = Some msgId"
  shows "\<exists>rc st'. MQTTProtocol_handlePubrecs en pubrec sock False st = Some (rc, None, st') \<and> room (pt_net st')
    \<and> quiet (pubrec_effect i msgId (ack_error pubrec) (tp_now (en_tp en) (pt_net st)) st) st'"
proof -
  let ?E = "pubrec_effect i msgId (ack_error pubrec) (tp_now (en_tp en) (pt_net st)) st"
  obtain rc w send where s: "pubrec_message en pubrec i msgId False st = Some (rc, None, send, ?E\<lparr>pt_net := w\<rparr>)" "room w"
    using pubrec_message_ok[OF assms(1) find_client_in[OF assms(2)] assms(3)] by blast
  let ?st1 = "?E\<lparr>pt_net := w\<rparr>"
  have r: "room (pt_net ?st1)" using s(2) by simp
  obtain rc2 st2 where st2: "(if \<not> send then Some (rc, ?st1)
        else send_or_queue en i (\<not> en_noPendingWrites en sock (pt_net ?st1)) PUBREL msgId
          (MQTTPacket_send_pubrel (en_tp en) (ak_MQTTVersion pubrec) msgId 0) ?st1) = Some (rc2, st2)"
      "quiet ?st1 st2" "room (pt_net st2)"
    using send_or_queue_ok[OF r acks_ok(3), of i "\<not> en_noPendingWrites en sock (pt_net ?st1)" PUBREL msgId] r
    by (cases send) fastforce+
  have "MQTTProtocol_handlePubrecs en pubrec sock False st = Some (rc2, None, st2)"
    unfolding MQTTProtocol_handlePubrecs_def assms(2,4) bind.bind_lunit s(1) prod.case st2(1) freeAck_ok[OF assms(3)] ..
  moreover have "quiet ?E st2" by (rule quiet_trans[OF quiet_net st2(2)])
  ultimately show ?thesis using st2(3) by blast
qed

end

text \<open>The effect of a PUBREL: before MQTT 5 the publication, \<open>qe\<close>, is handed on.\<close>

definition pubrel_effect :: "nat \<Rightarrow> int \<Rightarrow> qEntry list \<Rightarrow> 'w protocol \<Rightarrow> 'w protocol" where
  "pubrel_effect i msgId qes st = (case position (messageIDCompare msgId) (cl_inboundMsgs (the_client st i)) of
       Some j \<Rightarrow> (forget_inbound i j (upd_client i (\<lambda>c. c\<lparr>cl_messageQueue := cl_messageQueue c @ qes\<rparr>) st))
         \<lparr>pt_msgs_received := pt_msgs_received st + 1\<rparr>
     | None \<Rightarrow> st)"

text \<open>The entries that are handed on: those of a stored publication, when there is one and it is due.\<close>

definition pubrel_entries :: "nat \<Rightarrow> int \<Rightarrow> 'w protocol \<Rightarrow> qEntry list \<Rightarrow> bool" where
  "pubrel_entries i msgId st qes \<longleftrightarrow>
     (case position (messageIDCompare msgId) (cl_inboundMsgs (the_client st i)) of
        None \<Rightarrow> qes = []
      | Some j \<Rightarrow>
          let m = cl_inboundMsgs (the_client st i) ! j in
          if ms_MQTTVersion m \<ge> 5 then qes = []
          else \<exists>a pub ps. ms_publish m = Some a \<and> pt_publications st a = Some pub
            \<and> props_list ps = [] \<and> qes = [entry_of (stored_publish m (Some pub)) ps])"

lemma forget_inbound_simps [simp]:
  "pt_msgs_received (forget_inbound i j st) = pt_msgs_received st" "pt_net (forget_inbound i j st) = pt_net st"
  "length (pt_clients (forget_inbound i j st)) = length (pt_clients st)"
  by (simp_all add: forget_inbound_def drop_publication_def split: option.splits)

lemma proto_ok_pubrel:
  assumes "proto_ok {#} st" "i < length (pt_clients st)"
  shows "proto_ok {#} (pubrel_effect i msgId qes st)"
proof (cases "position (messageIDCompare msgId) (cl_inboundMsgs (the_client st i))")
  case None
  with assms show ?thesis by (simp add: pubrel_effect_def)
next
  case (Some j)
  let ?S = "upd_client i (\<lambda>c. c\<lparr>cl_messageQueue := cl_messageQueue c @ qes\<rparr>) st"
  have "proto_ok {#} ?S" by (rule proto_ok_upd_same[OF assms]) simp_all
  then have "proto_ok {#} (forget_inbound i j ?S)"
    by (rule proto_ok_forget(2)) (use assms(2) position_Some[OF Some] in \<open>simp_all add: the_client_upd\<close>)
  with Some show ?thesis by (simp add: pubrel_effect_def)
qed

lemma same_queue [simp]: "c\<lparr>cl_messageQueue := cl_messageQueue c\<rparr> = c"
  by simp

context network begin

lemma end_inbound_ok:
  assumes "good room st" "i < length (pt_clients st)"
    and j: "position (messageIDCompare msgId) (cl_inboundMsgs (the_client st i)) = Some j"
  shows "\<exists>qes w. end_inbound en i j msgId st = Some ((pubrel_effect i msgId qes st)\<lparr>pt_net := w\<rparr>) \<and> room w
    \<and> pubrel_entries i msgId st qes"
proof -
  have ok: "proto_ok {#} st" "room (pt_net st)" using assms(1) by (simp_all add: good_def)
  let ?m = "cl_inboundMsgs (the_client st i) ! j"
  have jl: "j < length (cl_inboundMsgs (the_client st i))" using position_Some[OF j] by simp
  note m = in_ok_at[OF ok(1) assms(2) jl]
  have free: "(if ms_MQTTVersion ?m \<ge> MQTTVERSION_5 then p_free (ms_properties ?m) else Some ()) = Some ()"
    using m by (intro msg_ok_free) (simp add: in_ok_def)
  have drop: "(case p of None \<Rightarrow> s | Some a \<Rightarrow> free_publication a s) = drop_publication p s" for p s
    by (simp add: drop_publication_def)
  show ?thesis
  proof (cases "ms_MQTTVersion ?m \<ge> 5")
    case True
    obtain rc w where w: "p_remove en i (PERSISTENCE_RECEIVED (ms_MQTTVersion ?m)) (ms_qos ?m) msgId st = (rc, st\<lparr>pt_net := w\<rparr>)" "room w"
      using p_remove_quiet[OF ok(2)] by blast
    obtain pub where pub: "(case ms_publish ?m of None \<Rightarrow> Some None
        | Some a \<Rightarrow> do { pub \<leftarrow> pt_publications st a; Some (Some pub) }) = Some pub"
      using in_stored[OF ok(1) assms(2) jl] by (cases "ms_publish ?m") auto
    have "end_inbound en i j msgId st = Some ((pubrel_effect i msgId [] st)\<lparr>pt_net := w\<rparr>)"
      using True w(1) free j
      by (simp add: end_inbound_def pub Let_def drop pubrel_effect_def forget_inbound_def drop_publication_net)
        (intro protocol.equality, simp_all add: upd_client_def the_client_def)
    then show ?thesis using w(2) True j by (auto simp: pubrel_entries_def)
  next
    case False
    then obtain a where a: "ms_publish ?m = Some a" using m by (auto simp: in_ok_def)
    obtain pub where pub: "pt_publications st a = Some pub" "pub_ok pub" using in_stored[OF ok(1) assms(2) jl a] by blast
    have "publish_wf (stored_publish ?m (Some pub))" using m by (intro stored_publish_wf pub) (simp add: in_ok_def)
    from process_ok[OF ok(2) this, of i False] obtain ps w1 where w1:
      "Protocol_processPublication en (stored_publish ?m (Some pub)) i False st
        = Some ((stored_publish ?m (Some pub))\<lparr>pb_topic := None\<rparr>, (enqueue i (entry_of (stored_publish ?m (Some pub)) ps) st)\<lparr>pt_net := w1\<rparr>)"
      "room w1" "copied (stored_publish ?m (Some pub)) ps" by blast
    let ?qe = "entry_of (stored_publish ?m (Some pub)) ps"
    let ?st1 = "(enqueue i ?qe st)\<lparr>pt_net := w1\<rparr>"
    obtain rc w where w: "p_remove en i (PERSISTENCE_RECEIVED (ms_MQTTVersion ?m)) (ms_qos ?m) msgId ?st1
        = (rc, ?st1\<lparr>pt_net := w\<rparr>)" "room w"
      by (rule p_remove_quiet[of ?st1]) (simp add: w1(2))
    have "end_inbound en i j msgId st = Some ((pubrel_effect i msgId [?qe] st)\<lparr>pt_net := w\<rparr>)"
      using False w(1) w1(1) free j assms(2)
      by (simp add: end_inbound_def a pub(1) Let_def pubrel_effect_def forget_inbound_def)
        (intro protocol.equality, simp_all add: a[unfolded the_client_def] enqueue_def upd_client_def the_client_def drop_publication_def free_publication_def)
    moreover have "props_list ps = []" using w1(3) False by (simp add: copied_def stored_publish_def)
    ultimately show ?thesis using w(2) False j a pub(1)
      by (intro exI[of _ "[?qe]"] exI[of _ w]) (auto simp: pubrel_entries_def Let_def)
  qed
qed

lemma handlePubrels_ok:
  assumes "good room st" "find_client st sock = Some i" "ack_wf pubrel" "ak_msgId pubrel = Some msgId"
  shows "\<exists>rc qes st'. MQTTProtocol_handlePubrels en pubrel sock st = Some (rc, st') \<and> room (pt_net st')
    \<and> pubrel_entries i msgId st qes \<and> quiet (pubrel_effect i msgId qes st) st'"
proof -
  note i = find_client_in[OF assms(2)]
  have r: "room (pt_net st)" "proto_ok {#} st" using assms(1) by (simp_all add: good_def)
  obtain qes w where s: "(case position (messageIDCompare msgId) (cl_inboundMsgs (the_client st i)) of
          None \<Rightarrow> Some st
        | Some j \<Rightarrow>
            let m = cl_inboundMsgs (the_client st i) ! j in
            if ms_qos m \<noteq> 2 then Some st
            else do {
              next \<leftarrow> ms_nextMessageType m;
              if next \<noteq> PUBREL then Some st else end_inbound en i j msgId st
            }) = Some ((pubrel_effect i msgId qes st)\<lparr>pt_net := w\<rparr>)" "room w" "pubrel_entries i msgId st qes"
  proof (cases "position (messageIDCompare msgId) (cl_inboundMsgs (the_client st i))")
    case None
    then show thesis using that[of "pt_net st" "[]"] r(1) by (simp add: pubrel_effect_def pubrel_entries_def)
  next
    case (Some j)
    then show thesis using that end_inbound_ok[OF assms(1) i Some] in_ok_at[OF r(2) i, of j] position_Some[OF Some]
      by (auto simp: in_ok_def)
  qed
  let ?st1 = "(pubrel_effect i msgId qes st)\<lparr>pt_net := w\<rparr>"
  have "room (pt_net ?st1)" using s(2) by simp
  from send_or_queue_ok[OF this acks_ok(4), of i "\<not> en_noPendingWrites en sock (pt_net ?st1)" PUBCOMP msgId]
  obtain rc st2 where st2: "send_or_queue en i (\<not> en_noPendingWrites en sock (pt_net ?st1)) PUBCOMP msgId
          (MQTTPacket_send_pubcomp (en_tp en) (ak_MQTTVersion pubrel) msgId) ?st1 = Some (rc, st2)"
      "quiet ?st1 st2" "room (pt_net st2)" by blast
  have "MQTTProtocol_handlePubrels en pubrel sock st = Some (rc, st2)"
    unfolding MQTTProtocol_handlePubrels_def assms(2,4) bind.bind_lunit s(1) prod.case st2(1) freeAck_ok[OF assms(3)] ..
  moreover have "quiet (pubrel_effect i msgId qes st) st2" by (rule quiet_trans[OF quiet_net st2(2)])
  ultimately show ?thesis using st2(3) s(3) by blast
qed

end

end
