(* ===== verification/Protocol_Ids.thy ===== *)
theory Protocol_Ids
  imports Protocol_Inv
begin

text \<open>
  The choice of a message identifier: the identifiers are tried in turn from the one after the last
  that was given.
\<close>

definition candidates :: "int \<Rightarrow> int list" where
  "candidates start = (if start = 0 then [1..MAX_MSG_ID] else [start + 1..MAX_MSG_ID] @ [1..start - 1])"

abbreviation used :: "Messages list \<Rightarrow> int \<Rightarrow> bool" where
  "used msgs k \<equiv> k \<in> ms_msgid ` set msgs"

lemma used_iff: "position (messageIDCompare k) msgs \<noteq> None \<longleftrightarrow> used msgs k"
  by (auto simp: position_None messageIDCompare_def)

lemma assign_loop_step:
  "assign_loop msgs start k = (if used msgs k then
     if next_msgid k = start then Some 0 else assign_loop msgs start (next_msgid k) else Some k)"
  by (subst assign_loop.simps) (simp only: used_iff)

text \<open>A stretch of identifiers that does not come back to the start.\<close>

definition stretch :: "int \<Rightarrow> int list \<Rightarrow> bool" where
  "stretch start ks \<longleftrightarrow> successively (\<lambda>a b. b = next_msgid a) ks \<and> start \<notin> set ks"

lemma assign_stretch:
  "stretch start (k # ks) \<Longrightarrow> assign_loop msgs start k = (case List.find (\<lambda>k. \<not> used msgs k) (k # ks) of
     Some n \<Rightarrow> Some n
   | None \<Rightarrow> if next_msgid (last (k # ks)) = start then Some 0 else assign_loop msgs start (next_msgid (last (k # ks))))"
proof (induction ks arbitrary: k)
  case Nil
  then show ?case by (subst assign_loop_step) auto
next
  case (Cons k' ks)
  then have "stretch start (k' # ks)" "k' = next_msgid k" "next_msgid k \<noteq> start" by (auto simp: stretch_def)
  note k = this
  have last: "last (k # k' # ks) = last (k' # ks)" by simp
  show ?case
  proof (cases "used msgs k")
    case True
    then have "assign_loop msgs start k = assign_loop msgs start k'" using k(2,3) by (subst assign_loop_step) simp
    moreover have "List.find (\<lambda>k. \<not> used msgs k) (k # k' # ks) = List.find (\<lambda>k. \<not> used msgs k) (k' # ks)"
      using True by simp
    ultimately show ?thesis unfolding last using Cons.IH[OF k(1)] by (simp only:)
  next
    case False
    then show ?thesis by (subst assign_loop_step) simp
  qed
qed

lemma next_msgid_simps: "k \<noteq> MAX_MSG_ID \<Longrightarrow> next_msgid k = k + 1" "next_msgid MAX_MSG_ID = 1"
  by (simp_all add: next_msgid_def)

lemma successively_upto:
  assumes "b \<le> MAX_MSG_ID"
  shows "successively (\<lambda>a b. b = next_msgid a) [a..b]"
  unfolding successively_conv_nth using assms by (auto simp: nth_upto next_msgid_def)

lemma upto_ends: "a \<le> b \<Longrightarrow> [a..b] \<noteq> [] \<and> hd [a..b] = (a :: int) \<and> last [a..b] = b"
  using upto_rec1[of a b] upto_rec2[of a b] by (metis last_snoc list.distinct(1) list.sel(1))

lemma candidates_stretch:
  assumes "0 \<le> start" "start \<le> MAX_MSG_ID"
  shows "candidates start \<noteq> []" "hd (candidates start) = next_msgid start" "stretch start (candidates start)"
    "start \<noteq> 0 \<Longrightarrow> next_msgid (last (candidates start)) = start"
    "start = 0 \<Longrightarrow> last (candidates start) = MAX_MSG_ID"
proof -
  have M: "1 < MAX_MSG_ID" "next_msgid MAX_MSG_ID = 1" by (simp_all add: MAX_MSG_ID_def next_msgid_def)
  consider (zero) "start = 0" | (one) "start = 1" | (mid) "1 < start" "start < MAX_MSG_ID" | (max) "start = MAX_MSG_ID"
    using assms M by linarith
  then have "candidates start \<noteq> [] \<and> hd (candidates start) = next_msgid start \<and> stretch start (candidates start)
    \<and> (start \<noteq> 0 \<longrightarrow> next_msgid (last (candidates start)) = start) \<and> (start = 0 \<longrightarrow> last (candidates start) = MAX_MSG_ID)"
  proof cases
    case zero
    then show ?thesis using upto_ends[of 1 MAX_MSG_ID] successively_upto[of MAX_MSG_ID 1] M
      by (simp add: candidates_def stretch_def next_msgid_def)
  next
    case one
    then show ?thesis using upto_ends[of 2 MAX_MSG_ID] successively_upto[of MAX_MSG_ID 2] M
      by (simp add: candidates_def stretch_def next_msgid_simps)
  next
    case mid
    note e = upto_ends[of "start + 1" MAX_MSG_ID] upto_ends[of 1 "start - 1"]
      successively_upto[of MAX_MSG_ID "start + 1"] successively_upto[of "start - 1" 1]
    have "start - 1 \<noteq> MAX_MSG_ID" using mid by simp
    then show ?thesis using e M mid
      by (simp add: candidates_def stretch_def next_msgid_simps successively_append_iff)
  next
    case max
    have "MAX_MSG_ID - 1 \<noteq> MAX_MSG_ID" by simp
    then show ?thesis using max upto_ends[of 1 "MAX_MSG_ID - 1"] successively_upto[of "MAX_MSG_ID - 1" 1] M
      by (simp add: candidates_def stretch_def next_msgid_simps)
  qed
  then show "candidates start \<noteq> []" "hd (candidates start) = next_msgid start" "stretch start (candidates start)"
    "start \<noteq> 0 \<Longrightarrow> next_msgid (last (candidates start)) = start"
    "start = 0 \<Longrightarrow> last (candidates start) = MAX_MSG_ID" by blast+
qed

lemma assign_all_used:
  assumes "\<forall>k \<in> {1..MAX_MSG_ID}. used msgs k" "1 \<le> k" "k \<le> MAX_MSG_ID"
  shows "assign_loop msgs 0 k = None"
proof -
  have never: "\<not> (start = 0 \<and> (\<forall>k \<in> {1..MAX_MSG_ID}. used msgs k) \<and> 1 \<le> k \<and> k \<le> MAX_MSG_ID)"
    if "assign_loop msgs start k = Some y" for msgs start k y
  proof (rule assign_loop.raw_induct[OF _ that], rule notI, elim conjE)
    fix loop :: "Messages list \<Rightarrow> int \<Rightarrow> int \<Rightarrow> int option" and msgs start k y
    assume IH: "\<And>msgs start k y. loop msgs start k = Some y \<Longrightarrow>
        \<not> (start = 0 \<and> (\<forall>k \<in> {1..MAX_MSG_ID}. used msgs k) \<and> 1 \<le> k \<and> k \<le> MAX_MSG_ID)"
      and body: "(if position (messageIDCompare k) msgs \<noteq> None then
          if next_msgid k = start then Some 0 else loop msgs start (next_msgid k) else Some k) = Some y"
      and k: "start = 0" "\<forall>k \<in> {1..MAX_MSG_ID}. used msgs k" "1 \<le> k" "k \<le> MAX_MSG_ID"
    have n: "1 \<le> next_msgid k" "next_msgid k \<le> MAX_MSG_ID" using k(3,4) by (auto simp: next_msgid_def MAX_MSG_ID_def)
    have "position (messageIDCompare k) msgs \<noteq> None" unfolding used_iff using k by simp
    with body k(1) n(1) have "loop msgs start (next_msgid k) = Some y" by simp
    from IH[OF this] k(1,2) n show False by blast
  qed
  show ?thesis
  proof (cases "assign_loop msgs 0 k")
    case (Some y)
    from never[OF this] assms show ?thesis by blast
  qed
qed

lemma find_candidates_None:
  "List.find (\<lambda>k. \<not> used msgs k) (candidates 0) = None \<longleftrightarrow> (\<forall>k \<in> {1..MAX_MSG_ID}. used msgs k)"
  by (auto simp: find_None_iff candidates_def)

lemma assignMsgId_find:
  assumes "0 \<le> cl_msgID c" "cl_msgID c \<le> MAX_MSG_ID"
  shows "MQTTProtocol_assignMsgId c
    = (case List.find (\<lambda>k. \<not> used (cl_outboundMsgs c) k) (candidates (cl_msgID c)) of
         Some k \<Rightarrow> Some (k, c\<lparr>cl_msgID := k\<rparr>)
       | None \<Rightarrow> if cl_msgID c = 0 then None else Some (0, c))"
proof -
  note s = candidates_stretch[OF assms]
  let ?find = "List.find (\<lambda>k. \<not> used (cl_outboundMsgs c) k) (candidates (cl_msgID c))"
  obtain k ks where ks: "candidates (cl_msgID c) = k # ks" "k = next_msgid (cl_msgID c)"
    using s(1,2) by (cases "candidates (cl_msgID c)") auto
  note step = assign_stretch[of "cl_msgID c" k ks "cl_outboundMsgs c", folded ks(1), OF s(3)]
  show ?thesis
  proof (cases ?find)
    case None
    show ?thesis
    proof (cases "cl_msgID c = 0")
      case True
      then have "assign_loop (cl_outboundMsgs c) 0 1 = None"
        using assign_all_used[of "cl_outboundMsgs c" 1] None find_candidates_None[of "cl_outboundMsgs c"] by (simp add: MAX_MSG_ID_def del: upto_rec_numeral)
      moreover have "next_msgid 0 = 1" by (simp add: next_msgid_def MAX_MSG_ID_def)
      ultimately show ?thesis using None True by (simp add: MQTTProtocol_assignMsgId_def)
    next
      case False
      then show ?thesis using None step s(4) by (simp add: MQTTProtocol_assignMsgId_def ks(2))
    qed
  next
    case (Some n)
    then have "n \<in> set (candidates (cl_msgID c))" by (auto simp: find_Some_iff)
    then have "n \<noteq> 0" using assms by (auto simp: candidates_def split: if_splits)
    then show ?thesis using Some step by (simp add: MQTTProtocol_assignMsgId_def ks(2))
  qed
qed

text \<open>What an operation that needs an identifier uses.\<close>

lemma set_candidates:
  assumes "0 \<le> start" "start \<le> MAX_MSG_ID"
  shows "set (candidates start) = {1..MAX_MSG_ID} - {start}"
  using assms by (auto simp: candidates_def)

lemma assignMsgId_client:
  assumes "client_ok c"
  shows "MQTTProtocol_assignMsgId c = Some (0, c) \<and> {1..MAX_MSG_ID} - {cl_msgID c} \<subseteq> ms_msgid ` set (cl_outboundMsgs c)
    \<or> (\<exists>k. MQTTProtocol_assignMsgId c = Some (k, c\<lparr>cl_msgID := k\<rparr>) \<and> 1 \<le> k \<and> k \<le> MAX_MSG_ID
        \<and> k \<notin> ms_msgid ` set (cl_outboundMsgs c))"
proof -
  have r: "0 \<le> cl_msgID c" "cl_msgID c \<le> MAX_MSG_ID" "cl_msgID c = 0 \<Longrightarrow> cl_outboundMsgs c = []"
    using assms by (simp_all add: client_ok_def)
  have one: "1 \<in> {1..MAX_MSG_ID}" by (simp add: MAX_MSG_ID_def)
  let ?find = "List.find (\<lambda>k. \<not> used (cl_outboundMsgs c) k) (candidates (cl_msgID c))"
  show ?thesis
  proof (cases ?find)
    case None
    have "cl_msgID c \<noteq> 0"
    proof
      assume z: "cl_msgID c = 0"
      from None show False unfolding z find_candidates_None r(3)[OF z] using one by auto
    qed
    moreover have "{1..MAX_MSG_ID} - {cl_msgID c} \<subseteq> ms_msgid ` set (cl_outboundMsgs c)"
      using None set_candidates[OF r(1,2)] by (auto simp: find_None_iff)
    ultimately show ?thesis using assignMsgId_find[OF r(1,2)] None by simp
  next
    case (Some k)
    then have "k \<in> set (candidates (cl_msgID c))" "\<not> used (cl_outboundMsgs c) k" by (auto simp: find_Some_iff)
    then have "1 \<le> k" "k \<le> MAX_MSG_ID" "k \<notin> ms_msgid ` set (cl_outboundMsgs c)" using set_candidates[OF r(1,2)] by auto
    then show ?thesis using assignMsgId_find[OF r(1,2)] Some by simp
  qed
qed

text \<open>
  C17: \<open>MQTTProtocol_assignMsgId\<close> returns the first identifier after the last one given, going round
  from 65535 to 1, that no outgoing message in flight has, and 0 when there is none; the last one
  given is not tried itself. Only for a client that has not been given any, with all identifiers in
  use, does it not return.
\<close>

theorem assignMsgId_first_free:
  assumes "0 \<le> cl_msgID c" "cl_msgID c \<le> MAX_MSG_ID"
  shows "MQTTProtocol_assignMsgId c
    = (case List.find (\<lambda>k. k \<notin> ms_msgid ` set (cl_outboundMsgs c)) (candidates (cl_msgID c)) of
         Some k \<Rightarrow> Some (k, c\<lparr>cl_msgID := k\<rparr>)
       | None \<Rightarrow> if cl_msgID c = 0 then None else Some (0, c))"
  by (rule assignMsgId_find[OF assms])

theorem assignMsgId_first_free_witness:
  "let m = \<lparr>ms_qos = 1, ms_retain = 0, ms_msgid = 1, ms_MQTTVersion = 4, ms_properties = None, ms_publish = Some 0,
        ms_lastTouch = 0, ms_nextMessageType = None\<rparr>;
      c = example_client\<lparr>cl_msgID := 65535, cl_outboundMsgs := [m]\<rparr>
   in MQTTProtocol_assignMsgId c = Some (2, c\<lparr>cl_msgID := 2\<rparr>)"
proof -
  let ?m = "\<lparr>ms_qos = 1, ms_retain = 0, ms_msgid = 1, ms_MQTTVersion = 4, ms_properties = None, ms_publish = Some 0,
      ms_lastTouch = 0, ms_nextMessageType = None\<rparr>"
  let ?c = "example_client\<lparr>cl_msgID := 65535, cl_outboundMsgs := [?m]\<rparr>"
  have "candidates 65535 = 1 # 2 # [3..65534]"
    by (simp add: candidates_def MAX_MSG_ID_def upto_rec1[of 1 65534] upto_rec1[of 2 65534] del: upto_rec_numeral)
  then show ?thesis using assignMsgId_first_free[of ?c] by (simp add: MAX_MSG_ID_def Let_def del: upto_rec_numeral)
qed

end
