(* ===== verification/Protocol_Ops.thy ===== *)
theory Protocol_Ops
  imports Protocol_Safe Protocol_Ids
begin

text \<open>
  The operations that do not answer a packet: publishing, the end of a session, retries, pings,
  queued acknowledgements and pending writes. Each is defined in a good state and keeps it good.
\<close>

subsection \<open>Publishing\<close>

definition outbound_msg :: "Publish \<Rightarrow> MQTTProperties option \<Rightarrow> nat \<Rightarrow> nat \<Rightarrow> nat \<Rightarrow> nat \<Rightarrow> Messages" where
  "outbound_msg publish props qos retained a now = \<lparr>ms_qos = qos, ms_retain = retained,
     ms_msgid = pb_msgId publish, ms_MQTTVersion = pb_MQTTVersion publish, ms_properties = props,
     ms_publish = Some a, ms_lastTouch = now, ms_nextMessageType = (if qos = 2 then Some PUBREC else None)\<rparr>"

lemma outbound_msg_simps [simp]:
  "ms_publish (outbound_msg publish props qos retained a now) = Some a"
  "ms_msgid (outbound_msg publish props qos retained a now) = pb_msgId publish"
  "ms_properties (outbound_msg publish props qos retained a now) = props"
  "ms_MQTTVersion (outbound_msg publish props qos retained a now) = pb_MQTTVersion publish"
  "ms_qos (outbound_msg publish props qos retained a now) = qos"
  "ms_retain (outbound_msg publish props qos retained a now) = retained"
  by (simp_all add: outbound_msg_def)

lemma append_outbound_simps [simp]:
  "pt_publications (append_outbound i m st) = pt_publications st" "pt_fresh (append_outbound i m st) = pt_fresh st"
  "pt_net (append_outbound i m st) = pt_net st" "length (pt_clients (append_outbound i m st)) = length (pt_clients st)"
  by (simp_all add: append_outbound_def)

lemma append_outbound_net: "append_outbound i m (st\<lparr>pt_net := w\<rparr>) = (append_outbound i m st)\<lparr>pt_net := w\<rparr>"
  by (simp add: append_outbound_def upd_client_commutes)

lemma with_publication_net: "with_publication a p (st\<lparr>pt_net := w\<rparr>) = (with_publication a p st)\<lparr>pt_net := w\<rparr>"
  by (simp add: with_publication_def)

text \<open>The structure the packet is written from, which points to what is stored.\<close>

definition qos12 :: "Publish \<Rightarrow> MQTTProperties option \<Rightarrow> Publish" where
  "qos12 publish props = publish\<lparr>pb_properties := (case props of None \<Rightarrow> pb_properties publish | Some ps \<Rightarrow> ps)\<rparr>"

lemma qos12_wf: "publish_wf publish \<Longrightarrow> kept publish props \<Longrightarrow> publish_wf (qos12 publish props)"
  by (auto simp: qos12_def publish_wf_def kept_def split: option.splits if_splits)

lemma proto_ok_outbound:
  assumes "proto_ok {#} st" "i < length (pt_clients st)" "publish_wf publish" "kept publish props"
    and "1 \<le> pb_msgId publish" "pb_msgId publish \<le> MAX_MSG_ID" "qos = 1 \<or> qos = 2"
    and "pb_msgId publish \<notin> ms_msgid ` set (cl_outboundMsgs (the_client st i))" "cl_msgID (the_client st i) \<noteq> 0"
  shows "proto_ok {#} (append_outbound i (outbound_msg publish props qos retained (pt_fresh st) now)
      (with_publication (pt_fresh st) (publication_of publish) st))"
proof -
  let ?c = "the_client st i" and ?m = "outbound_msg publish props qos retained (pt_fresh st) now"
  have "out_ok ?m"
    using assms(4-7) by (auto simp: out_ok_def msg_ok_def kept_def outbound_msg_def)
  then have "client_ok (?c\<lparr>cl_outboundMsgs := cl_outboundMsgs ?c @ [?m]\<rparr>)"
    using client_ok_at[OF assms(1,2)] assms(8,9) by (auto simp: client_ok_def)
  then show ?thesis
    using proto_ok_store[OF assms(1) pub_ok_publication_of[OF assms(3)]] unfolding append_outbound_def
    by (elim proto_ok_upd) (simp_all add: assms(2) msg_refs_def)
qed

lemma proto_ok_pending:
  "proto_ok (extra + {#a#}) st \<Longrightarrow> proto_ok extra (st\<lparr>pt_pending_writes := pt_pending_writes st @ [(socket, a)]\<rparr>)"
  by (auto simp: proto_ok_def pubs_ok_def all_refs_def ac_simps)

context network begin

lemma p_malloc_any:
  assumes "room w"
  shows "\<exists>w'. p_malloc en (st\<lparr>pt_net := w\<rparr>) = (True, st\<lparr>pt_net := w'\<rparr>) \<and> room w'"
  using p_malloc[of "st\<lparr>pt_net := w\<rparr>"] assms by fastforce

lemma createMessage_ok:
  assumes "room (pt_net st)" "publish_wf publish"
  shows "\<exists>props w now. MQTTProtocol_createMessage en publish None qos retained False st
      = Some (Some (outbound_msg publish props qos retained (pt_fresh st) now),
          publish\<lparr>pb_topic := None, pb_payload := []\<rparr>,
          (with_publication (pt_fresh st) (publication_of publish) st)\<lparr>pt_net := w\<rparr>) \<and> room w \<and> kept publish props"
proof -
  let ?S = "with_publication (pt_fresh st) (publication_of publish) st"
  obtain w1 where w1: "p_malloc en st = (True, st\<lparr>pt_net := w1\<rparr>)" "room w1" using p_malloc[OF assms(1)] by blast
  have topic: "pb_topic publish \<noteq> None" using assms(2) by (simp add: publish_wf_def)
  have S1: "with_publication (pt_fresh st) (publication_of publish) (st\<lparr>pt_net := w1\<rparr>) = ?S\<lparr>pt_net := w1\<rparr>"
    by (simp add: with_publication_def)
  obtain w2 where w2: "MQTTProtocol_storePublication en publish (st\<lparr>pt_net := w1\<rparr>)
      = Some (Some (pt_fresh st), publish\<lparr>pb_topic := None, pb_payload := []\<rparr>, ?S\<lparr>pt_net := w2\<rparr>)" "room w2"
    using store_ok[of "st\<lparr>pt_net := w1\<rparr>" publish] topic w1(2) by (auto simp: S1)
  show ?thesis
  proof (cases "pb_MQTTVersion publish \<ge> 5")
    case True
    then obtain ps w3 where w3: "p_copy en (pb_properties publish) (?S\<lparr>pt_net := w2\<rparr>) = Some (ps, ?S\<lparr>pt_net := w3\<rparr>)"
      "room w3" "props_ok ps" "props_list ps = props_list (pb_properties publish)"
      using p_copy[of "?S\<lparr>pt_net := w2\<rparr>" "pb_properties publish"] assms(2) w2(2) by (auto simp: publish_wf_def)
    then show ?thesis using w1 w2(1) True
      by (intro exI[of _ "Some ps"] exI[of _ w3] exI[of _ "tp_now (en_tp en) w3"])
        (simp add: MQTTProtocol_createMessage_def outbound_msg_def kept_def)
  next
    case False
    then show ?thesis using w1 w2
      by (intro exI[of _ None] exI[of _ w2] exI[of _ "tp_now (en_tp en) w2"])
        (simp add: MQTTProtocol_createMessage_def outbound_msg_def kept_def)
  qed
qed

lemma sends_publish: "publish_wf p \<Longrightarrow> qos < 4 \<Longrightarrow> sends_ok room (MQTTPacket_send_publish (en_tp en) p dup qos retained)"
  using send_publish_ok[of _ p _ qos dup retained] unfolding sends_ok_def publish_wf_def by blast

text \<open>With QoS 1 and 2 the message is stored and the publication sent from what is stored.\<close>

lemma startPublish_ok:
  assumes "room (pt_net st)" "publish_wf publish" "qos = 1 \<or> qos = 2"
  shows "\<exists>rc props now st'. MQTTProtocol_startPublish en i publish qos retained None st
      = Some (rc, Some (outbound_msg publish props qos retained (pt_fresh st) now), st')
    \<and> room (pt_net st') \<and> kept publish props
    \<and> quiet (append_outbound i (outbound_msg publish props qos retained (pt_fresh st) now)
        (with_publication (pt_fresh st) (publication_of publish) st)) st'"
proof -
  let ?S = "with_publication (pt_fresh st) (publication_of publish) st"
  obtain props w now where c: "MQTTProtocol_createMessage en publish None qos retained False st
      = Some (Some (outbound_msg publish props qos retained (pt_fresh st) now),
          publish\<lparr>pb_topic := None, pb_payload := []\<rparr>, ?S\<lparr>pt_net := w\<rparr>)" "room w" "kept publish props"
    using createMessage_ok[OF assms(1,2)] by blast
  define msg where "msg = outbound_msg publish props qos retained (pt_fresh st) now"
  obtain w2 where w2: "p_malloc en (?S\<lparr>pt_net := w\<rparr>) = (True, ?S\<lparr>pt_net := w2\<rparr>)" "room w2"
    using p_malloc_any[OF c(2)] by blast
  define T where "T = append_outbound i msg ?S"
  have T: "append_outbound i msg (?S\<lparr>pt_net := w2\<rparr>) = T\<lparr>pt_net := w2\<rparr>" by (simp add: T_def append_outbound_net)
  have q: "publish\<lparr>pb_payload := pn_payload (publication_of publish), pb_topic := Some (pn_topic (publication_of publish)),
      pb_properties := (case ms_properties msg of None \<Rightarrow> pb_properties publish | Some ps \<Rightarrow> ps),
      pb_MQTTVersion := ms_MQTTVersion msg\<rparr> = qos12 publish props"
    using assms(2) by (auto simp: publication_of_def qos12_def msg_def publish_wf_def)
  obtain rc st' where s: "on_net i (MQTTPacket_send_publish (en_tp en) (qos12 publish props) 0 qos retained) (T\<lparr>pt_net := w2\<rparr>)
      = Some (rc, st')" "quiet (T\<lparr>pt_net := w2\<rparr>) st'" "room (pt_net st')"
    using on_net_ok[of "T\<lparr>pt_net := w2\<rparr>" "MQTTPacket_send_publish (en_tp en) (qos12 publish props) 0 qos retained" i]
      sends_publish[OF qos12_wf[OF assms(2) c(3)], of qos 0 retained] w2(2) assms(3) by auto
  have pub: "pt_publications (T\<lparr>pt_net := w2\<rparr>) (pt_fresh st) = Some (publication_of publish)" by (simp add: T_def)
  have start: "MQTTProtocol_startPublishCommon en i (qos12 publish props) qos retained (T\<lparr>pt_net := w2\<rparr>) = Some (rc, st')"
    using s(1) assms(3) by (auto simp: MQTTProtocol_startPublishCommon_def)
  have msg: "ms_publish msg = Some (pt_fresh st)" by (simp add: msg_def)
  have "0 < qos" using assms(3) by auto
  then have "MQTTProtocol_startPublish en i publish qos retained None st = Some (rc, Some msg, st')"
    unfolding MQTTProtocol_startPublish_def c(1)[folded msg_def] bind.bind_lunit prod.case w2(1) Let_def T if_True msg pub q start
    by simp
  moreover have "quiet T st'" by (rule quiet_trans[OF quiet_net s(2)])
  ultimately show ?thesis using s(3) c(3) unfolding T_def msg_def by blast
qed

text \<open>With QoS 0 the publication is stored when its packet was written in part.\<close>

lemma storeQoS0_ok:
  assumes "good room st" "i < length (pt_clients st)" "publish_wf publish" "pb_topic publish = Some topic"
    and "\<And>m. list_all (\<lambda>b. b) m \<Longrightarrow> room (tp_set_mem (en_tp en) m (pt_net st)) \<Longrightarrow>
      \<exists>w. en_updateWrite en (nt_socket (cl_net (the_client st i))) topic (pb_payload publish)
          (tp_set_mem (en_tp en) m (pt_net st)) = Some w \<and> room w"
  shows "\<exists>st'. MQTTProtocol_storeQoS0 en i publish st = Some st' \<and> good room st'
    \<and> pt_clients st' = pt_clients st"
proof -
  have ok: "proto_ok {#} st" "room (pt_net st)" using assms(1) by (simp_all add: good_def)
  define net where "net m = tp_set_mem (en_tp en) m (pt_net st)" for m
  have net_net: "tp_set_mem (en_tp en) m (net m') = net m" for m m' by (simp add: net_def set_set)
  have malloc: "\<exists>m'. p_malloc en (s\<lparr>pt_net := net m\<rparr>) = (True, s\<lparr>pt_net := net m'\<rparr>) \<and> list_all (\<lambda>b. b) m' \<and> room (net m')"
    if "room (net m)" for m s
    using p_malloc[of "s\<lparr>pt_net := net m\<rparr>"] that by (auto simp: net_net)
  let ?S = "with_publication (pt_fresh st) (publication_of publish) st"
  obtain m1 where m1: "p_malloc en st = (True, st\<lparr>pt_net := net m1\<rparr>)" "room (net m1)"
    using p_malloc[OF ok(2)] unfolding net_def by blast
  have topic: "pb_topic publish \<noteq> None" using assms(4) by simp
  obtain m2 where m2: "MQTTProtocol_storePublication en publish (st\<lparr>pt_net := net m1\<rparr>)
      = Some (Some (pt_fresh st), publish\<lparr>pb_topic := None, pb_payload := []\<rparr>, ?S\<lparr>pt_net := net m2\<rparr>)" "room (net m2)"
    using store_ok[of "st\<lparr>pt_net := net m1\<rparr>" publish] topic m1(2) by (auto simp: net_net with_publication_def)
  obtain m3 where m3: "p_malloc en (?S\<lparr>pt_net := net m2\<rparr>) = (True, ?S\<lparr>pt_net := net m3\<rparr>)" "list_all (\<lambda>b. b) m3" "room (net m3)"
    using malloc[OF m2(2)] by blast
  obtain w where w: "en_updateWrite en (nt_socket (cl_net (the_client st i))) topic (pb_payload publish) (net m3) = Some w" "room w"
    using assms(5)[OF m3(2)] m3(3) unfolding net_def by blast
  define T where "T = ?S\<lparr>pt_pending_writes := pt_pending_writes ?S @ [(nt_socket (cl_net (the_client st i)), pt_fresh st)]\<rparr>"
  have "MQTTProtocol_storeQoS0 en i publish st = Some (T\<lparr>pt_net := w\<rparr>)"
    using m1(1) m2(1) m3(1) w(1) assms(4)
    by (simp add: MQTTProtocol_storeQoS0_def Let_def publication_of_def T_def with_publication_def)
  moreover have "proto_ok {#} T"
    unfolding T_def by (rule proto_ok_pending) (use proto_ok_store[OF ok(1) pub_ok_publication_of[OF assms(3)]] in simp)
  ultimately show ?thesis using w(2) by (simp add: good_def T_def)
qed

lemma quiet_good: "quiet st st' \<Longrightarrow> good room st \<Longrightarrow> room (pt_net st') \<Longrightarrow> good room st'"
  using good_quiet by (auto simp: good_def)

lemma startPublish_0:
  assumes "good room st" "i < length (pt_clients st)" "publish_wf publish"
  shows "\<exists>rc st'. MQTTProtocol_startPublish en i publish 0 retained None st = Some (rc, None, st')
    \<and> good room st' \<and> length (pt_clients st') = length (pt_clients st)"
proof -
  have ok: "proto_ok {#} st" "room (pt_net st)" using assms(1) by (simp_all add: good_def)
  obtain topic where topic: "pb_topic publish = Some topic" using assms(3) by (auto simp: publish_wf_def)
  let ?net = "cl_net (the_client st i)"
  obtain rc net' w' where s: "MQTTPacket_send_publish (en_tp en) publish 0 0 retained ?net (pt_net st) = Some (rc, net', w')"
      "room w'" "nt_socket net' = nt_socket ?net"
      "rc = TCPSOCKET_INTERRUPTED \<longrightarrow> (\<exists>w0 buf bufs frees x y. room w0
         \<and> tp_putdatas (en_tp en) (nt_socket ?net) buf bufs frees w0 = (TCPSOCKET_INTERRUPTED, w')
         \<and> (bufs = [x, topic, pb_payload publish] \<or> bufs = [x, topic, y, pb_payload publish]))"
    using send_publish_ok[OF ok(2) assms(3) topic zero_less_numeral, of 0 retained ?net] by blast
  define st1 where "st1 = (upd_client i (cl_net_update (\<lambda>_. net')) st)\<lparr>pt_net := w'\<rparr>"
  have on: "on_net i (MQTTPacket_send_publish (en_tp en) publish 0 0 retained) st = Some (rc, st1)"
    using s(1) by (simp add: on_net_def st1_def)
  have q: "quiet st st1" unfolding st1_def by (rule quiet_trans[OF quiet_upd quiet_net]) (rule core_net[OF s(3)])
  have st1: "good room st1" "length (pt_clients st1) = length (pt_clients st)" "pt_net st1 = w'"
    using quiet_good[OF q assms(1)] s(2) by (simp_all add: st1_def)
  have sock: "nt_socket (cl_net (the_client st1 i)) = nt_socket ?net"
    using s(3) assms(2) by (simp add: st1_def the_client_upd)
  have "\<exists>st'. MQTTProtocol_storeQoS0 en i publish st1 = Some st' \<and> good room st' \<and> pt_clients st' = pt_clients st1"
    if intr: "rc = TCPSOCKET_INTERRUPTED"
  proof (rule storeQoS0_ok[OF st1(1) _ assms(3) topic])
    show "i < length (pt_clients st1)" using assms(2) st1(2) by simp
    fix m :: "bool list" assume "list_all (\<lambda>b. b) m"
    with s(4) intr update show "\<exists>w. en_updateWrite en (nt_socket (cl_net (the_client st1 i))) topic (pb_payload publish)
        (tp_set_mem (en_tp en) m (pt_net st1)) = Some w \<and> room w"
      unfolding sock st1(3) by metis
  qed
  then show ?thesis
    using on st1 by (cases "rc = TCPSOCKET_INTERRUPTED")
      (auto simp: MQTTProtocol_startPublish_def MQTTProtocol_startPublishCommon_def)
qed

text \<open>
  Publishing by the application: either the call fails and the state is as before but for memory, or
  there is an exchange with a new identifier.
\<close>

definition app_publish :: "Clients \<Rightarrow> byte list \<Rightarrow> byte list \<Rightarrow> int \<Rightarrow> MQTTProperties option \<Rightarrow> Publish" where
  "app_publish c topicName payload msgid properties = \<lparr>pb_header = Header_zero, pb_topic = Some topicName,
     pb_topiclen = 0, pb_msgId = msgid, pb_payload = payload, pb_payloadlen = int (length payload),
     pb_MQTTVersion = cl_MQTTVersion c,
     pb_properties = (case properties of None \<Rightarrow> MQTTProperties_initializer
       | Some ps \<Rightarrow> if cl_MQTTVersion c \<ge> MQTTVERSION_5 then ps else MQTTProperties_initializer)\<rparr>"

lemma app_publish_id [simp]: "pb_msgId (app_publish c topicName payload msgid properties) = msgid"
  by (simp add: app_publish_def)

lemma app_publish_wf:
  "(\<And>ps. properties = Some ps \<Longrightarrow> props_ok ps) \<Longrightarrow> publish_wf (app_publish c topicName payload msgid properties)"
  using props_ok_initializer by (cases properties) (auto simp: publish_wf_def app_publish_def)

lemma publish5_start:
  assumes "room (pt_net st1)"
    and "(if qos > 0 then do { (msgid, c) \<leftarrow> MQTTProtocol_assignMsgId (the_client st i);
         Some (msgid, upd_client i (\<lambda>_. c) st) } else Some (0, st)) = Some (msgid, st1)" "qos = 0 \<or> msgid \<noteq> 0"
  shows "\<exists>w. room w \<and> MQTTClient_publish5 en i topicName (int (length payload)) payload qos retained properties st
      = MQTTProtocol_startPublish en i (app_publish (the_client st1 i) topicName payload msgid properties) qos retained None
          (st1\<lparr>pt_net := w\<rparr>)"
proof -
  obtain w1 where w1: "p_malloc en st1 = (True, st1\<lparr>pt_net := w1\<rparr>)" "room w1" using p_malloc[OF assms(1)] by blast
  obtain w2 where w2: "(if int (length payload) > 0 then p_malloc en (st1\<lparr>pt_net := w1\<rparr>) else (True, st1\<lparr>pt_net := w1\<rparr>))
      = (True, st1\<lparr>pt_net := w2\<rparr>)" "room w2"
    using p_malloc_any[OF w1(2), of st1] w1(2) by (cases "int (length payload) > 0") auto
  obtain w3 where w3: "p_malloc en (st1\<lparr>pt_net := w2\<rparr>) = (True, st1\<lparr>pt_net := w3\<rparr>)" "room w3"
    using p_malloc_any[OF w2(2), of st1] by blast
  have data: "(if int (length payload) > 0 then memcpy payload (int (length payload)) else Some []) = Some payload"
    by (simp add: memcpy_all)
  have c: "(qos > 0 \<and> msgid = 0) = False" using assms(3) by auto
  show ?thesis
    by (intro exI[of _ w3] conjI w3(2))
      (simp only: MQTTClient_publish5_def assms(2) bind.bind_lunit prod.case c if_False w1(1) w2(1) w3(1) Let_def data
        app_publish_def the_client_simps not_True_eq_False)
qed

text \<open>With QoS 1 and 2 an identifier is needed, and its message is stored.\<close>

lemma publish5_exchange:
  assumes "good room st" "i < length (pt_clients st)" "qos = 1 \<or> qos = 2" "\<And>ps. properties = Some ps \<Longrightarrow> props_ok ps"
  obtains (none) "MQTTClient_publish5 en i topicName (int (length payload)) payload qos retained properties st
        = Some (MQTTCLIENT_MAX_MESSAGES_INFLIGHT, None, st)"
      "{1..MAX_MSG_ID} - {cl_msgID (the_client st i)} \<subseteq> ms_msgid ` set (cl_outboundMsgs (the_client st i))"
  | (exchange) k p props now rc st' where
      "k \<notin> ms_msgid ` set (cl_outboundMsgs (the_client st i))" "1 \<le> k" "k \<le> MAX_MSG_ID"
      "p = app_publish (the_client st i) topicName payload k properties"
      "MQTTClient_publish5 en i topicName (int (length payload)) payload qos retained properties st
        = Some (rc, Some (outbound_msg p props qos retained (pt_fresh st) now), st')"
      "good room st'"
      "quiet (append_outbound i (outbound_msg p props qos retained (pt_fresh st) now) (with_publication (pt_fresh st)
        (publication_of p) (upd_client i (\<lambda>_. (the_client st i)\<lparr>cl_msgID := k\<rparr>) st))) st'"
proof -
  have ok: "proto_ok {#} st" "room (pt_net st)" using assms(1) by (simp_all add: good_def)
  have pos: "0 < qos" using assms(3) by auto
  from assignMsgId_client[OF client_ok_at[OF ok(1) assms(2)]] show thesis
  proof (elim disjE conjE exE)
    assume a: "MQTTProtocol_assignMsgId (the_client st i) = Some (0, the_client st i)"
      "{1..MAX_MSG_ID} - {cl_msgID (the_client st i)} \<subseteq> ms_msgid ` set (cl_outboundMsgs (the_client st i))"
    have "upd_client i (\<lambda>_. the_client st i) st = st" by (simp add: upd_client_def the_client_def)
    with a(1) pos have "MQTTClient_publish5 en i topicName (int (length payload)) payload qos retained properties st
        = Some (MQTTCLIENT_MAX_MESSAGES_INFLIGHT, None, st)"
      by (simp add: MQTTClient_publish5_def)
    from none[OF this a(2)] show thesis .
  next
    fix k assume k: "MQTTProtocol_assignMsgId (the_client st i) = Some (k, (the_client st i)\<lparr>cl_msgID := k\<rparr>)"
      "1 \<le> k" "k \<le> MAX_MSG_ID" "k \<notin> ms_msgid ` set (cl_outboundMsgs (the_client st i))"
    define st1 where "st1 = upd_client i (\<lambda>_. (the_client st i)\<lparr>cl_msgID := k\<rparr>) st"
    have st1: "room (pt_net st1)" "the_client st1 i = (the_client st i)\<lparr>cl_msgID := k\<rparr>" "i < length (pt_clients st1)"
      "pt_fresh st1 = pt_fresh st"
      using ok(2) assms(2) by (simp_all add: st1_def the_client_upd)
    have p1: "proto_ok {#} st1"
      unfolding st1_def using client_ok_at[OF ok(1) assms(2)] k(2,3)
      by (intro proto_ok_upd[OF ok(1) assms(2)]) (auto simp: client_ok_def)
    define p where "p = app_publish (the_client st i) topicName payload k properties"
    have p: "app_publish (the_client st1 i) topicName payload k properties = p"
      by (cases properties) (simp_all add: p_def st1(2) app_publish_def)
    have assign: "(if qos > 0 then do { (msgid, c) \<leftarrow> MQTTProtocol_assignMsgId (the_client st i);
        Some (msgid, upd_client i (\<lambda>_. c) st) } else Some (0, st)) = Some (k, st1)"
      using pos k(1) by (simp add: st1_def)
    obtain w where w: "room w" "MQTTClient_publish5 en i topicName (int (length payload)) payload qos retained properties st
        = MQTTProtocol_startPublish en i p qos retained None (st1\<lparr>pt_net := w\<rparr>)"
      using publish5_start[OF st1(1) assign, of topicName payload retained properties] k(2) p by auto
    have wf: "publish_wf p" unfolding p_def by (rule app_publish_wf) (rule assms(4))
    obtain rc props now st' where s: "MQTTProtocol_startPublish en i p qos retained None (st1\<lparr>pt_net := w\<rparr>)
        = Some (rc, Some (outbound_msg p props qos retained (pt_fresh st) now), st')"
      "room (pt_net st')" "kept p props"
      "quiet (append_outbound i (outbound_msg p props qos retained (pt_fresh st) now)
        (with_publication (pt_fresh st) (publication_of p) (st1\<lparr>pt_net := w\<rparr>))) st'"
      using startPublish_ok[OF _ wf assms(3), of "st1\<lparr>pt_net := w\<rparr>" i retained] w(1) by (auto simp: st1(4))
    define T where "T = append_outbound i (outbound_msg p props qos retained (pt_fresh st) now)
        (with_publication (pt_fresh st) (publication_of p) st1)"
    have "append_outbound i (outbound_msg p props qos retained (pt_fresh st) now)
        (with_publication (pt_fresh st) (publication_of p) (st1\<lparr>pt_net := w\<rparr>)) = T\<lparr>pt_net := w\<rparr>"
      by (simp add: T_def append_outbound_net with_publication_net)
    then have q: "quiet T st'" using s(4) quiet_trans[OF quiet_net] by metis
    have "proto_ok {#} T"
      unfolding T_def st1(4)[symmetric]
      by (rule proto_ok_outbound[OF p1 st1(3) wf s(3)]) (use st1(2) assms(3) k in \<open>simp_all add: p_def\<close>)
    with good_quiet[OF q] s(2) have "good room st'" by blast
    from exchange[OF k(4,2,3) p_def _ this q[unfolded T_def st1_def]] s(1) w(2) show thesis by simp
  qed
qed

lemma publish5_ok:
  assumes "good room st" "i < length (pt_clients st)" "qos \<le> 2" "\<And>ps. properties = Some ps \<Longrightarrow> props_ok ps"
  shows "\<exists>rc m st'. MQTTClient_publish5 en i topicName (int (length payload)) payload qos retained properties st
      = Some (rc, m, st') \<and> good room st'"
proof (cases "qos = 0")
  case True
  have r: "room (pt_net st)" using assms(1) by (simp add: good_def)
  have assign: "(if qos > 0 then do { (msgid, c) \<leftarrow> MQTTProtocol_assignMsgId (the_client st i);
      Some (msgid, upd_client i (\<lambda>_. c) st) } else Some (0, st)) = Some (0, st)"
    using True by simp
  obtain w where w: "room w" "MQTTClient_publish5 en i topicName (int (length payload)) payload qos retained properties st
      = MQTTProtocol_startPublish en i (app_publish (the_client st i) topicName payload 0 properties) qos retained None
          (st\<lparr>pt_net := w\<rparr>)"
    using publish5_start[OF r assign, of topicName payload retained properties] True by blast
  have "good room (st\<lparr>pt_net := w\<rparr>)" using assms(1) w(1) by (simp add: good_def)
  moreover have "publish_wf (app_publish (the_client st i) topicName payload 0 properties)"
    by (rule app_publish_wf) (rule assms(4))
  moreover have "i < length (pt_clients (st\<lparr>pt_net := w\<rparr>))" using assms(2) by simp
  ultimately obtain rc st' where "MQTTProtocol_startPublish en i (app_publish (the_client st i) topicName payload 0 properties)
      0 retained None (st\<lparr>pt_net := w\<rparr>) = Some (rc, None, st')" "good room st'"
    using startPublish_0 by blast
  then show ?thesis unfolding w(2) unfolding True by simp
next
  case False
  then have "qos = 1 \<or> qos = 2" using assms(3) by auto
  show ?thesis
    by (rule publish5_exchange[OF assms(1,2) \<open>qos = 1 \<or> qos = 2\<close> assms(4),
          where topicName = topicName and payload = payload and retained = retained])
      (use assms(1) in blast)+
qed

end

end
