(* ===== verification/Protocol_Run.thy ===== *)
theory Protocol_Run
  imports Protocol_Ops
begin

text \<open>
  The end of a session, retries, pings, queued acknowledgements and pending writes: each is defined
  in a good state and keeps it good.
\<close>

text \<open>The branches of a function that may be undefined.\<close>

lemma if_Some:
  "(b \<Longrightarrow> \<exists>x. m = Some x \<and> P x) \<Longrightarrow> (\<not> b \<Longrightarrow> \<exists>x. n = Some x \<and> P x) \<Longrightarrow> \<exists>x. (if b then m else n) = Some x \<and> P x"
  by simp

lemma if_Some_pair:
  "(b \<Longrightarrow> \<exists>x y. m = Some (x, y) \<and> Q x y) \<Longrightarrow> (\<not> b \<Longrightarrow> \<exists>x y. n = Some (x, y) \<and> Q x y) \<Longrightarrow>
    \<exists>x y. (if b then m else n) = Some (x, y) \<and> Q x y"
  by simp

lemma Some_self: "P x \<Longrightarrow> \<exists>y. Some x = Some y \<and> P y"
  by simp

lemma Some_self_pair: "Q x y \<Longrightarrow> \<exists>u v. Some (x, y) = Some (u, v) \<and> Q u v"
  by simp

subsection \<open>Releasing publications\<close>

lemma remove_commutes:
  "MQTTProtocol_removePublication p (upd_client i f st)
    = map_option (upd_client i f) (MQTTProtocol_removePublication p st)"
  "MQTTProtocol_removePublication p (st\<lparr>pt_pending_writes := ws\<rparr>)
    = map_option (\<lambda>st. st\<lparr>pt_pending_writes := ws\<rparr>) (MQTTProtocol_removePublication p st)"
proof -
  have "(upd_client i f st)\<lparr>pt_publications := ps\<rparr> = upd_client i f (st\<lparr>pt_publications := ps\<rparr>)" for ps
    by (simp add: upd_client_def the_client_def)
  then show "MQTTProtocol_removePublication p (upd_client i f st)
    = map_option (upd_client i f) (MQTTProtocol_removePublication p st)"
    by (cases p; cases "pt_publications st (the p)") (simp_all add: MQTTProtocol_removePublication_def upd_client_commutes)
  show "MQTTProtocol_removePublication p (st\<lparr>pt_pending_writes := ws\<rparr>)
    = map_option (\<lambda>st. st\<lparr>pt_pending_writes := ws\<rparr>) (MQTTProtocol_removePublication p st)"
    by (cases p; cases "pt_publications st (the p)") (simp_all add: MQTTProtocol_removePublication_def free_publication_def)
qed

text \<open>A reference that a function holds is dropped with the publication.\<close>

lemma remove_extra:
  assumes "proto_ok (extra + (case p of None \<Rightarrow> {#} | Some a \<Rightarrow> {#a#})) st"
  shows "MQTTProtocol_removePublication p st = Some (drop_publication p st)"
    "proto_ok extra (drop_publication p st)"
proof -
  show "MQTTProtocol_removePublication p st = Some (drop_publication p st)"
  proof (rule release_ok)
    fix a assume "p = Some a"
    with assms have "pubs_ok (extra + {#a#}) st" "a \<in># all_refs st + (extra + {#a#})" by (simp_all add: proto_ok_def)
    then show "\<exists>pub. pt_publications st a = Some pub \<and> pub_ok pub" by (auto elim: extra_stored)
  qed
  show "proto_ok extra (drop_publication p st)" by (rule proto_ok_drop[OF assms])
qed

lemma empty_loop_commutes:
  "empty_loop_messages ms (upd_client i f st) = map_option (upd_client i f) (empty_loop_messages ms st)"
proof (induction ms arbitrary: st)
  case (Cons m ms)
  then show ?case
    by (cases "MQTTProtocol_removePublication (ms_publish m) st"; cases "p_free (ms_properties m)")
      (simp_all add: remove_commutes)
qed simp

lemma empty_loop_ok:
  "proto_ok (extra + sum_list (map msg_refs ms)) st \<Longrightarrow> list_all msg_ok ms \<Longrightarrow>
    \<exists>st'. empty_loop_messages ms st = Some st' \<and> proto_ok extra st' \<and> pt_net st' = pt_net st
      \<and> length (pt_clients st') = length (pt_clients st)"
proof (induction ms arbitrary: st)
  case (Cons m ms)
  have "proto_ok ((extra + sum_list (map msg_refs ms)) + (case ms_publish m of None \<Rightarrow> {#} | Some a \<Rightarrow> {#a#})) st"
    using Cons.prems(1) by (simp add: msg_refs_def[of m] ac_simps)
  note r = remove_extra[OF this]
  have "(if ms_MQTTVersion m \<ge> MQTTVERSION_5 then p_free (ms_properties m) else Some ()) = Some ()"
    using msg_ok_free[of m] Cons.prems(2) by simp
  then have step: "empty_loop_messages (m # ms) st = empty_loop_messages ms (drop_publication (ms_publish m) st)"
    by (simp only: empty_loop_messages.simps r(1) bind.bind_lunit)
  from Cons.IH[OF r(2)] Cons.prems(2) show ?case unfolding step by simp
qed simp

lemma emptyMessageList_ok:
  assumes "proto_ok {#} st" "i < length (pt_clients st)"
    and "proto_ok (sum_list (map msg_refs (msgList (the_client st i)))) (upd_client i (upd (\<lambda>_. [])) st)"
    and "list_all msg_ok (msgList (the_client st i))"
  shows "\<exists>st'. MQTTProtocol_emptyMessageList msgList upd i st = Some st' \<and> proto_ok {#} st' \<and> pt_net st' = pt_net st
    \<and> length (pt_clients st') = length (pt_clients st)"
proof -
  let ?ms = "msgList (the_client st i)"
  obtain st' where st': "empty_loop_messages ?ms (upd_client i (upd (\<lambda>_. [])) st) = Some st'" "proto_ok {#} st'"
      "pt_net st' = pt_net st" "length (pt_clients st') = length (pt_clients st)"
    using empty_loop_ok[of "{#}" ?ms "upd_client i (upd (\<lambda>_. [])) st"] assms(3,4) by auto
  from st'(1) have "MQTTProtocol_emptyMessageList msgList upd i st = Some st'"
    unfolding empty_loop_commutes by (cases "empty_loop_messages ?ms st") (simp_all add: MQTTProtocol_emptyMessageList_def)
  with st' show ?thesis by blast
qed

lemma empty_inbound_ok:
  assumes "proto_ok {#} st" "i < length (pt_clients st)"
  shows "\<exists>st'. MQTTProtocol_emptyMessageList cl_inboundMsgs cl_inboundMsgs_update i st = Some st' \<and> proto_ok {#} st'
    \<and> pt_net st' = pt_net st \<and> length (pt_clients st') = length (pt_clients st)"
proof (rule emptyMessageList_ok[OF assms])
  note ok = client_ok_at[OF assms]
  show "proto_ok (sum_list (map msg_refs (cl_inboundMsgs (the_client st i)))) (upd_client i (cl_inboundMsgs_update (\<lambda>_. [])) st)"
    by (rule proto_ok_upd[OF assms]) (use ok in \<open>simp_all add: client_ok_def client_refs_def\<close>)
  show "list_all msg_ok (cl_inboundMsgs (the_client st i))"
    using ok by (auto simp: client_ok_def in_ok_def list_all_iff)
qed

lemma empty_outbound_ok:
  assumes "proto_ok {#} st" "i < length (pt_clients st)"
  shows "\<exists>st'. MQTTProtocol_emptyMessageList cl_outboundMsgs cl_outboundMsgs_update i st = Some st' \<and> proto_ok {#} st'
    \<and> pt_net st' = pt_net st \<and> length (pt_clients st') = length (pt_clients st)
    \<and> cl_outboundMsgs (the_client st' i) = []"
proof -
  note ok = client_ok_at[OF assms]
  have "proto_ok (sum_list (map msg_refs (cl_outboundMsgs (the_client st i)))) (upd_client i (cl_outboundMsgs_update (\<lambda>_. [])) st)"
    by (rule proto_ok_upd[OF assms]) (use ok in \<open>simp_all add: client_ok_def client_refs_def ac_simps\<close>)
  moreover have "list_all msg_ok (cl_outboundMsgs (the_client st i))"
    using ok by (auto simp: client_ok_def out_ok_def list_all_iff)
  ultimately obtain st' where st': "MQTTProtocol_emptyMessageList cl_outboundMsgs cl_outboundMsgs_update i st = Some st'"
      "proto_ok {#} st'" "pt_net st' = pt_net st" "length (pt_clients st') = length (pt_clients st)"
    using emptyMessageList_ok[OF assms, of cl_outboundMsgs cl_outboundMsgs_update] by blast
  moreover from st'(1,4) have "cl_outboundMsgs (the_client st' i) = []"
    using assms(2) by (auto simp: MQTTProtocol_emptyMessageList_def bind_eq_Some_conv the_client_upd)
  ultimately show ?thesis by blast
qed

subsection \<open>The end of a session\<close>

text \<open>A step after which the state is good and has the same clients.\<close>

definition keeps :: "('w \<Rightarrow> bool) \<Rightarrow> 'w protocol \<Rightarrow> 'w protocol \<Rightarrow> bool" where
  "keeps room st st' \<longleftrightarrow> good room st' \<and> length (pt_clients st') = length (pt_clients st)"

lemma keeps_refl: "good room st \<Longrightarrow> keeps room st st"
  by (simp add: keeps_def)

lemma keeps_trans: "keeps room a b \<Longrightarrow> keeps room b c \<Longrightarrow> keeps room a c"
  by (simp add: keeps_def)

lemma keeps_quiet: "good room st \<Longrightarrow> quiet st st' \<Longrightarrow> room (pt_net st') \<Longrightarrow> keeps room st st'"
  by (auto simp: keeps_def good_def quiet_proto_ok quiet_length)

lemma keeps_upd:
  assumes "good room st" "i < length (pt_clients st)"
    and "\<And>c. cl_inboundMsgs (f c) = cl_inboundMsgs c" "\<And>c. cl_outboundMsgs (f c) = cl_outboundMsgs c"
    and "\<And>c. cl_msgID (f c) = cl_msgID c"
  shows "keeps room st (upd_client i f st)"
  using assms proto_ok_upd_same[of "{#}" st i f] by (simp add: keeps_def good_def)

context network begin

lemma cleanSession_ok:
  assumes "good room st" "i < length (pt_clients st)"
  shows "\<exists>st'. MQTTClient_cleanSession en i st = Some st' \<and> keeps room st st'"
proof -
  have ok: "proto_ok {#} st" "room (pt_net st)" using assms(1) by (simp_all add: good_def)
  let ?st1 = "st\<lparr>pt_net := en_clear en (the_client st i) (pt_net st)\<rparr>"
  obtain st2 where st2: "MQTTProtocol_emptyMessageList cl_inboundMsgs cl_inboundMsgs_update i ?st1 = Some st2" "proto_ok {#} st2"
    "pt_net st2 = pt_net ?st1" "length (pt_clients st2) = length (pt_clients ?st1)"
    using empty_inbound_ok[of ?st1 i] ok(1) assms(2) by auto
  obtain st3 where st3: "MQTTProtocol_emptyMessageList cl_outboundMsgs cl_outboundMsgs_update i st2 = Some st3" "proto_ok {#} st3"
    "pt_net st3 = pt_net st2" "length (pt_clients st3) = length (pt_clients st2)" "cl_outboundMsgs (the_client st3 i) = []"
    using empty_outbound_ok[OF st2(2), of i] st2(4) assms(2) by auto
  let ?st4 = "MQTTClient_emptyMessageQueue i st3"
  have st4: "proto_ok {#} ?st4" "length (pt_clients ?st4) = length (pt_clients st)"
      "cl_outboundMsgs (the_client ?st4 i) = []" "i < length (pt_clients ?st4)"
    using proto_ok_upd_same[OF st3(2), of i "\<lambda>c. c\<lparr>cl_messageQueue := []\<rparr>"] st2(4) st3(4,5) assms(2)
    by (simp_all add: MQTTClient_emptyMessageQueue_def the_client_upd)
  have "proto_ok {#} (upd_client i (\<lambda>c. c\<lparr>cl_msgID := 0\<rparr>) ?st4)"
    using client_ok_at[OF st4(1,4)] st4(3) by (intro proto_ok_upd[OF st4(1,4)]) (simp_all add: client_ok_def MAX_MSG_ID_def)
  moreover have "room (pt_net st3)" using clear[OF ok(2)] st2(3) st3(3) by simp
  moreover have "MQTTClient_cleanSession en i st = Some (upd_client i (\<lambda>c. c\<lparr>cl_msgID := 0\<rparr>) ?st4)"
    unfolding MQTTClient_cleanSession_def Let_def st2(1) st3(1) bind.bind_lunit ..
  ultimately show ?thesis using st4(2) by (simp add: keeps_def good_def MQTTClient_emptyMessageQueue_def)
qed

lemma disconnect_ok: "sends_ok room (\<lambda>net w. MQTTPacket_send_disconnect (en_tp en) (c\<lparr>cl_net := net\<rparr>) w 0 None)"
  using send_ok[of "Header_zero\<lparr>hd_type := DISCONNECT\<rparr>" "[]" False "cl_MQTTVersion c"]
  by (simp add: MQTTPacket_send_disconnect_def)

lemma close_socket_ok:
  assumes "good room st" "i < length (pt_clients st)"
  shows "\<exists>st'. close_socket en i st = Some st' \<and> keeps room st st'"
proof -
  obtain w where w: "en_close en (cl_net (the_client st i)) (pt_net st) = Some w" "room w"
    using close assms(1) by (auto simp: good_def)
  let ?st = "(upd_client i (cl_net_update (nt_socket_update (\<lambda>_. 0))) st)\<lparr>pt_net := w\<rparr>"
  have "keeps room st (upd_client i (cl_net_update (nt_socket_update (\<lambda>_. 0))) st)" by (rule keeps_upd[OF assms]) simp_all
  then have "keeps room st ?st" using w(2) by (simp add: keeps_def good_def)
  then show ?thesis using w(1) by (simp add: close_socket_def)
qed

lemma on_net_keeps:
  assumes "good room st" "sends_ok room send"
  shows "\<exists>rc st'. on_net i send st = Some (rc, st') \<and> keeps room st st' \<and> quiet st st'"
  using on_net_ok[OF _ assms(2), of st i] assms(1) keeps_quiet by (fastforce simp: good_def)

lemma keeps_in: "keeps room st st' \<Longrightarrow> i < length (pt_clients st) \<Longrightarrow> good room st' \<and> i < length (pt_clients st')"
  by (simp add: keeps_def)

lemma closeSession_ok:
  assumes "good room st" "i < length (pt_clients st)"
  shows "\<exists>st'. MQTTClient_closeSession en i 0 None st = Some st' \<and> keeps room st st'"
proof -
  let ?st1 = "upd_client i (\<lambda>c. c\<lparr>cl_good := False, cl_ping_outstanding := False, cl_ping_due := False\<rparr>) st"
  have k1: "keeps room st ?st1" by (rule keeps_upd[OF assms]) simp_all
  note g1 = keeps_in[OF k1 assms(2)]
  obtain st1a where a: "(if cl_connected (the_client ?st1 i) then do {
         (rc, st2) \<leftarrow> on_net i (\<lambda>net w. MQTTPacket_send_disconnect (en_tp en)
           ((the_client ?st1 i)\<lparr>cl_net := net\<rparr>) w 0 None) ?st1;
         Some st2 } else Some ?st1) = Some st1a" "keeps room ?st1 st1a"
    using on_net_keeps[OF conjunct1[OF g1] disconnect_ok[of "the_client ?st1 i"], of i] keeps_refl[OF conjunct1[OF g1]]
    by (cases "cl_connected (the_client ?st1 i)") auto
  note ga = keeps_in[OF a(2) conjunct2[OF g1]]
  obtain st1b where b: "close_socket en i st1a = Some st1b" "keeps room st1a st1b" using close_socket_ok ga by blast
  obtain st2 where st2: "(if nt_socket (cl_net (the_client ?st1 i)) > 0 then do {
         st2 \<leftarrow> (if cl_connected (the_client ?st1 i) then do {
           (rc, st2) \<leftarrow> on_net i (\<lambda>net w. MQTTPacket_send_disconnect (en_tp en)
             ((the_client ?st1 i)\<lparr>cl_net := net\<rparr>) w 0 None) ?st1;
           Some st2 } else Some ?st1);
         close_socket en i st2 } else Some ?st1) = Some st2" "keeps room ?st1 st2"
  proof (cases "nt_socket (cl_net (the_client ?st1 i)) > 0")
    case True
    then show thesis using that[of st1b] keeps_trans[OF a(2) b(2)] unfolding a(1) bind.bind_lunit b(1) by simp
  next
    case False
    then show thesis using that[of ?st1] keeps_refl[OF conjunct1[OF g1]] by simp
  qed
  note g2 = keeps_in[OF st2(2) conjunct2[OF g1]]
  let ?st3 = "upd_client i (\<lambda>c. c\<lparr>cl_connected := False, cl_connect_state := NOT_IN_PROGRESS\<rparr>) st2"
  have k3: "keeps room st2 ?st3" by (rule keeps_upd[OF conjunct1[OF g2] conjunct2[OF g2]]) simp_all
  note g3 = keeps_in[OF k3 conjunct2[OF g2]]
  obtain st4 where st4: "(if cl_MQTTVersion (the_client ?st3 i) < MQTTVERSION_5 \<and> cl_cleansession (the_client ?st3 i)
      then MQTTClient_cleanSession en i ?st3 else Some ?st3) = Some st4" "keeps room ?st3 st4"
  proof (cases "cl_MQTTVersion (the_client ?st3 i) < MQTTVERSION_5 \<and> cl_cleansession (the_client ?st3 i)")
    case True
    obtain st' where "MQTTClient_cleanSession en i ?st3 = Some st'" "keeps room ?st3 st'"
      using cleanSession_ok[OF conjunct1[OF g3] conjunct2[OF g3]] by blast
    then show thesis by (intro that[of st']) (simp_all only: if_P[OF True])
  next
    case False
    then show thesis by (intro that[of ?st3]) (simp_all only: if_not_P[OF False] if_False simp_thms keeps_refl[OF conjunct1[OF g3]])
  qed
  have "MQTTClient_closeSession en i 0 None st = Some st4"
    unfolding MQTTClient_closeSession_def Let_def st2(1) bind.bind_lunit st4(1) ..
  then show ?thesis using keeps_trans[OF keeps_trans[OF keeps_trans[OF k1 st2(2)] k3] st4(2)] by blast
qed

lemma protocol_close_ok:
  assumes "good room st" "i < length (pt_clients st)"
  shows "\<exists>st'. MQTTProtocol_closeSession en i st = Some st' \<and> keeps room st st'"
proof -
  let ?st1 = "if cl_connected (the_client st i) then upd_client i (\<lambda>c. c\<lparr>cl_connect_state := DISCONNECTING\<rparr>) st else st"
  have k: "keeps room st ?st1" using keeps_refl[OF assms(1)] keeps_upd[OF assms] by simp
  from closeSession_ok keeps_in[OF k assms(2)] obtain st' where
    "MQTTClient_closeSession en i 0 None ?st1 = Some st'" "keeps room ?st1 st'" by blast
  then show ?thesis unfolding MQTTProtocol_closeSession_def using keeps_trans[OF k] by blast
qed

subsection \<open>Retries\<close>

lemma touch_keeps:
  assumes "good room st" "i < length (pt_clients st)" "j < length (cl_outboundMsgs (the_client st i))"
  shows "keeps room st (touch i j now st)"
proof -
  have "proto_ok {#} (touch i j now st)"
    unfolding touch_def
    by (rule proto_ok_same_ids[OF _ assms(2,3), where g = "\<lambda>m. m\<lparr>ms_lastTouch := now\<rparr>"])
      (use assms(1) out_ok_at[OF _ assms(2,3)] in \<open>auto simp: good_def out_ok_def msg_ok_def\<close>)
  then show ?thesis using assms(1) by (simp add: keeps_def good_def touch_def)
qed

text \<open>While the loop goes on the list has the same length.\<close>

definition same_out :: "nat \<Rightarrow> 'a protocol \<Rightarrow> 'a protocol \<Rightarrow> bool" where
  "same_out i st st' \<longleftrightarrow> length (cl_outboundMsgs (the_client st' i)) = length (cl_outboundMsgs (the_client st i))"

lemma same_out_quiet: "quiet st st' \<Longrightarrow> i < length (pt_clients st) \<Longrightarrow> same_out i st st'"
  by (simp add: same_out_def core_fields(2)[OF quiet_core])

lemma same_out_touch: "i < length (pt_clients st) \<Longrightarrow> same_out i st (touch i j now st)"
  by (simp add: same_out_def touch_def the_client_upd)

lemma bad_session_ok:
  assumes "good room st" "i < length (pt_clients st)"
  shows "\<exists>st'. bad_session en i st = Some st' \<and> keeps room st st'"
proof -
  have k: "keeps room st (upd_client i (\<lambda>c. c\<lparr>cl_good := False\<rparr>) st)" by (rule keeps_upd[OF assms]) simp_all
  from protocol_close_ok keeps_in[OF k assms(2)] keeps_trans[OF k] show ?thesis unfolding bad_session_def by blast
qed

lemma retry_send_ok:
  assumes "good room st" "i < length (pt_clients st)" "j < length (cl_outboundMsgs (the_client st i))" "sends_ok room send"
  shows "\<exists>go_on st'. do { (rc, st1) \<leftarrow> on_net i send st;
        if bad rc then do { st2 \<leftarrow> bad_session en i st1; Some (False, st2) }
        else Some (True, touch i j (tp_now (en_tp en) (pt_net st1)) st1) } = Some (go_on, st')
    \<and> keeps room st st' \<and> (go_on \<longrightarrow> same_out i st st')"
proof -
  obtain rc st1 where st1: "on_net i send st = Some (rc, st1)" "keeps room st st1" "quiet st st1"
    using on_net_keeps[OF assms(1,4)] by blast
  note g1 = keeps_in[OF st1(2) assms(2)]
  have j: "j < length (cl_outboundMsgs (the_client st1 i))" using assms(3) core_fields(2)[OF quiet_core[OF st1(3) assms(2)]] by simp
  show ?thesis
  proof (cases "bad rc")
    case True
    obtain st2 where "bad_session en i st1 = Some st2" "keeps room st1 st2" using bad_session_ok g1 by blast
    then show ?thesis using st1(1) True keeps_trans[OF st1(2)] by auto
  next
    case False
    let ?st2 = "touch i j (tp_now (en_tp en) (pt_net st1)) st1"
    have "keeps room st1 ?st2" using touch_keeps g1 j by blast
    moreover have "same_out i st ?st2"
      using same_out_quiet[OF st1(3) assms(2)] same_out_touch[OF conjunct2[OF g1], of j] by (simp add: same_out_def)
    ultimately show ?thesis using st1(1) False keeps_trans[OF st1(2)] by auto
  qed
qed

lemma retry_message_ok:
  assumes "good room st" "i < length (pt_clients st)" "j < length (cl_outboundMsgs (the_client st i))"
  shows "\<exists>go_on st'. retry_message en i j st = Some (go_on, st') \<and> keeps room st st' \<and> (go_on \<longrightarrow> same_out i st st')"
proof -
  have ok: "proto_ok {#} st" using assms(1) by (simp add: good_def)
  define m where "m = cl_outboundMsgs (the_client st i) ! j"
  note m = out_ok_at[OF ok assms(2,3), folded m_def]
  obtain a pub where a: "ms_publish m = Some a" "pt_publications st a = Some pub" "pub_ok pub"
    using out_stored[OF ok assms(2,3)] unfolding m_def by blast
  have wf: "publish_wf (stored_publish m (Some pub))" using stored_publish_wf[OF a(3)] m by (simp add: out_ok_def)
  have qos: "ms_qos m < 4" using m by (auto simp: out_ok_def)
  note pub = retry_send_ok[OF assms sends_publish[OF wf qos], of 1 "ms_retain m" "\<lambda>rc. rc = SOCKET_ERROR"]
    and rel = retry_send_ok[OF assms acks_ok(3), of "ms_MQTTVersion m" "ms_msgid m" 0 "\<lambda>rc. rc \<noteq> TCPSOCKET_COMPLETE"]
  consider (one) "ms_qos m = 1" | (two) "ms_qos m = 2" "ms_nextMessageType m = Some PUBREC"
    | (release) "ms_qos m = 2" "ms_nextMessageType m = Some PUBCOMP" using m by (auto simp: out_ok_def)
  then show ?thesis
  proof cases
    case one
    then show ?thesis using pub a by (simp add: retry_message_def Let_def flip: m_def)
  next
    case two
    then show ?thesis using pub a by (simp add: retry_message_def Let_def flip: m_def)
  next
    case release
    then show ?thesis using rel by (simp add: retry_message_def Let_def flip: m_def)
  qed
qed

lemma retries_loop_ok:
  "good room st \<Longrightarrow> i < length (pt_clients st) \<Longrightarrow> \<forall>j \<in> set js. j < length (cl_outboundMsgs (the_client st i)) \<Longrightarrow>
    \<exists>st'. retries_loop en now i regardless js st = Some st' \<and> keeps room st st'"
proof (induction js arbitrary: st)
  case Nil
  then show ?case by (simp add: keeps_refl)
next
  case (Cons j js)
  let ?st1 = "if regardless then upd_client i (\<lambda>c. c\<lparr>cl_connect_sent := cl_connect_sent c + 1\<rparr>) st else st"
  have k1: "keeps room st ?st1" using keeps_refl[OF Cons.prems(1)] keeps_upd[OF Cons.prems(1,2)] by simp
  have same: "cl_outboundMsgs (the_client ?st1 i) = cl_outboundMsgs (the_client st i)"
    using Cons.prems(2) by (simp add: the_client_upd)
  note g1 = keeps_in[OF k1 Cons.prems(2)]
  obtain go_on st2 where st2: "retry_message en i j ?st1 = Some (go_on, st2)" "keeps room ?st1 st2"
      "go_on \<longrightarrow> same_out i ?st1 st2"
    using retry_message_ok[OF conjunct1[OF g1] conjunct2[OF g1], of j] Cons.prems(3) same by auto
  note k2 = keeps_trans[OF k1 st2(2)]
  have go: "\<exists>st'. retries_loop en now i regardless js st2 = Some st' \<and> keeps room st st'" if go_on
  proof -
    have "\<forall>j \<in> set js. j < length (cl_outboundMsgs (the_client st2 i))"
      using st2(3) that Cons.prems(3) same by (simp add: same_out_def)
    with Cons.IH keeps_in[OF k2 Cons.prems(2)] keeps_trans[OF k2] show ?thesis by blast
  qed
  have skip: "\<exists>st'. retries_loop en now i regardless js st = Some st' \<and> keeps room st st'"
    using Cons.IH[OF Cons.prems(1,2)] Cons.prems(3) by simp
  have step: "retries_loop en now i regardless (j # js) st =
      (if \<not> (cl_connected (the_client st i) \<and> cl_good (the_client st i)
          \<and> en_noPendingWrites en (nt_socket (cl_net (the_client st i))) (pt_net st)) then Some st
       else if regardless \<or> MQTTTime_difftime now (ms_lastTouch (cl_outboundMsgs (the_client st i) ! j))
          > max (cl_retryInterval (the_client st i)) 10 * 1000
       then if go_on then retries_loop en now i regardless js st2 else Some st2
       else retries_loop en now i regardless js st)"
    unfolding retries_loop.simps Let_def st2(1) bind.bind_lunit prod.case ..
  show ?case unfolding step using go skip keeps_refl[OF Cons.prems(1)] k2 by (cases regardless; cases go_on) auto
qed

lemma retries_ok:
  assumes "good room st" "i < length (pt_clients st)"
  shows "\<exists>st'. MQTTProtocol_retries en now i regardless st = Some st' \<and> keeps room st st'"
proof -
  let ?n = "length (cl_outboundMsgs (the_client st i))"
  let ?st1 = "upd_client i (\<lambda>c. c\<lparr>cl_connect_count := int ?n\<rparr>) st"
  have k: "keeps room st ?st1" by (rule keeps_upd[OF assms]) simp_all
  have "\<exists>st'. retries_loop en now i True [0..<?n] ?st1 = Some st' \<and> keeps room ?st1 st'"
    using assms(2) keeps_in[OF k assms(2)] by (intro retries_loop_ok) (simp_all add: the_client_upd)
  moreover have "\<exists>st'. retries_loop en now i b [0..<?n] st = Some st' \<and> keeps room st st'" for b
    by (rule retries_loop_ok[OF assms]) simp
  ultimately show ?thesis
    unfolding MQTTProtocol_retries_def Let_def using keeps_refl[OF assms(1)] keeps_trans[OF k] by simp blast
qed

text \<open>A pass over the clients, of which each step keeps the state good.\<close>

lemma retry_clients_ok:
  "good room st \<Longrightarrow> \<forall>i \<in> set is. i < length (pt_clients st) \<Longrightarrow>
    \<exists>st'. retry_clients en now doRetry regardless is st = Some st' \<and> keeps room st st'"
proof (induction "is" arbitrary: st)
  case Nil
  then show ?case by (simp add: keeps_refl)
next
  case (Cons i "is")
  then have i: "i < length (pt_clients st)" by simp
  let ?c = "the_client st i"
  have "\<exists>st1. (if \<not> cl_connected ?c then Some st
            else if \<not> cl_good ?c then MQTTProtocol_closeSession en i st
            else if \<not> en_noPendingWrites en (nt_socket (cl_net ?c)) (pt_net st) then Some st
            else if doRetry then MQTTProtocol_retries en now i regardless st else Some st) = Some st1 \<and> keeps room st st1"
    by (intro if_Some Some_self keeps_refl[OF Cons.prems(1)] protocol_close_ok[OF Cons.prems(1) i] retries_ok[OF Cons.prems(1) i])
  then obtain st1 where st1: "(if \<not> cl_connected ?c then Some st
            else if \<not> cl_good ?c then MQTTProtocol_closeSession en i st
            else if \<not> en_noPendingWrites en (nt_socket (cl_net ?c)) (pt_net st) then Some st
            else if doRetry then MQTTProtocol_retries en now i regardless st else Some st) = Some st1" "keeps room st st1"
    by blast
  have "good room st1" "\<forall>i \<in> set is. i < length (pt_clients st1)" using Cons.prems(2) st1(2) by (simp_all add: keeps_def)
  from Cons.IH[OF this] keeps_trans[OF st1(2)] show ?case
    unfolding retry_clients.simps Let_def st1(1) bind.bind_lunit by blast
qed

lemma retry_ok:
  assumes "good room st"
  shows "\<exists>st'. MQTTProtocol_retry en now doRetry regardless st = Some st' \<and> keeps room st st'"
  unfolding MQTTProtocol_retry_def by (rule retry_clients_ok[OF assms]) simp

subsection \<open>Pings, queued acknowledgements and pending writes\<close>

lemma send_ping_ok:
  assumes "good room st" "i < length (pt_clients st)"
  shows "\<exists>st'. send_ping en now i st = Some st' \<and> keeps room st st'"
proof -
  obtain rc st1 where st1: "on_net i (MQTTPacket_send_pingreq (en_tp en)) st = Some (rc, st1)" "keeps room st st1"
    using on_net_keeps[OF assms(1) acks_ok(5)] by blast
  note g1 = keeps_in[OF st1(2) assms(2)]
  have "keeps room st1 (upd_client i (\<lambda>c. c\<lparr>cl_ping_due := False, cl_net := (cl_net c)\<lparr>nt_lastPing := now\<rparr>,
      cl_ping_outstanding := True\<rparr>) st1)" by (rule keeps_upd) (use g1 in simp_all)
  then show ?thesis
    using st1(1) keeps_trans[OF st1(2)] protocol_close_ok[OF conjunct1[OF g1] conjunct2[OF g1]]
    by (cases "rc \<noteq> TCPSOCKET_COMPLETE") (auto simp: send_ping_def)
qed

lemma keepalive_client_ok:
  assumes "good room st" "i < length (pt_clients st)"
  shows "\<exists>st'. keepalive_client en now i st = Some st' \<and> keeps room st st'"
proof -
  have due: "keeps room st (upd_client i (\<lambda>c. c\<lparr>cl_ping_due := True, cl_ping_due_time := now\<rparr>) st)"
    by (rule keeps_upd[OF assms]) simp_all
  show ?thesis
    unfolding keepalive_client_def Let_def
    by (intro if_Some Some_self due keeps_refl[OF assms(1)] protocol_close_ok[OF assms] send_ping_ok[OF assms])
qed

lemma keepalive_clients_ok:
  "good room st \<Longrightarrow> \<forall>i \<in> set is. i < length (pt_clients st) \<Longrightarrow>
    \<exists>st'. keepalive_clients en now is st = Some st' \<and> keeps room st st'"
proof (induction "is" arbitrary: st)
  case Nil
  then show ?case by (simp add: keeps_refl)
next
  case (Cons i "is")
  have "i < length (pt_clients st)" using Cons.prems(2) by simp
  from keepalive_client_ok[OF Cons.prems(1) this] obtain st1 where
    st1: "keepalive_client en now i st = Some st1" "keeps room st st1" by blast
  have "good room st1" "\<forall>i \<in> set is. i < length (pt_clients st1)" using Cons.prems(2) st1(2) by (simp_all add: keeps_def)
  from Cons.IH[OF this] keeps_trans[OF st1(2)] show ?case
    unfolding keepalive_clients.simps st1(1) bind.bind_lunit by blast
qed

lemma keepalive_ok:
  assumes "good room st"
  shows "\<exists>st'. MQTTProtocol_keepalive en now st = Some st' \<and> keeps room st st'"
  unfolding MQTTProtocol_keepalive_def by (rule keepalive_clients_ok[OF assms]) simp

lemma ack_loop_ok:
  "room (pt_net st) \<Longrightarrow> \<exists>rc' st'. ack_loop en i acks rc st = Some (rc', st') \<and> quiet st st' \<and> room (pt_net st')"
proof (induction acks arbitrary: rc st)
  case (Cons ack acks)
  let ?v = "cl_MQTTVersion (the_client st i)" and ?k = "ar_messageId ack" and ?t = "ar_ackType ack"
  have "\<exists>rc1 st1. (if ?t = PUBACK then on_net i (MQTTPacket_send_puback (en_tp en) ?v ?k) st
           else if ?t = PUBREC then on_net i (MQTTPacket_send_pubrec (en_tp en) ?v ?k) st
           else if ?t = PUBREL then on_net i (MQTTPacket_send_pubrel (en_tp en) ?v ?k 0) st
           else if ?t = PUBCOMP then on_net i (MQTTPacket_send_pubcomp (en_tp en) ?v ?k) st
           else Some (rc, st)) = Some (rc1, st1) \<and> quiet st st1 \<and> room (pt_net st1)"
    by (intro if_Some_pair Some_self_pair on_net_ok[OF Cons.prems] acks_ok conjI quiet_refl Cons.prems)
  then obtain rc1 st1 where st1: "(if ?t = PUBACK then on_net i (MQTTPacket_send_puback (en_tp en) ?v ?k) st
           else if ?t = PUBREC then on_net i (MQTTPacket_send_pubrec (en_tp en) ?v ?k) st
           else if ?t = PUBREL then on_net i (MQTTPacket_send_pubrel (en_tp en) ?v ?k 0) st
           else if ?t = PUBCOMP then on_net i (MQTTPacket_send_pubcomp (en_tp en) ?v ?k) st
           else Some (rc, st)) = Some (rc1, st1)" "quiet st st1" "room (pt_net st1)" by blast
  obtain rc2 st2 where st2: "ack_loop en i acks rc1 st1 = Some (rc2, st2)" "quiet st1 st2" "room (pt_net st2)"
    using Cons.IH[OF st1(3)] by blast
  have step: "ack_loop en i (ack # acks) rc st = (if rc \<noteq> 0 then Some (rc, st) else Some (rc2, st2))"
    unfolding ack_loop.simps Let_def st1(1) bind.bind_lunit prod.case st2(1) ..
  show ?case unfolding step using Cons.prems st2(3) quiet_trans[OF st1(2) st2(2)] by auto
qed simp

lemma writeAvailable_ok:
  assumes "good room st" "find_client st sock = Some i"
  shows "\<exists>rc st'. MQTTProtocol_writeAvailable en sock st = Some (rc, st') \<and> keeps room st st'"
proof -
  obtain rc st1 where st1: "ack_loop en i (cl_outboundQueue (the_client st i)) 0 st = Some (rc, st1)" "quiet st st1" "room (pt_net st1)"
    using ack_loop_ok[of st i "cl_outboundQueue (the_client st i)" 0] assms(1) by (auto simp: good_def)
  let ?st2 = "upd_client i (\<lambda>c. c\<lparr>cl_outboundQueue := []\<rparr>) st1"
  have "quiet st ?st2" by (rule quiet_trans[OF st1(2) quiet_upd]) simp
  then have "keeps room st ?st2" using assms(1) st1(3) by (intro keeps_quiet) simp_all
  then show ?thesis using st1(1) assms(2) by (simp add: MQTTProtocol_writeAvailable_def)
qed

lemma check_pending_commutes:
  "check_pending en ws (st\<lparr>pt_pending_writes := x\<rparr>)
    = map_option (\<lambda>(left, st). (left, st\<lparr>pt_pending_writes := x\<rparr>)) (check_pending en ws st)"
proof (induction ws arbitrary: st)
  case (Cons w ws)
  obtain socket p where w: "w = (socket, p)" by fastforce
  show ?case
  proof (cases "en_noPendingWrites en socket (pt_net st)")
    case True
    then show ?thesis using Cons.IH
      by (cases "MQTTProtocol_removePublication (Some p) st") (simp_all add: w remove_commutes)
  next
    case False
    then show ?thesis using Cons.IH by (cases "check_pending en ws st") (auto simp: w)
  qed
qed simp

lemma check_pending_ok:
  "proto_ok (extra + mset (map snd ws)) st \<Longrightarrow>
    \<exists>left st'. check_pending en ws st = Some (left, st') \<and> proto_ok (extra + mset (map snd left)) st'
      \<and> pt_net st' = pt_net st \<and> pt_clients st' = pt_clients st \<and> pt_pending_writes st' = pt_pending_writes st"
proof (induction ws arbitrary: st extra)
  case (Cons w ws)
  obtain socket p where w: "w = (socket, p)" by fastforce
  show ?case
  proof (cases "en_noPendingWrites en socket (pt_net st)")
    case True
    have "proto_ok ((extra + mset (map snd ws)) + (case Some p of None \<Rightarrow> {#} | Some a \<Rightarrow> {#a#})) st"
      using Cons.prems by (simp add: w)
    note r = remove_extra[OF this]
    from Cons.IH[OF r(2)] show ?thesis using True r(1) by (simp add: w)
  next
    case False
    have "proto_ok ((extra + {#p#}) + mset (map snd ws)) st" using Cons.prems by (simp add: w)
    from Cons.IH[OF this] show ?thesis using False by (auto simp: w)
  qed
qed simp

lemma proto_ok_pending_swap:
  "proto_ok (mset (map snd ws)) (st\<lparr>pt_pending_writes := []\<rparr>) = proto_ok {#} (st\<lparr>pt_pending_writes := ws\<rparr>)"
  by (auto simp: proto_ok_def pubs_ok_def all_refs_def)

lemma checkPendingWrites_ok:
  assumes "good room st"
  shows "\<exists>st'. MQTTProtocol_checkPendingWrites en st = Some st' \<and> keeps room st st'"
proof -
  have ok: "proto_ok {#} st" "room (pt_net st)" using assms by (simp_all add: good_def)
  let ?ws = "pt_pending_writes st" and ?st0 = "st\<lparr>pt_pending_writes := []\<rparr>"
  have "proto_ok ({#} + mset (map snd ?ws)) ?st0" using proto_ok_pending_swap[of ?ws st] ok(1) by simp
  from check_pending_ok[OF this] obtain left st' where c: "check_pending en ?ws ?st0 = Some (left, st')"
      "proto_ok (mset (map snd left)) st'" "pt_net st' = pt_net st" "pt_clients st' = pt_clients st" "pt_pending_writes st' = []"
    by auto
  from c(1) obtain st1 where st1: "check_pending en ?ws st = Some (left, st1)" "st' = st1\<lparr>pt_pending_writes := []\<rparr>"
    unfolding check_pending_commutes by auto
  have "proto_ok {#} (st1\<lparr>pt_pending_writes := left\<rparr>)" using c(2) proto_ok_pending_swap[of left st1] st1(2) by simp
  then show ?thesis using st1 c(3,4) ok(2) by (simp add: MQTTProtocol_checkPendingWrites_def keeps_def good_def)
qed

end

end
