(* ===== verification/Protocol_Flow.thy ===== *)
theory Protocol_Flow
  imports Protocol_Run
begin

text \<open>
  What the protocol promises, as two small machines: a receiver that hands on each publication with
  QoS 2 once, and a sender whose exchanges advance with the acknowledgements. The handlers
  simulate them.
\<close>

subsection \<open>Association lists\<close>

lemma map_of_update:
  "distinct (map fst xs) \<Longrightarrow> j < length xs \<Longrightarrow> fst (xs ! j) = k \<Longrightarrow> map_of (xs[j := (k, v)]) = (map_of xs)(k \<mapsto> v)"
proof (induction xs arbitrary: j)
  case (Cons x xs)
  show ?case
  proof (cases j)
    case 0
    then show ?thesis using Cons.prems by (cases x) auto
  next
    case (Suc l)
    then have "l < length xs" "fst (xs ! l) = k" using Cons.prems(2,3) by simp_all
    then have "k \<in> fst ` set xs" by (metis imageI nth_mem)
    then have "k \<noteq> fst x" using Cons.prems(1) by (metis distinct.simps(2) list.set_map list.simps(9))
    with Suc Cons show ?thesis by (cases x) (auto simp: fun_upd_twist)
  qed
qed simp

lemma map_of_remove_at:
  "distinct (map fst xs) \<Longrightarrow> j < length xs \<Longrightarrow> fst (xs ! j) = k \<Longrightarrow> map_of (remove_at j xs) = (map_of xs)(k := None)"
proof (induction xs arbitrary: j)
  case (Cons x xs)
  show ?case
  proof (cases j)
    case 0
    then have "map_of xs k = None" using Cons.prems by (auto simp: map_of_eq_None_iff)
    with 0 Cons.prems show ?thesis by (cases x) auto
  next
    case (Suc l)
    then have "l < length xs" "fst (xs ! l) = k" using Cons.prems(2,3) by simp_all
    then have "k \<in> fst ` set xs" by (metis imageI nth_mem)
    then have "k \<noteq> fst x" using Cons.prems(1) by (metis distinct.simps(2) list.set_map list.simps(9))
    with Suc Cons show ?thesis by (cases x) (auto simp: fun_upd_twist)
  qed
qed simp

lemma map_of_append_new: "map_of xs k = None \<Longrightarrow> map_of (xs @ [(k, v)]) = (map_of xs)(k \<mapsto> v)"
  by (auto simp: map_add_def fun_eq_iff split: option.splits)

text \<open>The messages of a list by their identifiers.\<close>

definition by_id :: "(Messages \<Rightarrow> 'a) \<Rightarrow> Messages list \<Rightarrow> int \<rightharpoonup> 'a" where
  "by_id g ms = map_of (map (\<lambda>m. (ms_msgid m, g m)) ms)"

lemma by_id_cong: "(\<And>m. m \<in> set ms \<Longrightarrow> g m = h m) \<Longrightarrow> by_id g ms = by_id h ms"
  by (auto simp: by_id_def intro!: arg_cong[where f = map_of])

lemma dom_by_id: "dom (by_id g ms) = ms_msgid ` set ms"
  by (auto simp: by_id_def dom_map_of_conv_image_fst image_image)

lemma by_id_None: "by_id g ms k = None \<longleftrightarrow> position (messageIDCompare k) ms = None"
proof -
  have "by_id g ms k = None \<longleftrightarrow> k \<notin> ms_msgid ` set ms" by (metis dom_by_id domIff)
  then show ?thesis by (auto simp: position_None messageIDCompare_def)
qed

lemma by_id_position:
  assumes "distinct (map ms_msgid ms)" "position (messageIDCompare k) ms = Some j"
  shows "by_id g ms k = Some (g (ms ! j))"
proof -
  have j: "j < length ms" "ms_msgid (ms ! j) = k" using position_Some[OF assms(2)] by (auto simp: messageIDCompare_def)
  then have "(k, g (ms ! j)) \<in> set (map (\<lambda>m. (ms_msgid m, g m)) ms)" by force
  with assms(1) show ?thesis by (simp add: by_id_def o_def)
qed

lemma by_id_append:
  "position (messageIDCompare (ms_msgid m)) ms = None \<Longrightarrow> by_id g (ms @ [m]) = (by_id g ms)(ms_msgid m \<mapsto> g m)"
  using map_of_append_new[of "map (\<lambda>m. (ms_msgid m, g m)) ms" "ms_msgid m" "g m"] by_id_None[of g ms "ms_msgid m"]
  by (simp add: by_id_def)

lemma by_id_update:
  assumes "distinct (map ms_msgid ms)" "j < length ms" "ms_msgid m = ms_msgid (ms ! j)"
  shows "by_id g (ms[j := m]) = (by_id g ms)(ms_msgid m \<mapsto> g m)"
  using map_of_update[of "map (\<lambda>m. (ms_msgid m, g m)) ms" j "ms_msgid m" "g m"] assms
  by (simp add: by_id_def map_update o_def)

lemma by_id_remove:
  assumes "distinct (map ms_msgid ms)" "j < length ms"
  shows "by_id g (remove_at j ms) = (by_id g ms)(ms_msgid (ms ! j) := None)"
  using map_of_remove_at[of "map (\<lambda>m. (ms_msgid m, g m)) ms" j "ms_msgid (ms ! j)"] assms
  by (simp add: by_id_def map_remove_at o_def)

subsection \<open>Publications are not shared\<close>

lemma refs_single:
  assumes "proto_ok {#} st"
  shows "count (all_refs st) a \<le> 1"
  using assms by (auto simp: proto_ok_def pubs_ok_def count_mset_set')

lemma client_refs_le: "i < length (pt_clients st) \<Longrightarrow> client_refs (the_client st i) \<subseteq># all_refs st"
  unfolding all_refs_def the_client_def
  by (rule subset_mset.order_trans[OF _ mset_subset_eq_add_left])
    (metis mset_subset_eq_add_right sum_list_remove_at nth_mem)

lemma two_refs:
  assumes "j < length ms" "k < length ms" "j \<noteq> k" "ms_publish (ms ! j) = Some a" "ms_publish (ms ! k) = Some a"
  shows "2 \<le> count (sum_list (map msg_refs ms)) a"
proof -
  have "ms ! k \<in> set (remove_at j ms)"
  proof (cases "k < j")
    case True
    then have "ms ! k = take j ms ! k" "k < length (take j ms)" using assms(1,2) by simp_all
    then show ?thesis by (metis Un_iff nth_mem remove_at_def set_append)
  next
    case False
    then have "ms ! k = drop (Suc j) ms ! (k - Suc j)" "k - Suc j < length (drop (Suc j) ms)" using assms(2,3) by simp_all
    then show ?thesis by (metis Un_iff nth_mem remove_at_def set_append)
  qed
  then have "a \<in># sum_list (map msg_refs (remove_at j ms))"
    using assms(5) by (auto simp: in_sum_list_mset msg_refs_def intro!: bexI[of _ "ms ! k"])
  then have "1 \<le> count (sum_list (map msg_refs (remove_at j ms))) a" by (simp add: Suc_le_eq)
  moreover have "count (msg_refs (ms ! j)) a = 1" using assms(4) by (simp add: msg_refs_def)
  ultimately show ?thesis
    unfolding sum_list_remove_at[OF assms(1), of msg_refs, symmetric] by simp
qed

lemma not_shared:
  assumes "proto_ok {#} st" "i < length (pt_clients st)" "j \<noteq> k" "ms_publish (ms ! j) = Some a"
    and "ms = cl_inboundMsgs (the_client st i) \<or> ms = cl_outboundMsgs (the_client st i)" "j < length ms" "k < length ms"
  shows "ms_publish (ms ! k) \<noteq> Some a"
proof
  assume "ms_publish (ms ! k) = Some a"
  from two_refs[OF assms(6,7,3,4) this] have "2 \<le> count (client_refs (the_client st i)) a"
    using assms(5) by (auto simp: client_refs_def)
  also have "\<dots> \<le> count (all_refs st) a" using client_refs_le[OF assms(2)] by (simp add: mset_subset_eq_count)
  finally show False using refs_single[OF assms(1), of a] by simp
qed

lemma stored_below:
  assumes "proto_ok extra st" "i < length (pt_clients st)"
    and "ms = cl_inboundMsgs (the_client st i) \<or> ms = cl_outboundMsgs (the_client st i)" "m \<in> set ms" "ms_publish m = Some a"
  shows "a < pt_fresh st"
proof -
  have "a \<in># all_refs st + extra" using assms(3-5) ref_of_in[OF assms(2)] ref_of_out[OF assms(2)] by blast
  with assms(1) show ?thesis unfolding proto_ok_def by (metis extra_stored pubs_ok_def)
qed

text \<open>
  Dropping the publication of one message does not change what is seen of the others through the
  store of publications.
\<close>

lemma by_id_drop:
  assumes "proto_ok {#} st" "i < length (pt_clients st)"
    and ms: "ms = cl_inboundMsgs (the_client st i) \<or> ms = cl_outboundMsgs (the_client st i)"
    and k: "position (messageIDCompare k) ms = Some j"
    and same: "\<And>m. (\<And>a. ms_publish m = Some a \<Longrightarrow> a < pt_fresh st \<and> Some a \<noteq> ms_publish (ms ! j)) \<Longrightarrow> g m = h m"
  shows "(by_id g ms)(k := v) = (by_id h ms)(k := v)"
proof
  fix l
  have d: "distinct (map ms_msgid ms)" using client_ok_at[OF assms(1,2)] ms by (auto simp: client_ok_def)
  note j = position_Some[OF k]
  show "((by_id g ms)(k := v)) l = ((by_id h ms)(k := v)) l"
  proof (cases "position (messageIDCompare l) ms")
    case None
    then show ?thesis by (simp add: by_id_None[THEN iffD2])
  next
    case (Some n)
    note n = position_Some[OF Some]
    show ?thesis
    proof (cases "l = k")
      case False
      then have "j \<noteq> n" using j n by (auto simp: messageIDCompare_def)
      have "g (ms ! n) = h (ms ! n)"
      proof (rule same)
        fix a assume a: "ms_publish (ms ! n) = Some a"
        have "a < pt_fresh st" using stored_below[OF assms(1,2) ms _ a] n by simp
        moreover have "Some a \<noteq> ms_publish (ms ! j)"
          using not_shared[OF assms(1,2) \<open>j \<noteq> n\<close> _ ms] a j n by metis
        ultimately show "a < pt_fresh st \<and> Some a \<noteq> ms_publish (ms ! j)" ..
      qed
      then show ?thesis using False by (simp add: by_id_position[OF d Some])
    qed simp
  qed
qed

lemma find_client_upd [simp]:
  assumes "\<And>c. nt_socket (cl_net (f c)) = nt_socket (cl_net c)"
  shows "find_client (upd_client i f st) sock = find_client st sock"
  unfolding find_client_def upd_client_def the_client_def
  by (rule position_cong, cases "i < length (pt_clients st)")
    (auto simp: list_all2_conv_all_nth nth_list_update clientSocketCompare_def assms)

lemma find_client_stores [simp]:
  "find_client (st\<lparr>pt_net := w\<rparr>) sock = find_client st sock" "find_client (st\<lparr>pt_msgs_sent := n\<rparr>) sock = find_client st sock"
  "find_client (st\<lparr>pt_msgs_received := n\<rparr>) sock = find_client st sock"
  "find_client (with_publication a p st) sock = find_client st sock"
  "find_client (free_publication a st) sock = find_client st sock"
  "find_client (drop_publication q st) sock = find_client st sock"
  by (simp_all add: find_client_def)

subsection \<open>The receiver\<close>

type_synonym content = "byte list \<times> byte list \<times> nat \<times> MQTTProperty list"

definition publish_content :: "Publish \<Rightarrow> content" where
  "publish_content p = (the (pb_topic p), pb_payload p, hd_retain (pb_header p),
     if pb_MQTTVersion p \<ge> 5 then props_list (pb_properties p) else [])"

definition entry_content :: "qEntry \<Rightarrow> int \<times> content" where
  "entry_content qe = (mm_msgid (qe_msg qe), qe_topicName qe, mm_payload (qe_msg qe), mm_retained (qe_msg qe),
     props_list (mm_properties (qe_msg qe)))"

text \<open>
  For each identifier of an exchange that is open, what is still to be handed on; and what has been
  handed to the application. With MQTT 5 a publication is handed on when the exchange opens, before
  when it closes.
\<close>

type_synonym receiver = "(int \<rightharpoonup> content option) \<times> (int \<times> content) list"

datatype in_event = InPublish int int content | InPubrel int

fun receive :: "in_event \<Rightarrow> receiver \<Rightarrow> receiver" where
  "receive (InPublish v k c) (W, G) =
     (W(k \<mapsto> (if v \<ge> 5 then None else Some c)), if v \<ge> 5 \<and> W k = None then G @ [(k, c)] else G)"
| "receive (InPubrel k) (W, G) = (W(k := None), case W k of Some (Some c) \<Rightarrow> G @ [(k, c)] | _ \<Rightarrow> G)"

definition waiting :: "(nat \<Rightarrow> Publications option) \<Rightarrow> Messages \<Rightarrow> content option" where
  "waiting store m = (if ms_MQTTVersion m \<ge> 5 then None else
     map_option (\<lambda>a. publish_content (stored_publish m (store a))) (ms_publish m))"

definition receiver_of :: "'w protocol \<Rightarrow> nat \<Rightarrow> receiver" where
  "receiver_of st i = (by_id (waiting (pt_publications st)) (cl_inboundMsgs (the_client st i)),
     map entry_content (cl_messageQueue (the_client st i)))"

lemma entry_content_of: "copied publish ps \<Longrightarrow> entry_content (entry_of publish ps) = (pb_msgId publish, publish_content publish)"
  by (simp add: entry_content_def entry_of_def copied_def publish_content_def)

lemma receiver_quiet:
  assumes "quiet st st'" "i < length (pt_clients st)"
  shows "receiver_of st' i = receiver_of st i"
  using core_fields(1,4)[OF quiet_core[OF assms]] quiet_stores(1)[OF assms(1)] by (simp add: receiver_of_def)

lemma waiting_cong: "(\<And>a. ms_publish m = Some a \<Longrightarrow> store a = store' a) \<Longrightarrow> waiting store m = waiting store' m"
  by (cases "ms_publish m") (simp_all add: waiting_def)

lemma by_id_store:
  assumes "proto_ok {#} st" "i < length (pt_clients st)" "\<And>a. a < pt_fresh st \<Longrightarrow> store a = pt_publications st a"
  shows "by_id (waiting store) (cl_inboundMsgs (the_client st i))
    = by_id (waiting (pt_publications st)) (cl_inboundMsgs (the_client st i))"
  by (intro by_id_cong waiting_cong assms(3) stored_below[OF assms(1,2) disjI1[OF refl]])

lemma receiver_new_v5:
  assumes "proto_ok {#} st" "i < length (pt_clients st)" "pb_MQTTVersion publish \<ge> 5" "copied publish ps"
    and "position (messageIDCompare (pb_msgId publish)) (cl_inboundMsgs (the_client st i)) = None"
  shows "receiver_of (receive_new i (inbound_msg publish props None) [entry_of publish ps]
      (free_publication (pt_fresh st) (with_publication (pt_fresh st) (publication_of publish) st))) i
    = receive (InPublish (pb_MQTTVersion publish) (pb_msgId publish) (publish_content publish)) (receiver_of st i)"
  using assms(2,3,5) by_id_None[of "waiting (pt_publications st)" "cl_inboundMsgs (the_client st i)" "pb_msgId publish"]
    by_id_store[OF assms(1,2), of "(pt_publications st)(pt_fresh st := None)"]
  by (simp add: receiver_of_def receive_new_def the_client_upd by_id_append entry_content_of[OF assms(4)] waiting_def[of _ "inbound_msg _ _ _"])

lemma waiting_new:
  assumes "publish_wf publish" "store a = Some (publication_of publish)" "kept publish props"
  shows "waiting store (inbound_msg publish props (Some a))
    = (if pb_MQTTVersion publish \<ge> 5 then None else Some (publish_content publish))"
  using assms
  by (auto simp: waiting_def publish_content_def stored_publish_def inbound_msg_def publication_of_def kept_def
      publish_wf_def Header_zero_def)

lemma receiver_new_v3:
  assumes "proto_ok {#} st" "i < length (pt_clients st)" "pb_MQTTVersion publish < 5" "publish_wf publish" "kept publish props"
    and "position (messageIDCompare (pb_msgId publish)) (cl_inboundMsgs (the_client st i)) = None"
  shows "receiver_of (upd_client i (\<lambda>c. c\<lparr>cl_inboundMsgs := cl_inboundMsgs c @ [inbound_msg publish props (Some (pt_fresh st))]\<rparr>)
      (with_publication (pt_fresh st) (publication_of publish) st)) i
    = receive (InPublish (pb_MQTTVersion publish) (pb_msgId publish) (publish_content publish)) (receiver_of st i)"
  using assms(2,3,6) by_id_store[OF assms(1,2), of "(pt_publications st)(pt_fresh st \<mapsto> publication_of publish)"]
  by (simp add: receiver_of_def the_client_upd by_id_append waiting_new[OF assms(4) _ assms(5)])

lemma drop_store:
  "pt_publications (drop_publication p st) a = (if p = Some a then None else pt_publications st a)"
  by (cases p) (auto simp: drop_publication_def)

lemma receiver_again:
  assumes "proto_ok {#} st" "i < length (pt_clients st)" "publish_wf publish" "kept publish props"
    and j: "position (messageIDCompare (pb_msgId publish)) (cl_inboundMsgs (the_client st i)) = Some j"
  shows "receiver_of (receive_again i j (inbound_msg publish props (Some (pt_fresh st)))
      (drop_publication (ms_publish (cl_inboundMsgs (the_client st i) ! j))
        (with_publication (pt_fresh st) (publication_of publish) st))) i
    = receive (InPublish (pb_MQTTVersion publish) (pb_msgId publish) (publish_content publish)) (receiver_of st i)"
proof -
  let ?ms = "cl_inboundMsgs (the_client st i)"
  let ?S = "drop_publication (ms_publish (?ms ! j)) (with_publication (pt_fresh st) (publication_of publish) st)"
  have d: "distinct (map ms_msgid ?ms)" using client_ok_at[OF assms(1,2)] by (simp add: client_ok_def)
  have jl: "j < length ?ms" "ms_msgid (?ms ! j) = pb_msgId publish" using position_Some[OF j] by (simp_all add: messageIDCompare_def)
  have "ms_publish (?ms ! j) \<noteq> Some (pt_fresh st)"
    using stored_below[OF assms(1,2) disjI1[OF refl] nth_mem[OF jl(1)]] by fastforce
  then have "waiting (pt_publications ?S) (inbound_msg publish props (Some (pt_fresh st)))
      = (if pb_MQTTVersion publish \<ge> 5 then None else Some (publish_content publish))"
    by (intro waiting_new[OF assms(3) _ assms(4)]) (simp add: drop_store)
  moreover have "(by_id (waiting (pt_publications ?S)) ?ms)(pb_msgId publish := v)
      = (by_id (waiting (pt_publications st)) ?ms)(pb_msgId publish := v)" for v
    by (rule by_id_drop[OF assms(1,2) disjI1[OF refl] j], rule waiting_cong) (auto simp: drop_store)
  moreover have "by_id (waiting (pt_publications st)) ?ms (pb_msgId publish) \<noteq> None" using j by (simp add: by_id_None)
  ultimately show ?thesis
    using assms(2) by (simp add: receiver_of_def receive_again_def the_client_upd by_id_update[OF d jl(1)] jl(2))
qed

text \<open>A PUBREL closes the exchange, and hands on what waits.\<close>

lemma receiver_pubrel:
  assumes "proto_ok {#} st" "i < length (pt_clients st)" "pubrel_entries i msgId st qes"
  shows "receiver_of (pubrel_effect i msgId qes st) i = receive (InPubrel msgId) (receiver_of st i)"
proof -
  let ?ms = "cl_inboundMsgs (the_client st i)"
  have d: "distinct (map ms_msgid ?ms)" using client_ok_at[OF assms(1,2)] by (simp add: client_ok_def)
  show ?thesis
  proof (cases "position (messageIDCompare msgId) ?ms")
    case None
    then have "by_id (waiting (pt_publications st)) ?ms msgId = None" by (simp add: by_id_None)
    then show ?thesis using None by (simp add: pubrel_effect_def receiver_of_def fun_upd_idem)
  next
    case (Some j)
    have j: "j < length ?ms" "ms_msgid (?ms ! j) = msgId" using position_Some[OF Some] by (simp_all add: messageIDCompare_def)
    define S where "S = upd_client i (\<lambda>c. c\<lparr>cl_messageQueue := cl_messageQueue c @ qes\<rparr>) st"
    let ?T = "pubrel_effect i msgId qes st"
    have T: "pt_publications ?T = pt_publications (drop_publication (ms_publish (?ms ! j)) st)"
      "cl_inboundMsgs (the_client ?T i) = remove_at j ?ms"
      "cl_messageQueue (the_client ?T i) = cl_messageQueue (the_client st i) @ qes"
      using Some assms(2) by (auto simp: pubrel_effect_def forget_inbound_def the_client_upd drop_store)
    have W: "(by_id (waiting (pt_publications ?T)) ?ms)(msgId := None) = (by_id (waiting (pt_publications st)) ?ms)(msgId := None)"
      by (rule by_id_drop[OF assms(1,2) disjI1[OF refl] Some], rule waiting_cong) (auto simp: T(1) drop_store)
    have G: "map entry_content qes = (case by_id (waiting (pt_publications st)) ?ms msgId of
        Some (Some c) \<Rightarrow> [(msgId, c)] | _ \<Rightarrow> [])"
    proof (cases "ms_MQTTVersion (?ms ! j) \<ge> 5")
      case True
      then show ?thesis using assms(3) Some by (simp add: by_id_position[OF d Some] waiting_def pubrel_entries_def)
    next
      case False
      then obtain a pub ps where "ms_publish (?ms ! j) = Some a" "pt_publications st a = Some pub" "props_list ps = []"
          "qes = [entry_of (stored_publish (?ms ! j) (Some pub)) ps]"
        using assms(3) Some by (auto simp: pubrel_entries_def Let_def)
      then show ?thesis
        using False j(2)
        by (simp add: by_id_position[OF d Some] waiting_def entry_content_of copied_def stored_publish_def)
    qed
    show ?thesis
      using G W by (simp add: receiver_of_def T(2,3) by_id_remove[OF d j(1)] j(2) split: option.splits)
  qed
qed

context network begin

text \<open>The two handlers, one step of the receiver each.\<close>

lemma receive_publish:
  assumes "good room st" "find_client st sock = Some i" "publish_wf publish" "hd_qos (pb_header publish) = 2"
  shows "\<exists>rc st'. MQTTProtocol_handlePublishes en publish sock st = Some (rc, st') \<and> good room st'
    \<and> find_client st' sock = Some i
    \<and> receiver_of st' i = receive (InPublish (pb_MQTTVersion publish) (pb_msgId publish) (publish_content publish)) (receiver_of st i)"
proof -
  note i = find_client_in[OF assms(2)]
  have ok: "proto_ok {#} st" "room (pt_net st)" using assms(1) by (simp_all add: good_def)
  let ?R = "receive (InPublish (pb_MQTTVersion publish) (pb_msgId publish) (publish_content publish)) (receiver_of st i)"
  define pending where "pending \<longleftrightarrow> \<not> en_noPendingWrites en sock (pt_net st)"
  have fine: "\<exists>rc st'. MQTTProtocol_handlePublishes en publish sock st = Some (rc, st') \<and> good room st'
    \<and> find_client st' sock = Some i \<and> receiver_of st' i = ?R"
    if h: "handle_qos2 en i pending publish st = Some (rc, publish\<lparr>pb_topic := None, pb_payload := []\<rparr>, st')"
      and r: "room (pt_net st')" and q: "quiet T st'" and T: "proto_ok {#} T" "receiver_of T i = ?R"
      and c: "find_client T sock = find_client st sock" "length (pt_clients T) = length (pt_clients st)" for rc st' T
  proof -
    have "MQTTProtocol_handlePublishes en publish sock st = Some (rc, st')"
      using h assms(2,4) freePublish_ok[OF assms(3)]
      by (simp add: MQTTProtocol_handlePublishes_def Let_def flip: pending_def)
    then show ?thesis
      using good_quiet[where room = room, OF q T(1) r] quiet_find_client[OF q, of sock] c i assms(2) receiver_quiet[OF q, of i] T(2) by simp
  qed
  consider (new5) "position (messageIDCompare (pb_msgId publish)) (cl_inboundMsgs (the_client st i)) = None"
      "pb_MQTTVersion publish \<ge> 5"
    | (new3) "position (messageIDCompare (pb_msgId publish)) (cl_inboundMsgs (the_client st i)) = None"
      "pb_MQTTVersion publish < 5"
    | (again) j where "position (messageIDCompare (pb_msgId publish)) (cl_inboundMsgs (the_client st i)) = Some j"
    by fastforce
  then show ?thesis
  proof cases
    case new5
    from qos2_new_v5[OF i ok(2) assms(3) new5(2) assms(4) new5(1), of pending] obtain rc st' props ps where
      h: "handle_qos2 en i pending publish st = Some (rc, publish\<lparr>pb_topic := None, pb_payload := []\<rparr>, st')"
      "room (pt_net st')" "kept publish props" "copied publish ps"
      "quiet (receive_new i (inbound_msg publish props None) [entry_of publish ps]
        (free_publication (pt_fresh st) (with_publication (pt_fresh st) (publication_of publish) st))) st'" by blast
    show ?thesis
      by (rule fine[OF h(1,2,5) proto_ok_new_v5[OF ok(1) i assms(3) h(3) assms(4) new5(2,1)]
            receiver_new_v5[OF ok(1) i new5(2) h(4) new5(1)]])
        (simp_all add: receive_new_def)
  next
    case new3
    from qos2_new_v3[OF ok(2) assms(3) new3(2,1), of pending] obtain rc st' props where
      h: "handle_qos2 en i pending publish st = Some (rc, publish\<lparr>pb_topic := None, pb_payload := []\<rparr>, st')"
      "room (pt_net st')" "kept publish props"
      "quiet (upd_client i (\<lambda>c. c\<lparr>cl_inboundMsgs := cl_inboundMsgs c @ [inbound_msg publish props (Some (pt_fresh st))]\<rparr>)
        (with_publication (pt_fresh st) (publication_of publish) st)) st'" by blast
    show ?thesis
      by (rule fine[OF h(1,2,4) proto_ok_new_v3[OF ok(1) i assms(3) h(3) assms(4) new3(1)]
            receiver_new_v3[OF ok(1) i new3(2) assms(3) h(3) new3(1)]])
        simp_all
  next
    case again
    from qos2_again[OF ok(2) assms(3) ok(1) i again, of pending] obtain rc st' props where
      h: "handle_qos2 en i pending publish st = Some (rc, publish\<lparr>pb_topic := None, pb_payload := []\<rparr>, st')"
      "room (pt_net st')" "kept publish props"
      "quiet (receive_again i j (inbound_msg publish props (Some (pt_fresh st)))
        (drop_publication (ms_publish (cl_inboundMsgs (the_client st i) ! j))
          (with_publication (pt_fresh st) (publication_of publish) st))) st'" by blast
    show ?thesis
      by (rule fine[OF h(1,2,4) proto_ok_again[OF ok(1) i assms(3) h(3) assms(4) again]
            receiver_again[OF ok(1) i assms(3) h(3) again]])
        (simp_all add: receive_again_def)
  qed
qed

lemma receive_pubrel:
  assumes "good room st" "find_client st sock = Some i" "ack_wf pubrel" "ak_msgId pubrel = Some msgId"
  shows "\<exists>rc st'. MQTTProtocol_handlePubrels en pubrel sock st = Some (rc, st') \<and> good room st'
    \<and> find_client st' sock = Some i \<and> receiver_of st' i = receive (InPubrel msgId) (receiver_of st i)"
proof -
  note i = find_client_in[OF assms(2)]
  have ok: "proto_ok {#} st" using assms(1) by (simp add: good_def)
  obtain rc qes st' where h: "MQTTProtocol_handlePubrels en pubrel sock st = Some (rc, st')" "room (pt_net st')"
      "pubrel_entries i msgId st qes" "quiet (pubrel_effect i msgId qes st) st'"
    using handlePubrels_ok[OF assms] by blast
  have T: "find_client (pubrel_effect i msgId qes st) sock = Some i" "i < length (pt_clients (pubrel_effect i msgId qes st))"
    using i assms(2) by (simp_all add: pubrel_effect_def forget_inbound_def split: option.splits)
  have "good room st'" using good_quiet[where room = room, OF h(4) proto_ok_pubrel[OF ok i] h(2)] .
  then show ?thesis
    using h(1) quiet_find_client[OF h(4), of sock] receiver_quiet[OF h(4) T(2)] receiver_pubrel[OF ok i h(3)] T(1) by simp
qed

end

subsection \<open>The sender\<close>

datatype phase = AwaitPuback | AwaitPubrec | AwaitPubcomp

text \<open>For each identifier in use, the phase of the exchange, with the topic and the payload that are kept.\<close>

type_synonym sender = "int \<rightharpoonup> phase \<times> (byte list \<times> byte list) option"

definition phase_of :: "Messages \<Rightarrow> phase" where
  "phase_of m = (if ms_qos m = 1 then AwaitPuback else if ms_nextMessageType m = Some PUBREC then AwaitPubrec
     else AwaitPubcomp)"

definition exchange_of :: "(nat \<Rightarrow> Publications option) \<Rightarrow> Messages \<Rightarrow> phase \<times> (byte list \<times> byte list) option" where
  "exchange_of store m = (phase_of m,
     Option.bind (ms_publish m) (\<lambda>a. map_option (\<lambda>p. (pn_topic p, pn_payload p)) (store a)))"

definition sender_of :: "'w protocol \<Rightarrow> nat \<Rightarrow> sender" where
  "sender_of st i = by_id (exchange_of (pt_publications st)) (cl_outboundMsgs (the_client st i))"

text \<open>
  An acknowledgement moves only the exchange it names, and only when it is the one that is awaited. A
  PUBREC that reports an error ends its exchange.
\<close>

definition acknowledge :: "nat \<Rightarrow> bool \<Rightarrow> int \<Rightarrow> sender \<Rightarrow> sender" where
  "acknowledge type error k S =
     (case S k of
        None \<Rightarrow> S
      | Some (phase, data) \<Rightarrow>
          if type = PUBACK \<and> phase = AwaitPuback \<or> type = PUBCOMP \<and> phase = AwaitPubcomp then S(k := None)
          else if type = PUBREC \<and> phase = AwaitPubrec
            then (if error then S(k := None) else S(k \<mapsto> (AwaitPubcomp, data)))
          else S)"

lemma exchange_cong: "(\<And>a. ms_publish m = Some a \<Longrightarrow> store a = store' a) \<Longrightarrow> exchange_of store m = exchange_of store' m"
  by (cases "ms_publish m") (simp_all add: exchange_of_def)

lemma sender_quiet:
  assumes "quiet st st'" "i < length (pt_clients st)"
  shows "sender_of st' i = sender_of st i"
  using core_fields(2)[OF quiet_core[OF assms]] quiet_stores(1)[OF assms(1)] by (simp add: sender_of_def)

lemma sender_forget:
  assumes "proto_ok {#} st" "i < length (pt_clients st)" "position (messageIDCompare k) (cl_outboundMsgs (the_client st i)) = Some j"
  shows "sender_of (forget_outbound i j st) i = (sender_of st i)(k := None)"
proof -
  let ?ms = "cl_outboundMsgs (the_client st i)"
  have d: "distinct (map ms_msgid ?ms)" using client_ok_at[OF assms(1,2)] by (simp add: client_ok_def)
  have j: "j < length ?ms" "ms_msgid (?ms ! j) = k" using position_Some[OF assms(3)] by (simp_all add: messageIDCompare_def)
  have "(by_id (exchange_of (pt_publications (drop_publication (ms_publish (?ms ! j)) st))) ?ms)(k := None)
      = (by_id (exchange_of (pt_publications st)) ?ms)(k := None)"
    by (rule by_id_drop[OF assms(1,2) disjI2[OF refl] assms(3)], rule exchange_cong) (auto simp: drop_store)
  then show ?thesis
    using assms(2) by (simp add: sender_of_def forget_outbound_def the_client_upd by_id_remove[OF d j(1)] j(2))
qed

lemma sender_next:
  assumes "proto_ok {#} st" "i < length (pt_clients st)" "position (messageIDCompare k) (cl_outboundMsgs (the_client st i)) = Some j"
    and "ms_qos (cl_outboundMsgs (the_client st i) ! j) = 2" "sender_of st i k = Some (phase, data)"
  shows "sender_of (set_next i j PUBCOMP now st) i = (sender_of st i)(k \<mapsto> (AwaitPubcomp, data))"
proof -
  let ?ms = "cl_outboundMsgs (the_client st i)"
  let ?m = "(?ms ! j)\<lparr>ms_nextMessageType := Some PUBCOMP, ms_lastTouch := now\<rparr>"
  have d: "distinct (map ms_msgid ?ms)" using client_ok_at[OF assms(1,2)] by (simp add: client_ok_def)
  have j: "j < length ?ms" "ms_msgid (?ms ! j) = k" using position_Some[OF assms(3)] by (simp_all add: messageIDCompare_def)
  have "exchange_of (pt_publications st) (?ms ! j) = (phase, data)"
    using assms(5) by (simp add: sender_of_def by_id_position[OF d assms(3)])
  then have "exchange_of (pt_publications st) ?m = (AwaitPubcomp, data)"
    using assms(4) by (simp add: exchange_of_def phase_of_def)
  then show ?thesis
    using assms(2) j(2) by (simp add: sender_of_def set_next_def the_client_upd by_id_update[OF d j(1)])
qed

lemma sender_at:
  assumes "proto_ok {#} st" "i < length (pt_clients st)"
  shows "sender_of st i k = (case position (messageIDCompare k) (cl_outboundMsgs (the_client st i)) of
     None \<Rightarrow> None | Some j \<Rightarrow> Some (exchange_of (pt_publications st) (cl_outboundMsgs (the_client st i) ! j)))"
  using client_ok_at[OF assms] by_id_position[of "cl_outboundMsgs (the_client st i)" k]
    by_id_None[of "exchange_of (pt_publications st)" "cl_outboundMsgs (the_client st i)" k]
  by (auto simp: sender_of_def client_ok_def split: option.splits)

lemma phase_iff:
  "out_ok m \<Longrightarrow> phase_of m = AwaitPuback \<longleftrightarrow> ms_qos m = 1"
  "out_ok m \<Longrightarrow> phase_of m = AwaitPubrec \<longleftrightarrow> ms_qos m = 2 \<and> ms_nextMessageType m = Some PUBREC"
  "out_ok m \<Longrightarrow> phase_of m = AwaitPubcomp \<longleftrightarrow> ms_qos m = 2 \<and> ms_nextMessageType m = Some PUBCOMP"
  by (auto simp: out_ok_def phase_of_def)

lemma sender_counters [simp]: "sender_of (st\<lparr>pt_msgs_sent := n\<rparr>) i = sender_of st i"
  by (simp add: sender_of_def)

lemma sender_effects:
  assumes "proto_ok {#} st" "i < length (pt_clients st)"
  shows "sender_of (puback_effect i k st) i = acknowledge PUBACK False k (sender_of st i)"
    "sender_of (pubrec_effect i k error now st) i = acknowledge PUBREC error k (sender_of st i)"
    "sender_of (pubcomp_effect i k st) i = acknowledge PUBCOMP False k (sender_of st i)"
proof -
  let ?ms = "cl_outboundMsgs (the_client st i)"
  have "sender_of (puback_effect i k st) i = acknowledge PUBACK False k (sender_of st i)
    \<and> sender_of (pubrec_effect i k error now st) i = acknowledge PUBREC error k (sender_of st i)
    \<and> sender_of (pubcomp_effect i k st) i = acknowledge PUBCOMP False k (sender_of st i)"
  proof (cases "position (messageIDCompare k) ?ms")
    case None
    then show ?thesis
      by (simp add: puback_effect_def pubrec_effect_def pubcomp_effect_def acknowledge_def sender_at[OF assms, of k])
  next
    case (Some j)
    have j: "j < length ?ms" using position_Some[OF Some] by simp
    note out = out_ok_at[OF assms j]
    have at: "sender_of st i k = Some (phase_of (?ms ! j), snd (exchange_of (pt_publications st) (?ms ! j)))"
      using Some by (simp add: sender_at[OF assms] exchange_of_def)
    have qos: "ms_qos (?ms ! j) = 2 \<longleftrightarrow> ms_qos (?ms ! j) \<noteq> 1" using out by (auto simp: out_ok_def)
    note f = sender_forget[OF assms Some]
    show ?thesis
      using Some at out f sender_next[OF assms Some _ at, of now]
      by (cases "phase_of (?ms ! j)")
        (auto simp: puback_effect_def pubrec_effect_def pubcomp_effect_def acknowledge_def Let_def phase_iff)
  qed
  then show "sender_of (puback_effect i k st) i = acknowledge PUBACK False k (sender_of st i)"
    "sender_of (pubrec_effect i k error now st) i = acknowledge PUBREC error k (sender_of st i)"
    "sender_of (pubcomp_effect i k st) i = acknowledge PUBCOMP False k (sender_of st i)" by blast+
qed

end
