(* ===== verification/Protocol_Net.thy ===== *)
theory Protocol_Net
  imports Protocol_Run Packet_IO
begin

text \<open>
  The environment of the protocol on plain sockets (\<^verbatim>\<open>src/Socket.c\<close>, \<^verbatim>\<open>src/SocketBuffer.c\<close>), with any
  persistence. It meets the contract \<open>network\<close>, so that what is proved from the contract holds for
  it.
\<close>

subsection \<open>The environment\<close>

text \<open>The operations of persistence have any results; they do not touch the sockets.\<close>

record 'p persistence =
  ps_putPacket :: "int \<Rightarrow> byte list \<Rightarrow> byte list list \<Rightarrow> nat \<Rightarrow> int \<Rightarrow> bool \<Rightarrow> int \<Rightarrow> 'p \<Rightarrow> int \<times> 'p"
  ps_remove :: "Clients \<Rightarrow> string \<Rightarrow> nat \<Rightarrow> int \<Rightarrow> 'p \<Rightarrow> int \<times> 'p"
  ps_persistQueueEntry :: "Clients \<Rightarrow> qEntry \<Rightarrow> 'p \<Rightarrow> 'p"
  ps_clear :: "Clients \<Rightarrow> 'p \<Rightarrow> 'p"
  ps_now :: "'p \<Rightarrow> nat"

text \<open>
  Closing a socket: its pending write and its input are dropped. Closing the descriptor itself and the
  arrays for \<open>poll\<close> are left out, and so is the result, which the caller does not look at.
\<close>

definition Socket_close :: "int \<Rightarrow> sock_state \<Rightarrow> sock_state option" where
  "Socket_close socket s = do {
     s1 \<leftarrow> SocketBuffer_cleanup s socket;
     Some (s1\<lparr>write_pending := remove_first (\<lambda>x. x = socket) (write_pending s1)\<rparr>)
   }"

definition persistent_transport :: "'p persistence \<Rightarrow> (sock_state \<times> 'p) transport" where
  "persistent_transport ps = \<lparr>
     tp_getch = \<lambda>socket (s, p). do { (rc, c, s') \<leftarrow> Socket_getch s socket; Some (rc, c, (s', p)) },
     tp_getdata = \<lambda>socket bytes (s, p). do { (buf, n, s') \<leftarrow> Socket_getdata s socket bytes 0; Some (buf, n, (s', p)) },
     tp_framePos = \<lambda>w. 0,
     tp_framePosSeekTo = \<lambda>pos w. w,
     tp_putdatas = \<lambda>socket buf0 bufs frees (s, p).
       let (rc, s') = Socket_putdatas s socket buf0 bufs frees in (rc, (s', p)),
     tp_putPacket = \<lambda>socket buf0 bufs htype msgId scr v (s, p).
       let (rc, p') = ps_putPacket ps socket buf0 bufs htype msgId scr v p in (rc, (s, p')),
     tp_now = \<lambda>(s, p). ps_now ps p,
     tp_mem = \<lambda>(s, p). s_mem s,
     tp_set_mem = \<lambda>m (s, p). (s\<lparr>s_mem := m\<rparr>, p)\<rparr>"

definition socket_environ :: "'p persistence \<Rightarrow> (sock_state \<times> 'p) environ" where
  "socket_environ ps = \<lparr>
     en_tp = persistent_transport ps,
     en_noPendingWrites = \<lambda>socket (s, p). Socket_noPendingWrites s socket,
     en_updateWrite = \<lambda>socket topic payload (s, p).
       do { (_, s') \<leftarrow> SocketBuffer_updateWrite s socket topic payload; Some (s', p) },
     en_remove = \<lambda>c stem qos msgId (s, p). let (rc, p') = ps_remove ps c stem qos msgId p in (rc, (s, p')),
     en_persistQueueEntry = \<lambda>c qe (s, p). (s, ps_persistQueueEntry ps c qe p),
     en_clear = \<lambda>c (s, p). (s, ps_clear ps c p),
     en_close = \<lambda>net (s, p). do { s' \<leftarrow> Socket_close (nt_socket net) s; Some (s', p) }\<rparr>"

subsection \<open>The contract\<close>

definition sock_room :: "sock_state \<times> 'p \<Rightarrow> bool" where
  "sock_room w \<longleftrightarrow> def_queue (fst w) \<noteq> None \<and> (\<exists>log. tx_ok (fst w) log)"

lemma tx_ok_any: "list_all (\<lambda>b. b) (s_mem s) \<Longrightarrow> map pw_socket (writes s) = write_pending s \<Longrightarrow> distinct (write_pending s) \<Longrightarrow>
    list_all pw_ok (writes s) \<Longrightarrow> \<exists>log. tx_ok s log"
  by (rule exI[of _ "\<lambda>socket. [k_sent s socket @ tx_rest s socket]"]) (simp add: tx_ok_def)

lemma tx_ok_parts: "tx_ok s log \<Longrightarrow> list_all (\<lambda>b. b) (s_mem s) \<and> map pw_socket (writes s) = write_pending s
    \<and> distinct (write_pending s) \<and> list_all pw_ok (writes s)"
  by (simp add: tx_ok_def)

lemma s_malloc_def_queue: "s_malloc s = (ok, s') \<Longrightarrow> def_queue s' = def_queue s"
  by (auto simp: s_malloc_def split: prod.splits)

lemma pendingWrite_def_queue: "SocketBuffer_pendingWrite s socket iovecs frees n k = (rc, s') \<Longrightarrow> def_queue s' = def_queue s"
  by (auto simp: SocketBuffer_pendingWrite_def Let_def s_malloc_def split: prod.splits if_splits)

lemma put_def_queue:
  assumes "Socket_putdatas s socket b0 bufs frees = (rc, s')"
  shows "def_queue s' = def_queue s"
proof -
  obtain rc1 bytes s1 where w: "Socket_writev s socket (b0 # bufs) = (rc1, bytes, s1)"
    by (cases "Socket_writev s socket (b0 # bufs)")
  have "def_queue s1 = def_queue s" using Socket_writev_cases[OF w] by auto
  then show ?thesis
    using assms w
    by (auto simp: Socket_putdatas_def Let_def split: prod.splits if_splits
        dest!: s_malloc_def_queue pendingWrite_def_queue)
qed

text \<open>What is left of an interrupted write is kept with the addresses of its buffers.\<close>

lemma put_interrupted:
  assumes "tx_ok s log" "Socket_putdatas s socket b0 bufs frees = (TCPSOCKET_INTERRUPTED, s')"
  shows "\<exists>pw. SocketBuffer_getWrite s' socket = Some pw \<and> pw_iovecs pw = b0 # bufs"
proof -
  have np: "Socket_noPendingWrites s socket"
    using assms(2) by (cases "Socket_noPendingWrites s socket") (auto simp: Socket_putdatas_def rc_defs)
  then have none: "SocketBuffer_getWrite s socket = None" using noPendingWrites_iff[OF assms(1)] by simp
  obtain rc1 bytes s1 where w: "Socket_writev s socket (b0 # bufs) = (rc1, bytes, s1)"
    by (cases "Socket_writev s socket (b0 # bufs)")
  have s1: "writes s1 = writes s" "s_mem s1 = s_mem s" using Socket_writev_cases[OF w] by auto
  have mem: "list_all (\<lambda>b. b) (s_mem s1)" using assms(1) s1(2) by (simp add: tx_ok_def)
  obtain m2 where m2: "s_malloc s1 = (True, s1\<lparr>s_mem := m2\<rparr>)" "list_all (\<lambda>b. b) m2" using s_malloc_ok[OF mem] by blast
  obtain m3 where m3: "s_malloc (s1\<lparr>s_mem := m2\<rparr>) = (True, s1\<lparr>s_mem := m3\<rparr>)" "list_all (\<lambda>b. b) m3"
    using s_malloc_ok[of "s1\<lparr>s_mem := m2\<rparr>"] m2(2) by auto
  obtain m4 where m4: "s_malloc (s1\<lparr>s_mem := m3\<rparr>) = (True, s1\<lparr>s_mem := m4\<rparr>)" "list_all (\<lambda>b. b) m4"
    using s_malloc_ok[of "s1\<lparr>s_mem := m3\<rparr>"] m3(2) by auto
  define n where "n = length b0 + sum_list (map length bufs)"
  define pw where "pw = \<lparr>pw_socket = socket, pw_total = n, pw_bytes = bytes, pw_iovecs = b0 # bufs, pw_frees = True # frees\<rparr>"
  have pend: "SocketBuffer_pendingWrite (s1\<lparr>s_mem := m2\<rparr>) socket (b0 # bufs) (True # frees) n bytes
      = (0, s1\<lparr>s_mem := m4, writes := writes s1 @ [pw]\<rparr>)"
    using m3(1) m4(1) by (simp add: SocketBuffer_pendingWrite_def Let_def pw_def)
  have "writes s' = writes s @ [pw]"
    using assms(2) np w m2(1) pend s1(1)
    by (auto simp: Socket_putdatas_def Let_def s_malloc_def rc_defs n_def[symmetric] split: prod.splits if_splits)
  moreover have "pw_socket pw = socket" "pw_iovecs pw = b0 # bufs" by (simp_all add: pw_def)
  ultimately show ?thesis using none by (simp add: getWrite_eq find_append_new)
qed

lemma updateWrite_same:
  assumes "SocketBuffer_getWrite s socket = Some pw" "pw_iovecs pw = b0 # bufs"
    and "bufs = [x, topic, payload] \<or> bufs = [x, topic, y, payload]" "list_all pw_ok (writes s)"
  shows "\<exists>pw'. SocketBuffer_updateWrite s socket topic payload = Some (pw', s)"
proof -
  have same: "update_first P (\<lambda>_. z) zs = zs" if "List.find P zs = Some z" for P z and zs :: "pending_writes list"
    using that by (induction zs) (auto split: if_splits)
  show ?thesis
  proof (cases "bufs = [x, topic, payload]")
    case True
    then have "pw\<lparr>pw_iovecs := (pw_iovecs pw)[2 := topic, 3 := payload]\<rparr> = pw"
      using assms(2) by (simp add: numeral_2_eq_2 numeral_3_eq_3)
    with True assms(1,2) show ?thesis
      by (simp add: SocketBuffer_updateWrite_def SocketBuffer_getWrite_def memcpy_all numeral_2_eq_2 numeral_3_eq_3 same Let_def)
  next
    case False
    with assms show ?thesis by (auto simp: SocketBuffer_updateWrite_def)
  qed
qed

lemma close_room:
  assumes "def_queue s \<noteq> None" "tx_ok s log"
  shows "\<exists>s'. Socket_close socket s = Some s' \<and> def_queue s' \<noteq> None \<and> (\<exists>log. tx_ok s' log)"
proof -
  note p = tx_ok_parts[OF assms(2)]
  define s1 where "s1 = snd (SocketBuffer_writeComplete s socket)"
  have same: "remove_first P zs = zs" if "List.find P zs = None" for P and zs :: "pending_writes list"
    using that by (induction zs) (auto split: if_splits)
  have s1: "s1 = s\<lparr>writes := remove_first (\<lambda>p. pw_socket p = socket) (writes s)\<rparr>"
    by (auto simp: s1_def SocketBuffer_writeComplete_def getWrite_eq same pending_socketcompare_def[abs_def])
  obtain d where d: "def_queue s = Some d" using assms(1) by blast
  define s2 where "s2 = s1\<lparr>queues := remove_first (socketcompare socket) (queues s1)\<rparr>"
  define s3 where "s3 = (if sq_socket d = socket
      then s2\<lparr>def_queue := Some (d\<lparr>sq_socket := 0, sq_index := 0, sq_headerlen := 0, sq_datalen := 0\<rparr>)\<rparr> else s2)"
  have s3: "writes s3 = remove_first (\<lambda>p. pw_socket p = socket) (writes s)" "write_pending s3 = write_pending s"
    "s_mem s3 = s_mem s" "def_queue s3 \<noteq> None"
    by (simp_all add: s3_def s2_def s1 d)
  define s4 where "s4 = s3\<lparr>write_pending := remove_first (\<lambda>x. x = socket) (write_pending s3)\<rparr>"
  have "def_queue s2 = Some d" by (simp add: s2_def s1 d)
  then have "SocketBuffer_cleanup s socket = Some s3"
    unfolding SocketBuffer_cleanup_def Let_def s1_def[symmetric] s2_def[symmetric] s3_def by simp
  then have "Socket_close socket s = Some s4" by (simp add: Socket_close_def s4_def)
  moreover have "\<exists>log. tx_ok s4 log"
    using p by (intro tx_ok_any)
      (simp_all add: s4_def s3 map_remove_first list_all_remove_first remove_first_filter)
  moreover have "def_queue s4 \<noteq> None" using s3(4) by (simp add: s4_def)
  ultimately show ?thesis by blast
qed

lemma sock_room_mem: "sock_room (s, p) \<Longrightarrow> list_all (\<lambda>b. b) m \<Longrightarrow> sock_room (s\<lparr>s_mem := m\<rparr>, p')"
  unfolding sock_room_def using tx_ok_any[of "s\<lparr>s_mem := m\<rparr>"] by (auto dest!: tx_ok_parts)

lemma sock_room_put: "sock_room (s, p) \<Longrightarrow> Socket_putdatas s socket b0 bufs frees = (rc, s') \<Longrightarrow> sock_room (s', p')"
  unfolding sock_room_def using put_def_queue put_ok by fastforce

interpretation sockets: network "socket_environ ps" sock_room
proof unfold_locales
  show "list_all (\<lambda>b. b) (tp_mem (en_tp (socket_environ ps)) w)" if "sock_room w" for w
    using that by (auto simp: sock_room_def socket_environ_def persistent_transport_def case_prod_beta dest!: tx_ok_parts)
  show "sock_room (tp_set_mem (en_tp (socket_environ ps)) m w)" if "sock_room w" "list_all (\<lambda>b. b) m" for w m
    using that by (cases w) (simp add: socket_environ_def persistent_transport_def sock_room_mem)
  show "sock_room (snd (tp_putdatas (en_tp (socket_environ ps)) socket buf bufs frees w))" if "sock_room w" for socket buf bufs frees w
    using that sock_room_put
    by (cases w) (auto simp: socket_environ_def persistent_transport_def Let_def split: prod.splits)
  show "\<exists>w'. en_close (socket_environ ps) net w = Some w' \<and> sock_room w'" if "sock_room w" for net w
    using that close_room[of "fst w" _ "nt_socket net"] by (cases w) (fastforce simp: socket_environ_def sock_room_def)
  show "\<exists>w2. en_updateWrite (socket_environ ps) socket topic payload (tp_set_mem (en_tp (socket_environ ps)) m w1) = Some w2
      \<and> sock_room w2"
    if w: "sock_room w" "tp_putdatas (en_tp (socket_environ ps)) socket buf bufs frees w = (TCPSOCKET_INTERRUPTED, w1)"
      and bufs: "bufs = [x, topic, payload] \<or> bufs = [x, topic, y, payload]" and m: "list_all (\<lambda>b. b) m"
    for socket buf bufs frees w w1 x topic payload y m
  proof -
    obtain s p where s: "w = (s, p)" by fastforce
    from w(2) obtain s1 where s1: "Socket_putdatas s socket buf bufs frees = (TCPSOCKET_INTERRUPTED, s1)" "w1 = (s1, p)"
      by (auto simp: s socket_environ_def persistent_transport_def Let_def split: prod.splits)
    from w(1) obtain log where log: "tx_ok s log" by (auto simp: s sock_room_def)
    let ?s = "s1\<lparr>s_mem := m\<rparr>"
    obtain pw where "SocketBuffer_getWrite ?s socket = Some pw" "pw_iovecs pw = buf # bufs"
      using put_interrupted[OF log s1(1)] by (auto simp: getWrite_eq)
    moreover have room: "sock_room (?s, p)"
      by (rule sock_room_mem[OF sock_room_put[OF w(1)[unfolded s] s1(1), of p] m])
    ultimately have "\<exists>pw'. SocketBuffer_updateWrite ?s socket topic payload = Some (pw', ?s)"
      using bufs by (intro updateWrite_same) (auto simp: sock_room_def dest!: tx_ok_parts)
    with room s1(2) show ?thesis by (auto simp: socket_environ_def persistent_transport_def)
  qed
qed (auto simp: socket_environ_def persistent_transport_def sock_room_def Let_def case_prod_beta)

end
