(* ===== verification/Protocol_Props.thy ===== *)
theory Protocol_Props
  imports Protocol_Flow Protocol_Net
begin

text \<open>
  The properties of the protocol on plain sockets with any persistence: nothing it does is undefined,
  the publications in its store are exactly those the messages in flight refer to, a publication
  with QoS 2 is handed on once, and the exchanges of the sender advance as they should.
\<close>

subsection \<open>Packets\<close>

text \<open>What the handlers rely on: the structure that belongs to the type, with its fields set.\<close>

fun pack_ok :: "packet \<Rightarrow> bool" where
  "pack_ok (PPublish p) \<longleftrightarrow> hd_type (pb_header p) = PUBLISH \<and> publish_wf p"
| "pack_ok (PAck a) \<longleftrightarrow> hd_type (ak_header a) \<noteq> PUBLISH
     \<and> (hd_type (ak_header a) \<in> {PUBACK, PUBREC, PUBREL, PUBCOMP} \<longrightarrow> ack_wf a)"
| "pack_ok pack \<longleftrightarrow> hd_type (packet_header pack) \<notin> {PUBLISH, PUBACK, PUBREC, PUBREL, PUBCOMP}"

text \<open>Packets one after the other on a socket.\<close>

fun run_packets :: "'w environ \<Rightarrow> int \<Rightarrow> packet list \<Rightarrow> 'w protocol \<Rightarrow> 'w protocol option" where
  "run_packets en sock [] st = Some st"
| "run_packets en sock (pack # packs) st = do {
     (_, _, st1) \<leftarrow> MQTTClient_cycle_handle en pack sock st;
     run_packets en sock packs st1
   }"

text \<open>The packets of the exchanges of incoming publications with QoS 2, and what the receiver sees.\<close>

fun qos2_packet :: "packet \<Rightarrow> bool" where
  "qos2_packet (PPublish p) \<longleftrightarrow> hd_type (pb_header p) = PUBLISH \<and> hd_qos (pb_header p) = 2 \<and> publish_wf p"
| "qos2_packet (PAck a) \<longleftrightarrow> hd_type (ak_header a) = PUBREL \<and> ack_wf a"
| "qos2_packet _ \<longleftrightarrow> False"

fun in_event_of :: "packet \<Rightarrow> in_event" where
  "in_event_of (PPublish p) = InPublish (pb_MQTTVersion p) (pb_msgId p) (publish_content p)"
| "in_event_of (PAck a) = InPubrel (the (ak_msgId a))"
| "in_event_of _ = InPubrel 0"

lemma acknowledge_error: "type \<noteq> PUBREC \<Longrightarrow> acknowledge type error k S = acknowledge type False k S"
  by (cases "S k") (auto simp: acknowledge_def)

lemma handle_types:
  "hd_type (ak_header a) = PUBACK \<Longrightarrow> MQTTClient_cycle_handle en (PAck a) sock st =
     do { (rc, removed, st1) \<leftarrow> MQTTProtocol_handlePubacks en a sock False st; Some (Some rc, None, st1) }"
  "hd_type (ak_header a) = PUBREC \<Longrightarrow> MQTTClient_cycle_handle en (PAck a) sock st =
     do { (rc, removed, st1) \<leftarrow> MQTTProtocol_handlePubrecs en a sock False st; Some (Some rc, None, st1) }"
  "hd_type (ak_header a) = PUBREL \<Longrightarrow> MQTTClient_cycle_handle en (PAck a) sock st =
     do { (rc, st1) \<leftarrow> MQTTProtocol_handlePubrels en a sock st; Some (Some rc, None, st1) }"
  "hd_type (ak_header a) = PUBCOMP \<Longrightarrow> MQTTClient_cycle_handle en (PAck a) sock st =
     do { (rc, removed, st1) \<leftarrow> MQTTProtocol_handlePubcomps en a sock False st; Some (Some rc, None, st1) }"
  "hd_type (pb_header p) = PUBLISH \<Longrightarrow> MQTTClient_cycle_handle en (PPublish p) sock st =
     do { (rc, st1) \<leftarrow> MQTTProtocol_handlePublishes en p sock st; Some (Some rc, None, st1) }"
  by (simp_all add: MQTTClient_cycle_handle_def)

lemma effects_find:
  "find_client (puback_effect i k st) sock = find_client st sock"
  "find_client (pubrec_effect i k error now st) sock = find_client st sock"
  "find_client (pubcomp_effect i k st) sock = find_client st sock"
  by (simp_all add: puback_effect_def pubrec_effect_def pubcomp_effect_def forget_outbound_def set_next_def Let_def
      split: option.splits)

context network begin

text \<open>The acknowledgements of outgoing publications.\<close>

lemma handle_ack:
  assumes "good room st" "find_client st sock = Some i" "ack_wf a" "ak_msgId a = Some k"
    and "hd_type (ak_header a) \<in> {PUBACK, PUBREC, PUBCOMP}"
  shows "\<exists>rc st'. MQTTClient_cycle_handle en (PAck a) sock st = Some (Some rc, None, st') \<and> good room st'
    \<and> find_client st' sock = Some i
    \<and> sender_of st' i = acknowledge (hd_type (ak_header a)) (ack_error a) k (sender_of st i)"
proof -
  note i = find_client_in[OF assms(2)]
  have ok: "proto_ok {#} st" using assms(1) by (simp add: good_def)
  note e = sender_effects[OF ok i, of k] and p = proto_ok_effects[OF ok i, of k]
  have net: "sender_of (T\<lparr>pt_net := w\<rparr>) i = sender_of T i" for T :: "'w protocol" and w by (simp add: sender_of_def)
  consider "hd_type (ak_header a) = PUBACK" | "hd_type (ak_header a) = PUBREC" | "hd_type (ak_header a) = PUBCOMP"
    using assms(5) by blast
  then show ?thesis
  proof cases
    case 1
    obtain rc w where "MQTTProtocol_handlePubacks en a sock False st = Some (rc, None, (puback_effect i k st)\<lparr>pt_net := w\<rparr>)" "room w"
      using handlePubacks_ok[OF assms(1-4)] by blast
    then show ?thesis
      using 1 p(1) assms(2) acknowledge_error[of PUBACK "ack_error a"]
      by (simp add: handle_types(1) good_def effects_find net e(1))
  next
    case 2
    let ?E = "pubrec_effect i k (ack_error a) (tp_now (en_tp en) (pt_net st)) st"
    obtain rc st' where h: "MQTTProtocol_handlePubrecs en a sock False st = Some (rc, None, st')" "room (pt_net st')" "quiet ?E st'"
      using handlePubrecs_ok[OF assms(1-4)] by blast
    have "i < length (pt_clients ?E)" using effects_find(2) assms(2) find_client_in by metis
    then show ?thesis
      using 2 h(1) assms(2) good_quiet[where room = room, OF h(3) p(2) h(2)] quiet_find_client[OF h(3), of sock]
        sender_quiet[OF h(3), of i] e(2)
      by (simp add: handle_types(2) effects_find)
  next
    case 3
    obtain rc w where "MQTTProtocol_handlePubcomps en a sock False st = Some (rc, None, (pubcomp_effect i k st)\<lparr>pt_net := w\<rparr>)" "room w"
      using handlePubcomps_ok[OF assms(1-4)] by blast
    then show ?thesis
      using 3 p(3) assms(2) acknowledge_error[of PUBCOMP "ack_error a"]
      by (simp add: handle_types(4) good_def effects_find net e(3))
  qed
qed

lemma handle_qos2_packet:
  assumes "good room st" "find_client st sock = Some i" "qos2_packet pack"
  shows "\<exists>rc st'. MQTTClient_cycle_handle en pack sock st = Some (Some rc, None, st') \<and> good room st'
    \<and> find_client st' sock = Some i \<and> receiver_of st' i = receive (in_event_of pack) (receiver_of st i)"
proof (cases pack)
  case (PPublish p)
  with assms(3) have p: "publish_wf p" "hd_qos (pb_header p) = 2" "hd_type (pb_header p) = PUBLISH" by simp_all
  from receive_publish[OF assms(1,2) p(1,2)] show ?thesis by (auto simp: PPublish handle_types(5)[OF p(3)])
next
  case (PAck a)
  with assms(3) have a: "ack_wf a" "hd_type (ak_header a) = PUBREL" by simp_all
  then obtain k where k: "ak_msgId a = Some k" by (auto simp: ack_wf_def)
  from receive_pubrel[OF assms(1,2) a(1) k] show ?thesis by (auto simp: PAck k handle_types(3)[OF a(2)])
qed (use assms(3) in simp_all)

lemma run_qos2_packets:
  "good room st \<Longrightarrow> find_client st sock = Some i \<Longrightarrow> list_all qos2_packet packs \<Longrightarrow>
    \<exists>st'. run_packets en sock packs st = Some st' \<and> good room st'
      \<and> receiver_of st' i = fold receive (map in_event_of packs) (receiver_of st i)"
proof (induction packs arbitrary: st)
  case (Cons pack packs)
  have "qos2_packet pack" using Cons.prems(3) by simp
  from handle_qos2_packet[OF Cons.prems(1,2) this] obtain rc st1 where st1:
    "MQTTClient_cycle_handle en pack sock st = Some (Some rc, None, st1)" "good room st1" "find_client st1 sock = Some i"
    "receiver_of st1 i = receive (in_event_of pack) (receiver_of st i)" by blast
  from Cons.IH[OF st1(2,3)] Cons.prems(3) show ?case by (simp add: st1(1,4))
qed simp

lemma handle_any:
  assumes "good room st" "find_client st sock \<noteq> None" "pack_ok pack"
  shows "\<exists>rc left st'. MQTTClient_cycle_handle en pack sock st = Some (rc, left, st') \<and> good room st'"
proof -
  obtain i where i: "find_client st sock = Some i" using assms(2) by blast
  note il = find_client_in[OF i]
  have ping: "keeps room st (upd_client i (\<lambda>c. c\<lparr>cl_ping_outstanding := False\<rparr>) st)"
    by (rule keeps_upd[OF assms(1) il]) simp_all
  have other: "\<exists>rc left st'. MQTTClient_cycle_handle en pack sock st = Some (rc, left, st') \<and> good room st'"
    if "hd_type (packet_header pack) \<notin> {PUBLISH, PUBACK, PUBREC, PUBREL, PUBCOMP}" for pack
    using that ping i assms(1) by (simp add: MQTTClient_cycle_handle_def MQTTProtocol_handlePingresps_def keeps_def)
  show ?thesis
  proof (cases pack)
    case (PPublish p)
    with assms(3) have p: "hd_type (pb_header p) = PUBLISH" "publish_wf p" by simp_all
    from handlePublishes_good[OF assms(1) i p(2)] show ?thesis by (auto simp: PPublish handle_types(5)[OF p(1)])
  next
    case (PAck a)
    with assms(3) have a: "hd_type (ak_header a) \<noteq> PUBLISH"
      "hd_type (ak_header a) \<in> {PUBACK, PUBREC, PUBREL, PUBCOMP} \<Longrightarrow> ack_wf a" by simp_all
    consider "hd_type (ak_header a) \<in> {PUBACK, PUBREC, PUBCOMP}" | "hd_type (ak_header a) = PUBREL"
      | "hd_type (ak_header a) \<notin> {PUBLISH, PUBACK, PUBREC, PUBREL, PUBCOMP}" using a(1) by blast
    then show ?thesis
    proof cases
      case 1
      then have wf: "ack_wf a" using a(2) by blast
      then obtain k where k: "ak_msgId a = Some k" by (auto simp: ack_wf_def)
      from handle_ack[OF assms(1) i wf k 1] show ?thesis unfolding PAck by blast
    next
      case 2
      then have wf: "ack_wf a" using a(2) by blast
      then obtain k where k: "ak_msgId a = Some k" by (auto simp: ack_wf_def)
      from receive_pubrel[OF assms(1) i wf k] show ?thesis by (auto simp: PAck handle_types(3)[OF 2])
    next
      case 3
      then show ?thesis unfolding PAck by (intro other) simp
    qed
  qed (use other assms(3) in auto)
qed

end

subsection \<open>Everything that happens\<close>

text \<open>
  The events of a client library: a packet that was read, a publication by the application, the timed
  work, a socket that can be written, the end of writes, the end of a session; anything the kernel
  and persistence do; and anything else the library does to a client that leaves its messages and
  its last identifier alone.
\<close>

datatype 'w event =
    Received_packet packet int
  | App_publish nat "byte list" "byte list" nat nat "MQTTProperties option"
  | Retry nat bool bool
  | Keepalive nat
  | Write_available int
  | Writes_checked
  | Session_closed nat
  | Client_changed nat Clients
  | World 'w

fun run_event :: "'w environ \<Rightarrow> 'w event \<Rightarrow> 'w protocol \<Rightarrow> 'w protocol option" where
  "run_event en (Received_packet pack sock) st = do { (_, _, st1) \<leftarrow> MQTTClient_cycle_handle en pack sock st; Some st1 }"
| "run_event en (App_publish i topic payload qos retained props) st = do {
     (_, _, st1) \<leftarrow> MQTTClient_publish5 en i topic (int (length payload)) payload qos retained props st; Some st1 }"
| "run_event en (Retry now doRetry regardless) st = MQTTProtocol_retry en now doRetry regardless st"
| "run_event en (Keepalive now) st = MQTTProtocol_keepalive en now st"
| "run_event en (Write_available sock) st = do { (_, st1) \<leftarrow> MQTTProtocol_writeAvailable en sock st; Some st1 }"
| "run_event en Writes_checked st = MQTTProtocol_checkPendingWrites en st"
| "run_event en (Session_closed i) st = MQTTProtocol_closeSession en i st"
| "run_event en (Client_changed i c) st = Some (upd_client i (\<lambda>_. c) st)"
| "run_event en (World w) st = Some (st\<lparr>pt_net := w\<rparr>)"

text \<open>Packets arrive on sockets of clients, and a publication by the application has a QoS up to 2.\<close>

fun event_ok :: "('w \<Rightarrow> bool) \<Rightarrow> 'w event \<Rightarrow> 'w protocol \<Rightarrow> bool" where
  "event_ok room (Received_packet pack sock) st \<longleftrightarrow> find_client st sock \<noteq> None \<and> pack_ok pack"
| "event_ok room (App_publish i topic payload qos retained props) st \<longleftrightarrow>
     i < length (pt_clients st) \<and> qos \<le> 2 \<and> (case props of None \<Rightarrow> True | Some ps \<Rightarrow> props_ok ps)"
| "event_ok room (Write_available sock) st \<longleftrightarrow> find_client st sock \<noteq> None"
| "event_ok room (Session_closed i) st \<longleftrightarrow> i < length (pt_clients st)"
| "event_ok room (Client_changed i c) st \<longleftrightarrow> i < length (pt_clients st)
     \<and> cl_inboundMsgs c = cl_inboundMsgs (the_client st i) \<and> cl_outboundMsgs c = cl_outboundMsgs (the_client st i)
     \<and> cl_msgID c = cl_msgID (the_client st i)"
| "event_ok room (World w) st \<longleftrightarrow> room w"
| "event_ok room _ st \<longleftrightarrow> True"

text \<open>The states a library without messages can come to.\<close>

definition started :: "('w \<Rightarrow> bool) \<Rightarrow> 'w protocol \<Rightarrow> bool" where
  "started room st \<longleftrightarrow> pt_publications st = Map.empty \<and> pt_pending_writes st = [] \<and> room (pt_net st)
     \<and> list_all (\<lambda>c. cl_inboundMsgs c = [] \<and> cl_outboundMsgs c = [] \<and> cl_msgID c = 0) (pt_clients st)"

inductive reachable :: "'w environ \<Rightarrow> ('w \<Rightarrow> bool) \<Rightarrow> 'w protocol \<Rightarrow> bool" for en room where
  start: "started room st \<Longrightarrow> reachable en room st"
| event: "reachable en room st \<Longrightarrow> event_ok room e st \<Longrightarrow> run_event en e st = Some st' \<Longrightarrow> reachable en room st'"

inductive_cases reachableE: "reachable en room st"

lemma sum_list_empty: "\<forall>x \<in> set xs. g x = {#} \<Longrightarrow> sum_list (map g xs) = {#}"
  by (induction xs) auto

lemma started_good: "started room st \<Longrightarrow> good room st"
proof -
  assume s: "started room st"
  have "\<forall>c \<in> set (pt_clients st). client_refs c = {#}" using s by (auto simp: started_def list_all_iff client_refs_def)
  then have "all_refs st = {#}" using s sum_list_empty[of "pt_clients st" client_refs] by (simp add: all_refs_def started_def)
  then show ?thesis
    using s by (auto simp: good_def proto_ok_def pubs_ok_def started_def client_ok_def list_all_iff MAX_MSG_ID_def)
qed

context network begin

lemma event_good:
  assumes "good room st" "event_ok room e st"
  shows "\<exists>st'. run_event en e st = Some st' \<and> good room st'"
proof (cases e)
  case (Received_packet pack sock)
  then show ?thesis using handle_any[OF assms(1), of sock pack] assms(2) by auto
next
  case (App_publish i topic payload qos retained props)
  then have p: "i < length (pt_clients st)" "qos \<le> 2" "\<And>ps. props = Some ps \<Longrightarrow> props_ok ps" using assms(2) by simp_all
  obtain rc m st' where "MQTTClient_publish5 en i topic (int (length payload)) payload qos retained props st = Some (rc, m, st')"
      "good room st'"
    using publish5_ok[OF assms(1) p(1,2), where properties = props, OF p(3)] by blast
  then show ?thesis unfolding App_publish by simp
next
  case (Retry now doRetry regardless)
  then show ?thesis using retry_ok[OF assms(1), of now doRetry regardless] by (auto simp: keeps_def)
next
  case (Keepalive now)
  then show ?thesis using keepalive_ok[OF assms(1), of now] by (auto simp: keeps_def)
next
  case (Write_available sock)
  then obtain i where "find_client st sock = Some i" using assms(2) by auto
  with writeAvailable_ok[OF assms(1)] Write_available show ?thesis by (fastforce simp: keeps_def)
next
  case Writes_checked
  then show ?thesis using checkPendingWrites_ok[OF assms(1)] by (auto simp: keeps_def)
next
  case (Session_closed i)
  then show ?thesis using protocol_close_ok[OF assms(1)] assms(2) by (auto simp: keeps_def)
next
  case (Client_changed i c)
  then have c: "i < length (pt_clients st)" "cl_inboundMsgs c = cl_inboundMsgs (the_client st i)"
    "cl_outboundMsgs c = cl_outboundMsgs (the_client st i)" "cl_msgID c = cl_msgID (the_client st i)" using assms(2) by simp_all
  have ok: "proto_ok {#} st" using assms(1) by (simp add: good_def)
  have "proto_ok {#} (upd_client i (\<lambda>_. c) st)"
    by (rule proto_ok_upd[OF ok c(1)])
      (use client_ok_at[OF ok c(1)] in \<open>simp_all add: client_ok_def client_refs_def c(2-4)\<close>)
  then show ?thesis using assms(1) by (simp add: Client_changed good_def)
next
  case (World w)
  then show ?thesis using assms by (simp add: good_def)
qed

lemma reachable_good: "reachable en room st \<Longrightarrow> good room st"
proof (induction rule: reachable.induct)
  case (start st)
  then show ?case by (rule started_good)
next
  case (event st e st')
  then show ?case using event_good by fastforce
qed

lemma reachable_event:
  assumes "reachable en room st" "event_ok room e st"
  shows "\<exists>st'. run_event en e st = Some st' \<and> reachable en room st'"
  using event_good[OF reachable_good[OF assms(1)] assms(2)] reachable.event[OF assms] by blast

end

text \<open>A client that is connected, on a socket, and no persistence, for the examples.\<close>

definition no_persistence :: "unit persistence" where
  "no_persistence = \<lparr>ps_putPacket = \<lambda>_ _ _ _ _ _ _ p. (0, p), ps_remove = \<lambda>_ _ _ _ p. (0, p),
     ps_persistQueueEntry = \<lambda>_ _ p. p, ps_clear = \<lambda>_ p. p, ps_now = \<lambda>_. 0\<rparr>"

definition start_state :: "(sock_state \<times> unit) protocol" where
  "start_state = \<lparr>pt_publications = Map.empty, pt_fresh = 0, pt_msgs_received = 0, pt_msgs_sent = 0,
     pt_pending_writes = [], pt_clients = [example_client], pt_net = (fresh_state, ())\<rparr>"

lemma start_room: "sock_room (fresh_state, ())"
proof -
  have "\<exists>log. tx_ok fresh_state log" by (rule tx_ok_any) (simp_all add: fresh_state_def)
  then show ?thesis by (simp add: sock_room_def fresh_state_def)
qed

lemma start_started: "started sock_room start_state"
  using start_room by (simp add: started_def start_state_def example_client_def)

lemma start_find: "find_client start_state 4 = Some 0" "length (pt_clients start_state) = 1"
  by (simp_all add: find_client_def start_state_def clientSocketCompare_def example_client_def)

text \<open>A client with one message in flight.\<close>

definition flight_state :: "(sock_state \<times> unit) protocol" where
  "flight_state = start_state\<lparr>pt_publications := [0 \<mapsto> \<lparr>pn_topic = [116], pn_topiclen = 1, pn_payload = [9],
       pn_payloadlen = 1, pn_refcount = 1\<rparr>], pt_fresh := 1,
     pt_clients := [example_client\<lparr>cl_msgID := 7, cl_outboundMsgs := [\<lparr>ms_qos = 2, ms_retain = 0, ms_msgid = 7,
       ms_MQTTVersion = 4, ms_properties = None, ms_publish = Some 0, ms_lastTouch = 0,
       ms_nextMessageType = Some PUBREC\<rparr>]\<rparr>]\<rparr>"

lemma flight_good: "good sock_room flight_state"
proof -
  have "proto_ok {#} flight_state"
    by (simp add: proto_ok_def pubs_ok_def all_refs_def client_refs_def msg_refs_def flight_state_def start_state_def
        pub_ok_def client_ok_def out_ok_def msg_ok_def example_client_def MAX_MSG_ID_def)
  then show ?thesis by (simp add: good_def flight_state_def start_state_def start_room)
qed

lemma flight_find: "find_client flight_state 4 = Some 0" "length (pt_clients flight_state) = 1"
  by (simp_all add: find_client_def flight_state_def clientSocketCompare_def example_client_def)

lemma flight_sender: "sender_of flight_state 0 = [7 \<mapsto> (AwaitPubrec, Some ([116], [9]))]"
  by (simp add: sender_of_def by_id_def flight_state_def the_client_def exchange_of_def phase_of_def)

subsection \<open>Publishing\<close>

lemma sender_publish:
  assumes "proto_ok {#} st" "i < length (pt_clients st)" "pb_msgId p \<notin> ms_msgid ` set (cl_outboundMsgs (the_client st i))"
    "qos = 1 \<or> qos = 2"
  shows "sender_of (append_outbound i (outbound_msg p props qos retained (pt_fresh st) now) (with_publication (pt_fresh st)
        (publication_of p) (upd_client i (\<lambda>_. (the_client st i)\<lparr>cl_msgID := k\<rparr>) st))) i
    = (sender_of st i)(pb_msgId p \<mapsto>
        (if qos = 1 then AwaitPuback else AwaitPubrec, Some (the (pb_topic p), pb_payload p)))"
proof -
  let ?ms = "cl_outboundMsgs (the_client st i)"
  let ?store = "(pt_publications st)(pt_fresh st \<mapsto> publication_of p)"
  let ?m = "outbound_msg p props qos retained (pt_fresh st) now"
  have none: "position (messageIDCompare (ms_msgid ?m)) ?ms = None"
    using assms(3) by (force simp: position_None messageIDCompare_def)
  have "exchange_of ?store m = exchange_of (pt_publications st) m" if "m \<in> set ?ms" for m
    using stored_below[OF assms(1,2) disjI2[OF refl] that] by (intro exchange_cong) auto
  then have "by_id (exchange_of ?store) ?ms = by_id (exchange_of (pt_publications st)) ?ms" by (rule by_id_cong)
  moreover have "exchange_of ?store ?m
      = (if qos = 1 then AwaitPuback else AwaitPubrec, Some (the (pb_topic p), pb_payload p))"
    using assms(4) by (auto simp: exchange_of_def phase_of_def outbound_msg_def publication_of_def)
  ultimately show ?thesis
    using assms(2) by_id_append[OF none, of "exchange_of ?store"]
    by (simp add: sender_of_def append_outbound_def the_client_upd)
qed

context network begin

lemma publish_exchange:
  assumes "good room st" "i < length (pt_clients st)" "qos = 1 \<or> qos = 2" "\<And>ps. props = Some ps \<Longrightarrow> props_ok ps"
  shows "\<exists>rc m st'. MQTTClient_publish5 en i topic (int (length payload)) payload qos retained props st = Some (rc, m, st')
    \<and> good room st'
    \<and> (rc = MQTTCLIENT_MAX_MESSAGES_INFLIGHT \<and> st' = st
         \<and> {1..MAX_MSG_ID} - {cl_msgID (the_client st i)} \<subseteq> dom (sender_of st i)
       \<or> (\<exists>k \<in> {1..MAX_MSG_ID} - dom (sender_of st i). sender_of st' i
            = (sender_of st i)(k \<mapsto> (if qos = 1 then AwaitPuback else AwaitPubrec, Some (topic, payload)))))"
proof -
  have ok: "proto_ok {#} st" using assms(1) by (simp add: good_def)
  show ?thesis
  proof (rule publish5_exchange[OF assms, where topicName = topic and payload = payload and retained = retained])
    assume "MQTTClient_publish5 en i topic (int (length payload)) payload qos retained props st
        = Some (MQTTCLIENT_MAX_MESSAGES_INFLIGHT, None, st)"
      "{1..MAX_MSG_ID} - {cl_msgID (the_client st i)} \<subseteq> ms_msgid ` set (cl_outboundMsgs (the_client st i))"
    then show ?thesis using assms(1) by (simp add: sender_of_def dom_by_id)
  next
    fix k p properties now rc st'
    let ?T = "append_outbound i (outbound_msg p properties qos retained (pt_fresh st) now) (with_publication (pt_fresh st)
        (publication_of p) (upd_client i (\<lambda>_. (the_client st i)\<lparr>cl_msgID := k\<rparr>) st))"
    assume k: "k \<notin> ms_msgid ` set (cl_outboundMsgs (the_client st i))" "1 \<le> k" "k \<le> MAX_MSG_ID"
      and p: "p = app_publish (the_client st i) topic payload k props"
      and s: "MQTTClient_publish5 en i topic (int (length payload)) payload qos retained props st
        = Some (rc, Some (outbound_msg p properties qos retained (pt_fresh st) now), st')" "good room st'"
      and q: "quiet ?T st'"
    have "sender_of st' i = sender_of ?T i" by (rule sender_quiet[OF q]) (use assms(2) in simp)
    also have "\<dots> = (sender_of st i)(k \<mapsto> (if qos = 1 then AwaitPuback else AwaitPubrec, Some (topic, payload)))"
      using sender_publish[OF ok assms(2), of p qos properties retained now k] k(1) assms(3) by (simp add: p app_publish_def)
    finally have "sender_of st' i
        = (sender_of st i)(k \<mapsto> (if qos = 1 then AwaitPuback else AwaitPubrec, Some (topic, payload)))" .
    moreover have "k \<in> {1..MAX_MSG_ID} - dom (sender_of st i)" using k by (simp add: sender_of_def dom_by_id)
    ultimately show ?thesis using s by blast
  qed
qed

end

subsection \<open>The properties\<close>



text \<open>
  C3: Publications with QoS 2 are handed to the application exactly once for each exchange, however
  often the packets are repeated: after any sequence of PUBLISH packets with QoS 2 and PUBREL packets
  on the socket of a client, its queue of received messages and what it still holds back are those of
  the machine \<open>receive\<close>, with the topic, the payload, the retained flag and the properties of the packet.
\<close>

theorem qos2_exactly_once:
  assumes "good sock_room st" "find_client st sock = Some i" "list_all qos2_packet packs"
  shows "\<exists>st'. run_packets (socket_environ ps) sock packs st = Some st' \<and> good sock_room st'
    \<and> receiver_of st' i = fold receive (map in_event_of packs) (receiver_of st i)"
  by (rule sockets.run_qos2_packets[OF assms])

theorem qos2_exactly_once_witness:
  "let pub = PPublish \<lparr>pb_header = Header_zero\<lparr>hd_type := PUBLISH, hd_qos := 2\<rparr>, pb_topic = Some [116], pb_topiclen = 1,
        pb_msgId = 7, pb_payload = [1], pb_payloadlen = 1, pb_MQTTVersion = 4, pb_properties = MQTTProperties_initializer\<rparr>;
      rel = PAck \<lparr>ak_header = Header_zero\<lparr>hd_type := PUBREL\<rparr>, ak_msgId = Some 7, ak_rc = None, ak_MQTTVersion = 4,
        ak_properties = None\<rparr>
   in \<exists>st'. run_packets (socket_environ no_persistence) 4 [pub, pub, rel, rel] start_state = Some st'
        \<and> map entry_content (cl_messageQueue (the_client st' 0)) = [(7, [116], [1], 0, [])]"
proof -
  let ?pub = "PPublish \<lparr>pb_header = Header_zero\<lparr>hd_type := PUBLISH, hd_qos := 2\<rparr>, pb_topic = Some [116], pb_topiclen = 1,
        pb_msgId = 7, pb_payload = [1], pb_payloadlen = 1, pb_MQTTVersion = 4, pb_properties = MQTTProperties_initializer\<rparr>"
    and ?rel = "PAck \<lparr>ak_header = Header_zero\<lparr>hd_type := PUBREL\<rparr>, ak_msgId = Some 7, ak_rc = None, ak_MQTTVersion = 4,
        ak_properties = None\<rparr>"
  have "list_all qos2_packet [?pub, ?pub, ?rel, ?rel]" by (simp add: publish_wf_def ack_wf_def)
  from qos2_exactly_once[OF started_good[OF start_started] start_find(1) this, of no_persistence]
  obtain st' where "run_packets (socket_environ no_persistence) 4 [?pub, ?pub, ?rel, ?rel] start_state = Some st'"
    "receiver_of st' 0 = fold receive (map in_event_of [?pub, ?pub, ?rel, ?rel]) (receiver_of start_state 0)" by blast
  moreover have "receiver_of start_state 0 = (Map.empty, [])"
    by (simp add: receiver_of_def by_id_def start_state_def the_client_def example_client_def)
  ultimately show ?thesis by (auto simp: Let_def receiver_of_def publish_content_def Header_zero_def)
qed

text \<open>
  C15: The exchanges of outgoing publications advance only with the acknowledgement that is awaited:
  a PUBACK, PUBREC or PUBCOMP changes the exchange with its identifier as \<open>acknowledge\<close> says, when
  there is one in that phase, and leaves the topics and the payloads of all the others as they are.
\<close>

theorem acknowledgements_advance:
  assumes "good sock_room st" "find_client st sock = Some i" "ack_wf a" "ak_msgId a = Some k"
    and "hd_type (ak_header a) \<in> {PUBACK, PUBREC, PUBCOMP}"
  shows "\<exists>rc st'. MQTTClient_cycle_handle (socket_environ ps) (PAck a) sock st = Some (Some rc, None, st')
    \<and> good sock_room st'
    \<and> sender_of st' i = acknowledge (hd_type (ak_header a)) (ack_error a) k (sender_of st i)"
  using sockets.handle_ack[OF assms] by blast

theorem acknowledgements_advance_witness:
  "\<exists>rc st'. MQTTClient_cycle_handle (socket_environ no_persistence)
      (PAck \<lparr>ak_header = Header_zero\<lparr>hd_type := PUBREC\<rparr>, ak_msgId = Some 7, ak_rc = None, ak_MQTTVersion = 4,
        ak_properties = None\<rparr>) 4 flight_state = Some (Some rc, None, st')
    \<and> sender_of st' 0 = [7 \<mapsto> (AwaitPubcomp, Some ([116], [9]))]"
proof -
  let ?a = "\<lparr>ak_header = Header_zero\<lparr>hd_type := PUBREC\<rparr>, ak_msgId = Some 7, ak_rc = None, ak_MQTTVersion = 4,
        ak_properties = None\<rparr>"
  have "ack_wf ?a" "ak_msgId ?a = Some 7" "hd_type (ak_header ?a) \<in> {PUBACK, PUBREC, PUBCOMP}"
    by (simp_all add: ack_wf_def)
  from acknowledgements_advance[OF flight_good flight_find(1) this, of no_persistence] show ?thesis
    by (auto simp: flight_sender acknowledge_def ack_error_def)
qed



end
