(* ===== verification/JS_Strings.thy ===== *)
theory JS_Strings
  imports "HOL-Library.Sublist" Main
begin

text \<open>
  What the scripts of the documentation viewer (\<^verbatim>\<open>docs/*/html/*.js\<close>) use of the strings of
  JavaScript. A string is the list of its UTF-16 code units. \<open>js\<close> is the string of a literal
  of the source, which is ASCII throughout.

  \<open>toLowerCase\<close> is modelled on ASCII: other letters are left as they are, so properties that
  depend on the case of letters speak about ASCII text.
\<close>

type_synonym jstring = "nat list"

definition js :: "string \<Rightarrow> jstring" where
  "js s = map of_char s"

lemma js_append: "js (s @ t) = js s @ js t"
  by (simp add: js_def)

lemma js_Cons: "js (c # s) = of_char c # js s"
  by (simp add: js_def)

text \<open>The exceptions of the interpreter: a property of \<open>null\<close> or \<open>undefined\<close> is read.\<close>

datatype js_error = TypeError

type_synonym 'a result = "js_error + 'a"

definition res_bind :: "'a result \<Rightarrow> ('a \<Rightarrow> 'b result) \<Rightarrow> 'b result" where
  "res_bind r f = (case r of Inl e \<Rightarrow> Inl e | Inr x \<Rightarrow> f x)"

lemma res_bind_simps [simp]: "res_bind (Inl e) f = Inl e" "res_bind (Inr x) f = f x"
  by (simp_all add: res_bind_def)

definition not_null :: "'a option \<Rightarrow> 'a result" where
  "not_null x = (case x of None \<Rightarrow> Inl TypeError | Some y \<Rightarrow> Inr y)"

lemma not_null_simps [simp]: "not_null None = Inl TypeError" "not_null (Some x) = Inr x"
  by (simp_all add: not_null_def)

subsection \<open>Numbers as strings\<close>

text \<open>The digits of \<open>toString(16)\<close> are lower case.\<close>

definition digit :: "nat \<Rightarrow> nat" where
  "digit d = (if d < 10 then 48 + d else 87 + d)"

fun to_string :: "nat \<Rightarrow> nat \<Rightarrow> jstring" where
  "to_string b n = (if n < b \<or> b < 2 then [digit n] else to_string b (n div b) @ [digit (n mod b)])"

declare to_string.simps [simp del]

definition num_string :: "int \<Rightarrow> jstring" where
  "num_string i = (if i < 0 then 45 # to_string 10 (nat (- i)) else to_string 10 (nat i))"

definition digit_number :: "nat \<Rightarrow> nat" where
  "digit_number c = (if c < 58 then c - 48 else c - 87)"

lemma digit_number_digit [simp]: "digit_number (digit d) = d"
  by (simp add: digit_number_def digit_def)

lemma to_string_single: "n < b \<Longrightarrow> to_string b n = [digit n]"
  by (subst to_string.simps) simp

lemma to_string_step: "2 \<le> b \<Longrightarrow> b \<le> n \<Longrightarrow> to_string b n = to_string b (n div b) @ [digit (n mod b)]"
  by (subst to_string.simps) simp

lemma to_string_ne [simp]: "to_string b n \<noteq> []"
  by (subst to_string.simps) simp

lemma to_string_digits:
  "2 \<le> b \<Longrightarrow> list_all (\<lambda>c. \<exists>d < b. c = digit d) (to_string b n)"
proof (induction n rule: less_induct)
  case (less n)
  show ?case
  proof (cases "n < b")
    case False
    then have "n div b < n" using less.prems by simp
    then have "list_all (\<lambda>c. \<exists>d < b. c = digit d) (to_string b (n div b))" using less by blast
    moreover have "n mod b < b" using less.prems by simp
    ultimately show ?thesis using less.prems False by (auto simp: to_string_step intro!: exI[of _ "n mod b"])
  qed (auto simp: to_string_single)
qed

definition string_number :: "nat \<Rightarrow> jstring \<Rightarrow> nat" where
  "string_number b s = foldl (\<lambda>n c. n * b + digit_number c) 0 s"

lemma string_number_to_string: "2 \<le> b \<Longrightarrow> string_number b (to_string b n) = n"
proof (induction n rule: less_induct)
  case (less n)
  show ?case
  proof (cases "n < b")
    case False
    then have "n div b < n" using less.prems by simp
    then show ?thesis using less False by (simp add: to_string_step string_number_def)
  qed (simp add: to_string_single string_number_def)
qed

lemma to_string_inj: "2 \<le> b \<Longrightarrow> to_string b m = to_string b n \<longleftrightarrow> m = n"
  by (metis string_number_to_string)

lemma digit_decimal: "(\<exists>d < 10. c = digit d) \<longleftrightarrow> 48 \<le> c \<and> c \<le> 57"
proof
  assume "48 \<le> c \<and> c \<le> 57"
  then show "\<exists>d < 10. c = digit d" by (intro exI[of _ "c - 48"]) (auto simp: digit_def)
qed (auto simp: digit_def)

lemma to_string_10: "list_all (\<lambda>c. 48 \<le> c \<and> c \<le> 57) (to_string 10 n)"
  using to_string_digits[of 10 n] by (simp add: digit_decimal)

lemma num_string_inj: "num_string i = num_string j \<longleftrightarrow> i = j"
proof
  have minus: "to_string 10 n \<noteq> 45 # xs" for n xs
    using to_string_10[of n] by auto
  assume "num_string i = num_string j"
  then show "i = j"
    using minus[symmetric] minus by (auto simp: num_string_def to_string_inj split: if_splits)
qed simp

lemma num_string_nat [simp]: "num_string (int n) = to_string 10 n"
  by (simp add: num_string_def)

subsection \<open>Case, spaces and positions\<close>

definition lower_unit :: "nat \<Rightarrow> nat" where
  "lower_unit c = (if 65 \<le> c \<and> c \<le> 90 then c + 32 else c)"

definition toLowerCase :: "jstring \<Rightarrow> jstring" where
  "toLowerCase s = map lower_unit s"

lemma toLowerCase_simps [simp]:
  "toLowerCase [] = []" "toLowerCase (c # s) = lower_unit c # toLowerCase s"
  "toLowerCase (s @ t) = toLowerCase s @ toLowerCase t" "length (toLowerCase s) = length s"
  by (simp_all add: toLowerCase_def)

lemma toLowerCase_take: "toLowerCase (take n s) = take n (toLowerCase s)"
  by (simp add: toLowerCase_def take_map)

lemma lower_unit_idem [simp]: "lower_unit (lower_unit c) = lower_unit c"
  by (simp add: lower_unit_def)

lemma toLowerCase_idem [simp]: "toLowerCase (toLowerCase s) = toLowerCase s"
  by (simp add: toLowerCase_def)

text \<open>\<open>replace(/^ +/, "")\<close>, \<open>replace(/ +$/, "")\<close> and \<open>replace(/ +/g, "")\<close>.\<close>

definition strip_leading :: "jstring \<Rightarrow> jstring" where
  "strip_leading s = dropWhile (\<lambda>c. c = 32) s"

definition strip_trailing :: "jstring \<Rightarrow> jstring" where
  "strip_trailing s = rev (dropWhile (\<lambda>c. c = 32) (rev s))"

definition remove_spaces :: "jstring \<Rightarrow> jstring" where
  "remove_spaces s = filter (\<lambda>c. c \<noteq> 32) s"

text \<open>\<open>indexOf\<close>: the first position at which the string occurs, or -1.\<close>

fun indexOf_from :: "nat \<Rightarrow> jstring \<Rightarrow> jstring \<Rightarrow> int" where
  "indexOf_from i [] t = (if t = [] then int i else -1)"
| "indexOf_from i (c # s) t = (if take (length t) (c # s) = t then int i else indexOf_from (Suc i) s t)"

definition indexOf :: "jstring \<Rightarrow> jstring \<Rightarrow> int" where
  "indexOf s t = indexOf_from 0 s t"

lemma indexOf_from_unit:
  "indexOf_from i s [c] = (if c \<in> set s then int (i + length (takeWhile (\<lambda>x. x \<noteq> c) s)) else -1)"
  by (induction s arbitrary: i) auto

lemma indexOf_unit:
  "indexOf s [c] = (if c \<in> set s then int (length (takeWhile (\<lambda>x. x \<noteq> c) s)) else -1)"
  by (simp add: indexOf_def indexOf_from_unit)

lemma indexOf_nth: "distinct s \<Longrightarrow> i < length s \<Longrightarrow> indexOf s [s ! i] = int i"
proof -
  have "distinct s \<Longrightarrow> i < length s \<Longrightarrow> length (takeWhile (\<lambda>x. x \<noteq> s ! i) s) = i"
    by (induction s arbitrary: i) (auto simp: nth_Cons' split: if_splits)
  then show "distinct s \<Longrightarrow> i < length s \<Longrightarrow> ?thesis" by (simp add: indexOf_unit)
qed

subsection \<open>The query of a location\<close>

text \<open>\<open>escape\<close> and \<open>unescape\<close>, which work on code units; upper case digits.\<close>

definition upper_digit :: "nat \<Rightarrow> nat" where
  "upper_digit d = (if d < 10 then 48 + d else 55 + d)"

definition escape_keeps :: "nat \<Rightarrow> bool" where
  "escape_keeps c \<longleftrightarrow> (48 \<le> c \<and> c \<le> 57) \<or> (65 \<le> c \<and> c \<le> 90) \<or> (97 \<le> c \<and> c \<le> 122)
     \<or> c \<in> {64, 42, 95, 43, 45, 46, 47}"

definition escape_unit :: "nat \<Rightarrow> jstring" where
  "escape_unit c =
     (if escape_keeps c then [c]
      else if c < 256 then [37, upper_digit (c div 16), upper_digit (c mod 16)]
      else [37, 117, upper_digit (c div 4096), upper_digit (c div 256 mod 16),
            upper_digit (c div 16 mod 16), upper_digit (c mod 16)])"

definition escape :: "jstring \<Rightarrow> jstring" where
  "escape s = concat (map escape_unit s)"

definition hex_value :: "nat \<Rightarrow> nat option" where
  "hex_value c = (if 48 \<le> c \<and> c \<le> 57 then Some (c - 48)
     else if 65 \<le> c \<and> c \<le> 70 then Some (c - 55)
     else if 97 \<le> c \<and> c \<le> 102 then Some (c - 87) else None)"

fun hex_number :: "nat \<Rightarrow> jstring \<Rightarrow> nat option" where
  "hex_number acc [] = Some acc"
| "hex_number acc (c # s) = (case hex_value c of None \<Rightarrow> None | Some d \<Rightarrow> hex_number (acc * 16 + d) s)"

text \<open>A percent sign that starts no escape sequence stays.\<close>

function unescape :: "jstring \<Rightarrow> jstring" where
  "unescape s = (case s of
       [] \<Rightarrow> []
     | c # t \<Rightarrow>
         if c \<noteq> 37 then c # unescape t
         else if 5 \<le> length t \<and> hd t = 117 \<and> hex_number 0 (take 4 (tl t)) \<noteq> None
           then the (hex_number 0 (take 4 (tl t))) # unescape (drop 5 t)
         else if 2 \<le> length t \<and> hex_number 0 (take 2 t) \<noteq> None
           then the (hex_number 0 (take 2 t)) # unescape (drop 2 t)
         else c # unescape t)"
  by pat_completeness auto
termination by (relation "measure length") auto

declare unescape.simps [simp del]

lemma unescape_Nil [simp]: "unescape [] = []"
  by (simp add: unescape.simps[of "[]"])

lemma hex_value_upper_digit [simp]: "d < 16 \<Longrightarrow> hex_value (upper_digit d) = Some d"
  by (auto simp: hex_value_def upper_digit_def)

lemma upper_digit_not_u [simp]: "upper_digit d \<noteq> 117 \<or> \<not> d < 16"
  by (auto simp: upper_digit_def)

lemma unescape_two: "hex_value a = Some i \<Longrightarrow> hex_value b = Some j \<Longrightarrow> a \<noteq> 117 \<Longrightarrow>
    unescape (37 # a # b # t) = (i * 16 + j) # unescape t"
  by (subst unescape.simps) simp

lemma unescape_four: "hex_value a = Some i \<Longrightarrow> hex_value b = Some j \<Longrightarrow> hex_value c = Some k \<Longrightarrow>
    hex_value d = Some l \<Longrightarrow>
    unescape (37 # 117 # a # b # c # d # t) = (((i * 16 + j) * 16 + k) * 16 + l) # unescape t"
  by (subst unescape.simps) simp

lemma unescape_escape_unit: "c < 65536 \<Longrightarrow> unescape (escape_unit c @ t) = c # unescape t"
proof -
  assume c: "c < 65536"
  consider "escape_keeps c" | "\<not> escape_keeps c" "c < 256" | "\<not> escape_keeps c" "256 \<le> c" by linarith
  then show ?thesis
  proof cases
    case 1
    then have "c \<noteq> 37" by (auto simp: escape_keeps_def)
    with 1 show ?thesis by (simp add: escape_unit_def unescape.simps[of "c # t"])
  next
    case 2
    then have d: "c div 16 < 16" "c mod 16 < 16" by (simp_all add: less_mult_imp_div_less)
    have v: "c div 16 * 16 + c mod 16 = c" by simp
    have "upper_digit (c div 16) \<noteq> 117" using d(1) upper_digit_not_u by blast
    from unescape_two[OF hex_value_upper_digit[OF d(1)] hex_value_upper_digit[OF d(2)] this, of t] 2 v
    show ?thesis by (simp add: escape_unit_def)
  next
    case 3
    have d: "c div 4096 < 16" "c div 256 mod 16 < 16" "c div 16 mod 16 < 16" "c mod 16 < 16" using c by simp_all
    have "c div 4096 = c div 16 div 16 div 16" "c div 256 = c div 16 div 16" by (simp_all add: div_mult2_eq[symmetric])
    then have v: "((c div 4096 * 16 + c div 256 mod 16) * 16 + c div 16 mod 16) * 16 + c mod 16 = c" by simp
    from unescape_four[OF d[THEN hex_value_upper_digit], of t] 3 v show ?thesis by (simp add: escape_unit_def)
  qed
qed

lemma unescape_escape: "list_all (\<lambda>c. c < 65536) s \<Longrightarrow> unescape (escape s) = s"
  by (induction s) (simp_all add: escape_def unescape_escape_unit)

end
