(* ===== verification/Search_Id.thy ===== *)
theory Search_Id
  imports JS_Strings
begin

text \<open>
  Identifiers of search results, \<^verbatim>\<open>convertToId\<close> of \<^verbatim>\<open>docs/*/html/search/search.js\<close>, and the
  comparison of a search word with the identifier of a row. The three copies of the file are
  the same; the map names the one under \<^verbatim>\<open>docs/MQTTAsync\<close>.
\<close>

subsection \<open>The conversion\<close>

text \<open>The class \<open>[a-z0-9\u0080-\uFFFF]\<close>.\<close>

definition id_class :: "nat \<Rightarrow> bool" where
  "id_class c \<longleftrightarrow> (97 \<le> c \<and> c \<le> 122) \<or> (48 \<le> c \<and> c \<le> 57) \<or> (128 \<le> c \<and> c \<le> 65535)"

fun convertToId_loop :: "jstring \<Rightarrow> jstring \<Rightarrow> jstring" where
  "convertToId_loop result [] = result"
| "convertToId_loop result (c # search) =
     convertToId_loop
       (if id_class c then result @ [c]
        else if c < 16 then result @ js ''_0'' @ to_string 16 c
        else result @ js ''_'' @ to_string 16 c) search"

definition convertToId :: "jstring \<Rightarrow> jstring" where
  "convertToId search = convertToId_loop [] search"

definition id_unit :: "nat \<Rightarrow> jstring" where
  "id_unit c = (if id_class c then [c] else [95, digit (c div 16), digit (c mod 16)])"

lemma to_string_16: "c < 128 \<Longrightarrow> to_string 16 c = (if c < 16 then [digit c] else [digit (c div 16), digit (c mod 16)])"
  by (simp add: to_string_single to_string_step less_mult_imp_div_less)

lemma not_id_class: "\<not> id_class c \<Longrightarrow> c < 65536 \<Longrightarrow> c < 128"
  by (auto simp: id_class_def)

lemma convertToId_loop_eq: "list_all (\<lambda>c. c < 65536) s \<Longrightarrow>
    convertToId_loop r s = r @ concat (map id_unit s)"
  by (induction s arbitrary: r)
    (auto simp: id_unit_def to_string_16 not_id_class js_def digit_def of_char_def)

lemma convertToId_units: "list_all (\<lambda>c. c < 65536) s \<Longrightarrow> convertToId s = concat (map id_unit s)"
  by (simp add: convertToId_def convertToId_loop_eq)

text \<open>The code is a prefix code: no letter's code begins with the code of another letter.\<close>

lemma digit_pair:
  "a < 128 \<Longrightarrow> b < 128 \<Longrightarrow> digit (a div 16) = digit (b div 16) \<Longrightarrow> digit (a mod 16) = digit (b mod 16) \<Longrightarrow> a = b"
  by (metis digit_number_digit div_mult_mod_eq)

lemma id_unit_prefix:
  assumes "a < 65536" "b < 65536" "prefix (id_unit a @ s) (id_unit b @ t)"
  shows "a = b \<and> prefix s t"
  using assms digit_pair[OF not_id_class not_id_class, of a b]
  by (auto simp: id_unit_def id_class_def split: if_splits)

lemma prefix_concat_units:
  "list_all (\<lambda>c. c < 65536) s \<Longrightarrow> list_all (\<lambda>c. c < 65536) t \<Longrightarrow>
   prefix (concat (map id_unit s)) (concat (map id_unit t)) \<longleftrightarrow> prefix s t"
proof (induction s arbitrary: t)
  case (Cons a s)
  show ?case
  proof (cases t)
    case Nil
    then show ?thesis by (auto simp: id_unit_def)
  next
    case (Cons b t')
    then show ?thesis using Cons.prems Cons.IH[of t'] id_unit_prefix[of a b "concat (map id_unit s)" "concat (map id_unit t')"]
      by auto
  qed
qed simp

lemma convertToId_prefix_iff:
  "list_all (\<lambda>c. c < 65536) s \<Longrightarrow> list_all (\<lambda>c. c < 65536) t \<Longrightarrow>
   prefix (convertToId s) (convertToId t) \<longleftrightarrow> prefix s t"
  by (simp add: convertToId_units prefix_concat_units)

subsection \<open>Matching a row\<close>

text \<open>\<open>replace(/^sr\d*_/, '')\<close>.\<close>

definition strip_sr :: "jstring \<Rightarrow> jstring" where
  "strip_sr s =
     (case s of
        a # b # t \<Rightarrow>
          (let u = dropWhile (\<lambda>c. 48 \<le> c \<and> c \<le> 57) t in
           if a = 115 \<and> b = 114 \<and> u \<noteq> [] \<and> hd u = 95 then tl u else s)
      | _ \<Rightarrow> s)"

text \<open>Whether the row with the attribute \<open>id\<close> is shown for the converted word \<open>search\<close>.\<close>

definition row_matches :: "jstring \<Rightarrow> jstring \<Rightarrow> bool" where
  "row_matches search row_id =
     (let rowMatchName = strip_sr (toLowerCase row_id) in
      length search \<le> length rowMatchName \<and> take (length search) rowMatchName = search)"

text \<open>The search word as \<open>SearchResults.Search\<close> converts it.\<close>

definition search_word :: "jstring \<Rightarrow> jstring" where
  "search_word search = convertToId (toLowerCase (strip_trailing (strip_leading search)))"

lemma row_matches_prefix: "row_matches w row_id \<longleftrightarrow> prefix w (strip_sr (toLowerCase row_id))"
  by (auto simp: row_matches_def Let_def prefix_def) (metis append_take_drop_id)

lemma toLowerCase_id_unit: "toLowerCase (id_unit c) = id_unit c"
  by (auto simp: id_unit_def id_class_def lower_unit_def digit_def)

lemma toLowerCase_concat: "toLowerCase (concat xss) = concat (map toLowerCase xss)"
  by (induction xss) simp_all

lemma toLowerCase_digits: "toLowerCase (to_string 10 n) = to_string 10 n"
  using to_string_10[of n] unfolding toLowerCase_def
  by (intro map_idI) (auto simp: lower_unit_def list_all_iff)

text \<open>
  The rows are named after an entry and its number: the attribute is \<open>SR_\<close>, the converted name
  in lower case, an underscore and the number.
\<close>

definition entry_id :: "jstring \<Rightarrow> nat \<Rightarrow> jstring" where
  "entry_id name n = convertToId (toLowerCase name) @ js ''_'' @ to_string 10 n"

lemma strip_sr_row: "strip_sr (toLowerCase (js ''SR_'' @ r)) = toLowerCase r"
  by (simp add: js_def strip_sr_def lower_unit_def of_char_def)

lemma lower_unit_small: "c < 65536 \<Longrightarrow> lower_unit c < 65536"
  by (simp add: lower_unit_def)

lemma lower_units_small: "list_all (\<lambda>c. c < 65536) s \<Longrightarrow> list_all (\<lambda>c. c < 65536) (toLowerCase s)"
  by (simp add: list_all_iff toLowerCase_def lower_unit_small)

lemma toLowerCase_converted: "list_all (\<lambda>c. c < 65536) s \<Longrightarrow> toLowerCase (convertToId s) = convertToId s"
  by (simp add: convertToId_units toLowerCase_concat toLowerCase_id_unit o_def)

lemma toLowerCase_entry_id:
  "list_all (\<lambda>c. c < 65536) name \<Longrightarrow> toLowerCase (entry_id name n) = entry_id name n"
  by (simp add: entry_id_def toLowerCase_converted lower_units_small toLowerCase_digits)
    (simp add: js_def lower_unit_def of_char_def)

text \<open>
  A word matches an entry if it begins the entry's name, and also if what it has after the whole
  name is encoded by the number that follows: that takes a character whose code has two decimal
  digits in base 16.
\<close>

definition number_like :: "nat \<Rightarrow> bool" where
  "number_like c \<longleftrightarrow> (16 \<le> c \<and> c \<le> 25) \<or> (32 \<le> c \<and> c \<le> 41) \<or> c = 64 \<or> c = 96"

lemma prefix_entry:
  "list_all (\<lambda>c. c < 65536) w \<Longrightarrow> list_all (\<lambda>c. c < 65536) name \<Longrightarrow>
   prefix (concat (map id_unit w)) (concat (map id_unit name) @ t) \<longleftrightarrow>
   prefix w name \<or> (\<exists>more. w = name @ more \<and> prefix (concat (map id_unit more)) t)"
proof (induction w arbitrary: name)
  case (Cons a w)
  show ?case
  proof (cases name)
    case Nil
    then show ?thesis by (auto simp: id_unit_def)
  next
    case (Cons b name')
    then show ?thesis
      using Cons.prems Cons.IH[of name'] id_unit_prefix[of a b "concat (map id_unit w)" "concat (map id_unit name') @ t"]
      by auto
  qed
qed simp

lemma hd_to_string: "0 < n \<Longrightarrow> hd (to_string 10 n) \<noteq> 48"
proof (induction n rule: less_induct)
  case (less n)
  show ?case
  proof (cases "n < 10")
    case False
    then show ?thesis using less.IH[of "n div 10"] less.prems by (simp add: to_string_step)
  qed (use less.prems in \<open>simp add: to_string_single digit_def\<close>)
qed

lemma two_digits:
  assumes "2 \<le> length (to_string 10 n)"
  shows "0 < n"
  using assms by (cases n) (simp_all add: to_string_single)

lemma number_like_digits:
  assumes "c < 128" "lower_unit c = c" "\<not> id_class c" "1 \<le> c div 16" "c div 16 \<le> 9" "c mod 16 \<le> 9"
  shows "number_like c"
proof -
  define k where "k = c div 16"
  define m where "m = c mod 16"
  have c: "c = 16 * k + m" by (simp add: k_def m_def)
  have k: "k = 1 \<or> k = 2 \<or> k = 3 \<or> k = 4 \<or> k = 5 \<or> k = 6 \<or> k = 7"
    using assms(1,4) unfolding k_def by linarith
  have "m \<le> 9" using assms(6) by (simp add: m_def)
  then have "(16 \<le> c \<and> c \<le> 25) \<or> (32 \<le> c \<and> c \<le> 41) \<or> (48 \<le> c \<and> c \<le> 57) \<or> (64 \<le> c \<and> c \<le> 73)
    \<or> (80 \<le> c \<and> c \<le> 89) \<or> (96 \<le> c \<and> c \<le> 105) \<or> (112 \<le> c \<and> c \<le> 121)"
    using k unfolding c by (elim disjE) simp_all
  moreover have "\<not> (65 \<le> c \<and> c \<le> 90)" using assms(2) by (auto simp: lower_unit_def)
  moreover have "\<not> (97 \<le> c \<and> c \<le> 122)" "\<not> (48 \<le> c \<and> c \<le> 57)"
    using assms(3) by (simp_all only: id_class_def de_Morgan_disj simp_thms)
  ultimately show ?thesis unfolding number_like_def by linarith
qed

lemma number_prefix:
  assumes "c < 65536" "lower_unit c = c" "\<not> number_like c"
  shows "\<not> prefix (id_unit c @ s) (95 # to_string 10 n)"
proof
  assume p: "prefix (id_unit c @ s) (95 # to_string 10 n)"
  show False
  proof (cases "id_class c")
    case True
    then show False using p by (auto simp: id_unit_def id_class_def)
  next
    case False
    then have c: "c < 128" using assms(1) by (rule not_id_class)
    from p False have "prefix [digit (c div 16), digit (c mod 16)] (to_string 10 n)"
      by (auto simp: id_unit_def prefix_def)
    then have "48 \<le> digit (c div 16) \<and> digit (c div 16) \<le> 57" "48 \<le> digit (c mod 16) \<and> digit (c mod 16) \<le> 57"
      "hd (to_string 10 n) = digit (c div 16)" "2 \<le> length (to_string 10 n)"
      using to_string_10[of n] by (auto simp: prefix_def)
    then have "c div 16 \<le> 9" "c mod 16 \<le> 9" "c div 16 \<noteq> 0"
      using hd_to_string[OF two_digits[of n]] by (auto simp: digit_def split: if_splits)
    then show False using number_like_digits[OF c assms(2) False] assms(3) by simp
  qed
qed

lemma matches_entry:
  assumes s: "list_all (\<lambda>c. c < 65536) s" "list_all (\<lambda>c. \<not> number_like c) (strip_trailing (strip_leading s))"
    and name: "list_all (\<lambda>c. c < 65536) name"
  shows "row_matches (search_word s) (js ''SR_'' @ entry_id name n)
    \<longleftrightarrow> prefix (toLowerCase (strip_trailing (strip_leading s))) (toLowerCase name)"
proof -
  define w where "w = toLowerCase (strip_trailing (strip_leading s))"
  have "set (strip_trailing (strip_leading s)) \<subseteq> set s"
    by (auto simp: strip_trailing_def strip_leading_def dest!: set_dropWhileD)
  then have w: "list_all (\<lambda>c. c < 65536) w" "list_all (\<lambda>c. lower_unit c = c \<and> \<not> number_like c) w"
    using s by (auto simp: w_def toLowerCase_def list_all_iff lower_unit_small number_like_def lower_unit_def
        split: if_splits)
  have more: "more = []" if "w = toLowerCase name @ more"
    "prefix (concat (map id_unit more)) (95 # to_string 10 n)" for more
    using that w number_prefix by (cases more) auto
  have "row_matches (search_word s) (js ''SR_'' @ entry_id name n)
    \<longleftrightarrow> prefix (concat (map id_unit w)) (concat (map id_unit (toLowerCase name)) @ 95 # to_string 10 n)"
    unfolding row_matches_prefix strip_sr_row toLowerCase_entry_id[OF name]
    using w(1) by (simp add: search_word_def entry_id_def convertToId_units lower_units_small[OF name] js_def of_char_def flip: w_def)
  also have "\<dots> \<longleftrightarrow> prefix w (toLowerCase name)"
    unfolding prefix_entry[OF w(1) lower_units_small[OF name]] using more by (auto simp: prefix_def)
  finally show ?thesis unfolding w_def .
qed

end
