(* ===== verification/Dom.thy ===== *)
theory Dom
  imports JS_Strings
begin

text \<open>
  What the scripts use of the document object model. A document is a tree of elements and text
  nodes, and a node is named by its path from the root, the positions of its ancestors and
  itself among their siblings. That identifies nodes as long as nodes are only appended, which
  is all the scripts do.

  Element names are kept in lower case. Markup that is set through \<open>innerHTML\<close> is kept as text
  and is not parsed into nodes.
\<close>

record node =
  nd_name :: jstring
  nd_attrs :: "(jstring \<times> jstring) list"
  nd_display :: jstring
  nd_html :: jstring

datatype dom = Elem (dom_node: node) (dom_kids: "dom list")

type_synonym path = "nat list"

definition createElement :: "jstring \<Rightarrow> dom" where
  "createElement name = Elem \<lparr>nd_name = name, nd_attrs = [], nd_display = [], nd_html = []\<rparr> []"

definition text_node :: "jstring \<Rightarrow> dom" where
  "text_node t = Elem \<lparr>nd_name = js ''#text'', nd_attrs = [], nd_display = [], nd_html = t\<rparr> []"

definition setAttribute :: "jstring \<Rightarrow> jstring \<Rightarrow> dom \<Rightarrow> dom" where
  "setAttribute a v d = (case d of Elem n cs \<Rightarrow>
     Elem (n\<lparr>nd_attrs := (a, v) # filter (\<lambda>(b, _). b \<noteq> a) (nd_attrs n)\<rparr>) cs)"

definition setInnerHTML :: "jstring \<Rightarrow> dom \<Rightarrow> dom" where
  "setInnerHTML t d = (case d of Elem n cs \<Rightarrow> Elem (n\<lparr>nd_html := t\<rparr>) [])"

definition appendChild :: "dom \<Rightarrow> dom \<Rightarrow> dom" where
  "appendChild c d = (case d of Elem n cs \<Rightarrow> Elem n (cs @ [c]))"

definition getAttribute :: "node \<Rightarrow> jstring \<Rightarrow> jstring option" where
  "getAttribute n a = map_of (nd_attrs n) a"

definition node_id :: "node \<Rightarrow> jstring" where
  "node_id n = (case getAttribute n (js ''id'') of None \<Rightarrow> [] | Some v \<Rightarrow> v)"

definition className :: "node \<Rightarrow> jstring" where
  "className n = (case getAttribute n (js ''class'') of None \<Rightarrow> [] | Some v \<Rightarrow> v)"

subsection \<open>Navigation\<close>

fun dom_at :: "dom \<Rightarrow> path \<Rightarrow> dom option" where
  "dom_at d [] = Some d"
| "dom_at (Elem n cs) (i # p) = (if i < length cs then dom_at (cs ! i) p else None)"

fun dom_update :: "(dom \<Rightarrow> dom) \<Rightarrow> path \<Rightarrow> dom \<Rightarrow> dom" where
  "dom_update f [] d = f d"
| "dom_update f (i # p) (Elem n cs) =
     Elem n (if i < length cs then cs[i := dom_update f p (cs ! i)] else cs)"

definition set_display :: "jstring \<Rightarrow> dom \<Rightarrow> dom" where
  "set_display v d = (case d of Elem n cs \<Rightarrow> Elem (n\<lparr>nd_display := v\<rparr>) cs)"

definition node_at :: "dom \<Rightarrow> path \<Rightarrow> node option" where
  "node_at d p = map_option dom_node (dom_at d p)"

definition firstChild :: "dom \<Rightarrow> path \<Rightarrow> path option" where
  "firstChild d p = (if dom_at d (p @ [0]) \<noteq> None then Some (p @ [0]) else None)"

definition hasChildNodes :: "dom \<Rightarrow> path \<Rightarrow> bool" where
  "hasChildNodes d p \<longleftrightarrow> dom_at d (p @ [0]) \<noteq> None"

definition parentNode :: "path \<Rightarrow> path option" where
  "parentNode p = (if p = [] then None else Some (butlast p))"

definition nextSibling :: "dom \<Rightarrow> path \<Rightarrow> path option" where
  "nextSibling d p =
     (if p = [] then None
      else let q = butlast p @ [Suc (last p)] in if dom_at d q \<noteq> None then Some q else None)"

text \<open>All nodes in document order.\<close>

fun paths :: "dom \<Rightarrow> path list" and kid_paths :: "nat \<Rightarrow> dom list \<Rightarrow> path list" where
  "paths (Elem n cs) = [] # kid_paths 0 cs"
| "kid_paths i [] = []"
| "kid_paths i (c # cs) = map ((#) i) (paths c) @ kid_paths (Suc i) cs"

definition getElementById :: "dom \<Rightarrow> jstring \<Rightarrow> path option" where
  "getElementById d v = List.find (\<lambda>p. case node_at d p of None \<Rightarrow> False
     | Some n \<Rightarrow> getAttribute n (js ''id'') = Some v) (paths d)"

definition getElementsByTagName :: "dom \<Rightarrow> jstring \<Rightarrow> path list" where
  "getElementsByTagName d name = filter (\<lambda>p. case node_at d p of None \<Rightarrow> False | Some n \<Rightarrow> nd_name n = name) (tl (paths d))"

subsection \<open>Paths\<close>

lemma dom_at_append: "dom_at d (p @ q) = (case dom_at d p of None \<Rightarrow> None | Some e \<Rightarrow> dom_at e q)"
  by (induction d p rule: dom_at.induct) simp_all

lemma dom_at_kid: "dom_at d p = Some (Elem n cs) \<Longrightarrow> dom_at d (p @ i # q) = (if i < length cs then dom_at (cs ! i) q else None)"
  by (simp add: dom_at_append)

lemma kid_paths_iff: "q \<in> set (kid_paths i cs) \<longleftrightarrow> (\<exists>j p. q = (i + j) # p \<and> j < length cs \<and> p \<in> set (paths (cs ! j)))"
proof (induction cs arbitrary: i)
  case (Cons c cs)
  show ?case
  proof
    assume "q \<in> set (kid_paths i (c # cs))"
    then consider p where "q = i # p" "p \<in> set (paths c)"
      | j p where "q = (Suc i + j) # p" "j < length cs" "p \<in> set (paths (cs ! j))"
      using Cons.IH[of "Suc i"] by auto
    then show "\<exists>j p. q = (i + j) # p \<and> j < length (c # cs) \<and> p \<in> set (paths ((c # cs) ! j))"
      by cases (force intro: exI[of _ 0], force intro: exI[of _ "Suc _"])
  next
    assume "\<exists>j p. q = (i + j) # p \<and> j < length (c # cs) \<and> p \<in> set (paths ((c # cs) ! j))"
    then obtain j p where "q = (i + j) # p" "j < length (c # cs)" "p \<in> set (paths ((c # cs) ! j))" by blast
    then show "q \<in> set (kid_paths i (c # cs))"
      using Cons.IH[of "Suc i"] by (cases j) auto
  qed
qed simp

lemma paths_iff: "p \<in> set (paths d) \<longleftrightarrow> dom_at d p \<noteq> None"
proof (induction p arbitrary: d)
  case Nil
  then show ?case by (cases d) simp
next
  case (Cons i p)
  then show ?case by (cases d) (auto simp: kid_paths_iff)
qed

text \<open>Document order.\<close>

fun before :: "path \<Rightarrow> path \<Rightarrow> bool" where
  "before p [] = False"
| "before [] (j # q) = True"
| "before (i # p) (j # q) = (i < j \<or> i = j \<and> before p q)"

lemma before_irrefl [simp]: "\<not> before p p"
  by (induction p) simp_all

lemma before_trans: "before p q \<Longrightarrow> before q r \<Longrightarrow> before p r"
proof (induction p r arbitrary: q rule: before.induct)
  case (3 i p j r)
  then show ?case by (cases q) auto
qed (auto elim: before.elims)

lemma before_kid: "before p (p @ [i])"
  by (induction p) simp_all

lemma before_sibling: "i < j \<Longrightarrow> before (p @ i # q) (p @ j # r)"
  by (induction p) simp_all

definition nodes_after :: "dom \<Rightarrow> path \<Rightarrow> nat" where
  "nodes_after d p = length (filter (before p) (paths d))"

lemma filter_length_less:
  "(\<And>x. Q x \<Longrightarrow> P x) \<Longrightarrow> y \<in> set xs \<Longrightarrow> P y \<Longrightarrow> \<not> Q y \<Longrightarrow> length (filter Q xs) < length (filter P xs)"
proof (induction xs)
  case (Cons x xs)
  have "length (filter Q xs) \<le> length (filter P xs)" for xs
    using Cons.prems(1) by (induction xs) (auto intro: le_SucI)
  then show ?case using Cons by (cases "y = x") (auto intro: le_imp_less_Suc less_SucI)
qed simp

lemma nodes_after_less: "before p q \<Longrightarrow> dom_at d q \<noteq> None \<Longrightarrow> nodes_after d q < nodes_after d p"
  unfolding nodes_after_def
  by (rule filter_length_less[of _ _ q]) (auto simp: paths_iff intro: before_trans)

subsection \<open>Changing a node\<close>

lemma dom_at_update_same: "dom_at d p = Some e \<Longrightarrow> dom_at (dom_update f p d) p = Some (f e)"
proof (induction p arbitrary: d)
  case (Cons i p)
  then show ?case by (cases d) (auto split: if_splits)
qed simp

lemma set_display_simps [simp]:
  "dom_kids (set_display v d) = dom_kids d" "nd_name (dom_node (set_display v d)) = nd_name (dom_node d)"
  "nd_attrs (dom_node (set_display v d)) = nd_attrs (dom_node d)" "nd_display (dom_node (set_display v d)) = v"
  "nd_html (dom_node (set_display v d)) = nd_html (dom_node d)"
  by (simp_all add: set_display_def split: dom.splits)

text \<open>Setting a style changes no structure and no attribute.\<close>

definition same_but_display :: "dom \<Rightarrow> dom \<Rightarrow> bool" where
  "same_but_display d d' \<longleftrightarrow> (\<forall>p. case dom_at d p of None \<Rightarrow> dom_at d' p = None
     | Some e \<Rightarrow> (\<exists>e'. dom_at d' p = Some e' \<and> nd_name (dom_node e') = nd_name (dom_node e)
         \<and> nd_attrs (dom_node e') = nd_attrs (dom_node e) \<and> nd_html (dom_node e') = nd_html (dom_node e)))"

end
