(* ===== verification/Search_Box.thy ===== *)
theory Search_Box
  imports JS_Strings
begin

text \<open>
  The search panel, class \<^verbatim>\<open>SearchBox\<close> of \<^verbatim>\<open>docs/*/html/search/search.js\<close>, with the part of
  the page it works on: the search field, the window with the search filters, the window with
  the results and its frame, the close button and the timers.

  The markup of \<^verbatim>\<open>menu.js\<close> calls \<open>OnSearchFieldFocus\<close> when the field gains or loses the focus;
  \<open>focus\<close> and \<open>blur\<close> therefore do so here. The sizes and positions the browser has laid out are
  part of the state.
\<close>

subsection \<open>Positions on the page\<close>

datatype item = Item (offsetWidth: int) (offsetHeight: int) (offsetLeft: int) (offsetTop: int)
  (is_body: bool) (offsetParent: "item option")

fun xpos_loop :: "int \<Rightarrow> item \<Rightarrow> int" where
  "xpos_loop x (Item w h l t body parent) =
     (if body then x else (case parent of None \<Rightarrow> x + l | Some q \<Rightarrow> xpos_loop (x + l) q))"

definition getXPos :: "item \<Rightarrow> int" where
  "getXPos i = (if offsetWidth i \<noteq> 0 then xpos_loop 0 i else 0)"

fun ypos_loop :: "int \<Rightarrow> item \<Rightarrow> int" where
  "ypos_loop y (Item w h l t body parent) =
     (if body then y else (case parent of None \<Rightarrow> y + t | Some q \<Rightarrow> ypos_loop (y + t) q))"

definition getYPos :: "item \<Rightarrow> int" where
  "getYPos i = (if offsetWidth i \<noteq> 0 then ypos_loop 0 i else 0)"

subsection \<open>The state\<close>

text \<open>The tables of \<^verbatim>\<open>searchdata.js\<close>.\<close>

record search_index =
  indexSectionsWithContent :: "(int \<times> jstring) list"
  indexSectionNames :: "(int \<times> jstring) list"
  indexSectionLabels :: "(int \<times> jstring) list"

text \<open>
  A node of the window with the filters. A filter is a link that holds a \<open>span\<close> with the mark,
  its first child, and the label.
\<close>

record select_child =
  ch_class :: jstring
  ch_onclick :: jstring
  ch_href :: jstring
  ch_mark :: jstring
  ch_label :: jstring

datatype timer_action = RunSearch | RunCloseSelectionWindow

datatype focus = FocusNone | FocusField | FocusSelectItem nat

record search_box =
  sb_name :: jstring
  sb_resultsPath :: jstring
  sb_keyTimeout :: nat
  sb_keyTimeoutLength :: nat
  sb_closeSelectionTimeout :: nat
  sb_lastSearchValue :: jstring
  sb_lastResultsPage :: jstring
  sb_hideTimeout :: nat
  sb_searchIndex :: int
  sb_searchActive :: bool
  sb_insideFrame :: bool
  sb_searchLabel :: jstring
  sb_extension :: jstring
  pg_value :: jstring
  pg_focus :: focus
  pg_select_items :: "select_child list"
  pg_select_display :: jstring
  pg_select_left :: jstring
  pg_select_top :: jstring
  pg_select_width :: int
  pg_results_display :: jstring
  pg_results_position :: jstring
  pg_results_width :: jstring
  pg_results_left :: jstring
  pg_results_top :: jstring
  pg_popup_width :: jstring
  pg_popup_offsetWidth :: int
  pg_close_display :: jstring
  pg_box_class :: jstring
  pg_location :: jstring
  pg_messages :: "jstring list"
  pg_timers :: "(nat \<times> timer_action \<times> nat) list"
  pg_next_timer :: nat
  pg_select_item :: item
  pg_box_item :: item
  pg_clientWidth :: int

definition px :: "int \<Rightarrow> jstring" where
  "px i = num_string i @ js ''px''"

definition setTimeout :: "timer_action \<Rightarrow> nat \<Rightarrow> search_box \<Rightarrow> nat \<times> search_box" where
  "setTimeout action delay s =
     (pg_next_timer s, s\<lparr>pg_timers := pg_timers s @ [(pg_next_timer s, action, delay)],
        pg_next_timer := Suc (pg_next_timer s)\<rparr>)"

definition clearTimeout :: "nat \<Rightarrow> search_box \<Rightarrow> search_box" where
  "clearTimeout i s = s\<lparr>pg_timers := filter (\<lambda>(j, _). j \<noteq> i) (pg_timers s)\<rparr>"

text \<open>The constructor, on a page whose elements have been laid out.\<close>

definition SearchBox ::
  "jstring \<Rightarrow> jstring \<Rightarrow> bool \<Rightarrow> jstring \<Rightarrow> jstring \<Rightarrow> search_box \<Rightarrow> search_box" where
  "SearchBox name resultsPath inFrame label extension s = s\<lparr>sb_name := name, sb_resultsPath := resultsPath,
     sb_keyTimeout := 0, sb_keyTimeoutLength := 500, sb_closeSelectionTimeout := 300,
     sb_lastSearchValue := [], sb_lastResultsPage := [], sb_hideTimeout := 0, sb_searchIndex := 0,
     sb_searchActive := False, sb_insideFrame := inFrame, sb_searchLabel := label,
     sb_extension := (if extension = [] then js ''.html'' else extension)\<rparr>"

subsection \<open>Activation and focus\<close>

definition Activate :: "bool \<Rightarrow> search_box \<Rightarrow> search_box" where
  "Activate isActive s =
     (if isActive \<or> pg_results_display s = js ''block'' then
        (let s1 = s\<lparr>pg_box_class := js ''MSearchBoxActive''\<rparr> in
         if pg_value s1 = sb_searchLabel s1 then s1\<lparr>pg_value := [], sb_searchActive := True\<rparr> else s1)
      else if \<not> isActive then
        s\<lparr>pg_box_class := js ''MSearchBoxInactive'', pg_value := sb_searchLabel s, sb_searchActive := False,
          sb_lastSearchValue := [], sb_lastResultsPage := []\<rparr>
      else s)"

definition OnSearchFieldFocus :: "bool \<Rightarrow> search_box \<Rightarrow> search_box" where
  "OnSearchFieldFocus isActive s = Activate isActive s"

definition move_focus :: "focus \<Rightarrow> search_box \<Rightarrow> search_box" where
  "move_focus f s =
     (if pg_focus s = f then s
      else let s1 = (if pg_focus s = FocusField then OnSearchFieldFocus False (s\<lparr>pg_focus := FocusNone\<rparr>) else s);
               s2 = s1\<lparr>pg_focus := f\<rparr>
           in if f = FocusField then OnSearchFieldFocus True s2 else s2)"

definition blur_field :: "search_box \<Rightarrow> search_box" where
  "blur_field s = (if pg_focus s = FocusField then move_focus FocusNone s else s)"

subsection \<open>The window with the filters\<close>

definition OnSearchSelectShow :: "search_box \<Rightarrow> bool \<times> search_box" where
  "OnSearchSelectShow s =
     (let i = pg_select_item s;
          s1 = (if sb_insideFrame s then
                  (let left = getXPos i + offsetWidth i + 6; top = getYPos i + offsetHeight i;
                       s1 = s\<lparr>pg_select_display := js ''block''\<rparr>
                   in s1\<lparr>pg_select_left := px (left - pg_select_width s1), pg_select_top := px top\<rparr>)
                else
                  (let left = getXPos i; top = getYPos i + offsetHeight i in
                   s\<lparr>pg_select_display := js ''block'', pg_select_left := px left, pg_select_top := px top\<rparr>));
          s2 = (if sb_hideTimeout s1 \<noteq> 0 then (clearTimeout (sb_hideTimeout s1) s1)\<lparr>sb_hideTimeout := 0\<rparr> else s1)
      in (False, s2))"

definition OnSearchSelectHide :: "search_box \<Rightarrow> search_box" where
  "OnSearchSelectHide s =
     (let (i, s1) = setTimeout RunCloseSelectionWindow (sb_closeSelectionTimeout s) s in s1\<lparr>sb_hideTimeout := i\<rparr>)"

definition CloseSelectionWindow :: "search_box \<Rightarrow> search_box" where
  "CloseSelectionWindow s = s\<lparr>pg_select_display := js ''none''\<rparr>"

definition is_select_item :: "select_child \<Rightarrow> bool" where
  "is_select_item c \<longleftrightarrow> ch_class c = js ''SelectItem''"

fun count_items :: "nat \<Rightarrow> select_child list \<Rightarrow> nat" where
  "count_items n [] = n"
| "count_items n (c # cs) = count_items (if is_select_item c then Suc n else n) cs"

definition SelectItemCount :: "search_box \<Rightarrow> nat" where
  "SelectItemCount s = count_items 0 (pg_select_items s)"

fun mark_items :: "int \<Rightarrow> nat \<Rightarrow> select_child list \<Rightarrow> select_child list" where
  "mark_items i j [] = []"
| "mark_items i j (c # cs) =
     (if is_select_item c
      then c\<lparr>ch_mark := if int j = i then js ''&#8226;'' else js ''&#160;''\<rparr> # mark_items i (Suc j) cs
      else c # mark_items i j cs)"

definition SelectItemSet :: "int \<Rightarrow> search_box \<Rightarrow> search_box" where
  "SelectItemSet i s = s\<lparr>pg_select_items := mark_items i 0 (pg_select_items s)\<rparr>"

subsection \<open>Searching\<close>

text \<open>
  A string that is compared with the number 1 is converted to a number first; only decimal
  digits are modelled, and everything else compares as false.
\<close>

definition above_one :: "jstring \<Rightarrow> bool" where
  "above_one s \<longleftrightarrow> s \<noteq> [] \<and> list_all (\<lambda>c. 48 \<le> c \<and> c \<le> 57) s \<and> 1 < string_number 10 s"

definition index_char :: "jstring \<Rightarrow> jstring" where
  "index_char searchValue =
     (let idxChar = toLowerCase (take 1 searchValue) in
      case toLowerCase searchValue of
        [] \<Rightarrow> idxChar
      | code # _ \<Rightarrow> if 0xD800 \<le> code \<and> code \<le> 0xDBFF \<and> above_one searchValue then take 2 searchValue else idxChar)"

text \<open>The page with the results, the page with the query, or an exception.\<close>

definition results_page :: "search_index \<Rightarrow> search_box \<Rightarrow> jstring \<Rightarrow> (jstring \<times> jstring \<times> bool) result" where
  "results_page ix s searchValue =
     res_bind (not_null (map_of (indexSectionsWithContent ix) (sb_searchIndex s))) (\<lambda>content.
       let idx = indexOf content (index_char searchValue) in
       if idx \<noteq> -1 then
         (let hexCode = to_string 16 (nat idx);
              section = (case map_of (indexSectionNames ix) (sb_searchIndex s) of None \<Rightarrow> js ''undefined'' | Some n \<Rightarrow> n);
              page = sb_resultsPath s @ js ''/'' @ section @ js ''_'' @ hexCode @ sb_extension s
          in Inr (page, page @ js ''?'' @ escape searchValue, True))
       else
         (let page = sb_resultsPath s @ js ''/nomatches'' @ sb_extension s in Inr (page, page, False)))"

definition show_results :: "search_box \<Rightarrow> search_box" where
  "show_results s =
     (if pg_results_display s \<noteq> js ''block'' then
        (let s1 = s\<lparr>pg_close_display := js ''inline-block''\<rparr> in
         if sb_insideFrame s1 then
           (let width = px (pg_clientWidth s1 - 8) in
            s1\<lparr>pg_results_position := js ''relative'', pg_results_display := js ''block'',
              pg_results_width := width, pg_popup_width := width\<rparr>)
         else
           (let left = getXPos (pg_box_item s1) + 150; top = getYPos (pg_box_item s1) + 20;
                s2 = s1\<lparr>pg_results_display := js ''block''\<rparr>
            in s2\<lparr>pg_results_top := px top, pg_results_left := px (left - pg_popup_offsetWidth s2)\<rparr>))
      else s)"

text \<open>An operation that can throw returns the exception and the state it leaves.\<close>

definition Search :: "search_index \<Rightarrow> search_box \<Rightarrow> js_error option \<times> search_box" where
  "Search ix s0 =
     (let s = s0\<lparr>sb_keyTimeout := 0\<rparr>;
          searchValue = strip_leading (pg_value s)
      in case results_page ix s searchValue of
           Inl e \<Rightarrow> (Some e, s)
         | Inr (resultsPage, resultsPageWithSearch, hasResultsPage) \<Rightarrow>
             (None, (show_results (s\<lparr>pg_location := resultsPageWithSearch\<rparr>))
                      \<lparr>sb_lastSearchValue := searchValue, sb_lastResultsPage := resultsPage\<rparr>))"

definition OnSelectItem :: "search_index \<Rightarrow> int \<Rightarrow> search_box \<Rightarrow> js_error option \<times> search_box" where
  "OnSelectItem ix i s =
     (let s1 = SelectItemSet i (s\<lparr>sb_searchIndex := i\<rparr>);
          searchValue = remove_spaces (pg_value s1)
      in if searchValue \<noteq> [] \<and> sb_searchActive s1 then Search ix s1 else (None, s1))"

definition CloseResultsWindow :: "search_box \<Rightarrow> search_box" where
  "CloseResultsWindow s = Activate False (s\<lparr>pg_results_display := js ''none'', pg_close_display := js ''none''\<rparr>)"

record key_event =
  keyCode :: nat
  shiftKey :: bool

fun first_select_item :: "nat \<Rightarrow> select_child list \<Rightarrow> nat option" where
  "first_select_item i [] = None"
| "first_select_item i (c # cs) = (if is_select_item c then Some i else first_select_item (Suc i) cs)"

text \<open>The end of \<open>OnSearchFieldChange\<close>: the value without its spaces decides.\<close>

definition field_changed :: "search_box \<Rightarrow> search_box" where
  "field_changed s =
     (let searchValue = remove_spaces (pg_value s) in
      if searchValue \<noteq> sb_lastSearchValue s then
        if searchValue \<noteq> [] then
          (let (i, s1) = setTimeout RunSearch (sb_keyTimeoutLength s) s in s1\<lparr>sb_keyTimeout := i\<rparr>)
        else s\<lparr>pg_results_display := js ''none'', pg_close_display := js ''none'', sb_lastSearchValue := []\<rparr>
      else s)"

definition OnSearchFieldChange :: "key_event \<Rightarrow> search_box \<Rightarrow> search_box" where
  "OnSearchFieldChange e s0 =
     (let s = (if sb_keyTimeout s0 \<noteq> 0 then (clearTimeout (sb_keyTimeout s0) s0)\<lparr>sb_keyTimeout := 0\<rparr> else s0) in
      if keyCode e = 40 \<or> keyCode e = 13 then
        if shiftKey e then
          (let s1 = snd (OnSearchSelectShow s) in
           case first_select_item 0 (pg_select_items s1) of
             None \<Rightarrow> s1
           | Some i \<Rightarrow> move_focus (FocusSelectItem i) s1)
        else field_changed (s\<lparr>pg_messages := pg_messages s @ [js ''take_focus'']\<rparr>)
      else if keyCode e = 27 then
        Activate False ((blur_field s)\<lparr>pg_results_display := js ''none'', pg_close_display := js ''none'',
          sb_lastSearchValue := []\<rparr>)
      else field_changed s)"

definition OnSearchSelectKey :: "search_index \<Rightarrow> key_event \<Rightarrow> search_box \<Rightarrow> js_error option \<times> search_box" where
  "OnSearchSelectKey ix e s =
     (if keyCode e = 40 \<and> sb_searchIndex s < int (SelectItemCount s) then
        (let s1 = s\<lparr>sb_searchIndex := sb_searchIndex s + 1\<rparr> in OnSelectItem ix (sb_searchIndex s1) s1)
      else if keyCode e = 38 \<and> sb_searchIndex s > 0 then
        (let s1 = s\<lparr>sb_searchIndex := sb_searchIndex s - 1\<rparr> in OnSelectItem ix (sb_searchIndex s1) s1)
      else if keyCode e = 13 \<or> keyCode e = 27 then
        (case OnSelectItem ix (sb_searchIndex s) s of
           (Some err, s1) \<Rightarrow> (Some err, s1)
         | (None, s1) \<Rightarrow> (None, move_focus FocusField (CloseSelectionWindow s1)))
      else (None, s))"

definition filter_link :: "int \<Rightarrow> jstring \<Rightarrow> select_child" where
  "filter_link key label = \<lparr>ch_class = js ''SelectItem'',
     ch_onclick = js ''searchBox.OnSelectItem('' @ num_string key @ js '')'', ch_href = js ''javascript:void(0)'',
     ch_mark = js ''&#160;'', ch_label = label\<rparr>"

fun append_links :: "(int \<times> jstring) list \<Rightarrow> search_box \<Rightarrow> search_box" where
  "append_links [] s = s"
| "append_links ((key, label) # ls) s = append_links ls (s\<lparr>pg_select_items := pg_select_items s @ [filter_link key label]\<rparr>)"

definition init_search :: "search_index \<Rightarrow> search_box \<Rightarrow> js_error option \<times> search_box" where
  "init_search ix s = OnSelectItem ix 0 (append_links (indexSectionLabels ix) s)"

subsection \<open>What the user and the timers do\<close>

text \<open>A timer fires at most once.\<close>

definition fire :: "search_index \<Rightarrow> nat \<Rightarrow> timer_action \<Rightarrow> search_box \<Rightarrow> js_error option \<times> search_box" where
  "fire ix i action s =
     (let s1 = s\<lparr>pg_timers := filter (\<lambda>(j, _). j \<noteq> i) (pg_timers s)\<rparr> in
      case action of RunSearch \<Rightarrow> Search ix s1 | RunCloseSelectionWindow \<Rightarrow> (None, CloseSelectionWindow s1))"

inductive sb_step :: "search_index \<Rightarrow> search_box \<Rightarrow> search_box \<Rightarrow> bool" for ix where
  type_key: "sb_step ix s (OnSearchFieldChange e (s\<lparr>pg_value := v\<rparr>))"
| focus_field: "sb_step ix s (move_focus FocusField s)"
| leave_field: "sb_step ix s (move_focus FocusNone s)"
| show_filters: "sb_step ix s (snd (OnSearchSelectShow s))"
| hide_filters: "sb_step ix s (OnSearchSelectHide s)"
| select_item: "sb_step ix s (snd (OnSelectItem ix i s))"
| select_key: "sb_step ix s (snd (OnSearchSelectKey ix e s))"
| close_results: "sb_step ix s (CloseResultsWindow s)"
| timer: "(i, action, d) \<in> set (pg_timers s) \<Longrightarrow> sb_step ix s (snd (fire ix i action s))"

inductive sb_run :: "search_index \<Rightarrow> search_box \<Rightarrow> search_box \<Rightarrow> bool" for ix where
  run_refl: "sb_run ix s s"
| run_step: "sb_run ix s t \<Longrightarrow> sb_step ix t u \<Longrightarrow> sb_run ix s u"

end
