(* ===== verification/Search_Results.thy ===== *)
theory Search_Results
  imports Search_Id Dom Search_Box
begin

text \<open>
  The page with the search results, class \<^verbatim>\<open>SearchResults\<close> and the functions that build the
  page in \<^verbatim>\<open>docs/*/html/search/search.js\<close>: the rows are made from the entries of the page's
  data file, a search hides and shows rows, and the keys move the focus between them.
\<close>

subsection \<open>The entries and the rows\<close>

text \<open>
  An entry \<open>[id, [name, [href, flag, scope], ...]]\<close> of \<open>searchData\<close>. The flag says that the link
  opens in the parent window.
\<close>

type_synonym target = "jstring \<times> nat \<times> jstring"
type_synonym entry = "jstring \<times> jstring \<times> target list"

definition setKeyActions :: "jstring \<Rightarrow> dom \<Rightarrow> dom" where
  "setKeyActions action elem = setAttribute (js ''onkeyup'') action
     (setAttribute (js ''onkeypress'') action (setAttribute (js ''onkeydown'') action elem))"

definition setClassAttr :: "jstring \<Rightarrow> dom \<Rightarrow> dom" where
  "setClassAttr attr elem = setAttribute (js ''className'') attr (setAttribute (js ''class'') attr elem)"

definition nat_string :: "nat \<Rightarrow> jstring" where
  "nat_string n = to_string 10 n"

definition link_target :: "nat \<Rightarrow> dom \<Rightarrow> dom" where
  "link_target flag link = (if flag \<noteq> 0 then setAttribute (js ''target'') (js ''_parent'') link else link)"

text \<open>One child link for each target of an entry with several.\<close>

definition child_link :: "nat \<Rightarrow> nat \<Rightarrow> target \<Rightarrow> dom" where
  "child_link e c t = (case t of (href, flag, scope) \<Rightarrow>
     setInnerHTML scope (link_target flag (setAttribute (js ''href'') href
       (setClassAttr (js ''SRScope'')
         (setKeyActions (js ''return searchResults.NavChild(event,'' @ nat_string e @ js '','' @ nat_string c @ js '')'')
           (setAttribute (js ''id'') (js ''Item'' @ nat_string e @ js ''_c'' @ nat_string c)
             (createElement (js ''a'')))))))) "

fun child_links :: "nat \<Rightarrow> nat \<Rightarrow> target list \<Rightarrow> dom \<Rightarrow> dom" where
  "child_links e c [] srChildren = srChildren"
| "child_links e c (t # ts) srChildren = child_links e (Suc c) ts (appendChild (child_link e c t) srChildren)"

text \<open>The body of the loop of \<open>createResults\<close>; an entry without targets gets an empty list of children.\<close>

definition result_row :: "nat \<Rightarrow> entry \<Rightarrow> dom" where
  "result_row e entry = (case entry of (i, name, targets) \<Rightarrow>
     let srResult = setClassAttr (js ''SRResult'') (setAttribute (js ''id'') (js ''SR_'' @ i) (createElement (js ''div'')));
         srEntry = setClassAttr (js ''SREntry'') (createElement (js ''div''));
         srLink = setInnerHTML name (setClassAttr (js ''SRSymbol'')
           (setKeyActions (js ''return searchResults.Nav(event,'' @ nat_string e @ js '')'')
             (setAttribute (js ''id'') (js ''Item'' @ nat_string e) (createElement (js ''a'')))))
     in (case targets of
           [(href, flag, scope)] \<Rightarrow>
             let srLink = link_target flag (setAttribute (js ''href'') href srLink);
                 srScope = setInnerHTML scope (setClassAttr (js ''SRScope'') (createElement (js ''span'')))
             in appendChild (appendChild srScope (appendChild srLink srEntry)) srResult
         | _ \<Rightarrow>
             let srLink = setAttribute (js ''href'') (js ''javascript:searchResults.Toggle(\"SR_'' @ i @ js ''\")'') srLink;
                 srChildren = child_links e 0 targets (setClassAttr (js ''SRChildren'') (createElement (js ''div'')))
             in appendChild (appendChild srChildren (appendChild srLink srEntry)) srResult))"

fun append_rows :: "nat \<Rightarrow> entry list \<Rightarrow> dom \<Rightarrow> dom" where
  "append_rows e [] results = results"
| "append_rows e (x # xs) results = append_rows (Suc e) xs (appendChild (result_row e x) results)"

definition createResults :: "entry list \<Rightarrow> dom \<Rightarrow> dom result" where
  "createResults searchData d =
     res_bind (not_null (getElementById d (js ''SRResults''))) (\<lambda>p.
       Inr (dom_update (append_rows 0 searchData) p d))"

text \<open>The body of a page of results before its scripts run.\<close>

definition status_div :: "string \<Rightarrow> string \<Rightarrow> dom" where
  "status_div i t = appendChild (text_node (js t)) (setAttribute (js ''id'') (js i)
     (setAttribute (js ''class'') (js ''SRStatus'') (createElement (js ''div''))))"

definition results_body :: dom where
  "results_body = Elem (dom_node (setAttribute (js ''class'') (js ''SRPage'') (createElement (js ''body''))))
     [Elem (dom_node (setAttribute (js ''id'') (js ''SRIndex'') (createElement (js ''div''))))
        [status_div ''Loading'' ''Loading...'',
         setAttribute (js ''id'') (js ''SRResults'') (createElement (js ''div'')),
         status_div ''Searching'' ''Searching...'',
         status_div ''NoMatches'' ''No Matches'']]"

subsection \<open>The state\<close>

datatype row_focus = RowFocusNone | RowFocus path | ParentField

text \<open>The object, the document of the frame with its focus and query, and the search panel of the parent.\<close>

record results_state =
  rs_lastMatchCount :: nat
  rs_lastKey :: nat
  rs_repeatOn :: bool
  rs_doc :: dom
  rs_focus :: row_focus
  rs_location_search :: jstring
  rs_parent :: search_box

definition SearchResults :: "dom \<Rightarrow> jstring \<Rightarrow> search_box \<Rightarrow> results_state" where
  "SearchResults d query parent = \<lparr>rs_lastMatchCount = 0, rs_lastKey = 0, rs_repeatOn = False, rs_doc = d,
     rs_focus = RowFocusNone, rs_location_search = query, rs_parent = parent\<rparr>"

definition display_at :: "dom \<Rightarrow> path \<Rightarrow> jstring" where
  "display_at d p = (case node_at d p of None \<Rightarrow> [] | Some n \<Rightarrow> nd_display n)"

definition displayed :: "dom \<Rightarrow> path \<Rightarrow> bool" where
  "displayed d p \<longleftrightarrow> display_at d p = js ''block''"

subsection \<open>The children of a row\<close>

definition is_div :: "dom \<Rightarrow> path \<Rightarrow> bool" where
  "is_div d p = (case node_at d p of None \<Rightarrow> False | Some n \<Rightarrow> nd_name n = js ''div'')"

definition is_children_div :: "dom \<Rightarrow> path \<Rightarrow> bool" where
  "is_children_div d p = (case node_at d p of None \<Rightarrow> False
     | Some n \<Rightarrow> nd_name n = js ''div'' \<and> className n = js ''SRChildren'')"

text \<open>
  The inner loop: up to the closest ancestor that has a next sibling, but not beyond the
  element whose children are searched.
\<close>

function climb :: "dom \<Rightarrow> path \<Rightarrow> path \<Rightarrow> path option" where
  "climb d parentElement p =
     (case parentNode p of
        None \<Rightarrow> None
      | Some q \<Rightarrow> if q \<noteq> parentElement \<and> nextSibling d q = None then climb d parentElement q else Some q)"
  by pat_completeness auto
termination
  by (relation "measure (\<lambda>(d, r, p). length p)") (auto simp: parentNode_def split: if_splits)

declare climb.simps [simp del]

definition next_element :: "dom \<Rightarrow> path \<Rightarrow> path \<Rightarrow> path option" where
  "next_element d parentElement p =
     (if is_div d p \<and> hasChildNodes d p then firstChild d p
      else case nextSibling d p of
        Some q \<Rightarrow> Some q
      | None \<Rightarrow>
          (case climb d parentElement p of
             None \<Rightarrow> None
           | Some q \<Rightarrow> if q \<noteq> parentElement then nextSibling d q else Some q))"

lemma nextSibling_before: "nextSibling d p = Some q \<Longrightarrow> before p q \<and> dom_at d q \<noteq> None"
proof -
  assume a: "nextSibling d p = Some q"
  then have "p \<noteq> []" "q = butlast p @ [Suc (last p)]" "dom_at d q \<noteq> None"
    by (auto simp: nextSibling_def Let_def split: if_splits)
  moreover have "before (butlast p @ [last p]) (butlast p @ [Suc (last p)])"
    using before_sibling[of "last p" "Suc (last p)" "butlast p" "[]" "[]"] by simp
  ultimately show ?thesis by simp
qed

lemma climb_prefix: "climb d r p = Some q \<Longrightarrow> (\<exists>i t. p = q @ i # t) \<and> (q = r \<or> nextSibling d q \<noteq> None)"
proof (induction d r p rule: climb.induct)
  case (1 d r p)
  show ?case
  proof (cases "p = []")
    case True
    then show ?thesis using "1.prems" by (simp add: climb.simps[of d r "[]"] parentNode_def)
  next
    case False
    then have p: "p = butlast p @ [last p]" by simp
    show ?thesis
    proof (cases "butlast p \<noteq> r \<and> nextSibling d (butlast p) = None")
      case True
      then have "climb d r (butlast p) = Some q"
        using "1.prems" False by (simp add: climb.simps[of d r p] parentNode_def)
      with "1.IH"[of "butlast p"] True False obtain i t where
        "butlast p = q @ i # t" "q = r \<or> nextSibling d q \<noteq> None" by (auto simp: parentNode_def)
      then show ?thesis using p by (metis append.assoc append_Cons)
    next
      case no: False
      then have "q = butlast p" using "1.prems" False by (auto simp: climb.simps[of d r p] parentNode_def)
      then show ?thesis using no p by (metis append_Cons)
    qed
  qed
qed

lemma nextSibling_before_child: "nextSibling d q = Some q' \<Longrightarrow> before (q @ i # t) q'"
proof -
  assume a: "nextSibling d q = Some q'"
  then have "q \<noteq> []" "q' = butlast q @ [Suc (last q)]" by (auto simp: nextSibling_def Let_def split: if_splits)
  then show ?thesis
    using before_sibling[of "last q" "Suc (last q)" "butlast q" "i # t" "[]"]
    by (metis append.assoc append_Cons append_butlast_last_id append_Nil lessI)
qed

lemma next_element_later:
  assumes "next_element d r p = Some q" "q \<noteq> r"
  shows "nodes_after d q < nodes_after d p"
proof (cases "is_div d p \<and> hasChildNodes d p")
  case True
  then have "q = p @ [0]" "dom_at d q \<noteq> None"
    using assms(1) by (auto simp: next_element_def hasChildNodes_def firstChild_def)
  then show ?thesis using before_kid[of p 0] nodes_after_less by simp
next
  case False
  show ?thesis
  proof (cases "nextSibling d p")
    case None
    with False assms obtain q0 where q0: "climb d r p = Some q0" "nextSibling d q0 = Some q"
      by (auto simp: next_element_def split: option.splits if_splits)
    with climb_prefix[OF q0(1)] nextSibling_before_child[OF q0(2)] nextSibling_before[OF q0(2)]
    show ?thesis using nodes_after_less by blast
  next
    case (Some q1)
    with False assms(1) have "q = q1" by (auto simp: next_element_def)
    with Some nextSibling_before[of d p q] show ?thesis using nodes_after_less by blast
  qed
qed

function find_loop :: "dom \<Rightarrow> path \<Rightarrow> path \<Rightarrow> path option" where
  "find_loop d parentElement element =
     (if element = parentElement then None
      else if is_children_div d element then Some element
      else case next_element d parentElement element of
        None \<Rightarrow> None
      | Some q \<Rightarrow> if q = parentElement then None else find_loop d parentElement q)"
  by pat_completeness auto
termination
  by (relation "measure (\<lambda>(d, r, p). nodes_after d p)") (auto intro: next_element_later)

declare find_loop.simps [simp del]

definition FindChildElement :: "dom \<Rightarrow> jstring \<Rightarrow> path option result" where
  "FindChildElement d i =
     res_bind (not_null (getElementById d i)) (\<lambda>parentElement.
       Inr (case firstChild d parentElement of None \<Rightarrow> None | Some e \<Rightarrow> find_loop d parentElement e))"

definition set_display_at :: "dom \<Rightarrow> path \<Rightarrow> jstring \<Rightarrow> dom" where
  "set_display_at d p v = dom_update (set_display v) p d"

definition Toggle :: "jstring \<Rightarrow> dom \<Rightarrow> dom result" where
  "Toggle i d =
     res_bind (FindChildElement d i) (\<lambda>element. Inr (case element of
         None \<Rightarrow> d
       | Some p \<Rightarrow> set_display_at d p (if displayed d p then js ''none'' else js ''block'')))"

subsection \<open>Searching\<close>

text \<open>The loop over the elements with the tag \<open>div\<close>: the document and the number of matches.\<close>

fun search_rows :: "jstring \<Rightarrow> path list \<Rightarrow> dom \<Rightarrow> nat \<Rightarrow> dom \<times> nat" where
  "search_rows search [] d matches = (d, matches)"
| "search_rows search (p # ps) d matches =
     (case node_at d p of
        None \<Rightarrow> search_rows search ps d matches
      | Some row \<Rightarrow>
          if className row = js ''SRResult'' then
            if row_matches search (node_id row)
            then search_rows search ps (set_display_at d p (js ''block'')) (Suc matches)
            else search_rows search ps (set_display_at d p (js ''none'')) matches
          else search_rows search ps d matches)"

text \<open>The word the argument or, without one, the query of the page asks for.\<close>

definition asked_word :: "jstring \<Rightarrow> results_state \<Rightarrow> jstring" where
  "asked_word search s = (if search = [] then unescape (drop 1 (rs_location_search s)) else search)"

definition SearchResults_Search :: "jstring \<Rightarrow> results_state \<Rightarrow> (bool \<times> results_state) result" where
  "SearchResults_Search search s =
     (let word = search_word (asked_word search s);
          (d, matches) = search_rows word (getElementsByTagName (rs_doc s) (js ''div'')) (rs_doc s) 0
      in res_bind (not_null (getElementById d (js ''Searching''))) (\<lambda>p.
           let d1 = set_display_at d p (js ''none'') in
           res_bind (not_null (getElementById d1 (js ''NoMatches''))) (\<lambda>q.
             let d2 = set_display_at d1 q (if matches = 0 then js ''block'' else js ''none'')
             in Inr (True, s\<lparr>rs_doc := d2, rs_lastMatchCount := matches\<rparr>))))"

subsection \<open>Moving the focus\<close>

definition item_id :: "int \<Rightarrow> jstring" where
  "item_id i = js ''Item'' @ num_string i"

definition child_id :: "int \<Rightarrow> nat \<Rightarrow> jstring" where
  "child_id i n = js ''Item'' @ num_string i @ js ''_c'' @ nat_string n"

definition row_of :: "path \<Rightarrow> path option" where
  "row_of p = (case parentNode p of None \<Rightarrow> None | Some q \<Rightarrow> parentNode q)"

lemma getElementById_at:
  "getElementById d v = Some p \<Longrightarrow> p \<in> set (paths d) \<and> (\<exists>n. node_at d p = Some n \<and> getAttribute n (js ''id'') = Some v)"
  by (auto simp: getElementById_def find_Some_iff split: option.splits)

text \<open>Only finitely many identifiers occur in a document, which is why the loops end.\<close>

lemma finite_ids: "inj f \<Longrightarrow> finite {j. getElementById d (f j) \<noteq> None}"
proof (rule finite_surj)
  assume inj: "inj f"
  show "finite (set (paths d))" by simp
  show "{j. getElementById d (f j) \<noteq> None}
    \<subseteq> (\<lambda>p. inv f (the (getAttribute (the (node_at d p)) (js ''id'')))) ` set (paths d)"
  proof
    fix j
    assume "j \<in> {j. getElementById d (f j) \<noteq> None}"
    then obtain p where "getElementById d (f j) = Some p" by blast
    with getElementById_at[OF this] inj
    show "j \<in> (\<lambda>p. inv f (the (getAttribute (the (node_at d p)) (js ''id'')))) ` set (paths d)"
      by (intro image_eqI[of _ _ p]) auto
  qed
qed

lemma inj_item_id: "inj item_id"
  by (simp add: inj_def item_id_def num_string_inj)

lemma inj_child_id: "inj (child_id i)"
  by (simp add: inj_def child_id_def nat_string_def to_string_inj)

definition ids_from :: "dom \<Rightarrow> int \<Rightarrow> nat" where
  "ids_from d i = card {j. i \<le> j \<and> getElementById d (item_id j) \<noteq> None}"

definition ids_upto :: "dom \<Rightarrow> int \<Rightarrow> nat" where
  "ids_upto d i = card {j. j \<le> i \<and> getElementById d (item_id j) \<noteq> None}"

definition child_ids_from :: "dom \<Rightarrow> int \<Rightarrow> nat \<Rightarrow> nat" where
  "child_ids_from d i n = card {j. n \<le> j \<and> getElementById d (child_id i j) \<noteq> None}"

lemma card_less_element: "finite B \<Longrightarrow> A \<subseteq> B \<Longrightarrow> x \<in> B \<Longrightarrow> x \<notin> A \<Longrightarrow> card A < card B"
  by (metis psubset_card_mono psubsetI)

lemma ids_less:
  assumes "getElementById d (item_id i) = Some p"
  shows "ids_from d (i + 1) < ids_from d i" "ids_upto d (i - 1) < ids_upto d i"
proof -
  have fin: "finite {j. P j \<and> getElementById d (item_id j) \<noteq> None}" for P
    using finite_ids[OF inj_item_id] by (rule rev_finite_subset) blast
  show "ids_from d (i + 1) < ids_from d i"
    unfolding ids_from_def by (rule card_less_element[of _ _ i]) (use assms fin in auto)
  show "ids_upto d (i - 1) < ids_upto d i"
    unfolding ids_upto_def by (rule card_less_element[of _ _ i]) (use assms fin in auto)
qed

lemma child_ids_less:
  assumes "getElementById d (child_id i n) = Some p"
  shows "child_ids_from d i (Suc n) < child_ids_from d i n"
proof -
  have fin: "finite {j. P j \<and> getElementById d (child_id i j) \<noteq> None}" for P
    using finite_ids[OF inj_child_id] by (rule rev_finite_subset) blast
  show ?thesis
    unfolding child_ids_from_def by (rule card_less_element[of _ _ n]) (use assms fin in auto)
qed

function NavNext :: "dom \<Rightarrow> int \<Rightarrow> path option result" where
  "NavNext d index =
     (case getElementById d (item_id index) of
        None \<Rightarrow> Inr None
      | Some focusItem \<Rightarrow>
          (case row_of focusItem of
             None \<Rightarrow> Inl TypeError
           | Some row \<Rightarrow> if displayed d row then Inr (Some focusItem) else NavNext d (index + 1)))"
  by pat_completeness auto
termination
  by (relation "measure (\<lambda>(d, i). ids_from d i)") (auto intro: ids_less)

function NavPrev :: "dom \<Rightarrow> int \<Rightarrow> path option result" where
  "NavPrev d index =
     (case getElementById d (item_id index) of
        None \<Rightarrow> Inr None
      | Some focusItem \<Rightarrow>
          (case row_of focusItem of
             None \<Rightarrow> Inl TypeError
           | Some row \<Rightarrow> if displayed d row then Inr (Some focusItem) else NavPrev d (index - 1)))"
  by pat_completeness auto
termination
  by (relation "measure (\<lambda>(d, i). ids_upto d i)") (auto intro: ids_less)

declare NavNext.simps [simp del] NavPrev.simps [simp del]

datatype key_type = KeyDown | KeyPress | KeyUp

record nav_event =
  ne_type :: key_type
  ne_keyCode :: nat

definition ProcessKeys :: "nav_event \<Rightarrow> results_state \<Rightarrow> bool \<times> results_state" where
  "ProcessKeys e s =
     (case ne_type e of
        KeyDown \<Rightarrow> (let s1 = s\<lparr>rs_repeatOn := False, rs_lastKey := ne_keyCode e\<rparr> in (rs_lastKey s1 \<noteq> 0, s1))
      | KeyPress \<Rightarrow>
          if \<not> rs_repeatOn s then (False, if rs_lastKey s \<noteq> 0 then s\<lparr>rs_repeatOn := True\<rparr> else s)
          else (rs_lastKey s \<noteq> 0, s)
      | KeyUp \<Rightarrow> (False, s\<lparr>rs_lastKey := 0, rs_repeatOn := False\<rparr>))"

text \<open>The loop that looks for the last child link of the item \<open>index\<close>.\<close>

function last_child :: "dom \<Rightarrow> int \<Rightarrow> nat \<Rightarrow> path \<Rightarrow> path" where
  "last_child d index n focusItem =
     (case getElementById d (child_id index n) of
        None \<Rightarrow> focusItem
      | Some tmpElem \<Rightarrow> last_child d index (Suc n) tmpElem)"
  by pat_completeness auto
termination
  by (relation "measure (\<lambda>(d, i, n, p). child_ids_from d i n)") (auto intro: child_ids_less)

declare last_child.simps [simp del]

text \<open>The children of the row in which an item is: \<open>FindChildElement(item.parentNode.parentNode.id)\<close>.\<close>

definition children_of_item :: "dom \<Rightarrow> path \<Rightarrow> path option result" where
  "children_of_item d p =
     res_bind (not_null (row_of p)) (\<lambda>row.
     res_bind (not_null (node_at d row)) (\<lambda>n. FindChildElement d (node_id n)))"

definition shown :: "dom \<Rightarrow> path option \<Rightarrow> bool" where
  "shown d p = (case p of None \<Rightarrow> False | Some q \<Rightarrow> displayed d q)"

definition focus_on :: "path \<Rightarrow> results_state \<Rightarrow> results_state" where
  "focus_on p s = s\<lparr>rs_focus := RowFocus p\<rparr>"

definition focus_parent_field :: "results_state \<Rightarrow> results_state" where
  "focus_parent_field s = s\<lparr>rs_focus := ParentField, rs_parent := move_focus FocusField (rs_parent s)\<rparr>"

definition nav_up :: "int \<Rightarrow> results_state \<Rightarrow> results_state result" where
  "nav_up itemIndex s =
     (let d = rs_doc s; newIndex = itemIndex - 1 in
      res_bind (NavPrev d newIndex) (\<lambda>focusItem.
        case focusItem of
          None \<Rightarrow> Inr (focus_parent_field s)
        | Some p \<Rightarrow> res_bind (children_of_item d p) (\<lambda>child.
            Inr (focus_on (if shown d child then last_child d newIndex 0 p else p) s))))"

definition nav_down :: "int \<Rightarrow> results_state \<Rightarrow> results_state result" where
  "nav_down itemIndex s =
     (let d = rs_doc s; newIndex = itemIndex + 1 in
      res_bind (not_null (getElementById d (item_id itemIndex))) (\<lambda>item.
      res_bind (children_of_item d item) (\<lambda>elem.
        let focusItem = (if shown d elem then getElementById d (child_id itemIndex 0) else None) in
        res_bind (case focusItem of Some p \<Rightarrow> Inr (Some p) | None \<Rightarrow> NavNext d newIndex) (\<lambda>focusItem.
          Inr (case focusItem of None \<Rightarrow> s | Some p \<Rightarrow> focus_on p s)))))"

definition nav_open :: "int \<Rightarrow> jstring \<Rightarrow> results_state \<Rightarrow> results_state result" where
  "nav_open itemIndex v s =
     (let d = rs_doc s in
      res_bind (not_null (getElementById d (item_id itemIndex))) (\<lambda>item.
      res_bind (children_of_item d item) (\<lambda>elem.
        Inr (case elem of None \<Rightarrow> s | Some p \<Rightarrow> s\<lparr>rs_doc := set_display_at d p v\<rparr>))))"

definition nav_escape :: "results_state \<Rightarrow> results_state" where
  "nav_escape s = focus_parent_field (s\<lparr>rs_parent := CloseResultsWindow (rs_parent s)\<rparr>)"

text \<open>
  The handlers return whether the default action of the key may happen. After an exception the
  state is not modelled.
\<close>

definition Nav :: "nav_event \<Rightarrow> int \<Rightarrow> results_state \<Rightarrow> (bool \<times> results_state) result" where
  "Nav e itemIndex s0 =
     (if ne_keyCode e = 13 then Inr (True, s0)
      else
        (let (go, s) = ProcessKeys e s0; false = (\<lambda>s. (False, s)) in
         if \<not> go then Inr (False, s)
         else if rs_lastKey s = 38 then map_sum id false (nav_up itemIndex s)
         else if rs_lastKey s = 40 then map_sum id false (nav_down itemIndex s)
         else if rs_lastKey s = 39 then map_sum id false (nav_open itemIndex (js ''block'') s)
         else if rs_lastKey s = 37 then map_sum id false (nav_open itemIndex (js ''none'') s)
         else if rs_lastKey s = 27 then Inr (False, nav_escape s)
         else Inr (rs_lastKey s = 13, s)))"

definition NavChild :: "nav_event \<Rightarrow> int \<Rightarrow> nat \<Rightarrow> results_state \<Rightarrow> (bool \<times> results_state) result" where
  "NavChild e itemIndex childIndex s0 =
     (if ne_keyCode e = 13 then Inr (True, s0)
      else
        (let (go, s) = ProcessKeys e s0; d = rs_doc s in
         if \<not> go then Inr (False, s)
         else if rs_lastKey s = 38 then
           res_bind (not_null (getElementById d
               (if childIndex > 0 then child_id itemIndex (childIndex - 1) else item_id itemIndex))) (\<lambda>p.
             Inr (False, focus_on p s))
         else if rs_lastKey s = 40 then
           res_bind (case getElementById d (child_id itemIndex (childIndex + 1)) of
               Some p \<Rightarrow> Inr (Some p) | None \<Rightarrow> NavNext d (itemIndex + 1)) (\<lambda>elem.
             Inr (False, case elem of None \<Rightarrow> s | Some p \<Rightarrow> focus_on p s))
         else if rs_lastKey s = 27 then Inr (False, nav_escape s)
         else Inr (rs_lastKey s = 13, s)))"

end
