(* ===== verification/Search_Index.thy ===== *)
theory Search_Index
  imports Search_Results
begin

text \<open>
  The data the search works on: the shape of the generated files of \<^verbatim>\<open>docs/*/html/search\<close>, and
  what the two halves of the search need of them.

  A file \<^verbatim>\<open><section>_<n>.js\<close> sets \<open>searchData\<close>, and the page \<^verbatim>\<open><section>_<n>.html\<close> loads it. The
  theories with the data give these tables row by row as they are in the files; \<open>entry_of\<close> reads
  such a row as an entry of the results page.
\<close>

type_synonym raw_entry = "string \<times> string \<times> (string \<times> nat \<times> string) list"
type_synonym search_files = "(string \<times> raw_entry list) list"

definition entry_of :: "raw_entry \<Rightarrow> entry" where
  "entry_of r = (case r of (i, name, targets) \<Rightarrow>
     (js i, js name, map (\<lambda>(href, flag, scope). (js href, flag, js scope)) targets))"

subsection \<open>When an index is in order\<close>

text \<open>
  A row is in order for the letter \<open>c\<close> and the number \<open>n\<close> if its name begins with that letter,
  in either case, its identifier is made from the name and the number, and it leads somewhere.
\<close>

definition row_ok :: "nat \<Rightarrow> nat \<Rightarrow> raw_entry \<Rightarrow> bool" where
  "row_ok c n r = (case r of (i, name, targets) \<Rightarrow>
     name \<noteq> [] \<and> lower_unit (hd (js name)) = c \<and> list_all (\<lambda>c. c < 128) (js name)
     \<and> js i = entry_id (js name) n \<and> targets \<noteq> [])"

fun table_ok :: "nat \<Rightarrow> nat \<Rightarrow> raw_entry list \<Rightarrow> bool" where
  "table_ok c n [] = True"
| "table_ok c n (r # rs) \<longleftrightarrow> row_ok c n r \<and> table_ok c (Suc n) rs"

text \<open>The files an index promises, each with its letter, in the order of the sections.\<close>

definition section_name :: "search_index \<Rightarrow> int \<Rightarrow> jstring" where
  "section_name ix k = (case map_of (indexSectionNames ix) k of None \<Rightarrow> js ''undefined'' | Some n \<Rightarrow> n)"

definition section_file :: "search_index \<Rightarrow> int \<Rightarrow> nat \<Rightarrow> jstring" where
  "section_file ix k j = section_name ix k @ js ''_'' @ to_string 16 j"

definition expected_files :: "search_index \<Rightarrow> (jstring \<times> nat) list" where
  "expected_files ix = concat (map (\<lambda>(k, content).
     map (\<lambda>j. (section_file ix k j, content ! j)) [0..<length content]) (indexSectionsWithContent ix))"

text \<open>The rows are numbered through all the files.\<close>

fun tables_ok :: "(jstring \<times> nat) list \<Rightarrow> nat \<Rightarrow> search_files \<Rightarrow> bool" where
  "tables_ok [] n [] = True"
| "tables_ok ((f, c) # es) n ((g, t) # fs) \<longleftrightarrow>
     js g = f \<and> t \<noteq> [] \<and> table_ok c n t \<and> tables_ok es (n + length t) fs"
| "tables_ok _ n _ = False"

definition index_ok :: "search_index \<Rightarrow> search_files \<Rightarrow> bool" where
  "index_ok ix files \<longleftrightarrow> tables_ok (expected_files ix) 0 files \<and> distinct (map fst files)
     \<and> list_all (\<lambda>(k, content). distinct content) (indexSectionsWithContent ix)
     \<and> map fst (indexSectionNames ix) = map fst (indexSectionsWithContent ix)
     \<and> map fst (indexSectionLabels ix) = map int [0..<length (indexSectionsWithContent ix)]
     \<and> map fst (indexSectionsWithContent ix) = map int [0..<length (indexSectionsWithContent ix)]"

text \<open>The rows of a section, over all its files.\<close>

definition section_rows :: "search_index \<Rightarrow> search_files \<Rightarrow> int \<Rightarrow> raw_entry list" where
  "section_rows ix files k = (case map_of (indexSectionsWithContent ix) k of None \<Rightarrow> []
     | Some content \<Rightarrow> concat (map snd (filter (\<lambda>(g, _). js g \<in> set (map (section_file ix k) [0..<length content])) files)))"

subsection \<open>A check that reads characters only\<close>

text \<open>
  The same conditions on the characters of the rows, by their bits, so that tables of many rows
  are checked quickly.
\<close>

fun plain_char :: "char \<Rightarrow> bool" where
  "plain_char (Char b0 b1 b2 b3 b4 b5 b6 b7) \<longleftrightarrow> \<not> b7 \<and>
     (if b6 then (b0 \<or> b1 \<or> b2 \<or> b3 \<or> b4) \<and> \<not> (b4 \<and> b3 \<and> (b2 \<or> b1 \<and> b0))
      else b5 \<and> b4 \<and> \<not> (b3 \<and> (b2 \<or> b1)))"

fun lower_char :: "char \<Rightarrow> char" where
  "lower_char (Char b0 b1 b2 b3 b4 b5 b6 b7) =
     (if plain_char (Char b0 b1 b2 b3 b4 b5 b6 b7) then Char b0 b1 b2 b3 b4 (b5 \<or> b6) b6 b7
      else Char b0 b1 b2 b3 b4 b5 b6 b7)"

fun hex_char :: "bool \<Rightarrow> bool \<Rightarrow> bool \<Rightarrow> bool \<Rightarrow> char" where
  "hex_char b0 b1 b2 b3 =
     (if b3 \<and> (b2 \<or> b1) then Char (\<not> b0) (b1 = b0) (b2 \<and> (b1 \<or> b0)) False False True True False
      else Char b0 b1 b2 b3 True True False False)"

fun code_char :: "char \<Rightarrow> string" where
  "code_char (Char b0 b1 b2 b3 b4 b5 b6 b7) =
     (if plain_char (Char b0 b1 b2 b3 b4 b5 b6 b7) then [lower_char (Char b0 b1 b2 b3 b4 b5 b6 b7)]
      else [CHR ''_'', hex_char b4 b5 b6 b7, hex_char b0 b1 b2 b3])"

fun ascii_char :: "char \<Rightarrow> bool" where
  "ascii_char (Char b0 b1 b2 b3 b4 b5 b6 b7) \<longleftrightarrow> \<not> b7"

lemma code_char_unit: "ascii_char c \<Longrightarrow> js (code_char c) = id_unit (lower_unit (of_char c))"
  by (cases c, rename_tac b0 b1 b2 b3 b4 b5 b6 b7, case_tac b0; case_tac b1; case_tac b2; case_tac b3;
    case_tac b4; case_tac b5; case_tac b6; case_tac b7)
    (simp_all add: js_def id_unit_def id_class_def lower_unit_def digit_def of_char_def)

lemma lower_char_unit: "ascii_char c \<Longrightarrow> of_char (lower_char c) = lower_unit (of_char c)"
  by (cases c, rename_tac b0 b1 b2 b3 b4 b5 b6 b7, case_tac b0; case_tac b1; case_tac b2; case_tac b3;
    case_tac b4; case_tac b5; case_tac b6; case_tac b7)
    (simp_all add: lower_unit_def of_char_def)

lemma ascii_char_less: "ascii_char c \<Longrightarrow> of_char c < (128 :: nat)"
  by (cases c, rename_tac b0 b1 b2 b3 b4 b5 b6 b7, case_tac b0; case_tac b1; case_tac b2; case_tac b3;
    case_tac b4; case_tac b5; case_tac b6; case_tac b7)
    (simp_all add: of_char_def)

text \<open>What is left of an identifier after the code of a name.\<close>

fun strip_code :: "string \<Rightarrow> string \<Rightarrow> string option" where
  "strip_code [] i = Some i"
| "strip_code (c # cs) i = (case i of [] \<Rightarrow> None | d # i' \<Rightarrow> if c = d then strip_code cs i' else None)"

fun strip_name :: "string \<Rightarrow> string \<Rightarrow> string option" where
  "strip_name [] i = Some i"
| "strip_name (c # name) i = (if ascii_char c then
     (case strip_code (code_char c) i of None \<Rightarrow> None | Some i' \<Rightarrow> strip_name name i') else None)"

fun decimal_char :: "char \<Rightarrow> int option" where
  "decimal_char (Char b0 b1 b2 b3 b4 b5 b6 b7) =
     (if b4 \<and> b5 \<and> \<not> b6 \<and> \<not> b7 \<and> \<not> (b3 \<and> (b2 \<or> b1))
      then Some ((if b0 then 1 else 0) + (if b1 then 2 else 0) + (if b2 then 4 else 0) + (if b3 then 8 else 0))
      else None)"

fun decimal :: "int \<Rightarrow> string \<Rightarrow> int option" where
  "decimal n [] = Some n"
| "decimal n (c # s) = (case decimal_char c of None \<Rightarrow> None | Some d \<Rightarrow> decimal (n * 10 + d) s)"

fun row_check :: "char \<Rightarrow> int \<Rightarrow> raw_entry \<Rightarrow> bool" where
  "row_check c n (i, name, targets) \<longleftrightarrow>
     (case name of [] \<Rightarrow> False | a # _ \<Rightarrow> lower_char a = c)
     \<and> (case targets of [] \<Rightarrow> False | _ \<Rightarrow> True)
     \<and> (case strip_name name i of
          Some (u # d # ds) \<Rightarrow> u = CHR ''_'' \<and> (d = CHR ''0'' \<longrightarrow> ds = []) \<and> decimal 0 (d # ds) = Some n
        | _ \<Rightarrow> False)"

lemma strip_code_some: "strip_code c i = Some r \<Longrightarrow> i = c @ r"
  by (induction c i rule: strip_code.induct) (auto split: list.splits if_splits)

lemma strip_name_some: "strip_name name i = Some r \<Longrightarrow>
    js i = concat (map id_unit (toLowerCase (js name))) @ js r \<and> list_all (\<lambda>c. c < 128) (js name)"
proof (induction name i arbitrary: r rule: strip_name.induct)
  case (2 c name i)
  from "2.prems" obtain i' where c: "ascii_char c" "strip_code (code_char c) i = Some i'" "strip_name name i' = Some r"
    by (auto split: if_splits option.splits)
  from "2.IH"[OF c] strip_code_some[OF c(2)] show ?case
    by (simp add: js_Cons js_append code_char_unit[OF c(1)] ascii_char_less[OF c(1)])
qed (simp add: js_def)

lemma decimal_char_some: "decimal_char c = Some d \<Longrightarrow> 0 \<le> d \<and> d \<le> 9 \<and> of_char c = digit (nat d)"
  by (cases c, rename_tac b0 b1 b2 b3 b4 b5 b6 b7, case_tac b0; case_tac b1; case_tac b2; case_tac b3;
    case_tac b4; case_tac b5; case_tac b6; case_tac b7)
    (simp_all add: digit_def of_char_def)

lemma decimal_some: "0 \<le> m \<Longrightarrow> decimal m s = Some n \<Longrightarrow>
    list_all (\<lambda>c. \<exists>d < 10. c = digit d) (js s) \<and> nat n = foldl (\<lambda>n c. n * 10 + digit_number c) (nat m) (js s) \<and> 0 \<le> n"
proof (induction s arbitrary: m)
  case (Cons c s)
  then obtain d where d: "decimal_char c = Some d" "decimal (m * 10 + d) s = Some n" by (auto split: option.splits)
  from decimal_char_some[OF d(1)] have d': "0 \<le> d" "nat d < 10" "of_char c = digit (nat d)" by auto
  have "nat (m * 10 + d) = nat m * 10 + nat d" using Cons.prems(1) d'(1) by (simp add: nat_add_distrib nat_mult_distrib)
  with Cons.IH[OF _ d(2)] Cons.prems(1) d' show ?case by (auto simp: js_Cons)
qed (simp add: js_def)

text \<open>Digits without a leading zero are what the number they stand for is written as.\<close>

lemma to_string_string_number:
  "list_all (\<lambda>c. \<exists>d < 10. c = digit d) s \<Longrightarrow> s \<noteq> [] \<Longrightarrow> hd s = digit 0 \<longrightarrow> tl s = [] \<Longrightarrow>
   to_string 10 (string_number 10 s) = s \<and> (hd s \<noteq> digit 0 \<longrightarrow> 0 < string_number 10 s)"
proof (induction s rule: rev_induct)
  case (snoc c s)
  from snoc.prems obtain d where d: "c = digit d" "d < 10" by auto
  show ?case
  proof (cases s)
    case Nil
    then show ?thesis using d by (cases d) (auto simp: string_number_def to_string_single)
  next
    case (Cons a t)
    then have "hd s \<noteq> digit 0" "s \<noteq> []" using snoc.prems by auto
    then have s: "to_string 10 (string_number 10 s) = s" "0 < string_number 10 s" using snoc by auto
    have n: "string_number 10 (s @ [c]) = string_number 10 s * 10 + d" using d by (simp add: string_number_def)
    have "to_string 10 (string_number 10 s * 10 + d) = to_string 10 (string_number 10 s) @ [digit d]"
      using s(2) d(2) by (subst to_string_step) auto
    then show ?thesis using s n d by simp
  qed
qed simp

lemma row_check_ok:
  assumes "row_check c n r" "ascii_char c"
  shows "row_ok (of_char c) (nat n) r \<and> 0 \<le> n"
proof -
  obtain i name targets where r: "r = (i, name, targets)" by (cases r)
  from assms(1) obtain a as d ds where name: "name = a # as" "lower_char a = c" and t: "targets \<noteq> []"
    and i: "strip_name name i = Some (CHR ''_'' # d # ds)" "d = CHR ''0'' \<longrightarrow> ds = []" "decimal 0 (d # ds) = Some n"
    unfolding r by (auto split: list.splits option.splits)
  from i(1) name(1) have a: "ascii_char a" by (auto split: if_splits)
  from strip_name_some[OF i(1)] have 1: "js i = concat (map id_unit (toLowerCase (js name))) @ js (CHR ''_'' # d # ds)"
    "list_all (\<lambda>c. c < 128) (js name)" by auto
  from decimal_some[OF _ i(3)] have 2: "list_all (\<lambda>c. \<exists>d < 10. c = digit d) (js (d # ds))"
    "nat n = string_number 10 (js (d # ds))" "0 \<le> n" by (auto simp: string_number_def)
  have "hd (js (d # ds)) = digit 0 \<longrightarrow> tl (js (d # ds)) = []"
  proof
    assume "hd (js (d # ds)) = digit 0"
    then have "of_char d = (of_char (CHR ''0'') :: nat)" by (simp add: js_Cons digit_def of_char_def)
    then have "d = CHR ''0''" by (simp only: of_char_eq_iff)
    then show "tl (js (d # ds)) = []" using i(2) by (simp add: js_Cons js_def)
  qed
  from to_string_string_number[OF 2(1) _ this] have "to_string 10 (nat n) = js (d # ds)"
    by (simp add: 2(2) js_Cons)
  moreover have "list_all (\<lambda>c. c < 65536) (toLowerCase (js name))"
    using 1(2) by (intro lower_units_small) (auto simp: list_all_iff)
  ultimately have "js i = entry_id (js name) (nat n)"
    using 1(1) by (simp add: entry_id_def convertToId_units js_Cons js_def[of "[]"])
  then show ?thesis
    using 1(2) 2(3) t name lower_char_unit[OF a] by (simp add: r row_ok_def js_Cons)
qed

text \<open>Rows are checked one by one; \<open>m\<close> is the number after the last.\<close>

definition table_check :: "char \<Rightarrow> int \<Rightarrow> raw_entry list \<Rightarrow> int \<Rightarrow> bool" where
  "table_check c n t m \<longleftrightarrow> ascii_char c \<longrightarrow> 0 \<le> n \<longrightarrow> table_ok (of_char c) (nat n) t \<and> m = n + int (length t)"

lemma table_check_Nil: "n = m \<Longrightarrow> table_check c n [] m"
  by (simp add: table_check_def)

lemma table_check_Cons: "row_check c n r \<Longrightarrow> table_check c (n + 1) t m \<Longrightarrow> table_check c n (r # t) m"
  using row_check_ok[of c n r] by (auto simp: table_check_def nat_add_distrib)

lemma table_ok_append: "table_ok c n (t @ u) \<longleftrightarrow> table_ok c n t \<and> table_ok c (n + length t) u"
  by (induction t arbitrary: n) auto

lemma table_check_append: "table_check c n t m \<Longrightarrow> table_check c m u k \<Longrightarrow> table_check c n (t @ u) k"
  by (auto simp: table_check_def table_ok_append nat_add_distrib)

lemma tables_ok_Nil: "tables_ok [] n []"
  by simp

lemma tables_ok_Cons:
  "table_check ch i t k \<Longrightarrow> ascii_char ch \<and> 0 \<le> i \<and> i < k \<Longrightarrow> tables_ok es (nat k) fs \<Longrightarrow>
   tables_ok ((js g, of_char ch) # es) (nat i) ((g, t) # fs)"
  by (auto simp: table_check_def nat_add_distrib)

end
