(* ===== verification/Results_Page.thy ===== *)
theory Results_Page
  imports Search_Results
begin

text \<open>
  What the page with the results does: the document \<open>createResults\<close> builds, the rows a search
  leaves on it, and how the keys move between them.
\<close>

subsection \<open>Building elements\<close>

lemma js_eq_iff [simp]: "js s = js t \<longleftrightarrow> s = t"
  using inj_map_eq_map[of "of_char :: char \<Rightarrow> nat" s t] by (auto simp: js_def inj_on_def)

lemma js_Nil_iff [simp]: "js s = [] \<longleftrightarrow> s = []" "[] = js s \<longleftrightarrow> s = []"
  by (auto simp: js_def)

lemma dom_node_simps [simp]:
  "dom_node (setAttribute a v d) = (dom_node d)\<lparr>nd_attrs := (a, v) # filter (\<lambda>(b, _). b \<noteq> a) (nd_attrs (dom_node d))\<rparr>"
  "dom_node (setInnerHTML t d) = (dom_node d)\<lparr>nd_html := t\<rparr>"
  "dom_node (appendChild c d) = dom_node d"
  "dom_node (createElement name) = \<lparr>nd_name = name, nd_attrs = [], nd_display = [], nd_html = []\<rparr>"
  "dom_node (text_node t) = \<lparr>nd_name = js ''#text'', nd_attrs = [], nd_display = [], nd_html = t\<rparr>"
  by (simp_all add: setAttribute_def setInnerHTML_def appendChild_def createElement_def text_node_def split: dom.splits)

lemma dom_kids_simps [simp]:
  "dom_kids (setAttribute a v d) = dom_kids d" "dom_kids (setInnerHTML t d) = []"
  "dom_kids (appendChild c d) = dom_kids d @ [c]" "dom_kids (createElement name) = []"
  "dom_kids (text_node t) = []"
  by (simp_all add: setAttribute_def setInnerHTML_def appendChild_def createElement_def text_node_def split: dom.splits)

lemma map_of_filter_other: "a \<noteq> b \<Longrightarrow> map_of (filter (\<lambda>(x, _). x \<noteq> a) xs) b = map_of xs b"
  by (induction xs) auto

lemma getAttribute_simps [simp]:
  "getAttribute (n\<lparr>nd_attrs := (a, v) # filter (\<lambda>(b, _). b \<noteq> a) xs\<rparr>) b
    = (if b = a then Some v else getAttribute (n\<lparr>nd_attrs := xs\<rparr>) b)"
  "getAttribute (n\<lparr>nd_html := t\<rparr>) b = getAttribute n b"
  "getAttribute (n\<lparr>nd_display := t\<rparr>) b = getAttribute n b"
  "getAttribute (n\<lparr>nd_attrs := nd_attrs n\<rparr>) b = getAttribute n b"
  "getAttribute (n\<lparr>nd_attrs := xs, nd_html := t\<rparr>) b = getAttribute (n\<lparr>nd_attrs := xs\<rparr>) b"
  "getAttribute \<lparr>nd_name = nm, nd_attrs = [], nd_display = ds, nd_html = h\<rparr> b = None"
  "getAttribute \<lparr>nd_name = nm, nd_attrs = (a, v) # xs, nd_display = ds, nd_html = h\<rparr> b
    = (if b = a then Some v else getAttribute \<lparr>nd_name = nm, nd_attrs = xs, nd_display = ds, nd_html = h\<rparr> b)"
  by (auto simp: getAttribute_def map_of_filter_other)

lemma dom_at_Cons: "dom_at d (i # p) = (if i < length (dom_kids d) then dom_at (dom_kids d ! i) p else None)"
  by (cases d) simp

lemma node_at_simps [simp]:
  "node_at d [] = Some (dom_node d)"
  "node_at d (i # p) = (if i < length (dom_kids d) then node_at (dom_kids d ! i) p else None)"
  by (simp_all add: node_at_def dom_at_Cons)

lemma paths_node: "p \<in> set (paths d) \<longleftrightarrow> node_at d p \<noteq> None"
  by (simp add: paths_iff node_at_def)

lemma distinct_paths: "distinct (paths d)" and distinct_kid_paths: "distinct (kid_paths i cs)"
proof (induction d and i cs rule: paths_kid_paths.induct)
  case (1 n cs)
  then show ?case by (auto simp: kid_paths_iff)
next
  case (3 i c cs)
  then show ?case by (auto simp: distinct_map kid_paths_iff)
qed simp

subsection \<open>Setting styles\<close>

lemma node_at_set_display: "node_at (set_display_at d p v) q
    = (if q = p then map_option (\<lambda>n. n\<lparr>nd_display := v\<rparr>) (node_at d q) else node_at d q)"
  unfolding set_display_at_def
proof (induction p arbitrary: d q)
  case Nil
  have "dom_node (set_display v d) = (dom_node d)\<lparr>nd_display := v\<rparr>" "dom_kids (set_display v d) = dom_kids d"
    by (simp_all add: set_display_def split: dom.splits)
  then show ?case by (cases q) simp_all
next
  case (Cons i p)
  obtain n cs where d: "d = Elem n cs" by (cases d)
  show ?case
  proof (cases q)
    case Nil
    then show ?thesis using d by simp
  next
    case (Cons j q')
    then show ?thesis using d Cons.IH[of "cs ! i" q'] by (auto simp: nth_list_update)
  qed
qed

lemma paths_set_display: "paths (set_display_at d p v) = paths d"
  unfolding set_display_at_def
proof (induction p arbitrary: d)
  case Nil
  then show ?case by (cases d) (simp add: set_display_def)
next
  case (Cons i p)
  obtain n cs where d: "d = Elem n cs" by (cases d)
  have "kid_paths k (cs[i := c]) = kid_paths k cs" if "paths c = paths (cs ! i)" "i < length cs" for k c
    using that by (induction cs arbitrary: k i) (auto split: nat.splits)
  with d Cons.IH show ?case by simp
qed

lemma getElementById_set_display [simp]:
  "getElementById (set_display_at d p v) i = getElementById d i"
proof -
  have "(case node_at (set_display_at d p v) q of None \<Rightarrow> False | Some n \<Rightarrow> getAttribute n (js ''id'') = Some i)
    = (case node_at d q of None \<Rightarrow> False | Some n \<Rightarrow> getAttribute n (js ''id'') = Some i)" for q
    by (auto simp: node_at_set_display split: option.splits)
  then show ?thesis unfolding getElementById_def paths_set_display by presburger
qed

definition has_id :: "dom \<Rightarrow> path \<Rightarrow> jstring \<Rightarrow> bool" where
  "has_id d p i \<longleftrightarrow> (\<exists>n. node_at d p = Some n \<and> getAttribute n (js ''id'') = Some i)"

lemma getElementById_unique:
  assumes "has_id d p i" "\<And>q. has_id d q i \<Longrightarrow> q = p"
  shows "getElementById d i = Some p"
proof -
  have "p \<in> set (paths d)" using assms(1) by (auto simp: has_id_def paths_node)
  then obtain q where q: "getElementById d i = Some q"
    using assms(1) by (cases "getElementById d i") (auto simp: getElementById_def find_None_iff has_id_def)
  then have "has_id d q i" using getElementById_at[OF q] by (auto simp: has_id_def)
  with q assms(2) show ?thesis by simp
qed

lemma getElementById_none:
  assumes "\<And>q. \<not> has_id d q i"
  shows "getElementById d i = None"
  using assms by (auto simp: getElementById_def find_None_iff has_id_def split: option.splits)

subsection \<open>The effect of the search loop\<close>

lemma search_rows_ok:
  "distinct ps \<Longrightarrow> (\<And>p. p \<in> set ps \<Longrightarrow> node_at d p \<noteq> None) \<Longrightarrow> search_rows w ps d m = (d', m') \<Longrightarrow>
    (\<forall>q. node_at d' q = map_option (\<lambda>n. if q \<in> set ps \<and> className n = js ''SRResult''
        then n\<lparr>nd_display := if row_matches w (node_id n) then js ''block'' else js ''none''\<rparr> else n) (node_at d q))
    \<and> paths d' = paths d \<and> (\<forall>i. getElementById d' i = getElementById d i)
    \<and> m' = m + length (filter (\<lambda>p. case node_at d p of None \<Rightarrow> False
        | Some n \<Rightarrow> className n = js ''SRResult'' \<and> row_matches w (node_id n)) ps)"
proof (induction ps arbitrary: d m)
  case Nil
  then show ?case by (simp add: option.map_ident)
next
  case (Cons p ps)
  obtain n where n: "node_at d p = Some n" using Cons.prems(2) by auto
  show ?case
  proof (cases "className n = js ''SRResult''")
    case False
    then have "search_rows w ps d m = (d', m')" using Cons.prems(3) n by simp
    from Cons.IH[OF _ _ this] Cons.prems(1,2)
    have IH: "node_at d' q = map_option (\<lambda>n. if q \<in> set ps \<and> className n = js ''SRResult''
        then n\<lparr>nd_display := if row_matches w (node_id n) then js ''block'' else js ''none''\<rparr> else n) (node_at d q)"
      "paths d' = paths d" "\<And>i. getElementById d' i = getElementById d i"
      "m' = m + length (filter (\<lambda>p. case node_at d p of None \<Rightarrow> False
        | Some n \<Rightarrow> className n = js ''SRResult'' \<and> row_matches w (node_id n)) ps)" for q by auto
    show ?thesis
    proof (intro conjI allI)
      fix q
      show "node_at d' q = map_option (\<lambda>n. if q \<in> set (p # ps) \<and> className n = js ''SRResult''
        then n\<lparr>nd_display := if row_matches w (node_id n) then js ''block'' else js ''none''\<rparr> else n) (node_at d q)"
        using IH(1)[of q] n False by (cases "q = p") simp_all
    qed (use IH n False in simp_all)
  next
    case True
    define v where "v = (if row_matches w (node_id n) then js ''block'' else js ''none'')"
    define d1 where "d1 = set_display_at d p v"
    have step: "search_rows w ps d1 (if row_matches w (node_id n) then Suc m else m) = (d', m')"
      using Cons.prems(3) n True by (simp add: v_def d1_def split: if_splits)
    have d1: "node_at d1 q = (if q = p then Some (n\<lparr>nd_display := v\<rparr>) else node_at d q)" for q
      using n by (simp add: d1_def node_at_set_display)
    have same: "className (x\<lparr>nd_display := u\<rparr>) = className x" "node_id (x\<lparr>nd_display := u\<rparr>) = node_id x" for x u
      by (simp_all add: className_def node_id_def)
    have "\<And>q. q \<in> set ps \<Longrightarrow> node_at d1 q \<noteq> None" using Cons.prems(2) d1 by auto
    from Cons.IH[OF _ this step] Cons.prems(1)
    have IH: "node_at d' q = map_option (\<lambda>n. if q \<in> set ps \<and> className n = js ''SRResult''
        then n\<lparr>nd_display := if row_matches w (node_id n) then js ''block'' else js ''none''\<rparr> else n) (node_at d1 q)"
      "paths d' = paths d1" "\<And>i. getElementById d' i = getElementById d1 i"
      "m' = (if row_matches w (node_id n) then Suc m else m) + length (filter (\<lambda>p. case node_at d1 p of None \<Rightarrow> False
        | Some n \<Rightarrow> className n = js ''SRResult'' \<and> row_matches w (node_id n)) ps)" for q by auto
    have f: "filter (\<lambda>p. case node_at d1 p of None \<Rightarrow> False
        | Some n \<Rightarrow> className n = js ''SRResult'' \<and> row_matches w (node_id n)) ps
      = filter (\<lambda>p. case node_at d p of None \<Rightarrow> False
        | Some n \<Rightarrow> className n = js ''SRResult'' \<and> row_matches w (node_id n)) ps"
      using Cons.prems(1) d1 by (intro filter_cong) auto
    show ?thesis
    proof (intro conjI allI)
      fix q
      show "node_at d' q = map_option (\<lambda>n. if q \<in> set (p # ps) \<and> className n = js ''SRResult''
        then n\<lparr>nd_display := if row_matches w (node_id n) then js ''block'' else js ''none''\<rparr> else n) (node_at d q)"
        using IH(1)[of q] Cons.prems(1) n True by (cases "q = p") (simp_all add: d1 v_def)
    qed (use IH f n True in \<open>simp_all add: d1_def paths_set_display\<close>)
  qed
qed

subsection \<open>The rows of a page\<close>

lemma append_rows_kids:
  "dom_kids (append_rows e xs d) = dom_kids d @ map (\<lambda>(k, x). result_row k x) (enumerate e xs)
   \<and> dom_node (append_rows e xs d) = dom_node d"
  by (induction xs arbitrary: e d) simp_all

lemma child_links_kids:
  "dom_kids (child_links e c ts d) = dom_kids d @ map (\<lambda>(k, t). child_link e k t) (enumerate c ts)
   \<and> dom_node (child_links e c ts d) = dom_node d"
  by (induction ts arbitrary: c d) simp_all

declare node_at_simps(2) [simp del]

text \<open>The page around the element with the results.\<close>

definition page_with :: "dom \<Rightarrow> dom" where
  "page_with results = Elem (dom_node (setAttribute (js ''class'') (js ''SRPage'') (createElement (js ''body''))))
     [Elem (dom_node (setAttribute (js ''id'') (js ''SRIndex'') (createElement (js ''div''))))
        [status_div ''Loading'' ''Loading...'', results, status_div ''Searching'' ''Searching...'',
         status_div ''NoMatches'' ''No Matches'']]"

definition results_div :: dom where
  "results_div = setAttribute (js ''id'') (js ''SRResults'') (createElement (js ''div''))"

definition page_of :: "entry list \<Rightarrow> dom" where
  "page_of xs = page_with (append_rows 0 xs results_div)"

lemma results_body_page: "results_body = page_with results_div"
  by (simp add: results_body_def page_with_def results_div_def)

lemma Suc_less_cases: "i < Suc n \<longleftrightarrow> i = 0 \<or> (\<exists>j. i = Suc j \<and> j < n)"
  by (cases i) auto

lemma node_at_cases: "node_at d p = (case p of [] \<Rightarrow> Some (dom_node d)
    | i # q \<Rightarrow> if i < length (dom_kids d) then node_at (dom_kids d ! i) q else None)"
  by (cases p) (simp_all add: node_at_simps(2))

lemma status_div_node: "node_at (status_div i t) q = Some n \<Longrightarrow>
    (q = [] \<and> nd_name n = js ''div'' \<and> getAttribute n (js ''id'') = Some (js i) \<and> className n = js ''SRStatus'')
    \<or> (getAttribute n (js ''id'') = None \<and> className n = [])"
  by (cases q; cases "tl q") (auto simp: node_at_simps(2) status_div_def className_def split: if_splits)

lemma page_with_at [simp]:
  "node_at (page_with r) [0] = Some (dom_node (setAttribute (js ''id'') (js ''SRIndex'') (createElement (js ''div''))))"
  "node_at (page_with r) (0 # 0 # q) = node_at (status_div ''Loading'' ''Loading...'') q"
  "node_at (page_with r) (0 # Suc 0 # q) = node_at r q"
  "node_at (page_with r) (0 # 2 # q) = node_at (status_div ''Searching'' ''Searching...'') q"
  "node_at (page_with r) (0 # 3 # q) = node_at (status_div ''NoMatches'' ''No Matches'') q"
  by (simp_all add: page_with_def node_at_simps(2))

lemma page_with_node:
  assumes "node_at (page_with r) q = Some n"
  shows "(\<exists>t. q = 0 # 1 # t \<and> node_at r t = Some n)
    \<or> (\<exists>i. i \<in> set [''SRIndex'', ''Loading'', ''Searching'', ''NoMatches''] \<and> getAttribute n (js ''id'') = Some (js i)
        \<and> className n \<noteq> js ''SRResult'' \<and> q = (if i = ''SRIndex'' then [0] else if i = ''Loading'' then [0, 0]
            else if i = ''Searching'' then [0, 2] else [0, 3]))
    \<or> (getAttribute n (js ''id'') = None \<and> className n \<noteq> js ''SRResult'')"
proof (cases q)
  case Nil
  with assms show ?thesis by (auto simp: page_with_def className_def)
next
  case (Cons i0 q1)
  then have i0: "i0 = 0" using assms by (simp add: page_with_def node_at_simps(2) split: if_splits)
  show ?thesis
  proof (cases q1)
    case Nil
    then have "n = dom_node (setAttribute (js ''id'') (js ''SRIndex'') (createElement (js ''div'')))"
      using assms Cons i0 by simp
    with Nil Cons i0 show ?thesis
      by (intro disjI2 disjI1 exI[of _ "''SRIndex''"]) (simp add: className_def)
  next
    case q1: (Cons i t)
    have q: "q = 0 # i # t" using Cons i0 q1 by simp
    then have "i < 4" using assms by (simp add: page_with_def node_at_simps(2) split: if_splits)
    then consider "i = 0" | "i = 1" | "i = 2" | "i = 3" by linarith
    then show ?thesis
    proof cases
      case 2
      then show ?thesis using assms q by simp
    next
      case 1
      then have "node_at (status_div ''Loading'' ''Loading...'') t = Some n" using assms q by simp
      from status_div_node[OF this] show ?thesis
      proof (elim disjE conjE)
        assume "t = []" "getAttribute n (js ''id'') = Some (js ''Loading'')" "className n = js ''SRStatus''"
        then show ?thesis using q 1 by (intro disjI2 disjI1 exI[of _ "''Loading''"]) simp
      qed simp
    next
      case 3
      then have "node_at (status_div ''Searching'' ''Searching...'') t = Some n" using assms q by simp
      from status_div_node[OF this] show ?thesis
      proof (elim disjE conjE)
        assume "t = []" "getAttribute n (js ''id'') = Some (js ''Searching'')" "className n = js ''SRStatus''"
        then show ?thesis using q 3 by (intro disjI2 disjI1 exI[of _ "''Searching''"]) simp
      qed simp
    next
      case 4
      then have "node_at (status_div ''NoMatches'' ''No Matches'') t = Some n" using assms q by simp
      from status_div_node[OF this] show ?thesis
      proof (elim disjE conjE)
        assume "t = []" "getAttribute n (js ''id'') = Some (js ''NoMatches'')" "className n = js ''SRStatus''"
        then show ?thesis using q 4 by (intro disjI2 disjI1 exI[of _ "''NoMatches''"]) simp
      qed simp
    qed
  qed
qed

lemma results_div_node: "node_at results_div t = Some n \<Longrightarrow> t = [] \<and> n = dom_node results_div"
  by (cases t) (simp_all add: results_div_def node_at_simps(2))

lemma results_div_id [simp]: "getAttribute (dom_node results_div) (js ''id'') = Some (js ''SRResults'')"
  by (simp add: results_div_def)

lemma results_body_SRResults: "getElementById results_body (js ''SRResults'') = Some [0, 1]"
proof (rule getElementById_unique)
  show "has_id results_body [0, 1] (js ''SRResults'')"
    by (simp add: has_id_def results_body_page)
next
  fix q
  assume "has_id results_body q (js ''SRResults'')"
  then obtain n where n: "node_at (page_with results_div) q = Some n" "getAttribute n (js ''id'') = Some (js ''SRResults'')"
    by (auto simp: has_id_def results_body_page)
  from page_with_node[OF n(1)] n(2) show "q = [0, 1]" by (auto dest: results_div_node)
qed

lemma createResults_page: "createResults xs results_body = Inr (page_of xs)"
  by (simp add: createResults_def results_body_SRResults) (simp add: results_body_page page_of_def page_with_def)

text \<open>The nodes of a row.\<close>

definition single_target :: "entry \<Rightarrow> bool" where
  "single_target x \<longleftrightarrow> length (snd (snd x)) = 1"

lemma child_link_node: "node_at (child_link e c t) q = Some n \<Longrightarrow>
    q = [] \<and> nd_name n = js ''a'' \<and> className n = js ''SRScope''
    \<and> getAttribute n (js ''id'') = Some (js ''Item'' @ nat_string e @ js ''_c'' @ nat_string c)"
  by (cases q) (auto simp: node_at_simps(2) child_link_def link_target_def setKeyActions_def setClassAttr_def className_def split: prod.splits if_splits)

lemma getAttribute_set [simp]:
  "getAttribute (dom_node (setAttribute a v d)) b = (if b = a then Some v else getAttribute (dom_node d) b)"
  "getAttribute (dom_node (setInnerHTML t d)) b = getAttribute (dom_node d) b"
  "getAttribute (dom_node (createElement nm)) b = None"
  by (simp_all add: getAttribute_def map_of_filter_other)

lemma setClassAttr_simps [simp]:
  "getAttribute (dom_node (setClassAttr v d)) b
    = (if b = js ''class'' \<or> b = js ''className'' then Some v else getAttribute (dom_node d) b)"
  "nd_name (dom_node (setClassAttr v d)) = nd_name (dom_node d)"
  "nd_display (dom_node (setClassAttr v d)) = nd_display (dom_node d)"
  "dom_kids (setClassAttr v d) = dom_kids d"
  by (simp_all add: setClassAttr_def del: dom_node_simps(1)) simp_all

lemma setKeyActions_simps [simp]:
  "getAttribute (dom_node (setKeyActions v d)) b
    = (if b \<in> {js ''onkeyup'', js ''onkeypress'', js ''onkeydown''} then Some v else getAttribute (dom_node d) b)"
  "nd_name (dom_node (setKeyActions v d)) = nd_name (dom_node d)"
  "nd_display (dom_node (setKeyActions v d)) = nd_display (dom_node d)"
  "dom_kids (setKeyActions v d) = dom_kids d"
  by (simp_all add: setKeyActions_def del: dom_node_simps(1)) simp_all

lemma link_target_simps [simp]:
  "b \<noteq> js ''target'' \<Longrightarrow> getAttribute (dom_node (link_target f d)) b = getAttribute (dom_node d) b"
  "nd_name (dom_node (link_target f d)) = nd_name (dom_node d)"
  "nd_display (dom_node (link_target f d)) = nd_display (dom_node d)"
  "dom_kids (link_target f d) = dom_kids d"
  by (simp_all add: link_target_def del: dom_node_simps(1)) simp_all

declare dom_node_simps(1,2) [simp del]

lemma nd_name_simps [simp]:
  "nd_name (dom_node (setAttribute a v d)) = nd_name (dom_node d)"
  "nd_name (dom_node (setInnerHTML t d)) = nd_name (dom_node d)"
  "nd_display (dom_node (setAttribute a v d)) = nd_display (dom_node d)"
  "nd_display (dom_node (setInnerHTML t d)) = nd_display (dom_node d)"
  by (simp_all add: dom_node_simps)

lemma result_row_shape:
  obtains other link where
    "dom_kids (result_row e (i, name, ts)) = [appendChild other (appendChild link (setClassAttr (js ''SREntry'') (createElement (js ''div''))))]"
    "dom_kids link = []" "getAttribute (dom_node link) (js ''id'') = Some (js ''Item'' @ nat_string e)"
    "getAttribute (dom_node link) (js ''class'') = Some (js ''SRSymbol'')"
    "getAttribute (dom_node other) (js ''id'') = None"
    "getAttribute (dom_node other) (js ''class'') = Some (js (if length ts = 1 then ''SRScope'' else ''SRChildren''))"
    "nd_name (dom_node other) = js (if length ts = 1 then ''span'' else ''div'')"
    "dom_kids other = (if length ts = 1 then [] else map (\<lambda>(k, t). child_link e k t) (enumerate 0 ts))"
    "nd_display (dom_node other) = []"
proof -
  consider t where "ts = [t]" | "length ts \<noteq> 1" by (metis One_nat_def length_0_conv length_Suc_conv)
  then show ?thesis
  proof cases
    case 1
    then show ?thesis
      by (cases t) (rule that; simp add: result_row_def; fastforce)
  next
    case 2
    then have "result_row e (i, name, ts) =
      (let srResult = setClassAttr (js ''SRResult'') (setAttribute (js ''id'') (js ''SR_'' @ i) (createElement (js ''div'')));
         srEntry = setClassAttr (js ''SREntry'') (createElement (js ''div''));
         srLink = setInnerHTML name (setClassAttr (js ''SRSymbol'')
           (setKeyActions (js ''return searchResults.Nav(event,'' @ nat_string e @ js '')'')
             (setAttribute (js ''id'') (js ''Item'' @ nat_string e) (createElement (js ''a'')))));
         srLink = setAttribute (js ''href'') (js ''javascript:searchResults.Toggle(\"SR_'' @ i @ js ''\")'') srLink;
         srChildren = child_links e 0 ts (setClassAttr (js ''SRChildren'') (createElement (js ''div'')))
       in appendChild (appendChild srChildren (appendChild srLink srEntry)) srResult)"
      by (cases ts rule: remdups_adj.cases) (simp_all add: result_row_def)
    then show ?thesis
      using 2 child_links_kids[of e 0 ts "setClassAttr (js ''SRChildren'') (createElement (js ''div''))"]
      by (intro that[of "child_links e 0 ts (setClassAttr (js ''SRChildren'') (createElement (js ''div'')))"
          "setAttribute (js ''href'') (js ''javascript:searchResults.Toggle(\"SR_'' @ i @ js ''\")'')
            (setInnerHTML name (setClassAttr (js ''SRSymbol'')
           (setKeyActions (js ''return searchResults.Nav(event,'' @ nat_string e @ js '')'')
             (setAttribute (js ''id'') (js ''Item'' @ nat_string e) (createElement (js ''a''))))))"])
        (simp_all add: Let_def)
  qed
qed

lemma result_row_top [simp]:
  "getAttribute (dom_node (result_row e (i, name, ts))) (js ''id'') = Some (js ''SR_'' @ i)"
  "getAttribute (dom_node (result_row e (i, name, ts))) (js ''class'') = Some (js ''SRResult'')"
  "nd_name (dom_node (result_row e (i, name, ts))) = js ''div''"
  "nd_display (dom_node (result_row e (i, name, ts))) = []"
  by (cases ts rule: remdups_adj.cases; simp add: result_row_def split: prod.splits)+

lemma className_if: "getAttribute n (js ''class'') = Some v \<Longrightarrow> className n = v"
  by (simp add: className_def)

lemma row_node:
  assumes "node_at (result_row e (i, name, ts)) q = Some n"
  shows "(q = [] \<and> n = dom_node (result_row e (i, name, ts)))
    \<or> (q = [0, 0] \<and> getAttribute n (js ''id'') = Some (js ''Item'' @ nat_string e) \<and> className n = js ''SRSymbol'')
    \<or> (\<exists>c. q = [0, 1, c] \<and> getAttribute n (js ''id'') = Some (js ''Item'' @ nat_string e @ js ''_c'' @ nat_string c)
        \<and> className n = js ''SRScope'')
    \<or> (getAttribute n (js ''id'') = None \<and> className n \<noteq> js ''SRResult'')"
proof -
  obtain other link where shape:
    "dom_kids (result_row e (i, name, ts)) = [appendChild other (appendChild link (setClassAttr (js ''SREntry'') (createElement (js ''div''))))]"
    "dom_kids link = []" "getAttribute (dom_node link) (js ''id'') = Some (js ''Item'' @ nat_string e)"
    "getAttribute (dom_node link) (js ''class'') = Some (js ''SRSymbol'')"
    "getAttribute (dom_node other) (js ''id'') = None"
    "getAttribute (dom_node other) (js ''class'') = Some (js (if length ts = 1 then ''SRScope'' else ''SRChildren''))"
    "dom_kids other = (if length ts = 1 then [] else map (\<lambda>(k, t). child_link e k t) (enumerate 0 ts))"
    by (rule result_row_shape)
  consider "q = []" | q1 where "q = [q1]" | q1 q2 where "q = [q1, q2]"
    | q1 q2 q3 where "q = [q1, q2, q3]" | q1 q2 q3 q4 t where "q = q1 # q2 # q3 # q4 # t"
    by (metis list.exhaust)
  then show ?thesis
  proof cases
    case 1
    then show ?thesis using assms by simp
  next
    case 2
    then show ?thesis using assms shape(1) by (simp add: node_at_simps(2) className_if split: if_splits) (auto simp: className_def)
  next
    case 3
    then have "q = [0, 0] \<and> n = dom_node link \<or> q = [0, 1] \<and> n = dom_node other"
      using assms shape(1) by (auto simp: node_at_simps(2) less_Suc_eq split: if_splits)
    then show ?thesis using shape(3-6) by (cases "length ts = 1") (auto simp: className_def)
  next
    case 4
    then have "q1 = 0 \<and> (q2 = 0 \<or> q2 = 1)" using assms shape(1) by (auto simp: node_at_simps(2) less_Suc_eq split: if_splits)
    then have "q2 = 1" "q1 = 0" using assms 4 shape(1,2) by (auto simp: node_at_simps(2))
    then have o: "node_at other [q3] = Some n" using assms 4 shape(1) by (simp add: node_at_simps(2))
    then have "length ts \<noteq> 1" "q3 < length ts" using shape(7) by (auto simp: node_at_simps(2) split: if_splits)
    then have "node_at (child_link e q3 (ts ! q3)) [] = Some n"
      using o shape(7) by (simp add: node_at_simps(2) nth_enumerate_eq)
    from child_link_node[OF this] show ?thesis using 4 \<open>q2 = 1\<close> \<open>q1 = 0\<close> by auto
  next
    case 5
    then have "q1 = 0 \<and> (q2 = 0 \<or> q2 = 1)" using assms shape(1) by (auto simp: node_at_simps(2) less_Suc_eq split: if_splits)
    then have "q2 = 1" "q1 = 0" using assms 5 shape(1,2) by (auto simp: node_at_simps(2))
    then have o: "node_at other (q3 # q4 # t) = Some n" using assms 5 shape(1) by (simp add: node_at_simps(2))
    then have "length ts \<noteq> 1" "q3 < length ts" using shape(7) by (auto simp: node_at_simps(2) split: if_splits)
    then have "node_at (child_link e q3 (ts ! q3)) (q4 # t) = Some n"
      using o shape(7) by (simp add: node_at_simps(2) nth_enumerate_eq)
    from child_link_node[OF this] show ?thesis by simp
  qed
qed

lemma row_item: "node_at (result_row e x) [0, 0] \<noteq> None
    \<and> getAttribute (the (node_at (result_row e x) [0, 0])) (js ''id'') = Some (js ''Item'' @ nat_string e)"
proof (cases x)
  case (fields i name ts)
  obtain other link where
    "dom_kids (result_row e (i, name, ts)) = [appendChild other (appendChild link (setClassAttr (js ''SREntry'') (createElement (js ''div''))))]"
    "getAttribute (dom_node link) (js ''id'') = Some (js ''Item'' @ nat_string e)"
    by (rule result_row_shape)
  then show ?thesis unfolding fields by (simp add: node_at_simps(2))
qed

subsection \<open>The page\<close>

lemma page_of_kids: "dom_kids (append_rows 0 xs results_div) = map (\<lambda>(k, x). result_row k x) (enumerate 0 xs)"
  using append_rows_kids[of 0 xs results_div] by (simp add: results_div_def)

lemma page_of_row: "node_at (page_of xs) (0 # Suc 0 # e # q) = (if e < length xs then node_at (result_row e (xs ! e)) q else None)"
  unfolding page_of_def page_with_at(3)
  by (simp add: node_at_simps(2)[of "append_rows 0 xs results_div"] page_of_kids nth_enumerate_eq)

text \<open>The identifiers and the rows of the page.\<close>

lemma page_of_node:
  assumes "node_at (page_of xs) q = Some n"
  shows "(\<exists>e. e < length xs \<and> q = [0, 1, e] \<and> n = dom_node (result_row e (xs ! e)))
    \<or> (\<exists>e. e < length xs \<and> q = [0, 1, e, 0, 0] \<and> getAttribute n (js ''id'') = Some (js ''Item'' @ nat_string e)
        \<and> className n = js ''SRSymbol'')
    \<or> (\<exists>e c. e < length xs \<and> q = [0, 1, e, 0, 1, c]
        \<and> getAttribute n (js ''id'') = Some (js ''Item'' @ nat_string e @ js ''_c'' @ nat_string c)
        \<and> className n \<noteq> js ''SRResult'')
    \<or> (\<exists>i. i \<in> set [''SRIndex'', ''Loading'', ''Searching'', ''NoMatches'', ''SRResults'']
        \<and> getAttribute n (js ''id'') = Some (js i) \<and> className n \<noteq> js ''SRResult''
        \<and> q = (if i = ''SRIndex'' then [0] else if i = ''Loading'' then [0, 0] else if i = ''Searching'' then [0, 2]
            else if i = ''NoMatches'' then [0, 3] else [0, 1]))
    \<or> (getAttribute n (js ''id'') = None \<and> className n \<noteq> js ''SRResult'')"
  using page_with_node[OF assms[unfolded page_of_def]]
proof (elim disjE)
  assume "\<exists>t. q = 0 # 1 # t \<and> node_at (append_rows 0 xs results_div) t = Some n"
  then obtain t where t: "q = 0 # 1 # t" "node_at (append_rows 0 xs results_div) t = Some n" by blast
  show ?thesis
  proof (cases t)
    case Nil
    then have "n = dom_node results_div" using t(2) append_rows_kids[of 0 xs results_div] by simp
    then show ?thesis using t(1) Nil
      by (intro disjI2 disjI1 exI[of _ "''SRResults''"]) (simp add: className_def results_div_def)
  next
    case (Cons e u)
    then have e: "e < length xs" "node_at (result_row e (xs ! e)) u = Some n"
      using t(2) by (auto simp: node_at_simps(2) page_of_kids nth_enumerate_eq split: if_splits)
    obtain i name ts where x: "xs ! e = (i, name, ts)" by (cases "xs ! e")
    from row_node[OF e(2)[unfolded x]] show ?thesis
      using e(1) t(1) Cons x by auto
  qed
next
  assume "\<exists>i. i \<in> set [''SRIndex'', ''Loading'', ''Searching'', ''NoMatches''] \<and> getAttribute n (js ''id'') = Some (js i)
        \<and> className n \<noteq> js ''SRResult'' \<and> q = (if i = ''SRIndex'' then [0] else if i = ''Loading'' then [0, 0]
            else if i = ''Searching'' then [0, 2] else [0, 3])"
  then obtain i where "i \<in> set [''SRIndex'', ''Loading'', ''Searching'', ''NoMatches'']"
    "getAttribute n (js ''id'') = Some (js i) \<and> className n \<noteq> js ''SRResult''
      \<and> q = (if i = ''SRIndex'' then [0] else if i = ''Loading'' then [0, 0]
            else if i = ''Searching'' then [0, 2] else [0, 3])" by blast
  then show ?thesis by (intro disjI2 disjI1 exI[of _ i]) auto
qed blast

subsection \<open>Identifiers on the page\<close>

lemma js_Cons_eqs:
  "js (a # s) @ x = js (b # t) @ y \<longleftrightarrow> a = b \<and> js s @ x = js t @ y"
  "js (a # s) @ x = js (b # t) \<longleftrightarrow> a = b \<and> js s @ x = js t"
  "js (a # s) = js (b # t) @ y \<longleftrightarrow> a = b \<and> js s = js t @ y"
  by (auto simp: js_def)

lemma num_string_no_underscore: "95 \<notin> set (num_string i)"
  using to_string_10[of "nat i"] to_string_10[of "nat (- i)"] by (auto simp: num_string_def list_all_iff)

lemma item_id_nat: "item_id (int e) = js ''Item'' @ nat_string e"
  by (simp add: item_id_def nat_string_def)

lemma page_id_item:
  assumes "has_id (page_of xs) q (item_id i)"
  shows "\<exists>e < length xs. i = int e \<and> q = [0, 1, e, 0, 0]"
proof -
  obtain n where n: "node_at (page_of xs) q = Some n" "getAttribute n (js ''id'') = Some (item_id i)"
    using assms by (auto simp: has_id_def)
  from page_of_node[OF n(1)] show ?thesis
  proof (elim disjE exE conjE)
    fix e assume "n = dom_node (result_row e (xs ! e))"
    then show ?thesis using n(2) by (cases "xs ! e") (simp add: item_id_def js_Cons_eqs)
  next
    fix e assume e: "e < length xs" "q = [0, 1, e, 0, 0]" "getAttribute n (js ''id'') = Some (js ''Item'' @ nat_string e)"
    then have "item_id i = item_id (int e)" using n(2) by (simp add: item_id_nat)
    then show ?thesis using e inj_item_id by (auto simp: inj_def)
  next
    fix e c assume "getAttribute n (js ''id'') = Some (js ''Item'' @ nat_string e @ js ''_c'' @ nat_string c)"
    then have "num_string i = nat_string e @ js ''_c'' @ nat_string c" using n(2) by (simp add: item_id_def)
    then have "95 \<in> set (num_string i)" by (simp add: js_def)
    then show ?thesis using num_string_no_underscore by blast
  next
    fix k assume "k \<in> set [''SRIndex'', ''Loading'', ''Searching'', ''NoMatches'', ''SRResults'']"
      "getAttribute n (js ''id'') = Some (js k)"
    then show ?thesis using n(2) by (auto simp: item_id_def js_Cons_eqs)
  qed (use n(2) in simp)
qed

lemma page_has_item:
  assumes "e < length xs"
  shows "has_id (page_of xs) [0, 1, e, 0, 0] (item_id (int e))"
proof -
  obtain n where "node_at (result_row e (xs ! e)) [0, 0] = Some n"
    "getAttribute n (js ''id'') = Some (js ''Item'' @ nat_string e)"
    using row_item[of e "xs ! e"] by auto
  then show ?thesis using assms by (simp add: has_id_def page_of_row item_id_nat)
qed

lemma page_item: "getElementById (page_of xs) (item_id i)
    = (if 0 \<le> i \<and> i < int (length xs) then Some [0, 1, nat i, 0, 0] else None)"
proof (cases "0 \<le> i \<and> i < int (length xs)")
  case True
  then obtain e where e: "i = int e" "e < length xs" using zero_le_imp_eq_int by force
  have "getElementById (page_of xs) (item_id (int e)) = Some [0, 1, e, 0, 0]"
    by (rule getElementById_unique[OF page_has_item[OF e(2)]]) (auto dest: page_id_item)
  with e show ?thesis by simp
next
  case False
  then have "getElementById (page_of xs) (item_id i) = None"
    by (intro getElementById_none notI) (auto dest: page_id_item)
  with False show ?thesis by simp
qed

lemma page_static_id:
  assumes "k \<in> {''Searching'', ''NoMatches''}"
  shows "getElementById (page_of xs) (js k) = Some (if k = ''Searching'' then [0, 2] else [0, 3])"
proof (rule getElementById_unique)
  show "has_id (page_of xs) (if k = ''Searching'' then [0, 2] else [0, 3]) (js k)"
    using assms by (auto simp: has_id_def page_of_def status_div_def)
next
  fix q assume "has_id (page_of xs) q (js k)"
  then obtain n where n: "node_at (page_of xs) q = Some n" "getAttribute n (js ''id'') = Some (js k)"
    by (auto simp: has_id_def)
  from page_of_node[OF n(1)] show "q = (if k = ''Searching'' then [0, 2] else [0, 3])"
  proof (elim disjE exE conjE)
    fix e assume "n = dom_node (result_row e (xs ! e))"
    then show ?thesis using n(2) assms by (cases "xs ! e") (auto simp: js_Cons_eqs)
  next
    fix e assume "getAttribute n (js ''id'') = Some (js ''Item'' @ nat_string e)"
    then show ?thesis using n(2) assms by (auto simp: js_Cons_eqs)
  next
    fix e c assume "getAttribute n (js ''id'') = Some (js ''Item'' @ nat_string e @ js ''_c'' @ nat_string c)"
    then show ?thesis using n(2) assms by (auto simp: js_Cons_eqs)
  next
    fix k' assume "k' \<in> set [''SRIndex'', ''Loading'', ''Searching'', ''NoMatches'', ''SRResults'']"
      "getAttribute n (js ''id'') = Some (js k')"
      "q = (if k' = ''SRIndex'' then [0] else if k' = ''Loading'' then [0, 0] else if k' = ''Searching'' then [0, 2]
            else if k' = ''NoMatches'' then [0, 3] else [0, 1])"
    then show ?thesis using n(2) assms by auto
  qed (use n(2) in simp)
qed

subsection \<open>A searched page\<close>

definition entry_matches :: "jstring \<Rightarrow> entry \<Rightarrow> bool" where
  "entry_matches w x \<longleftrightarrow> row_matches w (js ''SR_'' @ fst x)"

text \<open>
  After a search for the word \<open>w\<close>: the rows that match are shown, nothing else that can be
  toggled is, and the identifiers are those of the page.
\<close>

definition searched :: "entry list \<Rightarrow> jstring \<Rightarrow> dom \<Rightarrow> bool" where
  "searched xs w d \<longleftrightarrow> (\<forall>i. getElementById d i = getElementById (page_of xs) i)
     \<and> (\<forall>q n. node_at d q = Some n \<longrightarrow> (\<exists>m. node_at (page_of xs) q = Some m \<and> nd_name n = nd_name m \<and> nd_attrs n = nd_attrs m))
     \<and> (\<forall>q. node_at d q = None \<longleftrightarrow> node_at (page_of xs) q = None)
     \<and> (\<forall>e < length xs. displayed d [0, 1, e] = entry_matches w (xs ! e))
     \<and> (\<forall>q. displayed d q \<longrightarrow> (\<exists>e < length xs. q = [0, 1, e]) \<or> q = [0, 3])"

text \<open>A fresh page has no styles of its own.\<close>

fun plain :: "dom \<Rightarrow> bool" where
  "plain (Elem n cs) \<longleftrightarrow> nd_display n = [] \<and> list_all plain cs"

lemma plain_iff: "plain d \<longleftrightarrow> nd_display (dom_node d) = [] \<and> list_all plain (dom_kids d)"
  by (cases d) simp

lemma plain_at: "plain d \<Longrightarrow> node_at d q = Some n \<Longrightarrow> nd_display n = []"
proof (induction q arbitrary: d)
  case Nil
  then show ?case by (simp add: plain_iff[of d])
next
  case (Cons i q)
  then show ?case by (auto simp: node_at_simps(2) plain_iff[of d] list_all_length split: if_splits)
qed

lemma plain_simps [simp]:
  "plain (setAttribute a v d) = plain d" "plain d \<Longrightarrow> plain (setInnerHTML t d)" "plain (createElement nm)"
  "plain (text_node t)" "plain (appendChild c d) \<longleftrightarrow> plain c \<and> plain d" "plain (setClassAttr v d) = plain d"
  "plain (setKeyActions v d) = plain d" "plain (link_target f d) = plain d"
  by (auto simp: plain_iff dom_node_simps)

lemma plain_child_link: "plain (child_link e c t)"
  by (simp add: child_link_def split: prod.splits)

lemma plain_child_links: "plain d \<Longrightarrow> plain (child_links e c ts d)"
  by (induction ts arbitrary: c d) (simp_all add: plain_child_link)

lemma plain_result_row: "plain (result_row e x)"
  by (simp add: result_row_def Let_def plain_child_links plain_child_link split: prod.splits list.splits)

lemma plain_append_rows: "plain d \<Longrightarrow> plain (append_rows e xs d)"
  by (induction xs arbitrary: e d) (simp_all add: plain_result_row)

lemma plain_page: "plain (page_of xs)"
  by (simp add: page_of_def page_with_def plain_append_rows results_div_def status_div_def dom_node_simps)

lemma not_displayed_initially: "\<not> displayed (page_of xs) q"
  using plain_at[OF plain_page] by (auto simp: displayed_def display_at_def split: option.splits)

lemma page_div: "e < length xs \<Longrightarrow> [0, 1, e] \<in> set (getElementsByTagName (page_of xs) (js ''div''))"
proof -
  assume e: "e < length xs"
  obtain i name ts where x: "xs ! e = (i, name, ts)" by (cases "xs ! e")
  have "node_at (page_of xs) [0, 1, e] = Some (dom_node (result_row e (xs ! e)))"
    using e by (simp add: page_of_row)
  moreover from this have "[0, 1, e] \<in> set (paths (page_of xs))" by (simp only: paths_node) simp
  then have "[0, 1, e] \<in> set (tl (paths (page_of xs)))" by (simp add: page_of_def page_with_def)
  ultimately show ?thesis using x by (simp add: getElementsByTagName_def)
qed

lemma row_class: "className (dom_node (result_row e x)) = js ''SRResult''"
  "node_id (dom_node (result_row e x)) = js ''SR_'' @ fst x"
  by (cases x, simp add: className_def node_id_def)+

lemma tags_ok:
  "distinct (getElementsByTagName d t)" "p \<in> set (getElementsByTagName d t) \<Longrightarrow> node_at d p \<noteq> None"
  using distinct_paths[of d] by (auto simp: getElementsByTagName_def distinct_tl split: option.splits)

lemma page_search:
  assumes "s = SearchResults (page_of xs) query parent"
  shows "\<exists>d. SearchResults_Search search s = Inr (True, s\<lparr>rs_doc := d,
      rs_lastMatchCount := length (filter (entry_matches (search_word (asked_word search s))) xs)\<rparr>)
    \<and> searched xs (search_word (asked_word search s)) d
    \<and> (displayed d [0, 3] \<longleftrightarrow> filter (entry_matches (search_word (asked_word search s))) xs = [])"
proof -
  define w where "w = search_word (asked_word search s)"
  define ps where "ps = getElementsByTagName (page_of xs) (js ''div'')"
  define P where "P = (\<lambda>p. case node_at (page_of xs) p of None \<Rightarrow> False
      | Some n \<Rightarrow> className n = js ''SRResult'' \<and> row_matches w (node_id n))"
  obtain d m where sr: "search_rows w ps (page_of xs) 0 = (d, m)" by (cases "search_rows w ps (page_of xs) 0")
  have tags: "distinct ps" "\<And>p. p \<in> set ps \<Longrightarrow> node_at (page_of xs) p \<noteq> None"
    unfolding ps_def by (rule tags_ok, rule tags_ok)
  from search_rows_ok[OF tags sr]
  have d: "node_at d q = map_option (\<lambda>n. if q \<in> set ps \<and> className n = js ''SRResult''
        then n\<lparr>nd_display := if row_matches w (node_id n) then js ''block'' else js ''none''\<rparr> else n) (node_at (page_of xs) q)"
    and ids: "getElementById d i = getElementById (page_of xs) i"
    and m: "m = length (filter P ps)" for q i
    unfolding P_def by auto
  have P: "P p \<longleftrightarrow> (\<exists>e < length xs. p = [0, 1, e] \<and> entry_matches w (xs ! e))" for p
  proof
    assume "P p"
    then obtain n where n: "node_at (page_of xs) p = Some n" "className n = js ''SRResult''" "row_matches w (node_id n)"
      by (auto simp: P_def split: option.splits)
    from page_of_node[OF n(1)] n(2,3) show "\<exists>e < length xs. p = [0, 1, e] \<and> entry_matches w (xs ! e)"
      by (auto simp: entry_matches_def row_class)
  next
    assume "\<exists>e < length xs. p = [0, 1, e] \<and> entry_matches w (xs ! e)"
    then show "P p" by (auto simp: P_def page_of_row row_class entry_matches_def)
  qed
  have "set (filter P ps) = (\<lambda>e. [0, 1, e]) ` {e. e < length xs \<and> entry_matches w (xs ! e)}"
    using P page_div by (auto simp: ps_def)
  moreover have "inj_on (\<lambda>e. [0, 1, e :: nat]) A" for A by (simp add: inj_on_def)
  ultimately have count: "m = length (filter (entry_matches w) xs)"
    using m distinct_card[OF distinct_filter[OF tags(1)], of P] by (simp add: card_image length_filter_conv_card)
  have doc: "rs_doc s = page_of xs" using assms by (simp add: SearchResults_def)
  define d2 where "d2 = set_display_at (set_display_at d [0, 2] (js ''none'')) [0, 3] (if m = 0 then js ''block'' else js ''none'')"
  have run: "SearchResults_Search search s = Inr (True, s\<lparr>rs_doc := d2, rs_lastMatchCount := m\<rparr>)"
    using sr page_static_id[of "''Searching''" xs] page_static_id[of "''NoMatches''" xs]
    by (simp add: SearchResults_Search_def doc ids d2_def flip: w_def ps_def)
  have row: "display_at d [0, 1, e] = (if entry_matches w (xs ! e) then js ''block'' else js ''none'')" if "e < length xs" for e
    using that page_div[OF that] d[of "[0, 1, e]"] by (simp add: display_at_def page_of_row ps_def row_class entry_matches_def)
  have node2: "node_at d2 q = (if q = [0, 3] then map_option (\<lambda>n. n\<lparr>nd_display := if m = 0 then js ''block'' else js ''none''\<rparr>) (node_at d q)
      else if q = [0, 2] then map_option (\<lambda>n. n\<lparr>nd_display := js ''none''\<rparr>) (node_at d q) else node_at d q)" for q
    by (simp add: d2_def node_at_set_display)
  have "node_at (page_of xs) [0, 3] \<noteq> None" by (simp add: page_of_def)
  then have nm: "displayed d2 [0, 3] \<longleftrightarrow> m = 0"
    using node2[of "[0, 3]"] d[of "[0, 3]"] by (auto simp: displayed_def display_at_def split: option.splits)
  have "searched xs w d2"
    unfolding searched_def
  proof (intro conjI allI impI)
    fix i show "getElementById d2 i = getElementById (page_of xs) i" by (simp add: d2_def ids)
  next
    fix q n assume "node_at d2 q = Some n"
    then show "\<exists>m. node_at (page_of xs) q = Some m \<and> nd_name n = nd_name m \<and> nd_attrs n = nd_attrs m"
      using node2[of q] d[of q] by (cases "node_at (page_of xs) q") (auto split: if_splits)
  next
    fix q show "node_at d2 q = None \<longleftrightarrow> node_at (page_of xs) q = None"
      using node2[of q] d[of q] by (auto split: if_splits)
  next
    fix e assume "e < length xs"
    then show "displayed d2 [0, 1, e] = entry_matches w (xs ! e)"
      using row[of e] node2[of "[0, 1, e]"] by (simp add: displayed_def display_at_def)
  next
    fix q assume disp: "displayed d2 q"
    show "(\<exists>e < length xs. q = [0, 1, e]) \<or> q = [0, 3]"
    proof (rule ccontr)
      assume no: "\<not> ?thesis"
      then have "q \<noteq> [0, 2]" using disp node2[of "[0, 2]"]
        by (cases "node_at d [0, 2]") (auto simp: displayed_def display_at_def)
      then have "displayed d q" using disp no node2[of q] by (simp add: displayed_def display_at_def)
      then obtain n where n: "node_at (page_of xs) q = Some n" "className n = js ''SRResult''"
        using d[of q] not_displayed_initially[of xs q]
        by (auto simp: displayed_def display_at_def split: option.splits if_splits)
      from page_of_node[OF n(1)] n(2) no show False by auto
    qed
  qed
  with run nm count show ?thesis unfolding w_def by (auto simp: filter_empty_conv)
qed

subsection \<open>Moving between the rows\<close>

definition item_path :: "nat \<Rightarrow> path" where
  "item_path e = [0, 1, e, 0, 0]"

lemma searchedD:
  assumes "searched xs w d"
  shows "getElementById d i = getElementById (page_of xs) i"
    "e < length xs \<Longrightarrow> displayed d [0, 1, e] = entry_matches w (xs ! e)"
    "displayed d q \<Longrightarrow> (\<exists>e < length xs. q = [0, 1, e]) \<or> q = [0, 3]"
  using assms by (auto simp: searched_def)

lemma row_of_item: "row_of (item_path e) = Some [0, 1, e]"
  by (simp add: row_of_def parentNode_def item_path_def)

lemma searched_item:
  "searched xs w d \<Longrightarrow> getElementById d (item_id i) = (if 0 \<le> i \<and> i < int (length xs) then Some (item_path (nat i)) else None)"
  by (simp add: searchedD(1) page_item item_path_def)

lemma NavNext_searched:
  assumes "searched xs w d"
  shows "NavNext d (int i) = Inr (map_option item_path (List.find (\<lambda>e. entry_matches w (xs ! e)) [i ..< length xs]))"
proof (induction "length xs - i" arbitrary: i)
  case 0
  then show ?case by (simp add: NavNext.simps[of d "int i"] searched_item[OF assms])
next
  case (Suc k)
  then have i: "i < length xs" "[i ..< length xs] = i # [Suc i ..< length xs]" by (simp_all add: upt_conv_Cons)
  have "NavNext d (int (Suc i)) = Inr (map_option item_path (List.find (\<lambda>e. entry_matches w (xs ! e)) [Suc i ..< length xs]))"
    by (rule Suc.hyps(1)) (use Suc.hyps(2) in linarith)
  then show ?case
    using i searchedD(2)[OF assms i(1)]
    by (simp add: NavNext.simps[of d "int i"] searched_item[OF assms] row_of_item add.commute)
qed

lemma NavPrev_searched:
  assumes "searched xs w d" "i \<le> length xs"
  shows "NavPrev d (int i - 1) = Inr (map_option item_path (List.find (\<lambda>e. entry_matches w (xs ! e)) (rev [0 ..< i])))"
  using assms(2)
proof (induction i)
  case 0
  then show ?case by (simp add: NavPrev.simps[of d "-1"] searched_item[OF assms(1)])
next
  case (Suc i)
  then show ?case
    using searchedD(2)[OF assms(1), of i]
    by (simp add: NavPrev.simps[of d "int i"] searched_item[OF assms(1)] row_of_item)
qed

lemma find_loop_found: "find_loop d r p = Some q \<Longrightarrow> is_children_div d q"
proof (induction d r p rule: find_loop.induct)
  case (1 d r p)
  then show ?case by (simp add: find_loop.simps[of d r p] split: if_splits option.splits)
qed

lemma children_of_item_searched:
  assumes "searched xs w d" "e < length xs"
  shows "\<exists>c. children_of_item d (item_path e) = Inr c \<and> \<not> shown d c"
proof -
  obtain i name ts where x: "xs ! e = (i, name, ts)" by (cases "xs ! e")
  have n: "node_at (page_of xs) [0, 1, e] = Some (dom_node (result_row e (xs ! e)))" using assms(2) by (simp add: page_of_row)
  then obtain m where m: "node_at d [0, 1, e] = Some m" using assms(1) unfolding searched_def by (metis option.exhaust)
  with assms(1) n have a: "nd_attrs m = nd_attrs (dom_node (result_row e (xs ! e)))" unfolding searched_def by force
  then have id: "getAttribute m (js ''id'') = Some (js ''SR_'' @ i)"
    using result_row_top(1)[of e i name ts] x by (simp add: getAttribute_def)
  have "\<exists>p. getElementById d (js ''SR_'' @ i) = Some p"
  proof (rule ccontr)
    assume "\<nexists>p. getElementById d (js ''SR_'' @ i) = Some p"
    then have "getElementById d (js ''SR_'' @ i) = None" by simp
    moreover have "[0, 1, e] \<in> set (paths d)" using m by (simp only: paths_node) simp
    ultimately show False using m id by (auto simp: getElementById_def find_None_iff)
  qed
  then obtain p where p: "getElementById d (js ''SR_'' @ i) = Some p" by blast
  define c where "c = (case firstChild d p of None \<Rightarrow> None | Some e \<Rightarrow> find_loop d p e)"
  have "children_of_item d (item_path e) = Inr c"
    using m id p by (simp add: children_of_item_def row_of_item node_id_def FindChildElement_def c_def)
  moreover have "\<not> shown d c"
  proof
    assume "shown d c"
    then obtain q where q: "c = Some q" "displayed d q" by (auto simp: shown_def split: option.splits)
    then have cl: "is_children_div d q" using find_loop_found by (auto simp: c_def split: option.splits)
    then obtain k where k: "node_at d q = Some k" "className k = js ''SRChildren''"
      by (auto simp: is_children_div_def split: option.splits)
    then obtain k' where k': "node_at (page_of xs) q = Some k'" "className k' = js ''SRChildren''"
      using assms(1) unfolding searched_def className_def getAttribute_def by force
    from searchedD(3)[OF assms(1) q(2)] show False
    proof
      assume "\<exists>e < length xs. q = [0, 1, e]"
      then show False using k' by (auto simp: page_of_row row_class)
    next
      assume "q = [0, 3]"
      then show False using k' by (auto simp: page_of_def status_div_def className_def)
    qed
  qed
  ultimately show ?thesis by blast
qed

lemma nav_down_searched:
  assumes "searched xs w (rs_doc s)" "e < length xs"
  shows "nav_down (int e) s = Inr (case List.find (\<lambda>e. entry_matches w (xs ! e)) [Suc e ..< length xs] of
      None \<Rightarrow> s | Some e' \<Rightarrow> focus_on (item_path e') s)"
proof -
  obtain c where c: "children_of_item (rs_doc s) (item_path e) = Inr c" "\<not> shown (rs_doc s) c"
    using children_of_item_searched[OF assms] by blast
  have "NavNext (rs_doc s) (int e + 1) = Inr (map_option item_path (List.find (\<lambda>e. entry_matches w (xs ! e)) [Suc e ..< length xs]))"
    using NavNext_searched[OF assms(1), of "Suc e"] by (simp add: add.commute)
  with c assms show ?thesis
    by (auto simp: nav_down_def searched_item[OF assms(1)] Let_def split: option.splits)
qed

lemma nav_up_searched:
  assumes "searched xs w (rs_doc s)" "e < length xs"
  shows "nav_up (int e) s = Inr (case List.find (\<lambda>e. entry_matches w (xs ! e)) (rev [0 ..< e]) of
      None \<Rightarrow> focus_parent_field s | Some e' \<Rightarrow> focus_on (item_path e') s)"
proof (cases "List.find (\<lambda>e. entry_matches w (xs ! e)) (rev [0 ..< e])")
  case None
  then show ?thesis using NavPrev_searched[OF assms(1), of e] assms(2) by (simp add: nav_up_def)
next
  case (Some e')
  then have "e' < length xs" using assms(2) by (auto simp: find_Some_iff rev_nth)
  from children_of_item_searched[OF assms(1) this] obtain c
    where "children_of_item (rs_doc s) (item_path e') = Inr c" "\<not> shown (rs_doc s) c" by blast
  with Some show ?thesis using NavPrev_searched[OF assms(1), of e] assms(2) by (simp add: nav_up_def)
qed

subsection \<open>The reference for the search of the children\<close>

text \<open>
  A search in document order by recursion on the tree, which enters \<open>div\<close> elements only.
\<close>

fun first_children :: "dom \<Rightarrow> path option" and first_in_kids :: "nat \<Rightarrow> dom list \<Rightarrow> path option" where
  "first_children (Elem n cs) =
     (if nd_name n = js ''div'' then
        if className n = js ''SRChildren'' then Some [] else first_in_kids 0 cs
      else None)"
| "first_in_kids i [] = None"
| "first_in_kids i (c # cs) = (case first_children c of Some p \<Rightarrow> Some (i # p) | None \<Rightarrow> first_in_kids (Suc i) cs)"

text \<open>Where the loop goes on when a subtree is exhausted.\<close>

function resume :: "dom \<Rightarrow> path \<Rightarrow> path \<Rightarrow> path option" where
  "resume d r q = (if q = r \<or> q = [] then None
     else case nextSibling d q of Some s \<Rightarrow> find_loop d r s | None \<Rightarrow> resume d r (butlast q))"
  by pat_completeness auto
termination by (relation "measure (\<lambda>(d, r, q). length q)") auto

declare resume.simps [simp del]

lemma nextSibling_length: "nextSibling d q = Some s \<Longrightarrow> length s = length q"
  by (auto simp: nextSibling_def Let_def split: if_splits)

lemma nextSibling_Nil: "nextSibling d [] = None"
  by (simp add: nextSibling_def)

lemma resume_climb:
  assumes "strict_prefix r p" "nextSibling d p = None"
  shows "resume d r p = (case climb d r p of None \<Rightarrow> None
    | Some q \<Rightarrow> if q = r then None else case nextSibling d q of None \<Rightarrow> None | Some s \<Rightarrow> find_loop d r s)"
  using assms
proof (induction p rule: rev_induct)
  case (snoc x p)
  then have r: "prefix r p" by (auto simp: strict_prefix_def)
  have step: "resume d r (p @ [x]) = resume d r p" "p @ [x] \<noteq> r"
    using snoc.prems by (auto simp: resume.simps[of d r "p @ [x]"])
  have climb: "climb d r (p @ [x]) = (if p \<noteq> r \<and> nextSibling d p = None then climb d r p else Some p)"
    by (simp add: climb.simps[of d r "p @ [x]"] parentNode_def)
  show ?case
  proof (cases "p = r")
    case True
    then show ?thesis using step climb by (simp add: resume.simps[of d r r])
  next
    case False
    show ?thesis
    proof (cases "nextSibling d p")
      case None
      then show ?thesis using snoc.IH False r step climb by (simp add: strict_prefix_def)
    next
      case (Some s)
      then have "p \<noteq> []" by (auto simp: nextSibling_Nil)
      then show ?thesis using Some False step climb by (simp add: resume.simps[of d r p])
    qed
  qed
qed simp

lemma climb_within: "strict_prefix r p \<Longrightarrow> climb d r p = Some q \<Longrightarrow> prefix r q"
proof (induction p rule: rev_induct)
  case (snoc x p)
  then have r: "prefix r p" by (auto simp: strict_prefix_def)
  have climb: "climb d r (p @ [x]) = (if p \<noteq> r \<and> nextSibling d p = None then climb d r p else Some p)"
    by (simp add: climb.simps[of d r "p @ [x]"] parentNode_def)
  then show ?case using snoc r by (auto simp: strict_prefix_def split: if_splits)
qed simp

lemma find_loop_next:
  assumes "strict_prefix r p" "\<not> is_children_div d p" "\<not> (is_div d p \<and> hasChildNodes d p)"
  shows "find_loop d r p = resume d r p"
proof -
  have p: "p \<noteq> r" "p \<noteq> []" "length r < length p" using assms(1) prefix_length_less by auto
  show ?thesis
  proof (cases "nextSibling d p")
    case (Some s)
    then have "s \<noteq> r" using p(3) nextSibling_length[OF Some] by auto
    have "next_element d r p = Some s" unfolding next_element_def if_not_P[OF assms(3)] using Some by simp
    then show ?thesis using Some p assms(2) \<open>s \<noteq> r\<close> by (simp add: find_loop.simps[of d r p] resume.simps[of d r p])
  next
    case None
    have n: "next_element d r p = (case climb d r p of None \<Rightarrow> None
        | Some q \<Rightarrow> if q \<noteq> r then nextSibling d q else Some q)"
      unfolding next_element_def if_not_P[OF assms(3)] using None by simp
    show ?thesis
    proof (cases "climb d r p")
      case None
      then show ?thesis using n p assms(2) resume_climb[OF assms(1) \<open>nextSibling d p = None\<close>]
        by (simp add: find_loop.simps[of d r p])
    next
      case (Some q)
      have "s \<noteq> r" if "nextSibling d q = Some s" "q \<noteq> r" for s
        using climb_within[OF assms(1) Some] that nextSibling_length[OF that(1)] prefix_length_less[of r q]
        by (auto simp: strict_prefix_def)
      then show ?thesis using Some n p assms(2) resume_climb[OF assms(1) \<open>nextSibling d p = None\<close>]
        by (auto simp: find_loop.simps[of d r p] split: option.splits)
    qed
  qed
qed

lemma find_loop_tree:
  "dom_at d p = Some e \<Longrightarrow> strict_prefix r p \<Longrightarrow>
    find_loop d r p = (case first_children e of Some t \<Rightarrow> Some (p @ t) | None \<Rightarrow> resume d r p)"
  "dom_at d q = Some (Elem n cs) \<Longrightarrow> prefix r q \<Longrightarrow> drop i cs = ks \<Longrightarrow> ks \<noteq> [] \<Longrightarrow>
    find_loop d r (q @ [i]) = (case first_in_kids i ks of Some t \<Rightarrow> Some (q @ t) | None \<Rightarrow> resume d r q)"
proof (induction e and i ks arbitrary: p and q n cs rule: first_children_first_in_kids.induct)
  case (1 n cs)
  have p: "p \<noteq> r" using "1.prems"(2) by auto
  have na: "node_at d p = Some n" using "1.prems"(1) by (simp add: node_at_def)
  show ?case
  proof (cases "nd_name n = js ''div''")
    case False
    then have "\<not> is_children_div d p" "\<not> is_div d p" using na by (simp_all add: is_children_div_def is_div_def)
    then show ?thesis using find_loop_next[OF "1.prems"(2)] False by simp
  next
    case div: True
    show ?thesis
    proof (cases "className n = js ''SRChildren''")
      case True
      then show ?thesis using div na p by (simp add: find_loop.simps[of d r p] is_children_div_def)
    next
      case False
      then have c: "\<not> is_children_div d p" using na by (simp add: is_children_div_def)
      show ?thesis
      proof (cases "cs = []")
        case True
        then have "\<not> hasChildNodes d p" using "1.prems"(1) by (simp add: hasChildNodes_def dom_at_kid)
        then show ?thesis using find_loop_next[OF "1.prems"(2) c] div False True by simp
      next
        case cs: False
        have "is_div d p" using na div by (simp add: is_div_def)
        moreover have "hasChildNodes d p" using "1.prems"(1) cs by (simp add: hasChildNodes_def dom_at_kid)
        ultimately have "next_element d r p = Some (p @ [0])"
          by (simp add: next_element_def firstChild_def hasChildNodes_def)
        moreover have "p @ [0] \<noteq> r" using "1.prems"(2) prefix_length_less by fastforce
        ultimately have "find_loop d r p = find_loop d r (p @ [0])" using p c by (simp add: find_loop.simps[of d r p])
        then show ?thesis using "1.IH"[OF div False "1.prems"(1)] "1.prems"(2) cs div False
          by (simp add: strict_prefix_def)
      qed
    qed
  qed
next
  case (3 i c ks)
  have i: "i < length cs" "cs ! i = c" "drop (Suc i) cs = ks"
    using "3.prems"(3) by (metis drop_eq_Nil leI list.distinct(1), metis hd_drop_conv_nth list.distinct(1) list.sel(1) drop_eq_Nil leI,
        metis drop_Suc list.sel(3) tl_drop)
  have at: "dom_at d (q @ [i]) = Some c" using "3.prems"(1) i by (simp add: dom_at_kid)
  have sp: "strict_prefix r (q @ [i])" using "3.prems"(2) by (auto simp: strict_prefix_def)
  have one: "find_loop d r (q @ [i]) = (case first_children c of Some t \<Rightarrow> Some ((q @ [i]) @ t) | None \<Rightarrow> resume d r (q @ [i]))"
    by (rule "3.IH"(1)[OF at sp])
  show ?case
  proof (cases "first_children c")
    case (Some t)
    then show ?thesis using one by simp
  next
    case None
    have ne: "q @ [i] \<noteq> r" using sp by auto
    have sib: "nextSibling d (q @ [i]) = (if ks = [] then None else Some (q @ [Suc i]))"
      using "3.prems"(1) i by (auto simp: nextSibling_def dom_at_kid)
    show ?thesis
    proof (cases "ks = []")
      case True
      then show ?thesis using one None ne sib by (simp add: resume.simps[of d r "q @ [i]"])
    next
      case False
      then show ?thesis using one None ne sib "3.IH"(2)[OF None "3.prems"(1,2) i(3) False]
        by (simp add: resume.simps[of d r "q @ [i]"])
    qed
  qed
qed simp

lemma FindChildElement_first:
  assumes "getElementById d i = Some r" and "dom_at d r = Some (Elem n cs)"
  shows "FindChildElement d i = Inr (map_option (\<lambda>t. r @ t) (first_in_kids 0 cs))"
proof (cases "cs = []")
  case True
  then show ?thesis using assms by (simp add: FindChildElement_def firstChild_def dom_at_kid)
next
  case False
  then have "firstChild d r = Some (r @ [0])" using assms(2) by (simp add: firstChild_def dom_at_kid)
  moreover have "find_loop d r (r @ [0]) = (case first_in_kids 0 cs of Some t \<Rightarrow> Some (r @ t) | None \<Rightarrow> resume d r r)"
    by (rule find_loop_tree(2)[OF assms(2) _ _ False]) simp_all
  ultimately show ?thesis using assms(1) by (simp add: FindChildElement_def resume.simps[of d r r] split: option.splits)
qed


end
