(* ===== verification/Search_Box_Props.thy ===== *)
theory Search_Box_Props
  imports Search_Box Results_Page
begin

text \<open>
  Properties of the search panel: what holds in every state the user and the timers can reach,
  which page a search opens, and two ways in which the panel goes wrong.
\<close>

subsection \<open>What the operations leave alone\<close>

named_theorems box_fields \<open>fields an operation does not change\<close>

lemma Activate_fields [box_fields]:
  "pg_results_display (Activate b s) = pg_results_display s" "pg_close_display (Activate b s) = pg_close_display s"
  "pg_select_items (Activate b s) = pg_select_items s" "sb_searchIndex (Activate b s) = sb_searchIndex s"
  "pg_timers (Activate b s) = pg_timers s" "sb_keyTimeout (Activate b s) = sb_keyTimeout s"
  "pg_next_timer (Activate b s) = pg_next_timer s" "sb_searchLabel (Activate b s) = sb_searchLabel s"
  by (simp_all add: Activate_def Let_def)

lemma move_focus_fields [box_fields]:
  "pg_results_display (move_focus f s) = pg_results_display s" "pg_close_display (move_focus f s) = pg_close_display s"
  "pg_select_items (move_focus f s) = pg_select_items s" "sb_searchIndex (move_focus f s) = sb_searchIndex s"
  "pg_timers (move_focus f s) = pg_timers s" "sb_keyTimeout (move_focus f s) = sb_keyTimeout s"
  "pg_next_timer (move_focus f s) = pg_next_timer s"
  by (simp_all add: move_focus_def OnSearchFieldFocus_def Let_def box_fields)

lemma blur_field_fields [box_fields]:
  "pg_results_display (blur_field s) = pg_results_display s" "pg_close_display (blur_field s) = pg_close_display s"
  "pg_select_items (blur_field s) = pg_select_items s" "sb_searchIndex (blur_field s) = sb_searchIndex s"
  "pg_timers (blur_field s) = pg_timers s" "sb_keyTimeout (blur_field s) = sb_keyTimeout s"
  "pg_next_timer (blur_field s) = pg_next_timer s"
  by (simp_all add: blur_field_def box_fields)

lemma OnSearchSelectShow_fields [box_fields]:
  "pg_results_display (snd (OnSearchSelectShow s)) = pg_results_display s"
  "pg_close_display (snd (OnSearchSelectShow s)) = pg_close_display s"
  "pg_select_items (snd (OnSearchSelectShow s)) = pg_select_items s"
  "sb_searchIndex (snd (OnSearchSelectShow s)) = sb_searchIndex s"
  by (simp_all add: OnSearchSelectShow_def Let_def clearTimeout_def)

lemma show_results_fields [box_fields]:
  "pg_results_display (show_results s) = js ''block''" "pg_select_items (show_results s) = pg_select_items s"
  "sb_searchIndex (show_results s) = sb_searchIndex s" "pg_location (show_results s) = pg_location s"
  "pg_timers (show_results s) = pg_timers s"
  by (simp_all add: show_results_def Let_def)

lemma Search_fields [box_fields]:
  "pg_select_items (snd (Search ix s)) = pg_select_items s" "sb_searchIndex (snd (Search ix s)) = sb_searchIndex s"
  "pg_timers (snd (Search ix s)) = pg_timers s"
  by (simp_all add: Search_def Let_def box_fields split: sum.splits prod.splits)

subsection \<open>The filters\<close>

lemma count_items_eq: "count_items n cs = n + length (filter is_select_item cs)"
  by (induction cs arbitrary: n) simp_all

definition marks :: "int \<Rightarrow> nat \<Rightarrow> jstring list" where
  "marks i n = map (\<lambda>j. if int j = i then js ''&#8226;'' else js ''&#160;'') [0 ..< n]"

lemma is_select_item_mark [simp]: "is_select_item (c\<lparr>ch_mark := m\<rparr>) = is_select_item c"
  by (simp add: is_select_item_def)

lemma mark_items_marks: "map ch_mark (filter is_select_item (mark_items i k cs))
    = map (\<lambda>j. if int j = i then js ''&#8226;'' else js ''&#160;'') [k ..< k + length (filter is_select_item cs)]"
proof (induction cs arbitrary: k)
  case (Cons c cs)
  have "[k ..< k + Suc m] = k # [Suc k ..< Suc k + m]" for m by (simp add: upt_conv_Cons del: upt_Suc)
  with Cons[of "Suc k"] Cons[of k] show ?case by (simp del: upt_Suc)
qed simp

lemma mark_items_count: "length (filter is_select_item (mark_items i k cs)) = length (filter is_select_item cs)"
  by (induction cs arbitrary: k) simp_all

text \<open>The windows are consistent, and exactly the filter in use is marked.\<close>

definition panel_ok :: "nat \<Rightarrow> search_box \<Rightarrow> bool" where
  "panel_ok n s \<longleftrightarrow> (pg_results_display s = js ''block'' \<longleftrightarrow> pg_close_display s = js ''inline-block'')
     \<and> map ch_mark (filter is_select_item (pg_select_items s)) = marks (sb_searchIndex s) n"

lemma panel_ok_fields:
  "pg_results_display t = pg_results_display s \<Longrightarrow> pg_close_display t = pg_close_display s \<Longrightarrow>
   pg_select_items t = pg_select_items s \<Longrightarrow> sb_searchIndex t = sb_searchIndex s \<Longrightarrow> panel_ok n s \<Longrightarrow> panel_ok n t"
  by (simp add: panel_ok_def)

lemma panel_ok_length: "panel_ok n s \<Longrightarrow> length (filter is_select_item (pg_select_items s)) = n"
  unfolding panel_ok_def marks_def by (metis length_map length_upt minus_nat.diff_0)

lemma Search_panel: "panel_ok n s \<Longrightarrow> panel_ok n (snd (Search ix s))"
  by (auto simp: panel_ok_def Search_def Let_def box_fields show_results_def split: sum.splits prod.splits)

lemma SelectItem_panel:
  assumes "panel_ok n s"
  shows "panel_ok n (SelectItemSet i (s\<lparr>sb_searchIndex := i\<rparr>))"
  using assms panel_ok_length[OF assms] mark_items_marks[of i 0 "pg_select_items s"]
  by (simp add: panel_ok_def SelectItemSet_def marks_def)

lemma OnSelectItem_panel: "panel_ok n s \<Longrightarrow> panel_ok n (snd (OnSelectItem ix i s))"
  using SelectItem_panel Search_panel by (simp add: OnSelectItem_def Let_def)

lemma OnSelectItem_index: "OnSelectItem ix i (s\<lparr>sb_searchIndex := j\<rparr>) = OnSelectItem ix i s"
  by (simp add: OnSelectItem_def Let_def)

lemma field_changed_panel: "panel_ok n s \<Longrightarrow> panel_ok n (field_changed s)"
  by (simp add: panel_ok_def field_changed_def Let_def setTimeout_def)

lemma OnSearchFieldChange_panel:
  assumes "panel_ok n s"
  shows "panel_ok n (OnSearchFieldChange e s)"
proof -
  define t where "t = (if sb_keyTimeout s \<noteq> 0 then (clearTimeout (sb_keyTimeout s) s)\<lparr>sb_keyTimeout := 0\<rparr> else s)"
  have t: "panel_ok n t" using assms by (simp add: t_def panel_ok_def clearTimeout_def)
  have "panel_ok n (t\<lparr>pg_messages := ms\<rparr>)" for ms using t by (simp add: panel_ok_def)
  moreover have "panel_ok n (move_focus f (snd (OnSearchSelectShow t)))" for f
    using t by (rule panel_ok_fields[rotated -1]) (simp_all add: box_fields)
  moreover have "panel_ok n (snd (OnSearchSelectShow t))"
    using t by (rule panel_ok_fields[rotated -1]) (simp_all add: box_fields)
  moreover have "panel_ok n (Activate False ((blur_field t)\<lparr>pg_results_display := js ''none'',
      pg_close_display := js ''none'', sb_lastSearchValue := []\<rparr>))"
    using t by (simp add: panel_ok_def box_fields)
  ultimately show ?thesis
    using field_changed_panel t unfolding OnSearchFieldChange_def Let_def t_def[symmetric]
    by (simp split: option.splits)
qed

lemma OnSearchSelectKey_panel: "panel_ok n s \<Longrightarrow> panel_ok n (snd (OnSearchSelectKey ix e s))"
proof -
  assume ok: "panel_ok n s"
  have "panel_ok n (move_focus FocusField (CloseSelectionWindow t))" if "panel_ok n t" for t
    using that by (rule panel_ok_fields[rotated -1]) (simp_all add: box_fields CloseSelectionWindow_def)
  then show ?thesis
    using OnSelectItem_panel[OF ok] ok
    by (auto simp: OnSearchSelectKey_def Let_def OnSelectItem_index split: prod.splits option.splits)
      (metis snd_conv)+
qed

lemma sb_step_panel: "sb_step ix s t \<Longrightarrow> panel_ok n s \<Longrightarrow> panel_ok n t"
proof (induction rule: sb_step.induct)
  case (type_key s e v)
  then have "panel_ok n (s\<lparr>pg_value := v\<rparr>)" by (simp add: panel_ok_def)
  then show ?case by (rule OnSearchFieldChange_panel)
next
  case (select_item s i)
  then show ?case by (rule OnSelectItem_panel)
next
  case (select_key s e)
  then show ?case by (rule OnSearchSelectKey_panel)
next
  case (timer i action d s)
  then have "panel_ok n (s\<lparr>pg_timers := ts\<rparr>)" for ts by (simp add: panel_ok_def)
  then show ?case using Search_panel
    by (auto simp: fire_def Let_def CloseSelectionWindow_def panel_ok_def split: timer_action.splits)
qed (auto simp: panel_ok_def box_fields OnSearchSelectHide_def setTimeout_def CloseResultsWindow_def Let_def)

lemma append_links_fields:
  "pg_select_items (append_links ls s) = pg_select_items s @ map (\<lambda>(k, l). filter_link k l) ls
   \<and> pg_results_display (append_links ls s) = pg_results_display s
   \<and> pg_close_display (append_links ls s) = pg_close_display s"
  by (induction ls s rule: append_links.induct) simp_all

subsection \<open>Timers\<close>

definition search_timers :: "search_box \<Rightarrow> nat list" where
  "search_timers s = map fst (filter (\<lambda>(_, action, _). action = RunSearch) (pg_timers s))"

text \<open>At most one search is pending, and it is the one the panel remembers.\<close>

definition timers_ok :: "search_box \<Rightarrow> bool" where
  "timers_ok s \<longleftrightarrow> search_timers s = (if sb_keyTimeout s = 0 then [] else [sb_keyTimeout s]) \<and> 0 < pg_next_timer s"

lemma timers_ok_cong: "pg_timers t = pg_timers s \<Longrightarrow> sb_keyTimeout t = sb_keyTimeout s \<Longrightarrow> pg_next_timer t = pg_next_timer s
    \<Longrightarrow> timers_ok t = timers_ok s"
  by (simp add: timers_ok_def search_timers_def)

lemma cleared_timers:
  assumes "timers_ok s"
  defines "t \<equiv> if sb_keyTimeout s \<noteq> 0 then (clearTimeout (sb_keyTimeout s) s)\<lparr>sb_keyTimeout := 0\<rparr> else s"
  shows "timers_ok t \<and> sb_keyTimeout t = 0"
proof -
  have "search_timers (clearTimeout i s) = filter (\<lambda>j. j \<noteq> i) (search_timers s)" for i
    by (simp add: search_timers_def clearTimeout_def filter_map o_def case_prod_unfold conj_commute)
  moreover have "search_timers (u\<lparr>sb_keyTimeout := k\<rparr>) = search_timers u" for u k by (simp add: search_timers_def)
  moreover have "pg_next_timer (clearTimeout i s) = pg_next_timer s" for i by (simp add: clearTimeout_def)
  ultimately show ?thesis using assms(1) by (auto simp: t_def timers_ok_def)
qed

lemma field_changed_timers: "timers_ok s \<Longrightarrow> sb_keyTimeout s = 0 \<Longrightarrow> timers_ok (field_changed s)"
  by (simp add: field_changed_def Let_def setTimeout_def timers_ok_def search_timers_def)

lemma OnSearchFieldChange_timers:
  assumes "timers_ok s" "\<not> shiftKey e"
  shows "timers_ok (OnSearchFieldChange e s)"
proof -
  define t where "t = (if sb_keyTimeout s \<noteq> 0 then (clearTimeout (sb_keyTimeout s) s)\<lparr>sb_keyTimeout := 0\<rparr> else s)"
  have t: "timers_ok t" "sb_keyTimeout t = 0" using cleared_timers[OF assms(1)] by (simp_all add: t_def)
  then have "timers_ok (t\<lparr>pg_messages := ms\<rparr>)" for ms by (simp add: timers_ok_def search_timers_def)
  moreover have "timers_ok (Activate False ((blur_field t)\<lparr>pg_results_display := js ''none'',
      pg_close_display := js ''none'', sb_lastSearchValue := []\<rparr>))"
    using t by (subst timers_ok_cong[of _ t]) (simp_all add: box_fields)
  ultimately show ?thesis
    using t field_changed_timers assms(2) unfolding OnSearchFieldChange_def Let_def t_def[symmetric] by simp
qed

subsection \<open>Properties\<close>

text \<open>
  C7: in every state that the user and the timers can reach from the initialised panel, the window
  with the results is shown exactly when the close button is, and exactly the filter that is in
  use is marked.
\<close>

theorem search_panel_invariant:
  assumes "sb_run ix (snd (init_search ix p)) s" and "pg_select_items p = []"
    and "pg_results_display p \<noteq> js ''block''" and "pg_close_display p \<noteq> js ''inline-block''"
  shows "(pg_results_display s = js ''block'') = (pg_close_display s = js ''inline-block'')
    \<and> map ch_mark (filter is_select_item (pg_select_items s))
      = map (\<lambda>j. if int j = sb_searchIndex s then js ''&#8226;'' else js ''&#160;'') [0 ..< length (indexSectionLabels ix)]"
proof -
  define t where "t = append_links (indexSectionLabels ix) p"
  have links: "is_select_item (filter_link k l)" for k l by (simp add: is_select_item_def filter_link_def)
  have items: "filter is_select_item (pg_select_items t) = map (\<lambda>(k, l). filter_link k l) (indexSectionLabels ix)"
    using append_links_fields[of "indexSectionLabels ix" p] assms(2) links
    by (simp add: t_def) (intro filter_True, auto)
  have disp: "pg_results_display t \<noteq> js ''block''" "pg_close_display t \<noteq> js ''inline-block''"
    using append_links_fields[of "indexSectionLabels ix" p] assms(3,4) by (simp_all add: t_def)
  have "panel_ok (length (indexSectionLabels ix)) (SelectItemSet 0 (t\<lparr>sb_searchIndex := 0\<rparr>))"
    using disp mark_items_marks[of 0 0 "pg_select_items t"] items
    by (simp add: panel_ok_def SelectItemSet_def marks_def)
  then have "panel_ok (length (indexSectionLabels ix)) (snd (init_search ix p))"
    using Search_panel by (simp add: init_search_def OnSelectItem_def Let_def flip: t_def)
  with assms(1) have "panel_ok (length (indexSectionLabels ix)) s"
    by (induction rule: sb_run.induct) (auto intro: sb_step_panel)
  then show ?thesis by (simp add: panel_ok_def marks_def)
qed

text \<open>A page and its tables for the examples.\<close>

definition example_item :: item where
  "example_item = Item 20 10 3 4 False (Some (Item 100 100 0 0 True None))"

definition example_page :: search_box where
  "example_page = SearchBox (js ''searchBox'') (js ''search'') False (js ''Search'') (js ''.html'')
    \<lparr>sb_name = [], sb_resultsPath = [], sb_keyTimeout = 0, sb_keyTimeoutLength = 0, sb_closeSelectionTimeout = 0,
     sb_lastSearchValue = [], sb_lastResultsPage = [], sb_hideTimeout = 0, sb_searchIndex = 0, sb_searchActive = False,
     sb_insideFrame = False, sb_searchLabel = [], sb_extension = [], pg_value = js ''Search'', pg_focus = FocusNone,
     pg_select_items = [], pg_select_display = [], pg_select_left = [], pg_select_top = [], pg_select_width = 0,
     pg_results_display = [], pg_results_position = [], pg_results_width = [], pg_results_left = [],
     pg_results_top = [], pg_popup_width = [], pg_popup_offsetWidth = 300, pg_close_display = [], pg_box_class = [],
     pg_location = [], pg_messages = [], pg_timers = [], pg_next_timer = 1, pg_select_item = example_item,
     pg_box_item = example_item, pg_clientWidth = 800\<rparr>"

definition example_index :: search_index where
  "example_index = \<lparr>indexSectionsWithContent = [(0, js ''acs''), (1, js ''m'')],
     indexSectionNames = [(0, js ''all''), (1, js ''files'')],
     indexSectionLabels = [(0, js ''All''), (1, js ''Files'')]\<rparr>"

lemma example_page_fields:
  "pg_select_items example_page = []" "pg_results_display example_page = []" "pg_close_display example_page = []"
  "pg_timers example_page = []" "sb_keyTimeout example_page = 0" "pg_next_timer example_page = 1"
  "pg_focus example_page = FocusNone" "pg_value example_page = js ''Search''" "sb_searchLabel example_page = js ''Search''"
  "sb_searchIndex example_page = 0" "sb_lastSearchValue example_page = []"
  by (simp_all add: example_page_def SearchBox_def)

theorem search_panel_invariant_witness:
  "\<exists>s. sb_run example_index (snd (init_search example_index example_page)) s \<and> sb_searchIndex s = 1
    \<and> map ch_mark (filter is_select_item (pg_select_items s)) = [js ''&#160;'', js ''&#8226;'']"
proof -
  define s where "s = snd (OnSelectItem example_index 1 (snd (init_search example_index example_page)))"
  have r: "sb_run example_index (snd (init_search example_index example_page)) s"
    unfolding s_def by (intro run_step[OF run_refl] select_item)
  have "sb_searchIndex s = 1"
    by (simp add: s_def OnSelectItem_def Let_def SelectItemSet_def box_fields)
  moreover have "length (indexSectionLabels example_index) = 2" by (simp add: example_index_def)
  ultimately show ?thesis
    using r search_panel_invariant[OF r] by (intro exI[of _ s]) (simp add: example_page_fields numeral_2_eq_2)
qed



text \<open>
  C39: closing the panel does not stop a search that is pending. When the close button is pressed
  within half a second of the last key, the timer fires afterwards, searches for the label of the
  empty field and opens the window with the results again.
\<close>

theorem closed_panel_reopens:
  assumes "(i, RunSearch, d) \<in> set (pg_timers s)" and "map_of (indexSectionsWithContent ix) (sb_searchIndex s) = Some content"
  shows "(i, RunSearch, d) \<in> set (pg_timers (CloseResultsWindow s))
    \<and> pg_results_display (CloseResultsWindow s) = js ''none''
    \<and> (\<exists>s'. fire ix i RunSearch (CloseResultsWindow s) = (None, s') \<and> pg_results_display s' = js ''block''
        \<and> sb_lastSearchValue s' = strip_leading (sb_searchLabel s))"
proof -
  have c: "CloseResultsWindow s = s\<lparr>pg_results_display := js ''none'', pg_close_display := js ''none'',
      pg_box_class := js ''MSearchBoxInactive'', pg_value := sb_searchLabel s, sb_searchActive := False,
      sb_lastSearchValue := [], sb_lastResultsPage := []\<rparr>"
    by (simp add: CloseResultsWindow_def Activate_def)
  show ?thesis
    using assms by (auto simp: c fire_def Search_def Let_def results_page_def box_fields)
qed

theorem closed_panel_reopens_witness:
  "\<exists>s'. fire example_index 1 RunSearch
      (CloseResultsWindow (OnSearchFieldChange \<lparr>keyCode = 65, shiftKey = False\<rparr> (example_page\<lparr>pg_value := js ''a''\<rparr>))) = (None, s')
    \<and> pg_results_display s' = js ''block'' \<and> sb_lastSearchValue s' = js ''Search''"
proof -
  define s where "s = OnSearchFieldChange \<lparr>keyCode = 65, shiftKey = False\<rparr> (example_page\<lparr>pg_value := js ''a''\<rparr>)"
  have "(1, RunSearch, 500) \<in> set (pg_timers s)" "sb_searchIndex s = 0" "sb_searchLabel s = js ''Search''"
    by (simp_all add: s_def OnSearchFieldChange_def field_changed_def setTimeout_def Let_def example_page_def SearchBox_def
        remove_spaces_def js_def)
  moreover have "map_of (indexSectionsWithContent example_index) 0 = Some (js ''acs'')" by (simp add: example_index_def)
  moreover have "strip_leading (js ''Search'') = js ''Search''" by code_simp
  ultimately show ?thesis
    using closed_panel_reopens[of 1 500 s example_index "js ''acs''"] unfolding s_def[symmetric] by auto
qed

text \<open>
  The keys can select a filter that does not exist. With the last filter selected the Down key
  still increases the index, no filter is marked any more, and when something has been typed the
  search throws an exception because there is no section with that index.
\<close>

theorem filter_key_past_end:
  assumes "sb_searchIndex s = int (SelectItemCount s) - 1" and "0 < SelectItemCount s"
    and "map_of (indexSectionsWithContent ix) (int (SelectItemCount s)) = None"
    and "sb_searchActive s" and "remove_spaces (pg_value s) \<noteq> []"
  shows "fst (OnSearchSelectKey ix \<lparr>keyCode = 40, shiftKey = False\<rparr> s) = Some TypeError
    \<and> sb_searchIndex (snd (OnSearchSelectKey ix \<lparr>keyCode = 40, shiftKey = False\<rparr> s)) = int (SelectItemCount s)
    \<and> js ''&#8226;'' \<notin> ch_mark ` set (filter is_select_item
        (pg_select_items (snd (OnSearchSelectKey ix \<lparr>keyCode = 40, shiftKey = False\<rparr> s))))"
proof -
  define n where "n = SelectItemCount s"
  have n: "n = length (filter is_select_item (pg_select_items s))" by (simp add: n_def SelectItemCount_def count_items_eq)
  define t where "t = SelectItemSet (int n) (s\<lparr>sb_searchIndex := int n\<rparr>)"
  have "OnSearchSelectKey ix \<lparr>keyCode = 40, shiftKey = False\<rparr> s = Search ix t"
    using assms by (simp add: OnSearchSelectKey_def OnSelectItem_def Let_def t_def n_def SelectItemSet_def)
  moreover have "Search ix t = (Some TypeError, t\<lparr>sb_keyTimeout := 0\<rparr>)"
    using assms(3) by (simp add: Search_def results_page_def Let_def t_def SelectItemSet_def n_def)
  moreover have "map ch_mark (filter is_select_item (pg_select_items t))
      = map (\<lambda>j. if int j = int n then js ''&#8226;'' else js ''&#160;'') [0 ..< n]"
    using mark_items_marks[of "int n" 0 "pg_select_items s"] n by (simp add: t_def SelectItemSet_def)
  then have "ch_mark ` set (filter is_select_item (pg_select_items t))
      = (\<lambda>j. if int j = int n then js ''&#8226;'' else js ''&#160;'') ` set [0 ..< n]"
    unfolding set_map[symmetric] by (rule arg_cong)
  then have "js ''&#8226;'' \<notin> ch_mark ` set (filter is_select_item (pg_select_items t))" by auto
  ultimately show ?thesis by (simp add: t_def SelectItemSet_def n_def)
qed

theorem filter_key_past_end_witness:
  "\<exists>s. sb_searchIndex s = 1 \<and> SelectItemCount s = 2
    \<and> fst (OnSearchSelectKey example_index \<lparr>keyCode = 40, shiftKey = False\<rparr> s) = Some TypeError"
proof -
  define s where "s = (append_links (indexSectionLabels example_index) example_page)
    \<lparr>sb_searchIndex := 1, sb_searchActive := True, pg_value := js ''a''\<rparr>"
  have "is_select_item (filter_link k l)" for k l by (simp add: is_select_item_def filter_link_def)
  moreover have "pg_select_items s = [filter_link 0 (js ''All''), filter_link 1 (js ''Files'')]"
    using append_links_fields[of "indexSectionLabels example_index" example_page]
    by (simp add: s_def example_page_fields example_index_def)
  ultimately have "SelectItemCount s = 2" by (simp add: SelectItemCount_def count_items_eq)
  moreover have "map_of (indexSectionsWithContent example_index) 2 = None" by (simp add: example_index_def)
  moreover have "remove_spaces (js ''a'') \<noteq> []" by code_simp
  ultimately show ?thesis
    using filter_key_past_end[of s example_index] by (intro exI[of _ s]) (simp add: s_def)
qed

end
