(* ===== verification/Results_Props.thy ===== *)
theory Results_Props
  imports Results_Page Search_Box_Props
begin

text \<open>
  Properties of the page with the results: what a search shows, how the children of a row are
  found, and what the keys do.
\<close>

text \<open>The children of a row do not depend on the styles.\<close>

definition same_shape :: "dom \<Rightarrow> dom \<Rightarrow> bool" where
  "same_shape d d' \<longleftrightarrow> (\<forall>i. getElementById d' i = getElementById d i)
     \<and> (\<forall>q n. node_at d' q = Some n \<longrightarrow> (\<exists>m. node_at d q = Some m \<and> nd_name n = nd_name m \<and> nd_attrs n = nd_attrs m))
     \<and> (\<forall>q. node_at d' q = None \<longleftrightarrow> node_at d q = None)"

lemma same_shape_at: "same_shape d d' \<Longrightarrow> (dom_at d' q = None) = (dom_at d q = None)"
  by (simp add: same_shape_def node_at_def)

lemma same_shape_nav:
  assumes "same_shape d d'"
  shows "firstChild d' q = firstChild d q" "hasChildNodes d' q = hasChildNodes d q" "nextSibling d' q = nextSibling d q"
    "is_div d' q = is_div d q" "is_children_div d' q = is_children_div d q" "getElementById d' i = getElementById d i"
proof -
  show "firstChild d' q = firstChild d q" "hasChildNodes d' q = hasChildNodes d q" "nextSibling d' q = nextSibling d q"
    using same_shape_at[OF assms] by (simp_all add: firstChild_def hasChildNodes_def nextSibling_def Let_def)
  show "getElementById d' i = getElementById d i" using assms by (simp add: same_shape_def)
  have "is_div d' q = is_div d q \<and> is_children_div d' q = is_children_div d q"
  proof (cases "node_at d' q")
    case None
    then have "node_at d q = None" using assms by (simp add: same_shape_def)
    then show ?thesis using None by (simp add: is_div_def is_children_div_def)
  next
    case (Some n)
    then obtain m where "node_at d q = Some m" "nd_name n = nd_name m" "nd_attrs n = nd_attrs m"
      using assms unfolding same_shape_def by blast
    then show ?thesis
      using Some by (simp add: is_div_def is_children_div_def className_def getAttribute_def)
  qed
  then show "is_div d' q = is_div d q" "is_children_div d' q = is_children_div d q" by simp_all
qed

lemma climb_same: "same_shape d d' \<Longrightarrow> climb d' r p = climb d r p"
proof (induction d r p rule: climb.induct)
  case (1 d r p)
  then show ?case
    by (simp add: climb.simps[of d r p] climb.simps[of d' r p] same_shape_nav split: option.splits)
qed

lemma find_loop_same: "same_shape d d' \<Longrightarrow> find_loop d' r p = find_loop d r p"
proof (induction d r p rule: find_loop.induct)
  case (1 d r p)
  have n: "next_element d' r p = next_element d r p"
    unfolding next_element_def using same_shape_nav[OF "1.prems"] climb_same[OF "1.prems"] by (simp cong: option.case_cong if_cong)
  show ?case
    using "1.IH" "1.prems" same_shape_nav[OF "1.prems"] n
    by (simp add: find_loop.simps[of d r p] find_loop.simps[of d' r p] split: option.splits)
qed

lemma FindChildElement_same: "same_shape d d' \<Longrightarrow> FindChildElement d' i = FindChildElement d i"
  by (simp add: FindChildElement_def same_shape_nav find_loop_same cong: option.case_cong)

lemma searched_shape: "searched xs w d \<Longrightarrow> same_shape (page_of xs) d"
  by (simp add: searched_def same_shape_def)

lemma children_of_item_same:
  assumes "same_shape d d'"
  shows "children_of_item d' p = children_of_item d p"
proof (cases "row_of p")
  case (Some row)
  show ?thesis
  proof (cases "node_at d' row")
    case None
    then have "node_at d row = None" using assms by (simp add: same_shape_def)
    then show ?thesis using Some None by (simp add: children_of_item_def)
  next
    case (Some n)
    then obtain m where "node_at d row = Some m" "nd_attrs n = nd_attrs m" using assms unfolding same_shape_def by blast
    then show ?thesis using Some \<open>row_of p = Some row\<close> FindChildElement_same[OF assms]
      by (simp add: children_of_item_def node_id_def getAttribute_def)
  qed
qed (simp add: children_of_item_def)

subsection \<open>The identifiers of rows and of child links\<close>

lemma num_string_split:
  "num_string i @ 95 # s = num_string j @ 95 # t \<longleftrightarrow> i = j \<and> s = t"
proof -
  have "takeWhile (\<lambda>c. c \<noteq> 95) (num_string k @ 95 # u) = num_string k" for k u
    using num_string_no_underscore[of k] by (subst takeWhile_append2) auto
  then have "num_string i = num_string j" if "num_string i @ 95 # s = num_string j @ 95 # t"
    using that by metis
  then show ?thesis by (auto simp: num_string_inj)
qed

lemma child_id_eq: "child_id i m = child_id j n \<longleftrightarrow> i = j \<and> m = n"
  using num_string_split[of i "99 # nat_string m" j "99 # nat_string n"]
  by (auto simp: child_id_def nat_string_def js_def to_string_inj)

lemma child_id_nat: "child_id (int e) c = js ''Item'' @ nat_string e @ js ''_c'' @ nat_string c"
  by (simp add: child_id_def nat_string_def)

lemma page_id_child:
  assumes "has_id (page_of xs) q (child_id (int e) c)"
  shows "q = [0, 1, e, 0, 1, c]"
proof -
  obtain n where n: "node_at (page_of xs) q = Some n" "getAttribute n (js ''id'') = Some (child_id (int e) c)"
    using assms by (auto simp: has_id_def)
  from page_of_node[OF n(1)] show ?thesis
  proof (elim disjE exE conjE)
    fix e' assume "n = dom_node (result_row e' (xs ! e'))"
    then show ?thesis using n(2) by (cases "xs ! e'") (simp add: child_id_def js_Cons_eqs)
  next
    fix e' assume "getAttribute n (js ''id'') = Some (js ''Item'' @ nat_string e')"
    then have "num_string (int e') = num_string (int e) @ js ''_c'' @ nat_string c"
      using n(2) by (simp add: child_id_def nat_string_def)
    then have "95 \<in> set (num_string (int e'))" by (simp add: js_def)
    then show ?thesis using num_string_no_underscore by blast
  next
    fix e' c' assume "getAttribute n (js ''id'') = Some (js ''Item'' @ nat_string e' @ js ''_c'' @ nat_string c')"
      and q: "q = [0, 1, e', 0, 1, c']"
    then have "child_id (int e') c' = child_id (int e) c" using n(2) by (simp add: child_id_nat)
    then show ?thesis using q by (simp add: child_id_eq)
  next
    fix k assume "k \<in> set [''SRIndex'', ''Loading'', ''Searching'', ''NoMatches'', ''SRResults'']"
      "getAttribute n (js ''id'') = Some (js k)"
    then show ?thesis using n(2) by (auto simp: child_id_def js_Cons_eqs)
  qed (use n(2) in simp)
qed

lemma child_node:
  assumes "length (snd (snd x)) \<noteq> 1"
  shows "node_at (result_row e x) [0, 1, c] = (if c < length (snd (snd x)) then Some (dom_node (child_link e c (snd (snd x) ! c))) else None)"
proof (cases x)
  case (fields i name ts)
  obtain other link where
    "dom_kids (result_row e (i, name, ts)) = [appendChild other (appendChild link (setClassAttr (js ''SREntry'') (createElement (js ''div''))))]"
    "dom_kids other = (if length ts = 1 then [] else map (\<lambda>(k, t). child_link e k t) (enumerate 0 ts))"
    by (rule result_row_shape)
  then show ?thesis using assms unfolding fields by (simp add: node_at_simps(2) nth_enumerate_eq)
qed

lemma page_child:
  assumes "e < length xs" "length (snd (snd (xs ! e))) \<noteq> 1"
  shows "getElementById (page_of xs) (child_id (int e) c)
    = (if c < length (snd (snd (xs ! e))) then Some [0, 1, e, 0, 1, c] else None)"
proof (cases "c < length (snd (snd (xs ! e)))")
  case True
  then have n: "node_at (page_of xs) [0, 1, e, 0, 1, c] = Some (dom_node (child_link e c (snd (snd (xs ! e)) ! c)))"
    using assms child_node[OF assms(2), of e c] by (simp add: page_of_row)
  have "has_id (page_of xs) [0, 1, e, 0, 1, c] (child_id (int e) c)"
    using n child_link_node[of e c "snd (snd (xs ! e)) ! c" "[]"] by (simp add: has_id_def child_id_nat)
  from getElementById_unique[OF this page_id_child] True show ?thesis by simp
next
  case False
  then have "node_at (page_of xs) [0, 1, e, 0, 1, c] = None"
    using assms child_node[OF assms(2), of e c] by (simp add: page_of_row)
  then have "\<not> has_id (page_of xs) q (child_id (int e) c)" for q
    using page_id_child[of xs q e c] by (auto simp: has_id_def)
  then show ?thesis using False getElementById_none by auto
qed

lemma dom_at_page_row: "e < length xs \<Longrightarrow> dom_at (page_of xs) [0, 1, e] = Some (result_row e (xs ! e))"
  using page_of_kids[of xs] by (simp add: page_of_def page_with_def nth_enumerate_eq dom_at_Cons)

lemma page_row_id:
  assumes "distinct (map fst xs)" "e < length xs"
  shows "getElementById (page_of xs) (js ''SR_'' @ fst (xs ! e)) = Some [0, 1, e]"
proof (rule getElementById_unique)
  show "has_id (page_of xs) [0, 1, e] (js ''SR_'' @ fst (xs ! e))"
    using assms(2) by (cases "xs ! e") (simp add: has_id_def page_of_row)
next
  fix q assume "has_id (page_of xs) q (js ''SR_'' @ fst (xs ! e))"
  then obtain n where n: "node_at (page_of xs) q = Some n" "getAttribute n (js ''id'') = Some (js ''SR_'' @ fst (xs ! e))"
    by (auto simp: has_id_def)
  from page_of_node[OF n(1)] show "q = [0, 1, e]"
  proof (elim disjE exE conjE)
    fix e' assume e': "e' < length xs" "q = [0, 1, e']" "n = dom_node (result_row e' (xs ! e'))"
    then have "fst (xs ! e') = fst (xs ! e)" using n(2) by (cases "xs ! e'") simp
    then show ?thesis using assms e' by (simp add: distinct_conv_nth) metis
  next
    fix e' assume "getAttribute n (js ''id'') = Some (js ''Item'' @ nat_string e')"
    then show ?thesis using n(2) by (simp add: js_Cons_eqs)
  next
    fix e' c' assume "getAttribute n (js ''id'') = Some (js ''Item'' @ nat_string e' @ js ''_c'' @ nat_string c')"
    then show ?thesis using n(2) by (simp add: js_Cons_eqs)
  next
    fix k assume "k \<in> set [''SRIndex'', ''Loading'', ''Searching'', ''NoMatches'', ''SRResults'']"
      "getAttribute n (js ''id'') = Some (js k)"
    then show ?thesis using n(2) by (auto simp: js_Cons_eqs)
  qed (use n(2) in simp)
qed

lemma first_children_eq: "first_children d = (if nd_name (dom_node d) = js ''div'' then
    if className (dom_node d) = js ''SRChildren'' then Some [] else first_in_kids 0 (dom_kids d) else None)"
  by (cases d) simp

lemma page_children:
  assumes "distinct (map fst xs)" "e < length xs" "length (snd (snd (xs ! e))) \<noteq> 1"
  shows "children_of_item (page_of xs) (item_path e) = Inr (Some [0, 1, e, 0, 1])
    \<and> node_at (page_of xs) [0, 1, e, 0, 1] \<noteq> None"
proof -
  obtain i name ts where x: "xs ! e = (i, name, ts)" by (cases "xs ! e")
  obtain other link where shape:
    "dom_kids (result_row e (i, name, ts)) = [appendChild other (appendChild link (setClassAttr (js ''SREntry'') (createElement (js ''div''))))]"
    "dom_kids link = []" "getAttribute (dom_node link) (js ''class'') = Some (js ''SRSymbol'')"
    "getAttribute (dom_node other) (js ''class'') = Some (js (if length ts = 1 then ''SRScope'' else ''SRChildren''))"
    "nd_name (dom_node other) = js (if length ts = 1 then ''span'' else ''div'')"
    by (rule result_row_shape)
  have ts: "length ts \<noteq> 1" using assms(3) x by simp
  have "node_at (page_of xs) [0, 1, e, 0, 1] \<noteq> None"
  proof -
    have "node_at (page_of xs) [0, 1, e, 0, 1] = node_at (result_row e (i, name, ts)) [0, 1]"
      using assms(2) x by (simp add: page_of_row)
    then show ?thesis using shape(1) by (simp add: node_at_simps(2))
  qed
  moreover have "first_in_kids 0 (dom_kids (result_row e (xs ! e))) = Some [0, 1]"
    using shape ts unfolding x by (simp add: first_children_eq className_def)
  then have "FindChildElement (page_of xs) (js ''SR_'' @ fst (xs ! e)) = Inr (Some [0, 1, e, 0, 1])"
    using FindChildElement_first[OF page_row_id[OF assms(1,2)], of "dom_node (result_row e (xs ! e))" "dom_kids (result_row e (xs ! e))"]
      dom_at_page_row[OF assms(2)] by simp
  then have "children_of_item (page_of xs) (item_path e) = Inr (Some [0, 1, e, 0, 1])"
    using assms(2) by (simp add: children_of_item_def row_of_item page_of_row row_class)
  ultimately show ?thesis by blast
qed

subsection \<open>Properties\<close>

definition example_link :: "string \<Rightarrow> target" where
  "example_link scope = (js ''../a.html'', 1, js scope)"

text \<open>Entries whose identifier is made from the name, in ASCII, and a number.\<close>

definition entry_named :: "entry \<Rightarrow> bool" where
  "entry_named x \<longleftrightarrow> (\<exists>n. fst x = entry_id (fst (snd x)) n) \<and> list_all (\<lambda>c. c < 128) (fst (snd x))"

definition typed_prefix :: "jstring \<Rightarrow> entry \<Rightarrow> bool" where
  "typed_prefix typed x \<longleftrightarrow> prefix (toLowerCase (strip_trailing (strip_leading typed))) (toLowerCase (fst (snd x)))"

lemma entry_matches_typed:
  assumes "entry_named x" "list_all (\<lambda>c. c < 128) typed" "list_all (\<lambda>c. \<not> number_like c) (strip_trailing (strip_leading typed))"
  shows "entry_matches (search_word typed) x \<longleftrightarrow> typed_prefix typed x"
proof -
  obtain n where "fst x = entry_id (fst (snd x)) n" using assms(1) by (auto simp: entry_named_def)
  moreover have "list_all (\<lambda>c. c < 65536) (fst (snd x))" "list_all (\<lambda>c. c < 65536) typed"
    using assms by (auto simp: entry_named_def list_all_iff)
  ultimately show ?thesis using matches_entry[of typed "fst (snd x)" n] assms(3)
    by (simp add: entry_matches_def typed_prefix_def)
qed

lemma page_shows_typed:
  assumes "list_all entry_named searchData" and "list_all (\<lambda>c. c < 128) typed"
    and "list_all (\<lambda>c. \<not> number_like c) (strip_trailing (strip_leading typed))"
  shows "\<exists>d s'. createResults searchData results_body = Inr d
    \<and> SearchResults_Search [] (SearchResults d (js ''?'' @ escape typed) parent) = Inr (True, s')
    \<and> (\<forall>e. e < length searchData \<longrightarrow>
         displayed (rs_doc s') [0, 1, e] = prefix (toLowerCase (strip_trailing (strip_leading typed)))
           (toLowerCase (fst (snd (searchData ! e)))))
    \<and> rs_lastMatchCount s' = length (filter (typed_prefix typed) searchData)
    \<and> displayed (rs_doc s') [0, 3] = (filter (typed_prefix typed) searchData = [])"
proof -
  define s where "s = SearchResults (page_of searchData) (js ''?'' @ escape typed) parent"
  have "list_all (\<lambda>c. c < 65536) typed" using assms(2) by (auto simp: list_all_iff)
  then have word: "asked_word [] s = typed"
    by (simp add: asked_word_def s_def SearchResults_def js_def unescape_escape)
  have m: "x \<in> set searchData \<Longrightarrow> entry_matches (search_word typed) x = typed_prefix typed x" for x
    using assms entry_matches_typed by (auto simp: list_all_iff)
  then have f: "filter (entry_matches (search_word typed)) searchData = filter (typed_prefix typed) searchData"
    by (rule filter_cong[OF refl])
  from page_search[OF s_def, of "[]"] obtain d where d: "SearchResults_Search [] s
      = Inr (True, s\<lparr>rs_doc := d, rs_lastMatchCount := length (filter (typed_prefix typed) searchData)\<rparr>)"
    "searched searchData (search_word typed) d" "displayed d [0, 3] \<longleftrightarrow> filter (typed_prefix typed) searchData = []"
    unfolding word f by blast
  show ?thesis
  proof (intro exI conjI allI impI)
    show "createResults searchData results_body = Inr (page_of searchData)" by (rule createResults_page)
    show "SearchResults_Search [] (SearchResults (page_of searchData) (js ''?'' @ escape typed) parent)
      = Inr (True, s\<lparr>rs_doc := d, rs_lastMatchCount := length (filter (typed_prefix typed) searchData)\<rparr>)"
      using d(1) unfolding s_def .
  next
    fix e assume "e < length searchData"
    then show "displayed (rs_doc (s\<lparr>rs_doc := d, rs_lastMatchCount := length (filter (typed_prefix typed) searchData)\<rparr>)) [0, 1, e]
      = prefix (toLowerCase (strip_trailing (strip_leading typed))) (toLowerCase (fst (snd (searchData ! e))))"
      using searchedD(2)[OF d(2)] m[of "searchData ! e"] by (simp add: typed_prefix_def)
  qed (use d(3) in simp_all)
qed

text \<open>
  C20: what is typed decides what is shown. When the page of results is built by
  \<open>createResults\<close> from entries whose identifiers are made from their names and is opened with
  the typed text in its location, as \<open>SearchBox.Search\<close> does, \<open>SearchResults.Search\<close> succeeds and
  shows exactly the rows whose name begins with the text, whatever the case of letters and
  without the spaces around it, counts them, and shows the notice when there are none. The text
  is ASCII and has none of the characters that can be taken for the number in an identifier.
\<close>

theorem search_shows_matches:
  assumes "list_all entry_named searchData" and "list_all (\<lambda>c. c < 128) typed"
    and "list_all (\<lambda>c. \<not> number_like c) (strip_trailing (strip_leading typed))"
  shows "\<exists>d s'. createResults searchData results_body = Inr d
    \<and> SearchResults_Search [] (SearchResults d (js ''?'' @ escape typed) parent) = Inr (True, s')
    \<and> (\<forall>e. e < length searchData \<longrightarrow>
         displayed (rs_doc s') [0, 1, e] = prefix (toLowerCase (strip_trailing (strip_leading typed)))
           (toLowerCase (fst (snd (searchData ! e)))))
    \<and> rs_lastMatchCount s' = length (filter (typed_prefix typed) searchData)
    \<and> displayed (rs_doc s') [0, 3] = (filter (typed_prefix typed) searchData = [])"
  by (rule page_shows_typed[OF assms])

definition example_entries :: "entry list" where
  "example_entries = [(js ''capath_9'', js ''CApath'', [example_link ''a'']),
     (js ''code_12'', js ''code'', [example_link ''a'', example_link ''b'']),
     (js ''connect_13'', js ''connect'', [example_link ''a'', example_link ''b''])]"

lemma example_named: "list_all entry_named example_entries"
proof -
  have "js ''capath_9'' = entry_id (js ''CApath'') 9" "js ''code_12'' = entry_id (js ''code'') 12"
    "js ''connect_13'' = entry_id (js ''connect'') 13" by code_simp+
  moreover have "list_all (\<lambda>x. list_all (\<lambda>c. c < 128) (fst (snd x))) example_entries" by code_simp
  ultimately show ?thesis unfolding example_entries_def by (auto simp: entry_named_def)
qed

theorem search_shows_matches_witness:
  "\<exists>d s'. createResults example_entries results_body = Inr d
    \<and> SearchResults_Search [] (SearchResults d (js ''?'' @ escape (js ''Co'')) example_page) = Inr (True, s')
    \<and> \<not> displayed (rs_doc s') [0, 1, 0] \<and> displayed (rs_doc s') [0, 1, 1] \<and> displayed (rs_doc s') [0, 1, 2]"
proof -
  have "list_all (\<lambda>c. c < 128) (js ''Co'')" "list_all (\<lambda>c. \<not> number_like c) (strip_trailing (strip_leading (js ''Co'')))"
    by code_simp+
  from search_shows_matches[OF example_named this, of example_page] obtain d s' where
    r: "createResults example_entries results_body = Inr d"
    "SearchResults_Search [] (SearchResults d (js ''?'' @ escape (js ''Co'')) example_page) = Inr (True, s')"
    and a: "\<forall>e. e < length example_entries \<longrightarrow>
         displayed (rs_doc s') [0, 1, e] = prefix (toLowerCase (strip_trailing (strip_leading (js ''Co''))))
           (toLowerCase (fst (snd (example_entries ! e))))" by blast
  have "length example_entries = 3" by (simp add: example_entries_def)
  moreover have "\<not> prefix (toLowerCase (strip_trailing (strip_leading (js ''Co'')))) (toLowerCase (fst (snd (example_entries ! 0))))"
    "prefix (toLowerCase (strip_trailing (strip_leading (js ''Co'')))) (toLowerCase (fst (snd (example_entries ! 1))))"
    "prefix (toLowerCase (strip_trailing (strip_leading (js ''Co'')))) (toLowerCase (fst (snd (example_entries ! 2))))"
    by code_simp+
  ultimately show ?thesis using r a by auto
qed

text \<open>
  C9: the walk of \<open>FindChildElement\<close> over first children, next siblings and parents ends, stays
  below the element it is given, and finds what a search in document order finds that enters
  \<open>div\<close> elements only: the first \<open>div\<close> of class \<open>SRChildren\<close>, or nothing.
\<close>

theorem FindChildElement_correct:
  assumes "getElementById d i = Some r" and "dom_at d r = Some (Elem n cs)"
  shows "FindChildElement d i = Inr (map_option (\<lambda>t. r @ t) (first_in_kids 0 cs))"
  by (rule FindChildElement_first[OF assms])

theorem FindChildElement_correct_witness:
  "FindChildElement (result_row 4 (example_entries ! 1)) (js ''SR_code_12'') = Inr (Some [0, 1])"
proof -
  have 1: "getElementById (result_row 4 (example_entries ! 1)) (js ''SR_code_12'') = Some []"
    "first_in_kids 0 (dom_kids (result_row 4 (example_entries ! 1))) = Some [0, 1]" by code_simp+
  have 2: "dom_at (result_row 4 (example_entries ! 1)) []
      = Some (Elem (dom_node (result_row 4 (example_entries ! 1))) (dom_kids (result_row 4 (example_entries ! 1))))" by simp
  from FindChildElement_correct[OF 1(1) 2] 1(2) show ?thesis by simp
qed



text \<open>The results of a sequence of key events.\<close>

fun process_all :: "nav_event list \<Rightarrow> results_state \<Rightarrow> bool list \<times> results_state" where
  "process_all [] s = ([], s)"
| "process_all (e # es) s = (let (b, s1) = ProcessKeys e s; (bs, s2) = process_all es s1 in (b # bs, s2))"

lemma process_repeats: "rs_repeatOn s \<Longrightarrow> rs_lastKey s = c \<Longrightarrow> c \<noteq> 0 \<Longrightarrow>
    process_all (replicate n \<lparr>ne_type = KeyPress, ne_keyCode = c\<rparr> @ [\<lparr>ne_type = KeyUp, ne_keyCode = c\<rparr>]) s
    = (replicate n True @ [False], s\<lparr>rs_lastKey := 0, rs_repeatOn := False\<rparr>)"
  by (induction n) (simp_all add: ProcessKeys_def)

text \<open>
  C38: a key that is held down: its press is handled at once, the first repetition is ignored, every
  further one is handled, and releasing the key is not; afterwards no key is remembered.
\<close>

theorem key_repeat:
  assumes "c \<noteq> 0"
  shows "process_all (\<lparr>ne_type = KeyDown, ne_keyCode = c\<rparr> # replicate (Suc n) \<lparr>ne_type = KeyPress, ne_keyCode = c\<rparr>
        @ [\<lparr>ne_type = KeyUp, ne_keyCode = c\<rparr>]) s
    = ([True, False] @ replicate n True @ [False], s\<lparr>rs_lastKey := 0, rs_repeatOn := False\<rparr>)"
  using assms process_repeats[of "s\<lparr>rs_lastKey := c, rs_repeatOn := True\<rparr>" c n] by (simp add: ProcessKeys_def)

theorem key_repeat_witness:
  "fst (process_all (\<lparr>ne_type = KeyDown, ne_keyCode = 40\<rparr> # replicate 3 \<lparr>ne_type = KeyPress, ne_keyCode = 40\<rparr>
      @ [\<lparr>ne_type = KeyUp, ne_keyCode = 40\<rparr>]) (SearchResults results_body [] example_page)) = [True, False, True, True, False]"
  using key_repeat[of 40 2 "SearchResults results_body [] example_page"] by (simp add: numeral_3_eq_3 numeral_2_eq_2)

definition hidden_row_entries :: "entry list" where
  "hidden_row_entries = [(js ''aa_0'', js ''aa'', [example_link ''x'', example_link ''y'']),
     (js ''b_1'', js ''b'', [example_link ''x'', example_link ''y'']), (js ''ab_2'', js ''ab'', [example_link ''x''])]"

text \<open>
  Up can move the focus into a row that is hidden. \<open>Nav\<close> looks for the last child link of the
  item before the current one, although the row it has found may be further up: with the rows
  0 and 2 shown, row 1 hidden and the children of row 0 open, Up from row 2 goes to a child
  link of row 1.
\<close>

theorem up_enters_hidden_row:
  "\<exists>d s1 s2 s3. createResults hidden_row_entries results_body = Inr d
    \<and> SearchResults_Search [] (SearchResults d (js ''?a'') parent) = Inr (True, s1)
    \<and> Nav \<lparr>ne_type = KeyDown, ne_keyCode = 39\<rparr> 0 s1 = Inr (False, s2)
    \<and> Nav \<lparr>ne_type = KeyDown, ne_keyCode = 38\<rparr> 2 s2 = Inr (False, s3)
    \<and> rs_focus s3 = RowFocus [0, 1, 1, 0, 1, 1] \<and> \<not> displayed (rs_doc s3) [0, 1, 1]"
proof -
  let ?es = hidden_row_entries
  define s0 where "s0 = SearchResults (page_of ?es) (js ''?a'') parent"
  have len: "length ?es = 3" by (simp add: hidden_row_entries_def)
  have w: "asked_word [] s0 = js ''a''" by (simp add: s0_def asked_word_def SearchResults_def) code_simp
  from page_search[OF s0_def, of "[]"] obtain d m where
    s: "SearchResults_Search [] s0 = Inr (True, s0\<lparr>rs_doc := d, rs_lastMatchCount := m\<rparr>)"
    and sr: "searched ?es (search_word (js ''a'')) d" unfolding w by blast
  define s1 where "s1 = s0\<lparr>rs_doc := d, rs_lastMatchCount := m\<rparr>"
  have match: "entry_matches (search_word (js ''a'')) (?es ! 0)" "\<not> entry_matches (search_word (js ''a'')) (?es ! 1)"
    by code_simp+
  have disp: "displayed d [0, 1, 0]" "\<not> displayed d [0, 1, 1]"
    using match searchedD(2)[OF sr, of 0] searchedD(2)[OF sr, of 1] len by simp_all
  have ts: "length (snd (snd (?es ! 0))) = 2" "length (snd (snd (?es ! 1))) = 2" by (simp_all add: hidden_row_entries_def)
  have ids: "getElementById (page_of ?es) (child_id 1 0) = Some [0, 1, 1, 0, 1, 0]"
    "getElementById (page_of ?es) (child_id 1 1) = Some [0, 1, 1, 0, 1, 1]"
    "getElementById (page_of ?es) (child_id 1 2) = None"
    using page_child[of 1 ?es 0] page_child[of 1 ?es 1] page_child[of 1 ?es 2] len ts
    by (simp_all del: length_greater_0_conv)
  have "distinct (map fst ?es)" by (simp add: hidden_row_entries_def)
  from page_children[OF this, of 0] len ts
  have c0: "children_of_item (page_of ?es) (item_path 0) = Inr (Some [0, 1, 0, 0, 1])" by simp
  have c: "children_of_item d (item_path 0) = Inr (Some [0, 1, 0, 0, 1])"
    using children_of_item_same[OF searched_shape[OF sr]] c0 by simp
  define d2 where "d2 = set_display_at d [0, 1, 0, 0, 1] (js ''block'')"
  define s2 where "s2 = s1\<lparr>rs_repeatOn := False, rs_lastKey := 39, rs_doc := d2\<rparr>"
  have it: "getElementById d (item_id i) = (if 0 \<le> i \<and> i < 3 then Some (item_path (nat i)) else None)" for i
    using searched_item[OF sr] len by simp
  have right: "Nav \<lparr>ne_type = KeyDown, ne_keyCode = 39\<rparr> 0 s1 = Inr (False, s2)"
    using it c by (simp add: Nav_def ProcessKeys_def Let_def nav_open_def s1_def s2_def d2_def)
  have d2: "displayed d2 q \<longleftrightarrow> q = [0, 1, 0, 0, 1] \<and> node_at d q \<noteq> None \<or> q \<noteq> [0, 1, 0, 0, 1] \<and> displayed d q" for q
    by (auto simp: d2_def displayed_def display_at_def node_at_set_display split: option.splits)
  have "same_shape d d2"
    by (auto simp: same_shape_def d2_def node_at_set_display)
  then have c2: "children_of_item d2 (item_path 0) = Inr (Some [0, 1, 0, 0, 1])"
    using children_of_item_same c by simp
  have "node_at (page_of ?es) [0, 1, 0, 0, 1] \<noteq> None"
    using page_children[OF \<open>distinct (map fst ?es)\<close>, of 0] len ts by simp
  then have "node_at d [0, 1, 0, 0, 1] \<noteq> None" using sr by (simp add: searched_def)
  then have open2: "displayed d2 [0, 1, 0, 0, 1]" using d2 by simp
  have it2: "getElementById d2 i = getElementById d i" for i by (simp add: d2_def)
  have "NavPrev d2 1 = Inr (Some (item_path 0))"
    using it disp d2[of "[0, 1, 0]"] d2[of "[0, 1, 1]"]
    by (simp add: NavPrev.simps[of d2 1] NavPrev.simps[of d2 0] it2 row_of_item)
  moreover have "last_child d2 1 0 (item_path 0) = [0, 1, 1, 0, 1, 1]"
    using ids searchedD(1)[OF sr]
    by (simp add: last_child.simps[of d2 1 0] last_child.simps[of d2 1 "Suc 0"] last_child.simps[of d2 1 2] it2
        flip: numeral_2_eq_2)
  ultimately have "Nav \<lparr>ne_type = KeyDown, ne_keyCode = 38\<rparr> 2 s2
      = Inr (False, focus_on [0, 1, 1, 0, 1, 1] (s2\<lparr>rs_repeatOn := False, rs_lastKey := 38\<rparr>))"
    using c2 open2 by (simp add: Nav_def ProcessKeys_def Let_def nav_up_def s2_def shown_def)
  moreover have "\<not> displayed d2 [0, 1, 1]" using d2[of "[0, 1, 1]"] disp by simp
  ultimately show ?thesis
    using s right createResults_page[of ?es]
    by (intro exI[of _ "page_of ?es"] exI[of _ s1] exI[of _ s2]
        exI[of _ "focus_on [0, 1, 1, 0, 1, 1] (s2\<lparr>rs_repeatOn := False, rs_lastKey := 38\<rparr>)"])
      (simp add: s0_def s1_def focus_on_def s2_def)
qed

end
