(* ===== verification/Search_Whole.thy ===== *)
theory Search_Whole
  imports Search_Index Search_Box_Props Results_Props
begin

text \<open>
  The two halves of the search together: the panel chooses a page of results from what is typed,
  the page is built from the data file of its name, and the rows it shows are the rows of the
  section that was chosen whose name begins with what was typed.
\<close>

subsection \<open>What an index in order gives\<close>

lemma tables_ok_lookup:
  "tables_ok es n fs \<Longrightarrow> (g, t) \<in> set fs \<Longrightarrow> \<exists>c m. (js g, c) \<in> set es \<and> t \<noteq> [] \<and> table_ok c m t"
proof (induction es n fs rule: tables_ok.induct)
  case (2 f c es n h u fs)
  then show ?case by (cases "(g, t) = (h, u)") auto
qed simp_all

lemma tables_ok_promise:
  "tables_ok es n fs \<Longrightarrow> (f, c) \<in> set es \<Longrightarrow> \<exists>g t. (g, t) \<in> set fs \<and> js g = f"
proof (induction es n fs rule: tables_ok.induct)
  case (2 f' c' es n h u fs)
  then show ?case by (cases "(f, c) = (f', c')") auto
qed simp_all

lemma tables_ok_names: "tables_ok es n fs \<Longrightarrow> map fst es = map (js \<circ> fst) fs"
  by (induction es n fs rule: tables_ok.induct) simp_all

lemma table_ok_row: "table_ok c m t \<Longrightarrow> r \<in> set t \<Longrightarrow> \<exists>n. row_ok c n r"
  by (induction t arbitrary: m) auto

lemma row_ok_named: "row_ok c n r \<Longrightarrow> entry_named (entry_of r)"
  by (auto simp: row_ok_def entry_named_def entry_of_def split: prod.splits)

lemma row_ok_letter: "row_ok c n r \<Longrightarrow> toLowerCase (fst (snd (entry_of r))) \<noteq> [] \<and> hd (toLowerCase (fst (snd (entry_of r)))) = c"
  by (cases r; cases "fst (snd r)") (auto simp: row_ok_def entry_of_def js_Cons)

lemma index_unique:
  assumes "index_ok ix files" "(g, t) \<in> set files" "(js g, c) \<in> set (expected_files ix)" "r \<in> set t"
  shows "\<exists>n. row_ok c n r"
proof -
  from assms(1) have ok: "tables_ok (expected_files ix) 0 files" "distinct (map fst files)" by (auto simp: index_ok_def)
  have "distinct (map js (map fst files))" using ok(2) by (simp add: distinct_map inj_on_def)
  then have d: "distinct (map fst (expected_files ix))" unfolding tables_ok_names[OF ok(1)] by simp
  from tables_ok_lookup[OF ok(1) assms(2)] obtain c' m where c': "(js g, c') \<in> set (expected_files ix)" "table_ok c' m t" by blast
  then have "c = c'" using d assms(3) eq_key_imp_eq_value by metis
  then show ?thesis using table_ok_row c'(2) assms(4) by blast
qed

lemma index_file:
  assumes "index_ok ix files" "map_of (indexSectionsWithContent ix) k = Some content" "j < length content"
  shows "(section_file ix k j, content ! j) \<in> set (expected_files ix)
    \<and> (\<exists>g t. (g, t) \<in> set files \<and> js g = section_file ix k j)"
proof -
  from assms(2) have "(k, content) \<in> set (indexSectionsWithContent ix)" by (rule map_of_SomeD)
  then have "(section_file ix k j, content ! j) \<in> set (expected_files ix)"
    using assms(3) by (force simp: expected_files_def)
  then show ?thesis using tables_ok_promise assms(1) unfolding index_ok_def by metis
qed

lemma section_row:
  assumes "index_ok ix files" "map_of (indexSectionsWithContent ix) k = Some content" "r \<in> set (section_rows ix files k)"
  shows "\<exists>j < length content. \<exists>g t. (g, t) \<in> set files \<and> js g = section_file ix k j \<and> r \<in> set t \<and> (\<exists>n. row_ok (content ! j) n r)"
proof -
  from assms(3) obtain g t j where g: "(g, t) \<in> set files" "js g = section_file ix k j" "j < length content" "r \<in> set t"
    by (auto simp: section_rows_def assms(2))
  moreover have "\<exists>n. row_ok (content ! j) n r"
    using index_unique[OF assms(1) g(1) _ g(4), of "content ! j"] index_file[OF assms(1,2) g(3)] g(2) by simp
  ultimately show ?thesis by blast
qed

lemma section_rowI:
  "map_of (indexSectionsWithContent ix) k = Some content \<Longrightarrow> j < length content \<Longrightarrow> (g, t) \<in> set files \<Longrightarrow>
   js g = section_file ix k j \<Longrightarrow> r \<in> set t \<Longrightarrow> r \<in> set (section_rows ix files k)"
  by (force simp: section_rows_def)

subsection \<open>The first character decides on the page\<close>

lemma trimmed_hd: "strip_leading s \<noteq> [] \<Longrightarrow> strip_trailing (strip_leading s) \<noteq> []
    \<and> hd (strip_trailing (strip_leading s)) = hd (strip_leading s)"
proof -
  assume ne: "strip_leading s \<noteq> []"
  define v where "v = strip_leading s"
  have h: "hd v \<noteq> 32" "v \<noteq> []" using ne hd_dropWhile[of "\<lambda>c. c = 32" s] by (auto simp: v_def strip_leading_def)
  obtain a u where v: "v = a # u" using h(2) by (cases v) auto
  have "strip_trailing v = a # strip_trailing u"
    using h(1) by (simp add: v strip_trailing_def dropWhile_append)
  then show ?thesis by (simp add: v flip: v_def)
qed

lemma strip_leading_idem: "strip_leading (strip_leading s) = strip_leading s"
  by (simp add: strip_leading_def dropWhile_idem)

lemma set_strip_leading: "set (strip_leading s) \<subseteq> set s"
  by (auto simp: strip_leading_def dest: set_dropWhileD)

lemma index_char_ascii: "list_all (\<lambda>c. c < 128) (a # v) \<Longrightarrow> index_char (a # v) = [lower_unit a]"
  by (simp add: index_char_def lower_unit_def)

text \<open>A row whose name begins with what is typed has its first letter.\<close>

lemma typed_letter:
  assumes "strip_leading v = a # u" "typed_prefix v (entry_of r)" "row_ok c n r"
  shows "c = lower_unit a"
proof -
  from trimmed_hd[of v] assms(1) obtain u' where "strip_trailing (strip_leading v) = a # u'"
    by (cases "strip_trailing (strip_leading v)") auto
  then have "prefix (lower_unit a # toLowerCase u') (toLowerCase (fst (snd (entry_of r))))"
    using assms(2) by (simp add: typed_prefix_def)
  then show ?thesis using row_ok_letter[OF assms(3)] by (auto simp: prefix_def)
qed

lemma Search_location:
  assumes "map_of (indexSectionsWithContent ix) (sb_searchIndex s) = Some content"
    and "strip_leading (pg_value s) = a # u" "list_all (\<lambda>c. c < 128) (pg_value s)"
  shows "\<exists>s'. Search ix s = (None, s') \<and> pg_location s' =
    (if lower_unit a \<in> set content
     then sb_resultsPath s @ js ''/'' @ section_file ix (sb_searchIndex s) (nat (indexOf content [lower_unit a])) @ sb_extension s
        @ js ''?'' @ escape (a # u)
     else sb_resultsPath s @ js ''/nomatches'' @ sb_extension s)"
proof -
  have v: "list_all (\<lambda>c. c < 128) (a # u)" using assms(2,3) set_strip_leading[of "pg_value s"] by (auto simp: list_all_iff)
  have loc: "pg_location (show_results s) = pg_location s" for s by (simp add: show_results_def Let_def)
  have "indexOf content [lower_unit a] \<noteq> - 1 \<longleftrightarrow> lower_unit a \<in> set content" by (auto simp: indexOf_unit)
  then show ?thesis
    using assms(1,2)
    by (simp add: Search_def results_page_def Let_def index_char_ascii[OF v] loc section_file_def section_name_def)
qed

text \<open>The table of a letter holds the rows of the section with that letter.\<close>

lemma section_table:
  assumes "index_ok ix files" "map_of (indexSectionsWithContent ix) k = Some content" "j < length content"
  shows "\<exists>g t. (g, t) \<in> set files \<and> js g = section_file ix k j \<and> list_all entry_named (map entry_of t)
    \<and> (\<forall>r. r \<in> set t \<longleftrightarrow> r \<in> set (section_rows ix files k) \<and> (\<exists>n. row_ok (content ! j) n r))"
proof -
  from index_file[OF assms] obtain g t where g: "(g, t) \<in> set files" "js g = section_file ix k j"
    and e: "(section_file ix k j, content ! j) \<in> set (expected_files ix)" by blast
  have ok: "\<exists>n. row_ok (content ! j) n r" if "r \<in> set t" for r
    using index_unique[OF assms(1) g(1) _ that] e g(2) by simp
  have dist: "distinct content" "distinct (map fst files)"
    using assms(1) map_of_SomeD[OF assms(2)] by (auto simp: index_ok_def list_all_iff)
  have "r \<in> set t" if r: "r \<in> set (section_rows ix files k)" "row_ok (content ! j) n r" for r n
  proof -
    from section_row[OF assms(1,2) r(1)] obtain i g' t' m where i: "i < length content" "(g', t') \<in> set files"
      "js g' = section_file ix k i" "r \<in> set t'" "row_ok (content ! i) m r" by blast
    have "content ! i = content ! j" using row_ok_letter[OF i(5)] row_ok_letter[OF r(2)] by simp
    then have "i = j" using dist(1) i(1) assms(3) by (simp add: nth_eq_iff_index_eq)
    then have "g' = g" using i(3) g(2) by (metis js_eq_iff)
    then show ?thesis using i(2,4) g(1) dist(2) eq_key_imp_eq_value by metis
  qed
  moreover have "list_all entry_named (map entry_of t)"
    using ok row_ok_named by (fastforce simp: list_all_iff)
  ultimately show ?thesis using g ok section_rowI[OF assms(2,3) g] by blast
qed

lemma displayed_rows:
  assumes "\<forall>e. e < length t \<longrightarrow> D e = P (entry_of (t ! e))"
  shows "{t ! e | e. e < length t \<and> D e} = set (filter (\<lambda>r. P (entry_of r)) t)"
proof (intro set_eqI iffI)
  fix r assume "r \<in> set (filter (\<lambda>r. P (entry_of r)) t)"
  then obtain e where "e < length t" "t ! e = r" "P (entry_of r)" by (auto simp only: in_set_conv_nth set_filter mem_Collect_eq)
  then show "r \<in> {t ! e | e. e < length t \<and> D e}" using assms by blast
qed (use assms in auto)

end
