(* ===== verification/Search_Docs.thy ===== *)
theory Search_Docs
  imports Search_Whole Search_Data_Async Search_Data_Client Search_Data_Internal
begin

text \<open>
  Properties of the whole search: the search data of the three documentations are in order, and on
  such data the search finds exactly what there is.
\<close>

text \<open>
  C2: the search finds what there is, and nothing else. With an index that is in order for its
  data files and a section that it has, \<open>SearchBox.Search\<close> on a typed text that is not blank (in
  ASCII, and between its outer spaces without the characters that can be taken for the number in
  an identifier) does not throw.
  It opens either the page without matches, and then no row of the section begins with the text,
  or the page of a data file; on that page, built from the file by \<open>createResults\<close> and opened with
  the query the panel has put into the location, \<open>SearchResults.Search\<close> shows exactly those rows of
  all the files of the section whose name begins with the text, in either case.
\<close>

theorem search_finds_exactly:
  assumes "index_ok ix files"
    and "sb_searchIndex s \<in> set (map fst (indexSectionsWithContent ix))"
    and "list_all (\<lambda>c. c < 128) (pg_value s)"
    and "list_all (\<lambda>c. \<not> number_like c) (strip_trailing (strip_leading (pg_value s)))"
    and "strip_leading (pg_value s) \<noteq> []"
  shows "\<exists>s'. Search ix s = (None, s') \<and>
    (let rows = filter (\<lambda>r. typed_prefix (pg_value s) (entry_of r)) (section_rows ix files (sb_searchIndex s)) in
     (rows = [] \<and> pg_location s' = sb_resultsPath s @ js ''/nomatches'' @ sb_extension s) \<or>
     (\<exists>g t d query s''. (g, t) \<in> set files
       \<and> pg_location s' = sb_resultsPath s @ js ''/'' @ js g @ sb_extension s @ query
       \<and> createResults (map entry_of t) results_body = Inr d
       \<and> SearchResults_Search [] (SearchResults d query s') = Inr (True, s'')
       \<and> {t ! e | e. e < length t \<and> displayed (rs_doc s'') [0, 1, e]} = set rows))"
proof -
  let ?k = "sb_searchIndex s"
  define rows where "rows = filter (\<lambda>r. typed_prefix (pg_value s) (entry_of r)) (section_rows ix files ?k)"
  from assms(2) obtain content where content: "map_of (indexSectionsWithContent ix) ?k = Some content"
    by (cases "map_of (indexSectionsWithContent ix) ?k") (auto simp: map_of_eq_None_iff)
  from assms(5) obtain a u where v: "strip_leading (pg_value s) = a # u" by (cases "strip_leading (pg_value s)") auto
  have typed: "list_all (\<lambda>c. c < 128) (a # u)"
    using assms(3) v set_strip_leading[of "pg_value s"] by (auto simp: list_all_iff)
  have word: "list_all (\<lambda>c. \<not> number_like c) (strip_trailing (strip_leading (a # u)))"
    using assms(4) unfolding v[symmetric] strip_leading_idem .
  have same: "typed_prefix (a # u) = typed_prefix (pg_value s)"
    unfolding v[symmetric] by (rule ext) (simp add: typed_prefix_def strip_leading_idem)
  from Search_location[OF content v assms(3)] obtain s' where s': "Search ix s = (None, s')"
    and loc: "pg_location s' = (if lower_unit a \<in> set content
     then sb_resultsPath s @ js ''/'' @ section_file ix ?k (nat (indexOf content [lower_unit a])) @ sb_extension s
        @ js ''?'' @ escape (a # u)
     else sb_resultsPath s @ js ''/nomatches'' @ sb_extension s)" by blast
  have letter: "\<exists>n. row_ok (lower_unit a) n r" if "r \<in> set rows" for r
    using that section_row[OF assms(1) content, of r] typed_letter[OF v, of r] unfolding rows_def by force
  show ?thesis
  proof (cases "lower_unit a \<in> set content")
    case False
    have "r \<notin> set rows" for r
      using section_row[OF assms(1) content, of r] typed_letter[OF v, of r] False nth_mem unfolding rows_def by force
    then have "rows = []" by (cases rows) auto
    then show ?thesis using s' loc False unfolding rows_def Let_def by auto
  next
    case True
    then obtain j where j: "j < length content" "content ! j = lower_unit a" by (auto simp: in_set_conv_nth)
    have "distinct content" using assms(1) map_of_SomeD[OF content] by (auto simp: index_ok_def list_all_iff)
    then have idx: "nat (indexOf content [lower_unit a]) = j" using indexOf_nth[OF _ j(1)] j(2) by simp
    from section_table[OF assms(1) content j(1)] obtain g t where g: "(g, t) \<in> set files" "js g = section_file ix ?k j"
      and named: "list_all entry_named (map entry_of t)"
      and t: "\<forall>r. r \<in> set t \<longleftrightarrow> r \<in> set (section_rows ix files ?k) \<and> (\<exists>n. row_ok (content ! j) n r)" by blast
    from page_shows_typed[OF named typed word, of s'] obtain d s'' where d: "createResults (map entry_of t) results_body = Inr d"
      "SearchResults_Search [] (SearchResults d (js ''?'' @ escape (a # u)) s') = Inr (True, s'')"
      "\<forall>e. e < length t \<longrightarrow> displayed (rs_doc s'') [0, 1, e] = typed_prefix (a # u) (entry_of (t ! e))"
      by (auto simp: typed_prefix_def)
    have "set (filter (\<lambda>r. typed_prefix (pg_value s) (entry_of r)) t) = set rows"
      using t letter j(2) by (auto simp: rows_def)
    then have "{t ! e | e. e < length t \<and> displayed (rs_doc s'') [0, 1, e]} = set rows"
      using displayed_rows[OF d(3)] unfolding same by simp
    moreover have "pg_location s' = sb_resultsPath s @ js ''/'' @ js g @ sb_extension s @ js ''?'' @ escape (a # u)"
      using loc True idx g(2) by simp
    ultimately show ?thesis using s' g(1) d(1,2) unfolding Let_def rows_def by blast
  qed
qed

definition example_search :: search_box where
  "example_search = example_page\<lparr>sb_searchIndex := 9, pg_value := js '' Tra''\<rparr>"

theorem search_finds_exactly_witness:
  "\<exists>s' g t d query s''. Search async_index example_search = (None, s') \<and> (g, t) \<in> set async_files
     \<and> pg_location s' = sb_resultsPath example_search @ js ''/'' @ js g @ sb_extension example_search @ query
     \<and> createResults (map entry_of t) results_body = Inr d
     \<and> SearchResults_Search [] (SearchResults d query s') = Inr (True, s'')
     \<and> (\<exists>e < length t. t ! e = (''tracing_708'', ''Tracing'', [(''../tracing.html'', 1, '''')])
          \<and> displayed (rs_doc s'') [0, 1, e])"
proof -
  let ?r = "(''tracing_708'', ''Tracing'', [(''../tracing.html'', 1, '''')]) :: raw_entry"
  have content: "map_of (indexSectionsWithContent async_index) 9 = Some (js ''acpqst'')" by (simp add: async_index_def)
  have "js ''pages_5'' = section_file async_index 9 5" by code_simp
  moreover have "(''pages_5'', async_pages_5) \<in> set async_files" by (simp add: async_files_def)
  moreover have "?r \<in> set async_pages_5" by (simp add: async_pages_5_def)
  moreover have "5 < length (js ''acpqst'')" by code_simp
  ultimately have "?r \<in> set (section_rows async_index async_files 9)" using section_rowI[OF content] by blast
  moreover have "typed_prefix (js '' Tra'') (entry_of ?r)" by code_simp
  ultimately have r: "?r \<in> set (filter (\<lambda>r. typed_prefix (js '' Tra'') (entry_of r)) (section_rows async_index async_files 9))"
    by simp
  have s: "sb_searchIndex example_search = 9" "pg_value example_search = js '' Tra''" by (simp_all add: example_search_def)
  have "9 \<in> set (map fst (indexSectionsWithContent async_index))" by (simp add: async_index_def)
  moreover have "list_all (\<lambda>c. c < 128) (js '' Tra'')"
    "list_all (\<lambda>c. \<not> number_like c) (strip_trailing (strip_leading (js '' Tra'')))"
    "strip_leading (js '' Tra'') \<noteq> []" by code_simp+
  ultimately obtain s' g t d query s'' where f: "Search async_index example_search = (None, s')" "(g, t) \<in> set async_files"
    "pg_location s' = sb_resultsPath example_search @ js ''/'' @ js g @ sb_extension example_search @ query"
    "createResults (map entry_of t) results_body = Inr d"
    "SearchResults_Search [] (SearchResults d query s') = Inr (True, s'')"
    "?r \<in> {t ! e | e. e < length t \<and> displayed (rs_doc s'') [0, 1, e]}"
    using search_finds_exactly[OF async_index_ok, of example_search] r unfolding s Let_def by fastforce
  from f(6) have "\<exists>e < length t. t ! e = ?r \<and> displayed (rs_doc s'') [0, 1, e]" by auto
  with f(1-5) show ?thesis by blast
qed


end
