(* ===== verification/Menu.thy ===== *)
theory Menu
  imports Main
begin

text \<open>
  The menu of the documentation viewer, \<^verbatim>\<open>menu.js\<close>, with the data of \<^verbatim>\<open>menudata.js\<close> of the three
  documentations: the markup that is built from the tree of links, and the page it is put into.
  Strings are lists of characters here, since everything is ASCII.
\<close>

subsection \<open>The data and the markup\<close>

text \<open>A link, with its children if it has the property.\<close>

datatype menu = Menu (menu_text: string) (menu_url: string) (menu_children: "menu list option")

fun makeTree :: "menu list option \<Rightarrow> string \<Rightarrow> string" and make_items :: "menu list \<Rightarrow> string \<Rightarrow> string" where
  "makeTree None relPath = []"
| "makeTree (Some children) relPath = ''<ul>'' @ make_items children relPath @ ''</ul>''"
| "make_items [] relPath = []"
| "make_items (Menu text url children # ms) relPath =
     ''<li><a href=\"'' @ relPath @ url @ ''\">'' @ text @ ''</a>'' @ makeTree children relPath @ ''</li>''
     @ make_items ms relPath"

subsection \<open>The page\<close>

text \<open>
  The children of \<open>#main-nav\<close>: an element is known by its markup, its class and identifier, the
  items that were appended to it and whether it was made a menu by the plugin.
\<close>

record nav_list =
  nl_markup :: string
  nl_class :: string
  nl_id :: string
  nl_items :: "string list"
  nl_smart :: bool

definition nav_append :: "string \<Rightarrow> nav_list list \<Rightarrow> nav_list list" where
  "nav_append markup nav =
     (if markup = [] then nav
      else nav @ [\<lparr>nl_markup = markup, nl_class = [], nl_id = [], nl_items = [], nl_smart = False\<rparr>])"

definition add_class :: "string \<Rightarrow> string \<Rightarrow> string" where
  "add_class c cls = (if cls = [] then c else cls @ '' '' @ c)"

fun mark_first :: "nav_list list \<Rightarrow> nav_list list" where
  "mark_first [] = []"
| "mark_first (x # xs) = x\<lparr>nl_class := add_class ''sm sm-dox'' (nl_class x), nl_id := ''main-menu''\<rparr> # xs"

text \<open>\<open>$('#main-menu')\<close>: the first element with the identifier.\<close>

fun on_main_menu :: "(nav_list \<Rightarrow> nav_list) \<Rightarrow> nav_list list \<Rightarrow> nav_list list" where
  "on_main_menu f [] = []"
| "on_main_menu f (x # xs) = (if nl_id x = ''main-menu'' then f x # xs else x # on_main_menu f xs)"

definition server_box :: "string \<Rightarrow> string \<Rightarrow> string \<Rightarrow> string" where
  "server_box relPath searchPage search =
     ''<li style=\"float:right\"><div id=\"MSearchBox\" class=\"MSearchBoxInactive\"><div class=\"left\"><form id=\"FSearchBox\" action=\"''
     @ relPath @ searchPage @ ''\" method=\"get\"><img id=\"MSearchSelect\" src=\"'' @ relPath
     @ ''search/mag.svg\" alt=\"\"/><input type=\"text\" id=\"MSearchField\" name=\"query\" value=\"'' @ search
     @ ''\" size=\"20\" accesskey=\"S\" onfocus=\"searchBox.OnSearchFieldFocus(true)\" onblur=\"searchBox.OnSearchFieldFocus(false)\"></form></div><div class=\"right\"></div></div></li>''"

definition client_box :: "string \<Rightarrow> string \<Rightarrow> string" where
  "client_box relPath search =
     ''<li style=\"float:right\"><div id=\"MSearchBox\" class=\"MSearchBoxInactive\"><span class=\"left\"><img id=\"MSearchSelect\" src=\"''
     @ relPath @ ''search/mag_sel.svg\" onmouseover=\"return searchBox.OnSearchSelectShow()\" onmouseout=\"return searchBox.OnSearchSelectHide()\" alt=\"\"/><input type=\"text\" id=\"MSearchField\" value=\"''
     @ search @ ''\" accesskey=\"S\" onfocus=\"searchBox.OnSearchFieldFocus(true)\" onblur=\"searchBox.OnSearchFieldFocus(false)\" onkeyup=\"searchBox.OnSearchFieldChange(event)\"/></span><span class=\"right\"><a id=\"MSearchClose\" href=\"javascript:searchBox.CloseResultsWindow()\"><img id=\"MSearchCloseImg\" border=\"0\" src=\"''
     @ relPath @ ''search/close.svg\" alt=\"\"/></a></span></div></li>''"

definition initMenu :: "menu list option \<Rightarrow> string \<Rightarrow> bool \<Rightarrow> bool \<Rightarrow> string \<Rightarrow> string \<Rightarrow> nav_list list \<Rightarrow> nav_list list" where
  "initMenu menudata relPath searchEnabled serverSide searchPage search nav =
     (let nav1 = mark_first (nav_append (makeTree menudata relPath) nav);
          nav2 = (if searchEnabled
                  then on_main_menu (\<lambda>x. x\<lparr>nl_items := nl_items x @
                    [if serverSide then server_box relPath searchPage search else client_box relPath search]\<rparr>) nav1
                  else nav1)
      in on_main_menu (\<lambda>x. x\<lparr>nl_smart := True\<rparr>) nav2)"

subsection \<open>Reading the markup\<close>

text \<open>
  What a browser makes of the markup: it is cut into tags and text, and the tags \<open>ul\<close> and \<open>li\<close>
  are nested by a stack. A frame holds the items read so far and the one being read.
\<close>

datatype token = Tag string | Text string

definition flush :: "string \<Rightarrow> token list" where
  "flush t = (if t = [] then [] else [Text t])"

lemma flush_Nil [simp]: "flush [] = []"
  by (simp add: flush_def)

fun tokens :: "bool \<Rightarrow> string \<Rightarrow> string \<Rightarrow> token list" where
  "tokens in_tag acc [] = (if in_tag then [] else flush acc)"
| "tokens False acc (c # s) = (if c = CHR ''<'' then flush acc @ tokens True [] s else tokens False (acc @ [c]) s)"
| "tokens True acc (c # s) = (if c = CHR ''>'' then Tag acc # tokens False [] s else tokens True (acc @ [c]) s)"

type_synonym frame = "menu list \<times> string \<times> string \<times> menu list option"

definition href_of :: "string \<Rightarrow> string option" where
  "href_of tag = (if take 8 tag = ''a href=\"'' then Some (takeWhile (\<lambda>c. c \<noteq> CHR ''\"'') (drop 8 tag)) else None)"

fun read_token :: "token \<Rightarrow> frame list \<Rightarrow> frame list option" where
  "read_token (Text t) ((ms, x, u, cs) # fs) = Some ((ms, t, u, cs) # fs)"
| "read_token (Tag t) fs =
     (if t = ''ul'' then Some (([], [], [], None) # fs)
      else case fs of
        [] \<Rightarrow> None
      | (ms, x, u, cs) # fs1 \<Rightarrow>
          if t = ''/ul'' then (case fs1 of [] \<Rightarrow> None | (ms', x', u', _) # fs' \<Rightarrow> Some ((ms', x', u', Some ms) # fs'))
          else if t = ''li'' then Some ((ms, [], [], None) # fs1)
          else if t = ''/li'' then Some ((ms @ [Menu x u cs], [], [], None) # fs1)
          else if t = ''/a'' then Some fs
          else map_option (\<lambda>u'. (ms, x, u', cs) # fs1) (href_of t))"
| "read_token _ [] = None"

fun read_tokens :: "token list \<Rightarrow> frame list \<Rightarrow> frame list option" where
  "read_tokens [] fs = Some fs"
| "read_tokens (t # ts) fs = (case read_token t fs of None \<Rightarrow> None | Some fs' \<Rightarrow> read_tokens ts fs')"

definition read_tree :: "string \<Rightarrow> menu list option option" where
  "read_tree s = (case read_tokens (tokens False [] s) [([], [], [], None)] of
     Some [([], [], [], cs)] \<Rightarrow> Some cs | _ \<Rightarrow> None)"

text \<open>Texts and addresses that need no escaping, and the tree with its addresses made relative.\<close>

definition text_ok :: "string \<Rightarrow> bool" where
  "text_ok t \<longleftrightarrow> CHR ''<'' \<notin> set t"

definition url_ok :: "string \<Rightarrow> bool" where
  "url_ok u \<longleftrightarrow> CHR ''>'' \<notin> set u \<and> CHR ''\"'' \<notin> set u"

fun menu_ok :: "menu \<Rightarrow> bool" where
  "menu_ok (Menu text url children) \<longleftrightarrow> text_ok text \<and> url_ok url
     \<and> (case children of None \<Rightarrow> True | Some ms \<Rightarrow> list_all menu_ok ms)"

fun below :: "string \<Rightarrow> menu \<Rightarrow> menu" where
  "below p (Menu text url children) = Menu text (p @ url) (map_option (map (below p)) children)"

subsection \<open>The markup is read back\<close>

lemma tokens_text: "CHR ''<'' \<notin> set t \<Longrightarrow> tokens False acc (t @ CHR ''<'' # s) = flush (acc @ t) @ tokens True [] s"
  by (induction t arbitrary: acc) auto

lemma tokens_tag: "CHR ''>'' \<notin> set t \<Longrightarrow> tokens True acc (t @ CHR ''>'' # s) = Tag (acc @ t) # tokens False [] s"
  by (induction t arbitrary: acc) auto

lemma tokens_markup:
  "CHR ''>'' \<notin> set t \<Longrightarrow> tokens False [] (CHR ''<'' # t @ CHR ''>'' # s) = Tag t # tokens False [] s"
  using tokens_text[of "[]" "[]" "t @ CHR ''>'' # s"] tokens_tag[of t "[]" s] by (simp add: flush_def)

lemma tokens_item:
  assumes "url_ok u" "text_ok t"
  shows "tokens False [] (''<li><a href=\"'' @ u @ ''\">'' @ t @ ''</a>'' @ s)
    = Tag ''li'' # Tag (''a href=\"'' @ u @ ''\"'') # flush t @ Tag ''/a'' # tokens False [] s"
proof -
  have "tokens False [] (CHR ''<'' # (''a href=\"'' @ u @ ''\"'') @ CHR ''>'' # t @ CHR ''<'' # ''/a'' @ CHR ''>'' # s)
    = Tag (''a href=\"'' @ u @ ''\"'') # tokens False [] (t @ CHR ''<'' # ''/a'' @ CHR ''>'' # s)"
    using assms(1) by (intro tokens_markup) (auto simp: url_ok_def)
  also have "tokens False [] (t @ CHR ''<'' # ''/a'' @ CHR ''>'' # s) = flush t @ Tag ''/a'' # tokens False [] s"
    using assms(2) tokens_text[of t "[]"] tokens_tag[of "''/a''" "[]" s] by (simp add: text_ok_def)
  finally show ?thesis using tokens_markup[of "''li''"] by simp
qed

lemma href_of_link: "url_ok u \<Longrightarrow> href_of (''a href=\"'' @ u @ ''\"'') = Some u"
  by (auto simp: href_of_def url_ok_def takeWhile_append)

lemma read_flush: "read_tokens (flush t @ ts) ((ms, [], u, cs) # fs) = read_tokens ts ((ms, t, u, cs) # fs)"
  by (simp add: flush_def)

lemma read_item:
  assumes "url_ok u" "text_ok t"
  shows "read_tokens (tokens False [] (''<li><a href=\"'' @ u @ ''\">'' @ t @ ''</a>'' @ s)) ((ms, x, v, cs) # fs)
    = read_tokens (tokens False [] s) ((ms, t, u, None) # fs)"
  unfolding tokens_item[OF assms] using href_of_link[OF assms(1)] by (simp add: read_flush)

lemma url_ok_append: "url_ok (p @ u) \<longleftrightarrow> url_ok p \<and> url_ok u"
  by (auto simp: url_ok_def)

lemma read_makeTree:
  shows "url_ok p \<Longrightarrow> (\<forall>ms. children = Some ms \<longrightarrow> list_all menu_ok ms) \<Longrightarrow>
      read_tokens (tokens False [] (makeTree children p @ s)) ((done_items, x, u, None) # fs)
      = read_tokens (tokens False [] s) ((done_items, x, u, map_option (map (below p)) children) # fs)"
    and "url_ok p \<Longrightarrow> list_all menu_ok ms \<Longrightarrow>
      read_tokens (tokens False [] (make_items ms p @ s)) ((done_items, [], [], None) # fs)
      = read_tokens (tokens False [] s) ((done_items @ map (below p) ms, [], [], None) # fs)"
proof (induction children p and ms p arbitrary: s done_items x u fs and s done_items fs rule: makeTree_make_items.induct)
  case (4 t url children ms relPath)
  have ok: "url_ok (relPath @ url)" "text_ok t" using "4.prems" by (auto simp: url_ok_append)
  have kids: "\<forall>ms. children = Some ms \<longrightarrow> list_all menu_ok ms" "list_all menu_ok ms"
    using "4.prems" by (auto split: option.splits)
  show ?case
    using read_item[OF ok] "4.IH" ok kids "4.prems" by simp
qed simp_all

lemma read_tree_makeTree:
  assumes "url_ok p" "\<forall>ms. menudata = Some ms \<longrightarrow> list_all menu_ok ms"
  shows "read_tree (makeTree menudata p) = Some (map_option (map (below p)) menudata)"
  using read_makeTree(1)[OF assms, of "[]" "[]" "[]" "[]" "[]"] by (simp add: read_tree_def)

subsection \<open>The data\<close>

definition async_menu :: "menu list option" where
  "async_menu = Some [
    Menu ''Main Page'' ''index.html'' None,
    Menu ''Related Pages'' ''pages.html'' None,
    Menu ''Data Structures'' ''annotated.html'' (Some [
     Menu ''Data Structures'' ''annotated.html'' None,
     Menu ''Data Fields'' ''functions.html'' (Some [
      Menu ''All'' ''functions.html'' (Some [
       Menu ''a'' ''functions.html#index_a'' None,
       Menu ''b'' ''functions.html#index_b'' None,
       Menu ''c'' ''functions.html#index_c'' None,
       Menu ''d'' ''functions.html#index_d'' None,
       Menu ''e'' ''functions.html#index_e'' None,
       Menu ''h'' ''functions.html#index_h'' None,
       Menu ''i'' ''functions.html#index_i'' None,
       Menu ''k'' ''functions.html#index_k'' None,
       Menu ''l'' ''functions.html#index_l'' None,
       Menu ''m'' ''functions.html#index_m'' None,
       Menu ''n'' ''functions.html#index_n'' None,
       Menu ''o'' ''functions.html#index_o'' None,
       Menu ''p'' ''functions.html#index_p'' None,
       Menu ''q'' ''functions.html#index_q'' None,
       Menu ''r'' ''functions.html#index_r'' None,
       Menu ''s'' ''functions.html#index_s'' None,
       Menu ''t'' ''functions.html#index_t'' None,
       Menu ''u'' ''functions.html#index_u'' None,
       Menu ''v'' ''functions.html#index_v'' None,
       Menu ''w'' ''functions.html#index_w'' None]),
      Menu ''Variables'' ''functions_vars.html'' (Some [
       Menu ''a'' ''functions_vars.html#index_a'' None,
       Menu ''b'' ''functions_vars.html#index_b'' None,
       Menu ''c'' ''functions_vars.html#index_c'' None,
       Menu ''d'' ''functions_vars.html#index_d'' None,
       Menu ''e'' ''functions_vars.html#index_e'' None,
       Menu ''h'' ''functions_vars.html#index_h'' None,
       Menu ''i'' ''functions_vars.html#index_i'' None,
       Menu ''k'' ''functions_vars.html#index_k'' None,
       Menu ''l'' ''functions_vars.html#index_l'' None,
       Menu ''m'' ''functions_vars.html#index_m'' None,
       Menu ''n'' ''functions_vars.html#index_n'' None,
       Menu ''o'' ''functions_vars.html#index_o'' None,
       Menu ''p'' ''functions_vars.html#index_p'' None,
       Menu ''q'' ''functions_vars.html#index_q'' None,
       Menu ''r'' ''functions_vars.html#index_r'' None,
       Menu ''s'' ''functions_vars.html#index_s'' None,
       Menu ''t'' ''functions_vars.html#index_t'' None,
       Menu ''u'' ''functions_vars.html#index_u'' None,
       Menu ''v'' ''functions_vars.html#index_v'' None,
       Menu ''w'' ''functions_vars.html#index_w'' None])])]),
    Menu ''Files'' ''files.html'' (Some [
     Menu ''File List'' ''files.html'' None,
     Menu ''Globals'' ''globals.html'' (Some [
      Menu ''All'' ''globals.html'' (Some [
       Menu ''m'' ''globals.html#index_m'' None,
       Menu ''p'' ''globals_p.html#index_p'' None]),
      Menu ''Functions'' ''globals_func.html'' (Some [
       Menu ''m'' ''globals_func.html#index_m'' None]),
      Menu ''Typedefs'' ''globals_type.html'' None,
      Menu ''Enumerations'' ''globals_enum.html'' None,
      Menu ''Enumerator'' ''globals_eval.html'' (Some [
       Menu ''m'' ''globals_eval.html#index_m'' None]),
      Menu ''Macros'' ''globals_defs.html'' (Some [
       Menu ''m'' ''globals_defs.html#index_m'' None])])])]"

definition client_menu :: "menu list option" where
  "client_menu = Some [
    Menu ''Main Page'' ''index.html'' None,
    Menu ''Related Pages'' ''pages.html'' None,
    Menu ''Data Structures'' ''annotated.html'' (Some [
     Menu ''Data Structures'' ''annotated.html'' None,
     Menu ''Data Fields'' ''functions.html'' (Some [
      Menu ''All'' ''functions.html'' (Some [
       Menu ''a'' ''functions.html#index_a'' None,
       Menu ''b'' ''functions.html#index_b'' None,
       Menu ''c'' ''functions.html#index_c'' None,
       Menu ''d'' ''functions.html#index_d'' None,
       Menu ''e'' ''functions.html#index_e'' None,
       Menu ''h'' ''functions.html#index_h'' None,
       Menu ''i'' ''functions.html#index_i'' None,
       Menu ''k'' ''functions.html#index_k'' None,
       Menu ''l'' ''functions.html#index_l'' None,
       Menu ''m'' ''functions.html#index_m'' None,
       Menu ''n'' ''functions.html#index_n'' None,
       Menu ''p'' ''functions.html#index_p'' None,
       Menu ''q'' ''functions.html#index_q'' None,
       Menu ''r'' ''functions.html#index_r'' None,
       Menu ''s'' ''functions.html#index_s'' None,
       Menu ''t'' ''functions.html#index_t'' None,
       Menu ''u'' ''functions.html#index_u'' None,
       Menu ''v'' ''functions.html#index_v'' None,
       Menu ''w'' ''functions.html#index_w'' None]),
      Menu ''Variables'' ''functions_vars.html'' (Some [
       Menu ''a'' ''functions_vars.html#index_a'' None,
       Menu ''b'' ''functions_vars.html#index_b'' None,
       Menu ''c'' ''functions_vars.html#index_c'' None,
       Menu ''d'' ''functions_vars.html#index_d'' None,
       Menu ''e'' ''functions_vars.html#index_e'' None,
       Menu ''h'' ''functions_vars.html#index_h'' None,
       Menu ''i'' ''functions_vars.html#index_i'' None,
       Menu ''k'' ''functions_vars.html#index_k'' None,
       Menu ''l'' ''functions_vars.html#index_l'' None,
       Menu ''m'' ''functions_vars.html#index_m'' None,
       Menu ''n'' ''functions_vars.html#index_n'' None,
       Menu ''p'' ''functions_vars.html#index_p'' None,
       Menu ''q'' ''functions_vars.html#index_q'' None,
       Menu ''r'' ''functions_vars.html#index_r'' None,
       Menu ''s'' ''functions_vars.html#index_s'' None,
       Menu ''t'' ''functions_vars.html#index_t'' None,
       Menu ''u'' ''functions_vars.html#index_u'' None,
       Menu ''v'' ''functions_vars.html#index_v'' None,
       Menu ''w'' ''functions_vars.html#index_w'' None])])]),
    Menu ''Files'' ''files.html'' (Some [
     Menu ''File List'' ''files.html'' None,
     Menu ''Globals'' ''globals.html'' (Some [
      Menu ''All'' ''globals.html'' (Some [
       Menu ''m'' ''globals.html#index_m'' None,
       Menu ''p'' ''globals_p.html#index_p'' None]),
      Menu ''Functions'' ''globals_func.html'' (Some [
       Menu ''m'' ''globals_func.html#index_m'' None]),
      Menu ''Typedefs'' ''globals_type.html'' None,
      Menu ''Enumerations'' ''globals_enum.html'' None,
      Menu ''Enumerator'' ''globals_eval.html'' (Some [
       Menu ''m'' ''globals_eval.html#index_m'' None]),
      Menu ''Macros'' ''globals_defs.html'' (Some [
       Menu ''m'' ''globals_defs.html#index_m'' None])])])]"

definition internal_menu :: "menu list option" where
  "internal_menu = Some [
    Menu ''Main Page'' ''index.html'' None,
    Menu ''Data Structures'' ''annotated.html'' (Some [
     Menu ''Data Structures'' ''annotated.html'' None,
     Menu ''Data Fields'' ''functions.html'' (Some [
      Menu ''All'' ''functions.html'' (Some [
       Menu ''_'' ''functions.html#index__5F'' None,
       Menu ''a'' ''functions_a.html#index_a'' None,
       Menu ''b'' ''functions_b.html#index_b'' None,
       Menu ''c'' ''functions_c.html#index_c'' None,
       Menu ''d'' ''functions_d.html#index_d'' None,
       Menu ''e'' ''functions_e.html#index_e'' None,
       Menu ''f'' ''functions_f.html#index_f'' None,
       Menu ''g'' ''functions_g.html#index_g'' None,
       Menu ''h'' ''functions_h.html#index_h'' None,
       Menu ''i'' ''functions_i.html#index_i'' None,
       Menu ''k'' ''functions_k.html#index_k'' None,
       Menu ''l'' ''functions_l.html#index_l'' None,
       Menu ''m'' ''functions_m.html#index_m'' None,
       Menu ''n'' ''functions_n.html#index_n'' None,
       Menu ''o'' ''functions_o.html#index_o'' None,
       Menu ''p'' ''functions_p.html#index_p'' None,
       Menu ''q'' ''functions_q.html#index_q'' None,
       Menu ''r'' ''functions_r.html#index_r'' None,
       Menu ''s'' ''functions_s.html#index_s'' None,
       Menu ''t'' ''functions_t.html#index_t'' None,
       Menu ''u'' ''functions_u.html#index_u'' None,
       Menu ''v'' ''functions_v.html#index_v'' None,
       Menu ''w'' ''functions_w.html#index_w'' None]),
      Menu ''Variables'' ''functions_vars.html'' (Some [
       Menu ''_'' ''functions_vars.html#index__5F'' None,
       Menu ''a'' ''functions_vars_a.html#index_a'' None,
       Menu ''b'' ''functions_vars_b.html#index_b'' None,
       Menu ''c'' ''functions_vars_c.html#index_c'' None,
       Menu ''d'' ''functions_vars_d.html#index_d'' None,
       Menu ''e'' ''functions_vars_e.html#index_e'' None,
       Menu ''f'' ''functions_vars_f.html#index_f'' None,
       Menu ''g'' ''functions_vars_g.html#index_g'' None,
       Menu ''h'' ''functions_vars_h.html#index_h'' None,
       Menu ''i'' ''functions_vars_i.html#index_i'' None,
       Menu ''k'' ''functions_vars_k.html#index_k'' None,
       Menu ''l'' ''functions_vars_l.html#index_l'' None,
       Menu ''m'' ''functions_vars_m.html#index_m'' None,
       Menu ''n'' ''functions_vars_n.html#index_n'' None,
       Menu ''o'' ''functions_vars_o.html#index_o'' None,
       Menu ''p'' ''functions_vars_p.html#index_p'' None,
       Menu ''q'' ''functions_vars_q.html#index_q'' None,
       Menu ''r'' ''functions_vars_r.html#index_r'' None,
       Menu ''s'' ''functions_vars_s.html#index_s'' None,
       Menu ''t'' ''functions_vars_t.html#index_t'' None,
       Menu ''u'' ''functions_vars_u.html#index_u'' None,
       Menu ''v'' ''functions_vars_v.html#index_v'' None,
       Menu ''w'' ''functions_vars_w.html#index_w'' None])])]),
    Menu ''Files'' ''files.html'' (Some [
     Menu ''File List'' ''files.html'' None,
     Menu ''Globals'' ''globals.html'' (Some [
      Menu ''All'' ''globals.html'' (Some [
       Menu ''_'' ''globals.html#index__5F'' None,
       Menu ''a'' ''globals_a.html#index_a'' None,
       Menu ''b'' ''globals_b.html#index_b'' None,
       Menu ''c'' ''globals_c.html#index_c'' None,
       Menu ''d'' ''globals_d.html#index_d'' None,
       Menu ''f'' ''globals_f.html#index_f'' None,
       Menu ''h'' ''globals_h.html#index_h'' None,
       Menu ''i'' ''globals_i.html#index_i'' None,
       Menu ''l'' ''globals_l.html#index_l'' None,
       Menu ''m'' ''globals_m.html#index_m'' None,
       Menu ''n'' ''globals_n.html#index_n'' None,
       Menu ''p'' ''globals_p.html#index_p'' None,
       Menu ''q'' ''globals_q.html#index_q'' None,
       Menu ''r'' ''globals_r.html#index_r'' None,
       Menu ''s'' ''globals_s.html#index_s'' None,
       Menu ''t'' ''globals_t.html#index_t'' None,
       Menu ''u'' ''globals_u.html#index_u'' None,
       Menu ''v'' ''globals_v.html#index_v'' None,
       Menu ''w'' ''globals_w.html#index_w'' None]),
      Menu ''Functions'' ''globals_func.html'' (Some [
       Menu ''c'' ''globals_func.html#index_c'' None,
       Menu ''f'' ''globals_func_f.html#index_f'' None,
       Menu ''h'' ''globals_func_h.html#index_h'' None,
       Menu ''i'' ''globals_func_i.html#index_i'' None,
       Menu ''l'' ''globals_func_l.html#index_l'' None,
       Menu ''m'' ''globals_func_m.html#index_m'' None,
       Menu ''p'' ''globals_func_p.html#index_p'' None,
       Menu ''r'' ''globals_func_r.html#index_r'' None,
       Menu ''s'' ''globals_func_s.html#index_s'' None,
       Menu ''t'' ''globals_func_t.html#index_t'' None,
       Menu ''u'' ''globals_func_u.html#index_u'' None,
       Menu ''w'' ''globals_func_w.html#index_w'' None]),
      Menu ''Variables'' ''globals_vars.html'' None,
      Menu ''Typedefs'' ''globals_type.html'' None,
      Menu ''Macros'' ''globals_defs.html'' None])])]"

text \<open>The links below a path of texts, and the letters such an index is made of.\<close>

fun submenu :: "string list \<Rightarrow> menu list option \<Rightarrow> menu list option" where
  "submenu [] ms = ms"
| "submenu (p # ps) None = None"
| "submenu (p # ps) (Some ms) =
     (case List.find (\<lambda>m. menu_text m = p) ms of None \<Rightarrow> None | Some m \<Rightarrow> submenu ps (menu_children m))"

definition menu_letters :: "string list \<Rightarrow> menu list option \<Rightarrow> string option" where
  "menu_letters path ms = map_option (\<lambda>ms. concat (map menu_text ms)) (submenu path ms)"

subsection \<open>Properties\<close>

text \<open>
  C8: \<open>initMenu\<close> puts exactly one list into an empty navigation bar, marked as the main menu, with
  the search box as an additional item exactly if the search is enabled, and makes it a menu. What a
  browser reads from the markup \<open>makeTree\<close> has built is the tree of \<open>menudata\<close>, every link with its
  text and its children, in order, and with its address relative to the page. Texts contain no
  less-than sign and addresses neither a quote nor a greater-than sign.
\<close>

theorem initMenu_correct:
  assumes "list_all menu_ok children" and "url_ok relPath"
  shows "\<exists>l. initMenu (Some children) relPath searchEnabled serverSide searchPage search [] = [l]
    \<and> read_tree (nl_markup l) = Some (Some (map (below relPath) children))
    \<and> nl_id l = ''main-menu'' \<and> nl_class l = ''sm sm-dox'' \<and> nl_smart l
    \<and> nl_items l = (if \<not> searchEnabled then [] else if serverSide then [server_box relPath searchPage search]
        else [client_box relPath search])"
proof -
  have "makeTree (Some children) relPath \<noteq> []" by simp
  then show ?thesis
    using read_tree_makeTree[of relPath "Some children"] assms
    by (simp add: initMenu_def nav_append_def add_class_def Let_def del: makeTree.simps)
qed

theorem initMenu_correct_witness:
  "\<exists>l. initMenu (Some [Menu ''Main Page'' ''index.html'' None, Menu ''Files'' ''files.html'' (Some [Menu ''m'' ''m.html'' None])])
      ''../'' True False ''search.php'' ''Search'' [] = [l]
    \<and> read_tree (nl_markup l) = Some (Some [Menu ''Main Page'' ''../index.html'' None,
        Menu ''Files'' ''../files.html'' (Some [Menu ''m'' ''../m.html'' None])])"
proof -
  let ?ms = "[Menu ''Main Page'' ''index.html'' None, Menu ''Files'' ''files.html'' (Some [Menu ''m'' ''m.html'' None])]"
  have "list_all menu_ok ?ms" "url_ok ''../''" by (simp_all add: text_ok_def url_ok_def)
  from initMenu_correct[OF this, of True False "''search.php''" "''Search''"] show ?thesis by auto
qed

end
