(* ===== verification/Menu_Docs.thy ===== *)
theory Menu_Docs
  imports Menu Search_Data_Async Search_Data_Client Search_Data_Internal
begin

text \<open>
  The menus of the three documentations together with their search data: both list the letters
  for which there is something to find.
\<close>

definition section_content :: "search_index \<Rightarrow> string \<Rightarrow> jstring option" where
  "section_content ix name = (case List.find (\<lambda>(k, n). n = js name) (indexSectionNames ix) of
     None \<Rightarrow> None | Some (k, n) \<Rightarrow> map_of (indexSectionsWithContent ix) k)"

definition letters_match :: "menu list option \<Rightarrow> search_index \<Rightarrow> string list \<Rightarrow> string \<Rightarrow> bool" where
  "letters_match ms ix path name \<longleftrightarrow> submenu path ms \<noteq> None \<and> map_option js (menu_letters path ms) = section_content ix name"

definition menu_in_order :: "menu list option \<Rightarrow> search_index \<Rightarrow> bool" where
  "menu_in_order ms ix \<longleftrightarrow> (case ms of None \<Rightarrow> False | Some ms' \<Rightarrow> list_all menu_ok ms')
     \<and> letters_match ms ix [''Data Structures'', ''Data Fields'', ''Variables''] ''variables''
     \<and> letters_match ms ix [''Files'', ''Globals'', ''Functions''] ''functions''"


end
