(* ===== verification/Dyn_Sections.thy ===== *)
theory Dyn_Sections
  imports JS_Strings
begin

text \<open>
  The parts of a documentation page that open and close, \<^verbatim>\<open>docs/*/html/dynsections.js\<close>:
  sections with a summary, groups of inherited members, and the table that shows a hierarchy of
  files or structures as a tree. The three copies of the file are the same; the map names the one
  under \<^verbatim>\<open>docs/MQTTAsync\<close>.

  An element that a jQuery expression may fail to find is an option: the operations of jQuery do
  nothing on an empty selection and \<open>attr\<close> returns \<open>undefined\<close>, of which a property cannot be read.
\<close>

subsection \<open>Sections with a summary\<close>

record dyn_section =
  ds_summary :: "bool option"
  ds_content :: "bool option"
  ds_classes :: "jstring list"
  ds_src :: "jstring option"

definition addClass :: "jstring \<Rightarrow> jstring list \<Rightarrow> jstring list" where
  "addClass c cs = (if c \<in> set cs then cs else cs @ [c])"

definition removeClass :: "jstring \<Rightarrow> jstring list \<Rightarrow> jstring list" where
  "removeClass c cs = filter (\<lambda>d. d \<noteq> c) cs"

text \<open>\<open>src.substring(0, src.length - n) + suffix\<close>.\<close>

definition swap_suffix :: "nat \<Rightarrow> string \<Rightarrow> jstring option \<Rightarrow> jstring result" where
  "swap_suffix n ending src = res_bind (not_null src) (\<lambda>s. Inr (take (length s - n) s @ js ending))"

definition set_src :: "dyn_section \<Rightarrow> jstring \<Rightarrow> dyn_section" where
  "set_src s v = s\<lparr>ds_src := map_option (\<lambda>_. v) (ds_src s)\<rparr>"

definition toggleVisibility :: "dyn_section \<Rightarrow> dyn_section result" where
  "toggleVisibility s =
     (if ds_content s = Some True then
        (let s1 = s\<lparr>ds_content := Some False, ds_summary := map_option (\<lambda>_. True) (ds_summary s),
                    ds_classes := removeClass (js ''opened'') (addClass (js ''closed'') (ds_classes s))\<rparr>
         in res_bind (swap_suffix 8 ''closed.png'' (ds_src s)) (\<lambda>v. Inr (set_src s1 v)))
      else
        (let s1 = s\<lparr>ds_content := map_option (\<lambda>_. True) (ds_content s), ds_summary := map_option (\<lambda>_. False) (ds_summary s),
                    ds_classes := addClass (js ''opened'') (removeClass (js ''closed'') (ds_classes s))\<rparr>
         in res_bind (swap_suffix 10 ''open.png'' (ds_src s)) (\<lambda>v. Inr (set_src s1 v))))"

subsection \<open>Inherited members\<close>

record inherit_group =
  ig_rows :: "bool list"
  ig_src :: "jstring option"

definition toggleInherit :: "inherit_group \<Rightarrow> inherit_group result" where
  "toggleInherit g =
     (if (case ig_rows g of [] \<Rightarrow> False | r # _ \<Rightarrow> r)
      then res_bind (swap_suffix 8 ''closed.png'' (ig_src g)) (\<lambda>v.
             Inr (g\<lparr>ig_rows := map (\<lambda>_. False) (ig_rows g), ig_src := Some v\<rparr>))
      else res_bind (swap_suffix 10 ''open.png'' (ig_src g)) (\<lambda>v.
             Inr (g\<lparr>ig_rows := map (\<lambda>_. True) (ig_rows g), ig_src := Some v\<rparr>)))"

subsection \<open>The directory table\<close>

text \<open>
  A row \<open>tr\<close> of \<open>table.directory\<close>: its identifier, whether it is shown, whether it has the class
  \<open>even\<close>, the folder icon \<open>img_...\<close> and the arrow \<open>arr_...\<close> if it has them.
\<close>

datatype icon = IconOpen | IconClosed

record dir_row =
  dr_id :: jstring
  dr_shown :: bool
  dr_even :: bool
  dr_icon :: "icon option"
  dr_arrow :: "jstring option"

definition arrow_down :: jstring where
  "arrow_down = js ''&#9660;''"

definition arrow_right :: jstring where
  "arrow_right = js ''&#9658;''"

definition set_icon :: "icon \<Rightarrow> jstring \<Rightarrow> dir_row \<Rightarrow> dir_row" where
  "set_icon i a r = r\<lparr>dr_icon := map_option (\<lambda>_. i) (dr_icon r), dr_arrow := map_option (\<lambda>_. a) (dr_arrow r)\<rparr>"

text \<open>\<open>ev\<close> says whether the next row that is shown has an even index among those.\<close>

fun stripe :: "bool \<Rightarrow> dir_row list \<Rightarrow> dir_row list" where
  "stripe ev [] = []"
| "stripe ev (r # rs) =
     (if dr_shown r then r\<lparr>dr_even := ev\<rparr> # stripe (\<not> ev) rs else r\<lparr>dr_even := False\<rparr> # stripe ev rs)"

definition updateStripes :: "dir_row list \<Rightarrow> dir_row list" where
  "updateStripes rows = stripe True rows"

text \<open>\<open>this.id.split('_').length - 1\<close>: the number of underscores.\<close>

definition id_level :: "jstring \<Rightarrow> nat" where
  "id_level i = length (filter (\<lambda>c. c = 95) i)"

definition level_row :: "nat \<Rightarrow> dir_row \<Rightarrow> dir_row" where
  "level_row level r =
     (let l = id_level (dr_id r) in
      if l < level + 1 then (set_icon IconOpen arrow_down r)\<lparr>dr_shown := True\<rparr>
      else if l = level + 1 then (set_icon IconClosed arrow_right r)\<lparr>dr_shown := True\<rparr>
      else r\<lparr>dr_shown := False\<rparr>)"

definition toggleLevel :: "nat \<Rightarrow> dir_row list \<Rightarrow> dir_row list" where
  "toggleLevel level rows = updateStripes (map (level_row level) rows)"

text \<open>
  The regular expression \<open>^row_<id>\d+_$\<close>, without regard to case, for an identifier of digits and
  underscores.
\<close>

definition child_id_matches :: "jstring \<Rightarrow> jstring \<Rightarrow> bool" where
  "child_id_matches i rid =
     (let base = toLowerCase (js ''row_'' @ i); t = toLowerCase rid; rest = drop (length base) t in
      take (length base) t = base \<and> 2 \<le> length rest \<and> last rest = 95
      \<and> list_all (\<lambda>c. 48 \<le> c \<and> c \<le> 57) (butlast rest))"

definition below_row :: "jstring \<Rightarrow> jstring \<Rightarrow> bool" where
  "below_row i rid \<longleftrightarrow> prefix (js ''row_'' @ i) rid"

definition close_row :: "dir_row \<Rightarrow> dir_row" where
  "close_row r = (if dr_icon r = Some IconOpen then r\<lparr>dr_icon := Some IconClosed\<rparr> else r)
     \<lparr>dr_arrow := map_option (\<lambda>_. arrow_right) (dr_arrow r)\<rparr>"

definition open_row :: "dir_row \<Rightarrow> dir_row" where
  "open_row r = (if dr_icon r = Some IconClosed then r\<lparr>dr_icon := Some IconOpen\<rparr> else r)
     \<lparr>dr_arrow := map_option (\<lambda>_. arrow_down) (dr_arrow r)\<rparr>"

definition hide_below :: "jstring \<Rightarrow> dir_row \<Rightarrow> dir_row" where
  "hide_below i r = (if below_row i (dr_id r) then r\<lparr>dr_shown := False\<rparr> else r)"

definition show_child :: "jstring \<Rightarrow> dir_row \<Rightarrow> dir_row" where
  "show_child i r = (if child_id_matches i (dr_id r) then (close_row r)\<lparr>dr_shown := True\<rparr> else r)"

text \<open>The rows up to the clicked one stay; without such a row nothing is found.\<close>

fun toggle_from :: "jstring \<Rightarrow> dir_row list \<Rightarrow> dir_row list" where
  "toggle_from i [] = []"
| "toggle_from i (r # rows) =
     (if dr_id r = js ''row_'' @ i then
        (case List.find (\<lambda>c. child_id_matches i (dr_id c)) rows of
           Some c \<Rightarrow> if dr_shown c then close_row r # map (hide_below i) rows else open_row r # map (show_child i) rows
         | None \<Rightarrow> open_row r # rows)
      else r # toggle_from i rows)"

definition toggleFolder :: "jstring \<Rightarrow> dir_row list \<Rightarrow> dir_row list" where
  "toggleFolder i rows = updateStripes (toggle_from i rows)"

subsection \<open>Identifiers of rows\<close>

text \<open>A row is identified by the indices that lead to it, each followed by an underscore.\<close>

definition path_id :: "nat list \<Rightarrow> jstring" where
  "path_id p = concat (map (\<lambda>n. to_string 10 n @ [95]) p)"

definition row_id :: "nat list \<Rightarrow> jstring" where
  "row_id p = js ''row_'' @ path_id p"

lemma path_id_simps [simp]: "path_id [] = []" "path_id (n # p) = to_string 10 n @ 95 # path_id p"
  "path_id (p @ q) = path_id p @ path_id q"
  by (simp_all add: path_id_def)

lemma to_string_unit: "95 \<notin> set (to_string 10 n)" "filter (\<lambda>c. c = 95) (to_string 10 n) = []"
  using to_string_10[of n] by (auto simp: list_all_iff filter_empty_conv)

lemma id_level_row: "id_level (row_id p) = Suc (length p)"
proof -
  have "length (filter (\<lambda>c. c = 95) (path_id p)) = length p"
    by (induction p) (simp_all add: to_string_unit)
  then show ?thesis by (simp add: id_level_def row_id_def js_def of_char_def)
qed

lemma terminated_prefix:
  "95 \<notin> set a \<Longrightarrow> 95 \<notin> set b \<Longrightarrow> prefix (a @ 95 # s) (b @ 95 # t) \<longleftrightarrow> a = b \<and> prefix s t"
proof (induction a arbitrary: b)
  case Nil
  then show ?case by (cases b) auto
next
  case (Cons x a)
  then show ?case by (cases b) auto
qed

lemma path_id_prefix: "prefix (path_id p) (path_id q) \<longleftrightarrow> prefix p q"
proof (induction p arbitrary: q)
  case (Cons n p)
  show ?case
  proof (cases q)
    case (Cons m q')
    then show ?thesis
      using terminated_prefix[OF to_string_unit(1) to_string_unit(1), of n "path_id p" m "path_id q'"] Cons.IH[of q']
      by (simp add: to_string_inj)
  qed simp
qed simp

lemma row_id_prefix: "below_row (path_id p) (row_id q) \<longleftrightarrow> prefix p q"
  by (simp add: below_row_def row_id_def path_id_prefix)

lemma row_id_inj: "row_id p = row_id q \<longleftrightarrow> p = q"
proof -
  have "path_id p = path_id q \<longleftrightarrow> p = q" using path_id_prefix by (metis prefix_order.antisym prefix_order.refl)
  then show ?thesis by (simp add: row_id_def)
qed

lemma lower_row_id: "toLowerCase (row_id p) = row_id p"
proof -
  have "toLowerCase (to_string 10 n) = to_string 10 n" for n
    using to_string_10[of n] unfolding toLowerCase_def by (intro map_idI) (auto simp: list_all_iff lower_unit_def)
  then have "toLowerCase (path_id p) = path_id p" by (induction p) (simp_all add: lower_unit_def)
  then show ?thesis by (simp add: row_id_def js_def of_char_def lower_unit_def)
qed

lemma one_terminated: "path_id p \<noteq> [] \<and> 95 \<notin> set (butlast (path_id p)) \<longleftrightarrow> length p = 1"
proof (cases p)
  case (Cons n q)
  show ?thesis
  proof (cases q)
    case Nil
    then show ?thesis using Cons to_string_unit(1)[of n] by (simp add: butlast_append)
  next
    case (Cons m r)
    then have "path_id q \<noteq> []" by simp
    then have "95 \<in> set (butlast (path_id p))" using \<open>p = n # q\<close> by (simp add: butlast_append)
    then show ?thesis using \<open>p = n # q\<close> Cons by simp
  qed
qed simp

lemma child_id_row: "child_id_matches (path_id p) (row_id q) \<longleftrightarrow> (\<exists>n. q = p @ [n])"
proof -
  have base: "toLowerCase (js ''row_'' @ path_id p) = row_id p" "toLowerCase (row_id q) = row_id q"
    using lower_row_id by (simp_all add: row_id_def)
  show ?thesis
  proof (cases "prefix p q")
    case True
    then obtain r where q: "q = p @ r" by (auto simp: prefix_def)
    then have drop: "drop (length (row_id p)) (row_id q) = path_id r" "take (length (row_id p)) (row_id q) = row_id p"
      by (simp_all add: row_id_def)
    have "2 \<le> length (path_id r) \<and> last (path_id r) = 95 \<and> list_all (\<lambda>c. 48 \<le> c \<and> c \<le> 57) (butlast (path_id r))
      \<longleftrightarrow> length r = 1"
    proof
      assume a: "2 \<le> length (path_id r) \<and> last (path_id r) = 95 \<and> list_all (\<lambda>c. 48 \<le> c \<and> c \<le> 57) (butlast (path_id r))"
      then have "path_id r \<noteq> []" "95 \<notin> set (butlast (path_id r))" by (auto simp: list_all_iff)
      then show "length r = 1" using one_terminated[of r] by blast
    next
      assume "length r = 1"
      then obtain n where "r = [n]" by (cases r) auto
      moreover have "1 \<le> length (to_string 10 n)" by (cases "to_string 10 n") auto
      ultimately show "2 \<le> length (path_id r) \<and> last (path_id r) = 95 \<and> list_all (\<lambda>c. 48 \<le> c \<and> c \<le> 57) (butlast (path_id r))"
        using to_string_10[of n] by (simp add: butlast_append)
    qed
    then show ?thesis unfolding child_id_matches_def Let_def base drop using q by (auto simp: length_Suc_conv)
  next
    case False
    then have "take (length (row_id p)) (row_id q) \<noteq> row_id p"
      using row_id_prefix[of p q] take_is_prefix[of "length (row_id p)" "row_id q"] by (auto simp: below_row_def row_id_def)
    then show ?thesis unfolding child_id_matches_def Let_def base using False by auto
  qed
qed

end
