(* ===== verification/Dyn_Props.thy ===== *)
theory Dyn_Props
  imports Dyn_Sections
begin

text \<open>
  Properties of the parts of a page that open and close: toggling a section or a group of members
  twice changes nothing, and the directory table stays a tree view under every sequence of clicks.
\<close>

subsection \<open>Rows in preorder\<close>

definition preorder :: "nat list list \<Rightarrow> bool" where
  "preorder paths \<longleftrightarrow> distinct paths \<and> [] \<notin> set paths
     \<and> (\<forall>i < length paths. length (paths ! i) \<le> 1 \<or> butlast (paths ! i) \<in> set (take i paths))"

lemma preorder_after:
  assumes "preorder paths" "i < length paths" "j < length paths" "strict_prefix (paths ! i) (paths ! j)"
  shows "i < j"
  using assms(3,4)
proof (induction j rule: less_induct)
  case (less j)
  have ne: "paths ! i \<noteq> []" using assms(1,2) by (metis nth_mem preorder_def)
  with less.prems have long: "1 < length (paths ! j)"
    by (cases "paths ! i") (auto dest!: prefix_length_less)
  then obtain k where k: "k < j" "paths ! k = butlast (paths ! j)"
    using assms(1) less.prems(1) unfolding preorder_def by (metis in_set_conv_nth leD length_take min_less_iff_conj nth_take)
  have "paths ! i = paths ! k \<or> strict_prefix (paths ! i) (paths ! k)"
    using less.prems(2) k(2) long
    by (metis append_butlast_last_id gr_implies_not0 length_0_conv prefix_snoc strict_prefix_def)
  then show ?case
  proof
    assume "paths ! i = paths ! k"
    then show ?thesis
      using k(1) less.prems(1) assms(1,2) by (metis nth_eq_iff_index_eq order.strict_trans preorder_def)
  next
    assume "strict_prefix (paths ! i) (paths ! k)"
    then show ?thesis using less.IH[of k] k(1) less.prems(1) by simp
  qed
qed

text \<open>The rows of a table with the given paths.\<close>

definition dir_ids :: "nat list list \<Rightarrow> dir_row list \<Rightarrow> bool" where
  "dir_ids paths rows \<longleftrightarrow> map dr_id rows = map row_id paths"

definition visible :: "dir_row list \<Rightarrow> nat list set" where
  "visible rows = {q. \<exists>r \<in> set rows. dr_id r = row_id q \<and> dr_shown r}"

definition children_shown :: "nat list \<Rightarrow> dir_row list \<Rightarrow> bool" where
  "children_shown p rows = (case List.find (\<lambda>c. child_id_matches (path_id p) (dr_id c)) rows of
     None \<Rightarrow> False | Some c \<Rightarrow> dr_shown c)"

definition toggle_row :: "nat list \<Rightarrow> bool \<Rightarrow> dir_row \<Rightarrow> dir_row" where
  "toggle_row p s r =
     (if dr_id r = row_id p then (if s then close_row r else open_row r)
      else if s then hide_below (path_id p) r else show_child (path_id p) r)"

lemma toggle_from_split:
  "\<forall>x \<in> set xs. dr_id x \<noteq> js ''row_'' @ i \<Longrightarrow> dr_id r = js ''row_'' @ i \<Longrightarrow>
   toggle_from i (xs @ r # ys) = xs @
     (case List.find (\<lambda>c. child_id_matches i (dr_id c)) ys of
        Some c \<Rightarrow> if dr_shown c then close_row r # map (hide_below i) ys else open_row r # map (show_child i) ys
      | None \<Rightarrow> open_row r # ys)"
  by (induction xs) auto

lemma find_append_none: "\<forall>x \<in> set xs. \<not> P x \<Longrightarrow> List.find P (xs @ ys) = List.find P ys"
  by (induction xs) auto

lemma toggle_from_map:
  assumes "dir_ids paths rows" "preorder paths" "p \<in> set paths"
  shows "toggle_from (path_id p) rows = map (toggle_row p (children_shown p rows)) rows"
proof -
  obtain i where i: "i < length paths" "paths ! i = p" using assms(3) by (auto simp: in_set_conv_nth)
  have len: "length rows = length paths" using assms(1) by (metis dir_ids_def length_map)
  have id: "dr_id (rows ! k) = row_id (paths ! k)" if "k < length paths" for k
    using assms(1) that len by (metis dir_ids_def nth_map)
  define xs r ys where "xs = take i rows" and "r = rows ! i" and "ys = drop (Suc i) rows"
  have rows: "rows = xs @ r # ys" using i(1) len by (simp add: xs_def r_def ys_def id_take_nth_drop)
  have xs: "\<exists>k < i. dr_id x = row_id (paths ! k)" if "x \<in> set xs" for x
    using that id i(1) len by (auto simp: xs_def in_set_conv_nth)
  have ys: "\<exists>k. i < k \<and> k < length paths \<and> dr_id x = row_id (paths ! k)" if "x \<in> set ys" for x
  proof -
    from that obtain k where "k < length ys" "x = ys ! k" by (auto simp: in_set_conv_nth)
    then have "Suc i + k < length paths" "x = rows ! (Suc i + k)" by (simp_all add: ys_def len)
    then show ?thesis using id by (intro exI[of _ "Suc i + k"]) simp
  qed
  have before: "\<not> prefix p (paths ! k)" if "k < i" for k
    using preorder_after[OF assms(2) i(1), of k] that i assms(2) unfolding preorder_def
    by (metis less_trans nat_neq_iff nth_eq_iff_index_eq prefix_order.le_neq_trans)
  have xs_out: "dr_id x \<noteq> row_id p \<and> \<not> below_row (path_id p) (dr_id x) \<and> \<not> child_id_matches (path_id p) (dr_id x)"
    if "x \<in> set xs" for x
  proof -
    from xs[OF that] obtain k where k: "k < i" "dr_id x = row_id (paths ! k)" by blast
    then show ?thesis using before[OF k(1)] by (auto simp: row_id_prefix child_id_row row_id_inj)
  qed
  have r_id: "dr_id r = row_id p" using id[OF i(1)] i(2) by (simp add: r_def)
  have ys_out: "dr_id x \<noteq> row_id p" if "x \<in> set ys" for x
    using ys[OF that] assms(2) i unfolding preorder_def by (metis nat_neq_iff nth_eq_iff_index_eq row_id_inj)
  have child_r: "\<not> child_id_matches (path_id p) (dr_id r)" by (simp add: r_id child_id_row)
  then have "List.find (\<lambda>c. child_id_matches (path_id p) (dr_id c)) rows
    = List.find (\<lambda>c. child_id_matches (path_id p) (dr_id c)) ys"
    unfolding rows using xs_out find_append_none[of xs] by simp
  then have s: "children_shown p rows = (case List.find (\<lambda>c. child_id_matches (path_id p) (dr_id c)) ys of
      None \<Rightarrow> False | Some c \<Rightarrow> dr_shown c)" by (simp add: children_shown_def)
  have m: "map (toggle_row p b) rows = xs @ (if b then close_row r else open_row r)
      # map (if b then hide_below (path_id p) else show_child (path_id p)) ys" for b
    using xs_out ys_out r_id by (auto simp: rows toggle_row_def hide_below_def show_child_def intro!: map_idI)
  have none: "map (show_child (path_id p)) ys = ys" if "List.find (\<lambda>c. child_id_matches (path_id p) (dr_id c)) ys = None"
    using that by (auto simp: find_None_iff show_child_def intro!: map_idI)
  show ?thesis
    unfolding m s using toggle_from_split[of xs "path_id p" r ys] xs_out r_id none
    by (auto simp: row_id_def[of p] rows[symmetric] split: option.splits)
qed

subsection \<open>What a toggle changes\<close>

lemma stripe_fields [simp]:
  "map dr_id (stripe b rows) = map dr_id rows" "map dr_shown (stripe b rows) = map dr_shown rows"
  by (induction b rows rule: stripe.induct) auto

text \<open>A row without its stripe.\<close>

definition core :: "dir_row \<Rightarrow> dir_row" where
  "core r = r\<lparr>dr_even := False\<rparr>"

lemma core_simps [simp]: "dr_id (core r) = dr_id r" "dr_shown (core r) = dr_shown r"
  "dr_icon (core r) = dr_icon r" "dr_arrow (core r) = dr_arrow r"
  by (simp_all add: core_def)

lemma core_stripe [simp]: "map core (stripe b rows) = map core rows"
  by (induction b rows rule: stripe.induct) (auto simp: core_def)

lemma set_core_eq: "map core rows = map core rows' \<Longrightarrow>
    (\<exists>r \<in> set rows. P (core r)) = (\<exists>r \<in> set rows'. P (core r))"
  by (metis (no_types, lifting) imageE image_eqI list.set_map)

lemma visible_core: "map core rows = map core rows' \<Longrightarrow> visible rows = visible rows'"
  unfolding visible_def using set_core_eq[of rows rows' "\<lambda>r. dr_id r = row_id _ \<and> dr_shown r"] by simp

lemma row_fields [simp]:
  "dr_id (close_row r) = dr_id r" "dr_shown (close_row r) = dr_shown r"
  "dr_id (open_row r) = dr_id r" "dr_shown (open_row r) = dr_shown r"
  "dr_id (hide_below i r) = dr_id r" "dr_id (show_child i r) = dr_id r" "dr_id (toggle_row p b r) = dr_id r"
  "dr_id (set_icon ic a r) = dr_id r" "dr_shown (set_icon ic a r) = dr_shown r"
  "dr_id (level_row n r) = dr_id r"
  by (auto simp: close_row_def open_row_def hide_below_def show_child_def toggle_row_def set_icon_def level_row_def Let_def)

lemma dir_ids_map: "(\<And>r. dr_id (f r) = dr_id r) \<Longrightarrow> dir_ids paths (map f rows) = dir_ids paths rows"
  by (simp add: dir_ids_def o_def)

lemma dir_ids_row: "dir_ids paths rows \<Longrightarrow> r \<in> set rows \<Longrightarrow> \<exists>q \<in> set paths. dr_id r = row_id q"
  unfolding dir_ids_def by (metis (no_types, lifting) image_iff list.set_map)

lemma dir_ids_path: "dir_ids paths rows \<Longrightarrow> q \<in> set paths \<Longrightarrow> \<exists>r \<in> set rows. dr_id r = row_id q"
  unfolding dir_ids_def by (metis (no_types, lifting) image_iff list.set_map)

lemma dir_ids_unique:
  assumes "dir_ids paths rows" "preorder paths" "r \<in> set rows" "c \<in> set rows" "dr_id r = dr_id c"
  shows "r = c"
proof -
  have "distinct (map row_id paths)" using assms(2) by (simp add: preorder_def distinct_map inj_on_def row_id_inj)
  then have "distinct (map dr_id rows)" using assms(1) by (simp add: dir_ids_def)
  then show ?thesis using assms(3-5) by (simp add: distinct_map inj_on_def)
qed

text \<open>
  The table is a tree view: the children of a row are all shown or all hidden, they are shown only
  if the row is, and the icon and the arrow of a row that is shown say which.
\<close>

definition icon_agrees :: "dir_row \<Rightarrow> bool \<Rightarrow> bool" where
  "icon_agrees r b \<longleftrightarrow> (case dr_icon r of None \<Rightarrow> True | Some i \<Rightarrow> (i = IconOpen) = b)
     \<and> (case dr_arrow r of None \<Rightarrow> True | Some a \<Rightarrow> a = (if b then arrow_down else arrow_right))"

definition view_at :: "dir_row list \<Rightarrow> dir_row \<Rightarrow> nat list \<Rightarrow> bool \<Rightarrow> bool" where
  "view_at rows r q b \<longleftrightarrow> (\<forall>c \<in> set rows. \<forall>n. dr_id c = row_id (q @ [n]) \<longrightarrow> dr_shown c = b) \<and> (b \<longrightarrow> dr_shown r)
     \<and> (dr_shown r \<longrightarrow> (\<exists>c \<in> set rows. \<exists>n. dr_id c = row_id (q @ [n])) \<longrightarrow> icon_agrees r b)"

definition tree_view :: "dir_row list \<Rightarrow> bool" where
  "tree_view rows \<longleftrightarrow> (\<forall>r \<in> set rows. \<forall>q. dr_id r = row_id q \<longrightarrow> (\<exists>b. view_at rows r q b))"

lemma icon_agrees_core: "icon_agrees (core r) b = icon_agrees r b"
  by (simp add: icon_agrees_def)

lemma view_at_core: "view_at (map core rows) (core r) q = view_at rows r q"
  by (rule ext) (simp add: view_at_def icon_agrees_core)

lemma tree_view_core: "tree_view (map core rows) = tree_view rows"
  by (simp add: tree_view_def view_at_core)

lemma tree_view_stripes: "tree_view (updateStripes rows) = tree_view rows"
  by (metis core_stripe tree_view_core updateStripes_def)

lemma dir_ids_stripes: "dir_ids paths (updateStripes rows) = dir_ids paths rows"
  by (simp add: dir_ids_def updateStripes_def)

lemma children_shown_view:
  assumes "dir_ids paths rows" "view_at rows r p b"
  shows "children_shown p rows \<longleftrightarrow> b \<and> (\<exists>c \<in> set rows. \<exists>n. dr_id c = row_id (p @ [n]))"
proof (cases "List.find (\<lambda>c. child_id_matches (path_id p) (dr_id c)) rows")
  case None
  then have "\<not> child_id_matches (path_id p) (dr_id c)" if "c \<in> set rows" for c using that by (auto simp: find_None_iff)
  then show ?thesis using None by (simp add: children_shown_def) (metis child_id_row)
next
  case (Some c)
  then have c: "c \<in> set rows" "child_id_matches (path_id p) (dr_id c)" by (auto simp: find_Some_iff)
  then obtain n where "dr_id c = row_id (p @ [n])" using dir_ids_row[OF assms(1)] child_id_row by metis
  then show ?thesis using Some c(1) assms(2) by (auto simp: children_shown_def view_at_def)
qed

lemma tree_view_level:
  assumes "dir_ids paths rows"
  shows "tree_view (map (level_row level) rows)"
  unfolding tree_view_def
proof (intro ballI allI impI)
  fix r q assume r: "r \<in> set (map (level_row level) rows)" "dr_id r = row_id q"
  then obtain r0 where r0: "r0 \<in> set rows" "r = level_row level r0" "dr_id r0 = row_id q" by auto
  have "view_at (map (level_row level) rows) r q (length q < level)"
    unfolding view_at_def r0(2) using r0(3)
    by (auto simp: level_row_def Let_def id_level_row icon_agrees_def set_icon_def split: option.splits)
  then show "\<exists>b. view_at (map (level_row level) rows) r q b" ..
qed

lemma toggle_closed:
  assumes rows: "dir_ids paths rows" and r: "r \<in> set rows" "dr_id r = row_id q" and v: "view_at rows r q b"
  shows "view_at (map (toggle_row p True) rows) (toggle_row p True r) q (if prefix p q then False else b)"
proof -
  have kids: "dr_shown (toggle_row p True c) = (if prefix p q then False else b)"
    if "c \<in> set rows" "dr_id c = row_id (q @ [n])" for c n
    using that v by (auto simp: toggle_row_def hide_below_def row_id_prefix view_at_def row_id_inj)
  have old: "dr_shown (toggle_row p True r) = (dr_shown r \<and> \<not> strict_prefix p q)"
    using r(2) by (auto simp: toggle_row_def hide_below_def row_id_prefix row_id_inj)
  have icon: "icon_agrees (toggle_row p True r) (if prefix p q then False else b)"
    if "dr_shown r" "\<not> strict_prefix p q" "\<exists>c \<in> set rows. \<exists>n. dr_id c = row_id (q @ [n])"
  proof (cases "q = p")
    case True
    then show ?thesis using r(2)
      by (auto simp: toggle_row_def close_row_def icon_agrees_def split: option.splits)
  next
    case False
    then have "\<not> prefix p q" using that(2) by auto
    then show ?thesis using False r(2) v that(1,3)
      by (auto simp: toggle_row_def hide_below_def row_id_prefix row_id_inj view_at_def)
  qed
  show ?thesis
    unfolding view_at_def using kids old icon v by (auto simp: view_at_def)
qed

lemma toggle_opened:
  assumes rows: "dir_ids paths rows" "preorder paths" and r: "r \<in> set rows" "dr_id r = row_id q" and v: "view_at rows r q b"
    and p: "c0 \<in> set rows" "dr_id c0 = row_id p" "view_at rows c0 p False" "dr_shown c0"
  shows "view_at (map (toggle_row p False) rows) (toggle_row p False r) q (if q = p then True else b)"
proof -
  have kids: "dr_shown (toggle_row p False c) = (if q = p then True else b)"
    if "c \<in> set rows" "dr_id c = row_id (q @ [n])" for c n
    using that v by (auto simp: toggle_row_def show_child_def child_id_row view_at_def row_id_inj)
  have shown: "dr_shown (toggle_row p False r) \<longleftrightarrow> dr_shown r \<or> (\<exists>n. q = p @ [n])"
    using r(2) by (auto simp: toggle_row_def show_child_def child_id_row row_id_inj)
  have "r = c0" if "q = p" using dir_ids_unique[OF rows r(1) p(1)] r(2) p(2) that by simp
  then have self: "q = p \<Longrightarrow> dr_shown r" using p(4) by simp
  have new: "q = p @ [n] \<Longrightarrow> \<not> dr_shown r" for n using p(3) r by (auto simp: view_at_def)
  have icon: "icon_agrees (toggle_row p False r) (if q = p then True else b)"
    if "dr_shown r \<or> (\<exists>n. q = p @ [n])" "\<exists>c \<in> set rows. \<exists>n. dr_id c = row_id (q @ [n])"
  proof -
    consider "q = p" | n where "q = p @ [n]" | "q \<noteq> p" "\<nexists>n. q = p @ [n]" by blast
    then show ?thesis
    proof cases
      case 1
      then show ?thesis using r(2)
        by (auto simp: toggle_row_def open_row_def icon_agrees_def split: option.splits) (metis icon.exhaust)+
    next
      case (2 n)
      then have "\<not> b" using new v by (auto simp: view_at_def)
      then show ?thesis using 2 r(2) icon.exhaust
        by (auto simp: toggle_row_def show_child_def child_id_row row_id_inj close_row_def icon_agrees_def split: option.splits)
    next
      case 3
      then show ?thesis using r(2) v that
        by (auto simp: toggle_row_def show_child_def child_id_row row_id_inj view_at_def)
    qed
  qed
  show ?thesis
    unfolding view_at_def using kids shown icon v self by (auto simp: view_at_def)
qed

lemma toggle_row_shown: "dr_id r = row_id q \<Longrightarrow> dr_shown (toggle_row p s r) =
    (if s then dr_shown r \<and> \<not> strict_prefix p q else dr_shown r \<or> (\<exists>n. q = p @ [n]))"
  by (auto simp: toggle_row_def hide_below_def show_child_def row_id_prefix child_id_row row_id_inj strict_prefix_def)

subsection \<open>Sequences of clicks\<close>

text \<open>
  The user can choose a level, and click on the icon or the arrow of a row that is shown.
\<close>

inductive dir_step :: "nat list list \<Rightarrow> dir_row list \<Rightarrow> dir_row list \<Rightarrow> bool" for paths where
  choose_level: "dir_step paths rows (toggleLevel level rows)"
| click_folder: "p \<in> set paths \<Longrightarrow> p \<in> visible rows \<Longrightarrow> dir_step paths rows (toggleFolder (path_id p) rows)"

inductive dir_run :: "nat list list \<Rightarrow> dir_row list \<Rightarrow> dir_row list \<Rightarrow> bool" for paths where
  run_start: "dir_run paths rows rows"
| run_click: "dir_run paths rows rows' \<Longrightarrow> dir_step paths rows' rows'' \<Longrightarrow> dir_run paths rows rows''"

lemma tree_view_toggle:
  assumes rows: "dir_ids paths rows" "preorder paths" and view: "tree_view rows" and p: "p \<in> set paths" "p \<in> visible rows"
  shows "tree_view (toggle_from (path_id p) rows)"
proof -
  from p(2) obtain c0 where c0: "c0 \<in> set rows" "dr_id c0 = row_id p" "dr_shown c0" by (auto simp: visible_def)
  then obtain b0 where b0: "view_at rows c0 p b0" using view unfolding tree_view_def by blast
  from children_shown_view[OF rows(1) b0] have s: "children_shown p rows \<longleftrightarrow> b0 \<and> (\<exists>c \<in> set rows. \<exists>n. dr_id c = row_id (p @ [n]))" .
  have closed: "view_at rows c0 p False" if "\<not> children_shown p rows"
    using that s b0 unfolding view_at_def by (cases b0) auto
  have "\<exists>b. view_at (map (toggle_row p (children_shown p rows)) rows) (toggle_row p (children_shown p rows) r) q b"
    if r: "r \<in> set rows" "dr_id r = row_id q" for r q
  proof -
    from view r obtain b where b: "view_at rows r q b" unfolding tree_view_def by blast
    show ?thesis
    proof (cases "children_shown p rows")
      case True
      then show ?thesis using toggle_closed[OF rows(1) r b, of p] by auto
    next
      case False
      then show ?thesis using toggle_opened[OF rows r b c0(1,2) closed c0(3)] by auto
    qed
  qed
  then show ?thesis unfolding toggle_from_map[OF rows p(1)] tree_view_def by auto
qed

definition striped :: "dir_row list \<Rightarrow> bool" where
  "striped rows \<longleftrightarrow> map dr_even (filter dr_shown rows) = map (\<lambda>k. even k) [0..<length (filter dr_shown rows)]
     \<and> list_all (\<lambda>r. dr_shown r \<or> \<not> dr_even r) rows"

lemma stripe_even: "map dr_even (filter dr_shown (stripe b rows)) = map (\<lambda>k. even k = b) [0..<length (filter dr_shown (stripe b rows))]"
proof (induction b rows rule: stripe.induct)
  case (2 b r rs)
  then show ?case
    by (cases "dr_shown r") (auto simp: upt_conv_Cons map_Suc_upt[symmetric] simp del: upt_Suc)
qed simp

lemma updateStripes_striped: "striped (updateStripes rows)"
proof -
  have "list_all (\<lambda>r. dr_shown r \<or> \<not> dr_even r) (stripe b rows)" for b
    by (induction b rows rule: stripe.induct) auto
  then show ?thesis using stripe_even[of True rows] by (simp add: striped_def updateStripes_def)
qed

lemma dir_step_view:
  assumes "dir_step paths rows rows'" "dir_ids paths rows" "preorder paths" "tree_view rows"
  shows "dir_ids paths rows' \<and> tree_view rows' \<and> striped rows'"
  using assms(1)
proof cases
  case (choose_level level)
  then show ?thesis
    using tree_view_level[OF assms(2)] assms(2)
    by (simp add: toggleLevel_def tree_view_stripes dir_ids_stripes dir_ids_map updateStripes_striped)
next
  case (click_folder p)
  then show ?thesis
    using tree_view_toggle[OF assms(2-4) click_folder(2,3)] toggle_from_map[OF assms(2,3) click_folder(2)] assms(2)
    by (simp add: toggleFolder_def tree_view_stripes dir_ids_stripes dir_ids_map updateStripes_striped)
qed

lemma dir_run_view:
  "dir_run paths rows rows' \<Longrightarrow> dir_ids paths rows \<Longrightarrow> preorder paths \<Longrightarrow> tree_view rows \<Longrightarrow> striped rows \<Longrightarrow>
   dir_ids paths rows' \<and> tree_view rows' \<and> striped rows'"
  by (induction rule: dir_run.induct) (use dir_step_view in blast)+

subsection \<open>Properties\<close>

text \<open>
  C6: the directory table is always a tree view. After a level has been chosen, and after every
  sequence of further choices of a level and clicks on rows that are shown, the children of every row
  are all shown or all hidden, they are shown only below a row that is, the icon and the arrow
  of every row that is shown say whether its children are, and exactly every other row that is
  shown is marked as even.
\<close>

theorem directory_tree_view:
  assumes "dir_ids paths rows" and "preorder paths" and "dir_run paths (toggleLevel level rows) rows'"
  shows "dir_ids paths rows' \<and> tree_view rows' \<and> striped rows'"
proof -
  have "dir_ids paths (toggleLevel level rows) \<and> tree_view (toggleLevel level rows) \<and> striped (toggleLevel level rows)"
    using tree_view_level[OF assms(1)] assms(1)
    by (simp add: toggleLevel_def tree_view_stripes dir_ids_stripes dir_ids_map updateStripes_striped)
  then show ?thesis using dir_run_view[OF assms(3) _ assms(2)] by blast
qed

definition example_dir :: "dir_row list" where
  "example_dir = map (\<lambda>p. \<lparr>dr_id = row_id p, dr_shown = True, dr_even = False, dr_icon = Some IconOpen, dr_arrow = Some arrow_down\<rparr>)
     [[0], [0, 0], [0, 0, 0], [0, 1], [1]]"

definition example_paths :: "nat list list" where
  "example_paths = [[0], [0, 0], [0, 0, 0], [0, 1], [1]]"

lemma example_dir_ok: "dir_ids example_paths example_dir" "preorder example_paths"
  by (simp add: dir_ids_def example_dir_def example_paths_def)
    (auto simp: preorder_def example_paths_def less_Suc_eq nth_Cons')

theorem directory_tree_view_witness:
  "dir_run example_paths (toggleLevel 1 example_dir) (toggleFolder (path_id [0]) (toggleLevel 1 example_dir))
    \<and> tree_view (toggleFolder (path_id [0]) (toggleLevel 1 example_dir))
    \<and> striped (toggleFolder (path_id [0]) (toggleLevel 1 example_dir))"
proof -
  define rows where "rows = toggleFolder (path_id [0]) (toggleLevel 1 example_dir)"
  define r where "r = level_row 1 (hd example_dir)"
  have "r \<in> set (map (level_row 1) example_dir)" by (simp add: r_def example_dir_def)
  moreover have "dr_id r = row_id [0]" by (simp add: r_def example_dir_def)
  moreover have "dr_shown r" by (simp add: r_def example_dir_def level_row_def id_level_row Let_def set_icon_def)
  ultimately have "[0] \<in> visible (map (level_row 1) example_dir)" unfolding visible_def by blast
  then have "[0] \<in> visible (toggleLevel 1 example_dir)"
    using visible_core[of "toggleLevel 1 example_dir" "map (level_row 1) example_dir"]
    by (simp add: toggleLevel_def updateStripes_def)
  then have run: "dir_run example_paths (toggleLevel 1 example_dir) rows"
    unfolding rows_def by (intro run_click[OF run_start] click_folder) (simp add: example_paths_def)
  then show ?thesis using directory_tree_view[OF example_dir_ok run] unfolding rows_def by blast
qed

text \<open>
  C23: a click on a row of a tree view changes one level: if the children of the row are shown, the
  row is closed and exactly the rows below it disappear, at all depths; otherwise exactly its
  children appear. No other row appears or disappears.
\<close>

theorem folder_toggles:
  assumes "dir_ids paths rows" and "preorder paths" and "p \<in> set paths"
  shows "visible (toggleFolder (path_id p) rows) =
    (if children_shown p rows then visible rows - {q. strict_prefix p q}
     else visible rows \<union> {q \<in> set paths. \<exists>n. q = p @ [n]})"
proof -
  let ?f = "toggle_row p (children_shown p rows)"
  have "visible (toggleFolder (path_id p) rows) = visible (map ?f rows)"
    unfolding toggleFolder_def updateStripes_def toggle_from_map[OF assms] by (rule visible_core) simp
  also have "\<dots> = {q. \<exists>r \<in> set rows. dr_id r = row_id q \<and> dr_shown (?f r)}" by (auto simp: visible_def)
  also have "\<dots> = {q. \<exists>r \<in> set rows. dr_id r = row_id q \<and>
      (if children_shown p rows then dr_shown r \<and> \<not> strict_prefix p q else dr_shown r \<or> (\<exists>n. q = p @ [n]))}"
    by (intro Collect_cong bex_cong refl conj_cong toggle_row_shown)
  also have "\<dots> = (if children_shown p rows then visible rows - {q. strict_prefix p q}
     else visible rows \<union> {q \<in> set paths. \<exists>n. q = p @ [n]})"
    using dir_ids_path[OF assms(1)] dir_ids_row[OF assms(1)] by (auto simp: visible_def row_id_inj) (metis row_id_inj)
  finally show ?thesis .
qed

theorem folder_toggles_witness:
  "visible (toggleFolder (path_id [0]) example_dir) = visible example_dir - {q. strict_prefix [0] q}"
proof -
  have "children_shown [0] example_dir"
    unfolding children_shown_def example_dir_def by (simp add: child_id_row del: path_id_simps)
  moreover have "[0] \<in> set example_paths" by (simp add: example_paths_def)
  ultimately show ?thesis using folder_toggles[OF example_dir_ok, of "[0]"] by (simp del: path_id_simps)
qed

text \<open>A section, or a group of inherited members, as the page has it when it is loaded or has been toggled.\<close>

definition section_ok :: "dyn_section \<Rightarrow> bool" where
  "section_ok s \<longleftrightarrow> (\<exists>b base rest. ds_content s = Some b \<and> ds_summary s = Some (\<not> b)
     \<and> ds_classes s = rest @ [if b then js ''opened'' else js ''closed'']
     \<and> js ''opened'' \<notin> set rest \<and> js ''closed'' \<notin> set rest
     \<and> ds_src s = Some (base @ js (if b then ''open.png'' else ''closed.png'')))"

definition group_ok :: "inherit_group \<Rightarrow> bool" where
  "group_ok g \<longleftrightarrow> (\<exists>b base. ig_rows g \<noteq> [] \<and> ig_rows g = replicate (length (ig_rows g)) b
     \<and> ig_src g = Some (base @ js (if b then ''open.png'' else ''closed.png'')))"

lemma swap_suffix_js: "length t = n \<Longrightarrow> swap_suffix n u (Some (base @ js t)) = Inr (base @ js u)"
  by (simp add: swap_suffix_def js_def)

lemma js_name_neq: "js ''opened'' \<noteq> js ''closed''"
  by (simp add: js_def)

lemma section_toggles:
  assumes "section_ok s"
  shows "\<exists>s'. toggleVisibility s = Inr s' \<and> section_ok s' \<and> ds_content s' \<noteq> ds_content s \<and> toggleVisibility s' = Inr s"
proof -
  from assms obtain b base rest where s: "ds_content s = Some b" "ds_summary s = Some (\<not> b)"
    "ds_classes s = rest @ [if b then js ''opened'' else js ''closed'']"
    "js ''opened'' \<notin> set rest" "js ''closed'' \<notin> set rest"
    "ds_src s = Some (base @ js (if b then ''open.png'' else ''closed.png''))" unfolding section_ok_def by blast
  define t where "t = s\<lparr>ds_content := Some (\<not> b), ds_summary := Some b,
    ds_classes := rest @ [if b then js ''closed'' else js ''opened''],
    ds_src := Some (base @ js (if b then ''closed.png'' else ''open.png''))\<rparr>"
  have rest: "filter (\<lambda>d. d \<noteq> js ''opened'') rest = rest" "filter (\<lambda>d. d \<noteq> js ''closed'') rest = rest"
    using s(4,5) by (auto intro!: filter_True)
  have "toggleVisibility s = Inr t" "toggleVisibility t = Inr s"
    using s rest js_name_neq
    by (cases b; simp add: toggleVisibility_def t_def swap_suffix_js set_src_def addClass_def removeClass_def)+
  moreover have "section_ok t" unfolding section_ok_def
    using s(4,5) by (intro exI[of _ "\<not> b"] exI[of _ base] exI[of _ rest]) (simp add: t_def)
  ultimately show ?thesis using s(1) by (auto simp: t_def)
qed

lemma group_toggles:
  assumes "group_ok g"
  shows "\<exists>g'. toggleInherit g = Inr g' \<and> group_ok g' \<and> ig_rows g' = map Not (ig_rows g) \<and> toggleInherit g' = Inr g"
proof -
  from assms obtain b base where g: "ig_rows g \<noteq> []" "ig_rows g = replicate (length (ig_rows g)) b"
    "ig_src g = Some (base @ js (if b then ''open.png'' else ''closed.png''))" unfolding group_ok_def by blast
  then obtain n where n: "ig_rows g = replicate (Suc n) b" by (cases "length (ig_rows g)") auto
  define h where "h = g\<lparr>ig_rows := replicate (Suc n) (\<not> b),
    ig_src := Some (base @ js (if b then ''closed.png'' else ''open.png''))\<rparr>"
  have "toggleInherit g = Inr h" "toggleInherit h = Inr g"
    using g(3) n by (cases b; simp add: toggleInherit_def h_def swap_suffix_js map_replicate_const)+
  moreover have "group_ok h" unfolding group_ok_def
    by (intro exI[of _ "\<not> b"] exI[of _ base]) (simp add: h_def)
  ultimately show ?thesis using n by (auto simp: h_def map_replicate_const)
qed

text \<open>
  C24: toggling is its own inverse. On a section whose summary, content, class and image agree,
  \<open>toggleVisibility\<close> does not throw, shows the content exactly if it was hidden, keeps the parts in
  agreement, and a second click restores the section; the same holds for \<open>toggleInherit\<close> and a
  group of inherited members.
\<close>

theorem toggle_twice:
  assumes "section_ok s" and "group_ok g"
  shows "(\<exists>s'. toggleVisibility s = Inr s' \<and> section_ok s' \<and> ds_content s' \<noteq> ds_content s \<and> toggleVisibility s' = Inr s)
    \<and> (\<exists>g'. toggleInherit g = Inr g' \<and> group_ok g' \<and> ig_rows g' = map Not (ig_rows g) \<and> toggleInherit g' = Inr g)"
proof
  show "\<exists>s'. toggleVisibility s = Inr s' \<and> section_ok s' \<and> ds_content s' \<noteq> ds_content s \<and> toggleVisibility s' = Inr s"
    by (rule section_toggles[OF assms(1)])
  show "\<exists>g'. toggleInherit g = Inr g' \<and> group_ok g' \<and> ig_rows g' = map Not (ig_rows g) \<and> toggleInherit g' = Inr g"
    by (rule group_toggles[OF assms(2)])
qed

definition example_section :: dyn_section where
  "example_section = \<lparr>ds_summary = Some True, ds_content = Some False, ds_classes = [js ''dynheader'', js ''closed''],
     ds_src = Some (js ''closed.png'')\<rparr>"

definition example_group :: inherit_group where
  "example_group = \<lparr>ig_rows = [False, False], ig_src = Some (js ''closed.png'')\<rparr>"

theorem toggle_twice_witness:
  "\<exists>s'. toggleVisibility example_section = Inr s' \<and> ds_content s' = Some True \<and> toggleVisibility s' = Inr example_section"
proof -
  have "section_ok example_section"
    unfolding section_ok_def by (rule exI[of _ False], rule exI[of _ "[]"], rule exI[of _ "[js ''dynheader'']"])
      (simp add: example_section_def js_def)
  moreover have "group_ok example_group"
    unfolding group_ok_def by (rule exI[of _ False], rule exI[of _ "[]"]) (simp add: example_group_def)
  ultimately obtain s' where s': "toggleVisibility example_section = Inr s'" "section_ok s'"
    "ds_content s' \<noteq> ds_content example_section" "toggleVisibility s' = Inr example_section"
    using toggle_twice by blast
  then have "ds_content s' = Some True" by (auto simp: section_ok_def example_section_def)
  then show ?thesis using s' by blast
qed

end
