(* ===== verification/Spec2Isabelle.thy ===== *)
theory Spec2Isabelle
  imports Utf8 Linked_List Packet_Props Protocol_Props Search_Docs Menu_Docs Dyn_Props
begin

text \<open>
  A verification library for the Paho MQTT C client and for the scripts of its documentation.

  \<^bold>\<open>The program.\<close> The repository has two parts with code of their own. The client library,
  \<^verbatim>\<open>src/src/*.c\<close>, turns calls of an application into MQTT packets on a socket and packets into
  callbacks. From the bottom up: \<^verbatim>\<open>Socket.c\<close> and \<^verbatim>\<open>SocketBuffer.c\<close> read and write without blocking and
  keep what was read or written in part; \<^verbatim>\<open>MQTTPacket.c\<close>, \<^verbatim>\<open>MQTTPacketOut.c\<close> and
  \<^verbatim>\<open>MQTTProperties.c\<close> encode and decode packets; \<^verbatim>\<open>MQTTProtocolClient.c\<close> keeps the messages in
  flight in the lists of \<^verbatim>\<open>LinkedList.c\<close>; \<^verbatim>\<open>MQTTClient.c\<close> and \<^verbatim>\<open>MQTTAsync.c\<close> are the two APIs.
  The viewer of the documentation, \<^verbatim>\<open>src/docs/*/html/*.js\<close> and \<^verbatim>\<open>search/*.js\<close>, is JavaScript that runs
  in each page of three documentations (MQTTAsync, MQTTClient, MQTTClient_internal): a menu, sections
  and directory tables that open and close, and a search in generated tables. The three copies of a
  script are the same but for details that the theories name.

  \<^bold>\<open>Conventions.\<close> A structure is a record with a prefix for its fields (\<open>ms_\<close> for \<open>Messages\<close>); a
  definition has the name of the function it models. In the models of C code an outer \<open>None\<close> is
  undefined behaviour: reading outside an object, through a null or dangling pointer, or of a value
  that was never set. Errors the program reports are values. \<open>malloc\<close> takes its outcomes from a list,
  so that every function is modelled with all failures of allocation. In the models of JavaScript
  exceptions are values of a sum type, strings are lists of UTF-16 code units, and a document is a
  tree of nodes with paths for references. The kernel below the sockets is given by lists of events
  (what \<open>recv\<close> returns, how much \<open>writev\<close> takes); the network below the packets is the record
  \<open>transport\<close>, with \<open>socket_transport\<close> for plain sockets, and what the protocol uses is the record
  \<open>environ\<close>, with \<open>socket_environ\<close>. The properties of the protocol are for states in which memory does
  not run out; without it the code has undefined behaviour in places, and so has the model.

  \<^bold>\<open>Theories of the client library.\<close>
  \<^item> \<open>Prelude\<close>: memory, allocation, byte strings at a position of a buffer, C conversions.
  \<^item> \<open>Utf8\<close> (\<^verbatim>\<open>utf-8.c\<close>): the table of byte ranges and the validators, for signed and unsigned \<open>char\<close>.
    They accept exactly the encodings of Unicode scalar values, defined by encoding.
  \<^item> \<open>Packet_Coding\<close> (\<^verbatim>\<open>MQTTPacket.c\<close>): integers, strings, the header byte and the variable byte
    integer. The locale \<open>codec\<close> states what an encoder and its reader owe each other and is interpreted
    for every pair; the locale \<open>byte_source\<close> is what decoding from a connection needs of it and is
    interpreted for sockets in \<open>Socket_IO\<close>.
  \<^item> \<open>Properties\<close> (\<^verbatim>\<open>MQTTProperties.c\<close>): MQTT 5 properties as growing arrays; round trip, lengths, safety
    of reading below the end of the buffer, and how it reads past it.
  \<^item> \<open>Linked_List\<close> (\<^verbatim>\<open>LinkedList.c\<close>): doubly linked lists on an explicit heap, with \<open>None\<close> also for a loop
    that does not end. They refine sequences (locale \<open>collection\<close>).
  \<^item> \<open>Socket_Buffer\<close>, \<open>Socket_IO\<close> (\<^verbatim>\<open>SocketBuffer.c\<close>, \<^verbatim>\<open>Socket.c\<close>): interrupted reads continue where they
    stopped, and what is written arrives in order and once, whatever the kernel takes at a time.
  \<^item> \<open>Clients\<close> (\<^verbatim>\<open>Clients.h\<close>, \<^verbatim>\<open>Clients.c\<close>): the structures the other parts share.
  \<^item> \<open>Packets\<close> (\<^verbatim>\<open>MQTTPacket.c\<close>, \<^verbatim>\<open>MQTTPacketOut.c\<close>): the functions that build, free, read and send packets;
    \<open>Packet_IO\<close>: packets over sockets, a packet that arrives in any pieces is returned after finitely many
    calls; \<open>Packet_Props\<close>: what is sent is what is read, and every buffer is filled to its computed length.
  \<^item> \<open>Protocol\<close>, \<open>Protocol_Handlers\<close>, \<open>Protocol_Session\<close> (\<^verbatim>\<open>MQTTProtocolClient.c\<close>, the handlers of
    \<^verbatim>\<open>MQTTProtocolOut.c\<close>, and what \<^verbatim>\<open>MQTTClient.c\<close> does for them): the messages in flight as sequences,
    the publications they share as a store with reference counts, every handler, retries and pings.
  \<^item> \<open>Protocol_Inv\<close>, \<open>Protocol_Steps\<close>, \<open>Protocol_Safe\<close>, \<open>Protocol_Ids\<close>, \<open>Protocol_Ops\<close>, \<open>Protocol_Run\<close>: the
    invariant of the protocol, the locale \<open>network\<close> with what it needs of the transport, of pending writes
    and of persistence, and for each operation that it is defined and keeps the invariant;
    \<open>Protocol_Flow\<close>: two small machines that say what a receiver and a sender promise, and the
    simulation; \<open>Protocol_Net\<close>: \<open>network\<close> interpreted on the sockets of \<open>Socket_IO\<close>, with any persistence;
    \<open>Protocol_Props\<close>: all sequences of events are safe, QoS 2 is handed on once, exchanges advance as
    they should.

  \<^bold>\<open>Theories of the documentation viewer.\<close>
  \<^item> \<open>JS_Strings\<close>, \<open>Dom\<close>: the strings and the documents the scripts work on.
  \<^item> \<open>Search_Id\<close>, \<open>Search_Box\<close>, \<open>Search_Results\<close> (\<^verbatim>\<open>search/search.js\<close>): identifiers of results, the search
    panel with its timers, the page with the results; \<open>Results_Page\<close>, \<open>Results_Props\<close>,
    \<open>Search_Box_Props\<close>: the document that is built, the walk over it, the keys, the invariant of the panel.
  \<^item> \<open>Search_Index\<close>, \<open>Search_Data_Async\<close>, \<open>Search_Data_Client\<close>, \<open>Search_Data_Internal\<close> (\<^verbatim>\<open>searchdata.js\<close> and the
    generated data files): all the data, and the form it has; \<open>Search_Whole\<close>, \<open>Search_Docs\<close>: the search as
    a whole finds exactly the entries of the section whose name begins with what is typed.
  \<^item> \<open>Menu\<close>, \<open>Menu_Docs\<close> (\<^verbatim>\<open>menu.js\<close>, \<^verbatim>\<open>menudata.js\<close>): the markup of the menu reads back as the menu.
  \<^item> \<open>Dyn_Sections\<close>, \<open>Dyn_Props\<close> (\<^verbatim>\<open>dynsections.js\<close>): a directory table stays a tree view under every
    sequence of clicks, and toggling twice changes nothing.

  \<^bold>\<open>Bounds.\<close> Packets are shorter than 268435456 bytes and strings than 65536, the limits of their length
  fields; beyond them the code truncates. The properties of the search are stated for ASCII text, on
  which \<open>toLowerCase\<close> is modelled, and for words that do not go on with the number a row ends in.
  Recursions that may not end are partial functions with \<open>None\<close> for no result, and their ending is
  part of the theorems; there is no fuel.

  \<^bold>\<open>Not modelled.\<close> The rest of \<^verbatim>\<open>MQTTClient.c\<close> and \<^verbatim>\<open>MQTTAsync.c\<close>, \<^verbatim>\<open>MQTTAsyncUtils.c\<close> as a whole:
  threads, semaphores, callbacks of the application, and waiting; connecting and subscribing
  (\<^verbatim>\<open>MQTTProtocolOut.c\<close>); persistence, which is file input and output (its operations are parameters of
  the packet functions and of the protocol); TLS, proxies and the frames of websockets,
  which are other transports; the debugging aids, logs and wrappers of the operating system
  (\<^verbatim>\<open>Heap.c\<close>, \<^verbatim>\<open>Tree.c\<close>, \<^verbatim>\<open>Log.c\<close>, \<^verbatim>\<open>StackTrace.c\<close>, \<^verbatim>\<open>Thread.c\<close>, \<^verbatim>\<open>MQTTTime.c\<close> but for the difference of
  times); \<^verbatim>\<open>jquery.js\<close>, which is third-party; the samples, the tests, and the generated text of the
  documentation.
\<close>

end
